(* ===== verification/Prelude.thy ===== *)
theory Prelude
  imports Main "HOL-Library.Finite_Map" "HOL-Library.List_Lexorder" "HOL-Library.Char_ord"
begin

text \<open>
  What every component of the development shares: the parts of Go's standard library that the
  operator calls (strings, decimal numbers, maps), the outcome of a computation that may panic
  or leave the process, the state-passing combinators in which the effectful functions of the
  operator are written, and the rules that bound the effect of such a function by a preorder on
  states (locale \<open>effect_bound\<close>).
\<close>

section \<open>Go strings\<close>

definition HasPrefix :: "string \<Rightarrow> string \<Rightarrow> bool" where
  "HasPrefix s p \<longleftrightarrow> take (length p) s = p"

definition HasSuffix :: "string \<Rightarrow> string \<Rightarrow> bool" where
  "HasSuffix s p \<longleftrightarrow> length p \<le> length s \<and> drop (length s - length p) s = p"

definition TrimSuffix :: "string \<Rightarrow> string \<Rightarrow> string" where
  "TrimSuffix s p = (if HasSuffix s p then take (length s - length p) s else s)"

fun Contains :: "string \<Rightarrow> string \<Rightarrow> bool" where
  "Contains [] sub \<longleftrightarrow> sub = []"
| "Contains (c # s) sub \<longleftrightarrow> HasPrefix (c # s) sub \<or> Contains s sub"

fun Join :: "string list \<Rightarrow> string \<Rightarrow> string" where
  "Join [] sep = []"
| "Join [x] sep = x"
| "Join (x # y # zs) sep = x @ sep @ Join (y # zs) sep"

text \<open>\<open>strings.Split\<close> on a separator of one character.\<close>

fun SplitChar :: "char \<Rightarrow> string \<Rightarrow> string list" where
  "SplitChar d [] = [[]]"
| "SplitChar d (c # s) =
     (if c = d then [] # SplitChar d s
      else case SplitChar d s of [] \<Rightarrow> [[c]] | t # ts \<Rightarrow> (c # t) # ts)"

text \<open>\<open>strings.Replace\<close> with a count of one: the first occurrence only.\<close>

fun ReplaceFirst :: "string \<Rightarrow> string \<Rightarrow> string \<Rightarrow> string" where
  "ReplaceFirst [] old new = (if old = [] then new else [])"
| "ReplaceFirst (c # s) old new =
     (if HasPrefix (c # s) old then new @ drop (length old) (c # s)
      else c # ReplaceFirst s old new)"

text \<open>\<open>filepath.Clean\<close>, \<open>filepath.Dir\<close> and \<open>filepath.Join\<close> of two elements.\<close>

definition clean_step :: "bool \<Rightarrow> string list \<Rightarrow> string \<Rightarrow> string list" where
  "clean_step rooted acc c = (if c = [] \<or> c = ''.'' then acc
     else if c = ''..'' then (if acc \<noteq> [] \<and> last acc \<noteq> ''..'' then butlast acc else if rooted then acc else acc @ [c])
     else acc @ [c])"

definition path_Clean :: "string \<Rightarrow> string" where
  "path_Clean p =
     (let rooted = HasPrefix p ''/''; out = Join (foldl (clean_step rooted) [] (SplitChar CHR ''/'' p)) ''/'' in
      if rooted then ''/'' @ out else if out = [] then ''.'' else out)"

definition path_Dir :: "string \<Rightarrow> string" where
  "path_Dir p = path_Clean (rev (dropWhile (\<lambda>c. c \<noteq> CHR ''/'') (rev p)))"

definition path_Join :: "string \<Rightarrow> string \<Rightarrow> string" where
  "path_Join a b = (if a = [] \<and> b = [] then [] else path_Clean (Join (filter (\<lambda>e. e \<noteq> []) [a, b]) ''/''))"

definition newline :: string where
  "newline = [CHR 0x0A]"

fun nat_digits :: "nat \<Rightarrow> string" where
  "nat_digits n =
     (if n < 10 then [char_of (48 + n)] else nat_digits (n div 10) @ [char_of (48 + n mod 10)])"

declare nat_digits.simps [simp del]

definition Itoa :: "int \<Rightarrow> string" where
  "Itoa i = (if i < 0 then CHR ''-'' # nat_digits (nat (- i)) else nat_digits (nat i))"

definition FormatBool :: "bool \<Rightarrow> string" where
  "FormatBool b = (if b then ''true'' else ''false'')"

text \<open>Reading a decimal number back, for the proof that \<open>nat_digits\<close> is injective.\<close>

definition digits_value :: "string \<Rightarrow> nat" where
  "digits_value s = foldl (\<lambda>a c. 10 * a + (of_char c - 48)) 0 s"

lemma digits_value_snoc: "digits_value (s @ [c]) = 10 * digits_value s + (of_char c - 48)"
  by (simp add: digits_value_def)

lemma digits_value_nat_digits [simp]: "digits_value (nat_digits n) = n"
proof (induction n rule: nat_digits.induct)
  case (1 n)
  show ?case
  proof (cases "n < 10")
    case True
    then show ?thesis by (simp add: nat_digits.simps [of n] digits_value_def)
  next
    case False
    have "of_char (char_of (48 + n mod 10) :: char) = (48 + n mod 10 :: nat)"
      by simp
    with False "1.IH" show ?thesis
      by (simp add: nat_digits.simps [of n] digits_value_snoc)
  qed
qed

lemma nat_digits_inject [simp]: "nat_digits m = nat_digits n \<longleftrightarrow> m = n"
  by (metis digits_value_nat_digits)

lemma nat_digits_not_Nil [simp]: "nat_digits n \<noteq> []"
  by (subst nat_digits.simps) simp

lemma nat_digits_char: "c \<in> set (nat_digits n) \<Longrightarrow> 48 \<le> (of_char c :: nat) \<and> (of_char c :: nat) \<le> 57"
proof (induction n rule: nat_digits.induct)
  case (1 n)
  show ?case
  proof (cases "n < 10")
    case True
    with "1.prems" show ?thesis by (auto simp: nat_digits.simps [of n])
  next
    case False
    have "(48 + n mod 10 :: nat) mod 256 = 48 + n mod 10"
      by (intro mod_less) arith
    with False "1" show ?thesis by (auto simp: nat_digits.simps [of n])
  qed
qed

lemma minus_not_digit: "CHR ''-'' # s \<noteq> nat_digits n"
proof
  assume "CHR ''-'' # s = nat_digits n"
  then have "CHR ''-'' \<in> set (nat_digits n)"
    by (metis list.set_intros(1))
  then show False by (auto dest: nat_digits_char)
qed

lemma Itoa_inject [simp]: "Itoa i = Itoa j \<longleftrightarrow> i = j"
  using minus_not_digit minus_not_digit [symmetric] by (auto simp: Itoa_def split: if_splits)

lemma Itoa_not_Nil [simp]: "Itoa i \<noteq> []"
  by (simp add: Itoa_def)

lemma HasPrefix_append [simp]: "HasPrefix (p @ s) p"
  by (simp add: HasPrefix_def)

lemma HasPrefix_iff: "HasPrefix s p \<longleftrightarrow> (\<exists>t. s = p @ t)"
  unfolding HasPrefix_def by (metis append_eq_conv_conj append_take_drop_id)

lemma HasSuffix_iff: "HasSuffix s p \<longleftrightarrow> (\<exists>t. s = t @ p)"
proof
  assume "HasSuffix s p"
  then show "\<exists>t. s = t @ p"
    unfolding HasSuffix_def by (metis append_take_drop_id)
qed (auto simp: HasSuffix_def)

lemma TrimSuffix_append [simp]: "TrimSuffix (t @ p) p = t"
  by (simp add: TrimSuffix_def HasSuffix_def)

lemma TrimSuffix_other: "\<not> HasSuffix s p \<Longrightarrow> TrimSuffix s p = s"
  by (simp add: TrimSuffix_def)

section \<open>Go maps\<close>

text \<open>
  A \<open>map[string]string\<close> is a finite map; \<open>None\<close> is the nil map, which reads as empty but which
  \<open>reflect.DeepEqual\<close> tells apart from an empty map that is not nil, as equality of
  \<open>gomap\<close> does here.
\<close>

type_synonym smap = "(string, string) fmap"
type_synonym gomap = "smap option"

abbreviation smap_of :: "(string \<times> string) list \<Rightarrow> smap" where
  "smap_of \<equiv> fmap_of_list"

definition gm_fm :: "gomap \<Rightarrow> smap" where
  "gm_fm m = (case m of None \<Rightarrow> fmempty | Some f \<Rightarrow> f)"

text \<open>Reading a missing key of a Go map gives the zero value, the empty string.\<close>

definition gm_get :: "gomap \<Rightarrow> string \<Rightarrow> string" where
  "gm_get m k = (case fmlookup (gm_fm m) k of None \<Rightarrow> [] | Some v \<Rightarrow> v)"

lemma gm_fm_simps [simp]: "gm_fm None = fmempty" "gm_fm (Some f) = f"
  by (simp_all add: gm_fm_def)

lemma fmupd_nonempty [simp]: "fmupd k v m \<noteq> fmempty" "fmempty \<noteq> fmupd k v m"
  by (metis fmempty_lookup fmupd_lookup option.distinct(1))+

lemma gm_fm_eq_Some: "gm_fm m = f \<Longrightarrow> f \<noteq> fmempty \<Longrightarrow> m = Some f"
  by (cases m) auto

text \<open>The entries of a map in the order of the keys.\<close>

definition fm_items :: "smap \<Rightarrow> (string \<times> string) list" where
  "fm_items m = map (\<lambda>k. (k, case fmlookup m k of None \<Rightarrow> [] | Some v \<Rightarrow> v)) (sorted_list_of_fset (fmdom m))"

lemma fm_items_iff: "(k, v) \<in> set (fm_items m) \<longleftrightarrow> fmlookup m k = Some v"
  by (auto simp: fm_items_def fmlookup_dom_iff split: option.splits)

lemma fm_items_map: "fmap_of_list (fm_items m) = m"
proof (rule fmap_ext)
  fix k
  have "map_of (fm_items m) k = (if k |\<in>| fmdom m then Some (case fmlookup m k of None \<Rightarrow> [] | Some v \<Rightarrow> v) else None)"
    unfolding fm_items_def by (simp add: map_of_map_restrict restrict_map_def)
  then show "fmlookup (fmap_of_list (fm_items m)) k = fmlookup m k"
    by (auto simp: fmlookup_of_list fmlookup_dom_iff split: option.split)
qed

lemma map_of_fm_items: "map_of (fm_items m) = fmlookup m"
  using fm_items_map [of m] by (metis fmlookup_of_list)

lemma distinct_fm_items: "distinct (map fst (fm_items m))"
  by (simp add: fm_items_def comp_def sorted_list_of_fset.rep_eq)

definition Int32Ptr :: "int \<Rightarrow> int option" where
  "Int32Ptr i = Some i"

definition Execmod :: int where "Execmod = 493"
definition Readmod :: int where "Readmod = 292"

section \<open>Outcomes and programs\<close>

text \<open>
  A function of the operator returns, panics, or ends the process with \<open>os.Exit\<close>. \<open>Stuck\<close> stands for
  a loop that used up the iterations its model allows; the theorems about such loops show under
  which laws this does not happen. A program
  passes a state (the outside world and the mutable fields of the controller) along, and keeps
  the state reached when it panics or exits.
\<close>

datatype 'a outcome = Ok 'a | Panic string | Exit int | Stuck

type_synonym ('s, 'a) prog = "'s \<Rightarrow> 'a outcome \<times> 's"

definition ret :: "'a \<Rightarrow> ('s, 'a) prog" where
  "ret x = (\<lambda>s. (Ok x, s))"

definition bnd :: "('s, 'a) prog \<Rightarrow> ('a \<Rightarrow> ('s, 'b) prog) \<Rightarrow> ('s, 'b) prog" where
  "bnd m f = (\<lambda>s. case m s of
       (Ok x, t) \<Rightarrow> f x t
     | (Panic e, t) \<Rightarrow> (Panic e, t)
     | (Exit n, t) \<Rightarrow> (Exit n, t)
     | (Stuck, t) \<Rightarrow> (Stuck, t))"

definition stuck :: "('s, 'a) prog" where
  "stuck = (\<lambda>s. (Stuck, s))"

definition panic :: "string \<Rightarrow> ('s, 'a) prog" where
  "panic e = (\<lambda>s. (Panic e, s))"

definition exit_with :: "int \<Rightarrow> ('s, 'a) prog" where
  "exit_with n = (\<lambda>s. (Exit n, s))"

definition reads :: "('s \<Rightarrow> 'a) \<Rightarrow> ('s, 'a) prog" where
  "reads f = (\<lambda>s. (Ok (f s), s))"

definition modify :: "('s \<Rightarrow> 's) \<Rightarrow> ('s, unit) prog" where
  "modify f = (\<lambda>s. (Ok (), f s))"

definition nil_deref :: string where
  "nil_deref = ''invalid memory address or nil pointer dereference''"

text \<open>A \<open>for\<close> loop over a slice, and one whose body may return from the enclosing function.\<close>

fun for_each :: "('a \<Rightarrow> ('s, unit) prog) \<Rightarrow> 'a list \<Rightarrow> ('s, unit) prog" where
  "for_each f [] = ret ()"
| "for_each f (x # xs) = bnd (f x) (\<lambda>_. for_each f xs)"

fun for_return :: "('a \<Rightarrow> ('s, 'r option) prog) \<Rightarrow> 'a list \<Rightarrow> ('s, 'r option) prog" where
  "for_return f [] = ret None"
| "for_return f (x # xs) =
     bnd (f x) (\<lambda>r. case r of None \<Rightarrow> for_return f xs | Some v \<Rightarrow> ret (Some v))"

fun map_prog :: "('a \<Rightarrow> ('s, 'b) prog) \<Rightarrow> 'a list \<Rightarrow> ('s, 'b list) prog" where
  "map_prog f [] = ret []"
| "map_prog f (x # xs) = bnd (f x) (\<lambda>y. bnd (map_prog f xs) (\<lambda>ys. ret (y # ys)))"

text \<open>A loop that changes a value it has in its hands.\<close>

fun fold_prog :: "('a \<Rightarrow> 'c \<Rightarrow> ('s, 'c) prog) \<Rightarrow> 'a list \<Rightarrow> 'c \<Rightarrow> ('s, 'c) prog" where
  "fold_prog f [] c = ret c"
| "fold_prog f (x # xs) c = bnd (f x c) (\<lambda>c. fold_prog f xs c)"

text \<open>A counted loop (\<open>for range n\<close>) that stops at the first \<open>Some\<close>.\<close>

fun for_range :: "nat \<Rightarrow> ('s, 'r option) prog \<Rightarrow> ('s, 'r option) prog" where
  "for_range 0 f = ret None"
| "for_range (Suc n) f =
     bnd f (\<lambda>r. case r of None \<Rightarrow> for_range n f | Some v \<Rightarrow> ret (Some v))"

lemma bnd_simps [simp]:
  "bnd (ret x) f = f x"
  "bnd (panic e) f = panic e"
  "bnd (exit_with n) f = exit_with n"
  "bnd stuck f = stuck"
  by (simp_all add: bnd_def ret_def panic_def exit_with_def stuck_def fun_eq_iff)

lemma bnd_assoc: "bnd (bnd m f) g = bnd m (\<lambda>x. bnd (f x) g)"
  by (rule ext) (simp add: bnd_def split: prod.splits outcome.splits)

lemma bnd_ret [simp]: "bnd m ret = m"
  by (rule ext) (simp add: bnd_def ret_def split: prod.splits outcome.splits)

text \<open>Running one step: what \<open>bnd\<close> does once the outcome of its first part is known.\<close>

lemma bnd_Ok: "m s = (Ok x, t) \<Longrightarrow> bnd m f s = f x t"
  and bnd_Panic: "m s = (Panic e, t) \<Longrightarrow> bnd m f s = (Panic e, t)"
  and bnd_Exit: "m s = (Exit n, t) \<Longrightarrow> bnd m f s = (Exit n, t)"
  by (simp_all add: bnd_def)

lemma run_simps [simp]:
  "ret x s = (Ok x, s)" "panic e s = (Panic e, s)" "exit_with n s = (Exit n, s)"
  "stuck s = (Stuck, s)"
  "reads g s = (Ok (g s), s)" "modify h s = (Ok (), h s)"
  by (simp_all add: ret_def panic_def exit_with_def stuck_def reads_def modify_def)

lemma bnd_eq_Ok:
  "bnd m f s = (Ok y, u) \<longleftrightarrow> (\<exists>x t. m s = (Ok x, t) \<and> f x t = (Ok y, u))"
  by (auto simp: bnd_def split: prod.splits outcome.splits)

section \<open>Bounding the effect of a program\<close>

text \<open>
  \<open>within R m\<close>: however \<open>m\<close> ends (also by a panic or an exit), the state it leaves is related
  by \<open>R\<close> to the state it started in. For a preorder \<open>R\<close> the combinators keep this bound, so the
  bound of a long function follows from the bounds of the calls it makes.
\<close>

definition within :: "('s \<Rightarrow> 's \<Rightarrow> bool) \<Rightarrow> ('s, 'a) prog \<Rightarrow> bool" where
  "within R m \<longleftrightarrow> (\<forall>s. R s (snd (m s)))"

lemma withinI: "(\<And>s o' t. m s = (o', t) \<Longrightarrow> R s t) \<Longrightarrow> within R m"
  unfolding within_def by (metis prod.collapse)

lemma withinD: "within R m \<Longrightarrow> m s = (o', t) \<Longrightarrow> R s t"
  unfolding within_def by (metis snd_conv)

lemma within_mono: "within R m \<Longrightarrow> (\<And>s t. R s t \<Longrightarrow> Q s t) \<Longrightarrow> within Q m"
  by (auto simp: within_def)

locale effect_bound =
  fixes R :: "'s \<Rightarrow> 's \<Rightarrow> bool"
  assumes bound_refl: "R s s"
    and bound_trans: "R s t \<Longrightarrow> R t u \<Longrightarrow> R s u"
begin

lemma within_ret: "within R (ret x)"
  and within_panic: "within R (panic e)"
  and within_exit: "within R (exit_with n)"
  and within_stuck: "within R stuck"
  and within_reads: "within R (reads g)"
  by (simp_all add: within_def bound_refl)

lemma within_bnd_post:
  assumes "within R m" and "\<And>s x t. m s = (Ok x, t) \<Longrightarrow> within R (f x)"
  shows "within R (bnd m f)"
proof (rule withinI)
  fix s o' t assume run: "bnd m f s = (o', t)"
  obtain o1 t1 where m: "m s = (o1, t1)" by fastforce
  have "R s t1" using assms(1) m by (rule withinD)
  moreover have "R t1 t" using run m assms(2) [of s]
    by (cases o1) (auto simp: bnd_def bound_refl dest: withinD)
  ultimately show "R s t" by (rule bound_trans)
qed

lemma within_bnd: "within R m \<Longrightarrow> (\<And>x. within R (f x)) \<Longrightarrow> within R (bnd m f)"
  by (rule within_bnd_post)

lemma within_for_each: "(\<And>x. x \<in> set xs \<Longrightarrow> within R (f x)) \<Longrightarrow> within R (for_each f xs)"
  by (induction xs) (auto intro: within_ret within_bnd)

lemma within_for_return: "(\<And>x. x \<in> set xs \<Longrightarrow> within R (f x)) \<Longrightarrow> within R (for_return f xs)"
  by (induction xs) (auto intro!: within_ret within_bnd split: option.splits)

lemma within_map_prog: "(\<And>x. x \<in> set xs \<Longrightarrow> within R (f x)) \<Longrightarrow> within R (map_prog f xs)"
  by (induction xs) (auto intro!: within_ret within_bnd)

lemma within_fold_prog: "(\<And>x c. x \<in> set xs \<Longrightarrow> within R (f x c)) \<Longrightarrow> within R (fold_prog f xs c)"
  by (induction xs arbitrary: c) (auto intro!: within_ret within_bnd)

lemma within_for_range: "within R f \<Longrightarrow> within R (for_range n f)"
  by (induction n) (auto intro!: within_ret within_bnd split: option.splits)

lemma within_if: "(b \<Longrightarrow> within R m) \<Longrightarrow> (\<not> b \<Longrightarrow> within R n) \<Longrightarrow> within R (if b then m else n)"
  by simp

lemma within_option:
  "(x = None \<Longrightarrow> within R m) \<Longrightarrow> (\<And>y. x = Some y \<Longrightarrow> within R (f y)) \<Longrightarrow>
     within R (case x of None \<Rightarrow> m | Some y \<Rightarrow> f y)"
  by (cases x) auto

lemma within_sum:
  "(\<And>y. x = Inl y \<Longrightarrow> within R (g y)) \<Longrightarrow> (\<And>y. x = Inr y \<Longrightarrow> within R (f y)) \<Longrightarrow>
     within R (case x of Inl y \<Rightarrow> g y | Inr y \<Rightarrow> f y)"
  by (cases x) auto

lemma within_prod: "(\<And>a b. x = (a, b) \<Longrightarrow> within R (f a b)) \<Longrightarrow> within R (case x of (a, b) \<Rightarrow> f a b)"
  by (cases x) auto

lemmas within_rules = within_ret within_panic within_exit within_stuck within_reads within_bnd within_for_each
  within_for_return within_map_prog within_fold_prog within_for_range within_if within_option within_sum within_prod

end

section \<open>What a program returns\<close>

text \<open>\<open>yields P m\<close>: whenever \<open>m\<close> returns, the value it returns satisfies \<open>P\<close>.\<close>

definition yields :: "('a \<Rightarrow> bool) \<Rightarrow> ('s, 'a) prog \<Rightarrow> bool" where
  "yields P m \<longleftrightarrow> (\<forall>s x t. m s = (Ok x, t) \<longrightarrow> P x)"

lemma yieldsD: "yields P m \<Longrightarrow> m s = (Ok x, t) \<Longrightarrow> P x"
  by (auto simp: yields_def)

lemma yields_True: "yields (\<lambda>_. True) m"
  by (simp add: yields_def)

lemma yields_ret: "P x \<Longrightarrow> yields P (ret x)"
  by (simp add: yields_def)

lemma yields_bnd: "yields Q m \<Longrightarrow> (\<And>x. Q x \<Longrightarrow> yields P (f x)) \<Longrightarrow> yields P (bnd m f)"
  unfolding yields_def bnd_eq_Ok by blast

lemma yields_then: "(\<And>x. yields P (f x)) \<Longrightarrow> yields P (bnd m f)"
  by (rule yields_bnd [OF yields_True])

lemma yields_if: "(b \<Longrightarrow> yields P m) \<Longrightarrow> (\<not> b \<Longrightarrow> yields P n) \<Longrightarrow> yields P (if b then m else n)"
  by simp

lemma yields_mono: "yields P m \<Longrightarrow> (\<And>x. P x \<Longrightarrow> Q x) \<Longrightarrow> yields Q m"
  by (auto simp: yields_def)

section \<open>Programs that never run out of iterations\<close>

definition unstuck :: "('s, 'a) prog \<Rightarrow> bool" where
  "unstuck m \<longleftrightarrow> (\<forall>s. fst (m s) \<noteq> Stuck)"

lemma bnd_unstuck_at:
  assumes "fst (m s) \<noteq> Stuck" and "\<And>x t. m s = (Ok x, t) \<Longrightarrow> fst (f x t) \<noteq> Stuck"
  shows "fst (bnd m f s) \<noteq> Stuck"
  using assms by (cases "m s") (auto simp: bnd_def split: outcome.splits)

lemma unstuck_bnd: "unstuck m \<Longrightarrow> (\<And>x. unstuck (f x)) \<Longrightarrow> unstuck (bnd m f)"
  by (simp add: unstuck_def bnd_unstuck_at)

lemma unstuck_simps [simp]:
  "unstuck (ret x)" "unstuck (panic e)" "unstuck (exit_with n)" "unstuck (reads g)" "unstuck (modify h)"
  by (simp_all add: unstuck_def)

lemma unstuck_for_each: "(\<And>x. unstuck (f x)) \<Longrightarrow> unstuck (for_each f xs)"
  by (induction xs) (simp_all add: unstuck_bnd)

lemma unstuck_map_prog: "(\<And>x. unstuck (f x)) \<Longrightarrow> unstuck (map_prog f xs)"
  by (induction xs) (simp_all add: unstuck_bnd)

lemma unstuck_for_return: "(\<And>x. unstuck (f x)) \<Longrightarrow> unstuck (for_return f xs)"
  by (induction xs) (auto intro!: unstuck_bnd split: option.split)

lemma unstuck_for_range: "unstuck f \<Longrightarrow> unstuck (for_range n f)"
  by (induction n) (auto intro!: unstuck_bnd split: option.split)

lemma unstuck_if: "(b \<Longrightarrow> unstuck m) \<Longrightarrow> (\<not> b \<Longrightarrow> unstuck n) \<Longrightarrow> unstuck (if b then m else n)"
  by simp

lemma unstuck_option: "unstuck m \<Longrightarrow> (\<And>y. unstuck (f y)) \<Longrightarrow> unstuck (case x of None \<Rightarrow> m | Some y \<Rightarrow> f y)"
  by (cases x) simp_all

lemma unstuck_sum: "(\<And>y. unstuck (g y)) \<Longrightarrow> (\<And>y. unstuck (f y)) \<Longrightarrow> unstuck (case x of Inl y \<Rightarrow> g y | Inr y \<Rightarrow> f y)"
  by (cases x) simp_all

lemma unstuck_prod: "(\<And>a b. unstuck (f a b)) \<Longrightarrow> unstuck (case x of (a, b) \<Rightarrow> f a b)"
  by (cases x) simp

lemmas unstuck_intros = unstuck_simps unstuck_bnd unstuck_for_each unstuck_map_prog unstuck_for_return
  unstuck_for_range unstuck_if unstuck_option unstuck_sum unstuck_prod

end
