(* ===== verification/Kube.thy ===== *)
theory Kube
  imports Prelude
begin

text \<open>
  The Kubernetes objects the operator reads and writes, with the fields the operator uses. The
  types follow the Go structs of \<open>k8s.io/api\<close>; a pointer field is an \<open>option\<close>. \<open>kobj\<close> is the sum
  of the kinds, \<open>kref\<close> the address of an object: kind, namespace and name.
\<close>

section \<open>Objects\<close>

record object_meta =
  om_name :: string
  om_namespace :: string
  om_labels :: gomap
  om_annotations :: gomap
  om_resourceVersion :: string
  om_generation :: int
  om_owners :: "string list"

definition mk_meta :: "string \<Rightarrow> string \<Rightarrow> object_meta" where
  "mk_meta name ns = \<lparr>om_name = name, om_namespace = ns, om_labels = None, om_annotations = None,
     om_resourceVersion = [], om_generation = 0, om_owners = []\<rparr>"

record condition =
  cd_type :: string
  cd_status :: string
  cd_observedGeneration :: int
  cd_lastTransitionTime :: int
  cd_reason :: string
  cd_message :: string

text \<open>A quantity with its exact value in thousandths and its canonical text.\<close>

record quantity =
  q_milli :: int
  q_text :: string

definition qty_zero :: quantity where
  "qty_zero = \<lparr>q_milli = 0, q_text = ''0''\<rparr>"

definition qty_Mi :: "int \<Rightarrow> quantity" where
  "qty_Mi n = \<lparr>q_milli = n * 1048576 * 1000, q_text = Itoa n @ ''Mi''\<rparr>"

definition qty_Gi :: "int \<Rightarrow> quantity" where
  "qty_Gi n = \<lparr>q_milli = n * 1073741824 * 1000, q_text = Itoa n @ ''Gi''\<rparr>"

definition qty_m :: "int \<Rightarrow> quantity" where
  "qty_m n = \<lparr>q_milli = n, q_text = Itoa n @ ''m''\<rparr>"

datatype env_source = SecretKeyRef string string | FieldRef string

record env_var =
  ev_name :: string
  ev_value :: string
  ev_valueFrom :: "env_source option"

record volume_mount =
  vm_name :: string
  vm_mountPath :: string
  vm_subPath :: string
  vm_readOnly :: bool

record key_to_path =
  kp_key :: string
  kp_path :: string
  kp_mode :: "int option"

datatype volume_source =
    SecretVolume string "key_to_path list" "int option"
  | ConfigMapVolume string "key_to_path list" "int option"
  | EmptyDirVolume
  | PVCVolume string
  | HostPathVolume string

record volume =
  vo_name :: string
  vo_source :: volume_source

record container_port =
  cp_name :: string
  cp_protocol :: string
  cp_containerPort :: int

datatype probe_handler = ExecAction "string list" | HTTPGetAction string int | TCPSocketAction int

record probe =
  pr_handler :: probe_handler
  pr_initialDelaySeconds :: int
  pr_timeoutSeconds :: int
  pr_periodSeconds :: int
  pr_failureThreshold :: int

record security_context =
  sc_privileged :: "bool option"
  sc_allowPrivilegeEscalation :: "bool option"
  sc_drop :: "string list"
  sc_seccompProfile :: "string option"
  sc_runAsUser :: "int option"
  sc_runAsGroup :: "int option"
  sc_procMount :: "string option"

record pod_security_context =
  psc_runAsNonRoot :: "bool option"
  psc_seccompProfile :: "string option"

record resource_requirements =
  rr_requests :: "(string, quantity) fmap"
  rr_limits :: "(string, quantity) fmap"

record container =
  ct_name :: string
  ct_image :: string
  ct_imagePullPolicy :: string
  ct_command :: "string list"
  ct_args :: "string list"
  ct_env :: "env_var list"
  ct_ports :: "container_port list"
  ct_volumeMounts :: "volume_mount list"
  ct_securityContext :: "security_context option"
  ct_resources :: resource_requirements
  ct_readinessProbe :: "probe option"
  ct_livenessProbe :: "probe option"
  ct_startupProbe :: "probe option"
  ct_preStop :: "string list option"

record host_alias =
  ha_ip :: string
  ha_hostnames :: "string list"

record pod_spec =
  ps_containers :: "container list"
  ps_initContainers :: "container list"
  ps_volumes :: "volume list"
  ps_securityContext :: "pod_security_context option"
  ps_automountServiceAccountToken :: "bool option"
  ps_hostAliases :: "host_alias list"
  ps_terminationGracePeriodSeconds :: "int option"
  ps_hostUsers :: "bool option"
  ps_restartPolicy :: string

record pod_template =
  pt_meta :: object_meta
  pt_spec :: pod_spec

record container_status =
  cs_ready :: bool
  cs_waitingReason :: "string option"

record pod =
  po_meta :: object_meta
  po_spec :: pod_spec
  po_phase :: string
  po_containerStatuses :: "container_status list"
  po_initContainerStatuses :: "container_status list"

record configmap =
  cm_meta :: object_meta
  cm_data :: gomap

record secret =
  se_meta :: object_meta
  se_data :: gomap
  se_type :: string

datatype int_or_string = FromInt int | FromString string

fun ios_String :: "int_or_string \<Rightarrow> string" where
  "ios_String (FromInt i) = Itoa i"
| "ios_String (FromString s) = s"

record service_port =
  sp_name :: string
  sp_protocol :: string
  sp_port :: int
  sp_targetPort :: int_or_string

record service_spec =
  sv_type :: string
  sv_clusterIP :: string
  sv_publishNotReadyAddresses :: bool
  sv_selector :: gomap
  sv_ports :: "service_port list"

record service =
  sv_meta :: object_meta
  sv_spec :: service_spec

record persistent_volume_claim =
  pv_meta :: object_meta
  pv_storageClassName :: "string option"
  pv_accessModes :: "string list"
  pv_requests :: "(string, quantity) fmap"
  pv_capacity :: quantity
  pv_conditionTypes :: "string list"

record storage_class =
  sk_meta :: object_meta
  sk_allowVolumeExpansion :: "bool option"

record statefulset =
  ss_meta :: object_meta
  ss_replicas :: "int option"
  ss_serviceName :: string
  ss_selector :: "gomap option"
  ss_template :: pod_template
  ss_volumeClaimTemplates :: "persistent_volume_claim list"
  ss_observedGeneration :: int
  ss_readyReplicas :: int
  ss_currentReplicas :: int

record deployment_strategy =
  ds_type :: string
  ds_rollingUpdate :: "(string \<times> string) option"

record deployment =
  de_meta :: object_meta
  de_replicas :: "int option"
  de_selector :: "gomap option"
  de_template :: pod_template
  de_strategy :: deployment_strategy
  de_observedGeneration :: int
  de_statusReplicas :: int
  de_readyReplicas :: int
  de_availableReplicas :: int

record job =
  jo_meta :: object_meta
  jo_backoffLimit :: "int option"
  jo_template :: pod_template
  jo_succeeded :: int

record service_account =
  sa_meta :: object_meta

record policy_rule =
  ru_apiGroups :: "string list"
  ru_resources :: "string list"
  ru_verbs :: "string list"

record role =
  ro_meta :: object_meta
  ro_rules :: "policy_rule list"

record role_binding =
  rb_meta :: object_meta
  rb_subjects :: "(string \<times> string) list"
  rb_roleRef :: "string \<times> string \<times> string"

record namespace_obj =
  nm_meta :: object_meta

text \<open>A route of OpenShift and an ingress, through which a service is reached from outside the cluster.\<close>

record route =
  rt_meta :: object_meta
  rt_insecureEdgeTerminationPolicy :: string
  rt_termination :: string
  rt_host :: string
  rt_toKind :: string
  rt_toName :: string
  rt_toWeight :: "int option"
  rt_targetPort :: int_or_string
  rt_path :: string
  rt_wildcardPolicy :: string

record ingress_path =
  ip_path :: string
  ip_pathType :: "string option"
  ip_serviceName :: string
  ip_servicePort :: int

record ingress_rule =
  ir_host :: string
  ir_paths :: "ingress_path list"

record ingress =
  ig_meta :: object_meta
  ig_className :: "string option"
  ig_tls :: "(string list \<times> string) list"
  ig_rules :: "ingress_rule list"
  ig_statusIPs :: "string list"

datatype kobj =
    OConfigMap configmap
  | OSecret secret
  | OService service
  | OStatefulSet statefulset
  | ODeployment deployment
  | OPod pod
  | OPVC persistent_volume_claim
  | OStorageClass storage_class
  | OJob job
  | OServiceAccount service_account
  | ORole role
  | ORoleBinding role_binding
  | ONamespace namespace_obj
  | ORoute route
  | OIngress ingress

datatype kind =
    KConfigMap | KSecret | KService | KStatefulSet | KDeployment | KPod | KPVC | KStorageClass
  | KJob | KServiceAccount | KRole | KRoleBinding | KNamespace
  | KRoute | KIngress

fun kind_of :: "kobj \<Rightarrow> kind" where
  "kind_of (OConfigMap _) = KConfigMap"
| "kind_of (OSecret _) = KSecret"
| "kind_of (OService _) = KService"
| "kind_of (OStatefulSet _) = KStatefulSet"
| "kind_of (ODeployment _) = KDeployment"
| "kind_of (OPod _) = KPod"
| "kind_of (OPVC _) = KPVC"
| "kind_of (OStorageClass _) = KStorageClass"
| "kind_of (OJob _) = KJob"
| "kind_of (OServiceAccount _) = KServiceAccount"
| "kind_of (ORole _) = KRole"
| "kind_of (ORoleBinding _) = KRoleBinding"
| "kind_of (ONamespace _) = KNamespace"
| "kind_of (ORoute _) = KRoute"
| "kind_of (OIngress _) = KIngress"

fun meta_of :: "kobj \<Rightarrow> object_meta" where
  "meta_of (OConfigMap o') = cm_meta o'"
| "meta_of (OSecret o') = se_meta o'"
| "meta_of (OService o') = sv_meta o'"
| "meta_of (OStatefulSet o') = ss_meta o'"
| "meta_of (ODeployment o') = de_meta o'"
| "meta_of (OPod o') = po_meta o'"
| "meta_of (OPVC o') = pv_meta o'"
| "meta_of (OStorageClass o') = sk_meta o'"
| "meta_of (OJob o') = jo_meta o'"
| "meta_of (OServiceAccount o') = sa_meta o'"
| "meta_of (ORole o') = ro_meta o'"
| "meta_of (ORoleBinding o') = rb_meta o'"
| "meta_of (ONamespace o') = nm_meta o'"
| "meta_of (ORoute o') = rt_meta o'"
| "meta_of (OIngress o') = ig_meta o'"

fun map_meta :: "(object_meta \<Rightarrow> object_meta) \<Rightarrow> kobj \<Rightarrow> kobj" where
  "map_meta f (OConfigMap o') = OConfigMap (cm_meta_update f o')"
| "map_meta f (OSecret o') = OSecret (se_meta_update f o')"
| "map_meta f (OService o') = OService (sv_meta_update f o')"
| "map_meta f (OStatefulSet o') = OStatefulSet (ss_meta_update f o')"
| "map_meta f (ODeployment o') = ODeployment (de_meta_update f o')"
| "map_meta f (OPod o') = OPod (po_meta_update f o')"
| "map_meta f (OPVC o') = OPVC (pv_meta_update f o')"
| "map_meta f (OStorageClass o') = OStorageClass (sk_meta_update f o')"
| "map_meta f (OJob o') = OJob (jo_meta_update f o')"
| "map_meta f (OServiceAccount o') = OServiceAccount (sa_meta_update f o')"
| "map_meta f (ORole o') = ORole (ro_meta_update f o')"
| "map_meta f (ORoleBinding o') = ORoleBinding (rb_meta_update f o')"
| "map_meta f (ONamespace o') = ONamespace (nm_meta_update f o')"
| "map_meta f (ORoute o') = ORoute (rt_meta_update f o')"
| "map_meta f (OIngress o') = OIngress (ig_meta_update f o')"

lemma kind_of_map_meta [simp]: "kind_of (map_meta f o') = kind_of o'"
  by (cases o') simp_all

lemma meta_of_map_meta [simp]: "meta_of (map_meta f o') = f (meta_of o')"
  by (cases o') simp_all

text \<open>The object an API call addresses: storage classes and namespaces are not namespaced.\<close>

type_synonym kref = "kind \<times> string \<times> string"

definition cluster_scoped :: "kind \<Rightarrow> bool" where
  "cluster_scoped k \<longleftrightarrow> k = KStorageClass \<or> k = KNamespace"

definition kref_of :: "kind \<Rightarrow> string \<Rightarrow> string \<Rightarrow> kref" where
  "kref_of k ns name = (k, if cluster_scoped k then [] else ns, name)"

definition oref :: "kobj \<Rightarrow> kref" where
  "oref o' = kref_of (kind_of o') (om_namespace (meta_of o')) (om_name (meta_of o'))"

lemma kref_of_eq [simp]:
  "kref_of k ns n = kref_of k ns' n' \<longleftrightarrow> n = n' \<and> (cluster_scoped k \<or> ns = ns')"
  by (auto simp: kref_of_def)

lemma kref_of_kind [simp]: "k \<noteq> k' \<Longrightarrow> kref_of k ns n \<noteq> kref_of k' ns' n'"
  by (simp add: kref_of_def)

declare cluster_scoped_def [simp]

end
