(* ===== verification/Cluster.thy ===== *)
theory Cluster
  imports Kube
begin

text \<open>
  The operations the operator calls outside its sources, as one record of functions over an
  unknown type \<open>'w\<close> of worlds; the laws of the API server the theorems rely on, as locales;
  and an in-memory cluster that satisfies them and on which witnesses are evaluated.
\<close>

section \<open>The outside world\<close>

datatype api_error = NotFound string | AlreadyExists string | ServerError string

fun IsNotFound :: "api_error \<Rightarrow> bool" where
  "IsNotFound (NotFound _) = True"
| "IsNotFound _ = False"

fun IsAlreadyExists :: "api_error \<Rightarrow> bool" where
  "IsAlreadyExists (AlreadyExists _) = True"
| "IsAlreadyExists _ = False"

fun err_Error :: "api_error \<Rightarrow> string" where
  "err_Error (NotFound m) = m"
| "err_Error (AlreadyExists m) = m"
| "err_Error (ServerError m) = m"

text \<open>The data a Go template is applied to.\<close>

datatype tmpl_data = TText string | TBool bool | TList "tmpl_data list" | TStruct "(string \<times> tmpl_data) list"

text \<open>A YAML document, and an ini file: its sections in order, each with its keys and values.\<close>

datatype ydoc = YNull | YBool bool | YInt int | YStr string | YList "ydoc list" | YMap "(string \<times> ydoc) list"

type_synonym ini = "(string \<times> (string \<times> string) list) list"

text \<open>What a certificate is to contain.\<close>

record x509_template =
  xt_SerialNumber :: "int option"
  xt_CommonName :: string
  xt_Organization :: "string list"
  xt_DNSNames :: "string list"
  xt_NotBefore :: int
  xt_NotAfter :: int
  xt_IsCA :: bool
  xt_ExtKeyUsage :: "string list"
  xt_KeyUsage :: "string list"
  xt_BasicConstraintsValid :: bool

text \<open>
  The Boolean argument of the three write operations is the \<open>DryRunAll\<close> option. \<open>s_exec\<close> takes the
  namespace, the pod, the container, the command and what is written on its standard input, and
  gives the error, if any, and the standard output. The clock counts nanoseconds. \<open>s_rsaKey\<close> gives
  a new private key, \<open>s_serial\<close> a random number of 128 bits, \<open>s_certificate\<close> the certificate that a template and the
  one of its authority describe, for the key that it certifies, signed with the key of the authority; \<open>s_pem\<close> takes the
  type of a block and its bytes, \<open>s_addYears\<close> the years to add to a time. The file operations give an error message or their result. \<open>s_mapOrder\<close> is
  the order in which a \<open>range\<close> loop visits a map, which Go leaves open. The \<open>s_ini\<close> operations are those
  of the ini library on a file: adding a section, setting and deleting a key of a section (which is
  added when it is missing), and reading the value of a key with its references expanded. \<open>s_formatDSN\<close>
  takes the address, the user, the password and the database.
\<close>

record 'w sys =
  s_get :: "kind \<Rightarrow> string \<Rightarrow> string \<Rightarrow> 'w \<Rightarrow> (api_error + kobj) \<times> 'w"
  s_list :: "kind \<Rightarrow> string \<Rightarrow> gomap \<Rightarrow> 'w \<Rightarrow> (api_error + kobj list) \<times> 'w"
  s_create :: "bool \<Rightarrow> kobj \<Rightarrow> 'w \<Rightarrow> (api_error + kobj) \<times> 'w"
  s_update :: "bool \<Rightarrow> kobj \<Rightarrow> 'w \<Rightarrow> (api_error + kobj) \<times> 'w"
  s_delete :: "bool \<Rightarrow> kind \<Rightarrow> string \<Rightarrow> string \<Rightarrow> 'w \<Rightarrow> api_error option \<times> 'w"
  s_deleteAllOf :: "kind \<Rightarrow> string \<Rightarrow> gomap \<Rightarrow> 'w \<Rightarrow> api_error option \<times> 'w"
  s_setOwnerReference :: "object_meta \<Rightarrow> object_meta \<Rightarrow> string + object_meta"
  s_setControllerReference :: "object_meta \<Rightarrow> object_meta \<Rightarrow> string + object_meta"
  s_exec :: "string \<Rightarrow> string \<Rightarrow> string \<Rightarrow> string list \<Rightarrow> string option \<Rightarrow> 'w \<Rightarrow> (string option \<times> string) \<times> 'w"
  s_now :: "'w \<Rightarrow> int \<times> 'w"
  s_sleep :: "int \<Rightarrow> 'w \<Rightarrow> unit \<times> 'w"
  s_uuid :: "'w \<Rightarrow> string \<times> 'w"
  s_rsaKeyPair :: "int \<Rightarrow> 'w \<Rightarrow> (string + string \<times> string) \<times> 'w"
  s_getenv :: "string \<Rightarrow> string option"
  s_sha256 :: "string \<Rightarrow> string"
  s_template :: "string \<Rightarrow> tmpl_data \<Rightarrow> string option"
  s_base64 :: "string \<Rightarrow> string"
  s_rsaKey :: "int \<Rightarrow> 'w \<Rightarrow> (string + string) \<times> 'w"
  s_serial :: "'w \<Rightarrow> (string + int) \<times> 'w"
  s_certificate :: "x509_template \<Rightarrow> x509_template \<Rightarrow> string \<Rightarrow> string \<Rightarrow> 'w \<Rightarrow> (string + string) \<times> 'w"
  s_pkcs8 :: "string \<Rightarrow> string + string"
  s_pem :: "string \<Rightarrow> string \<Rightarrow> string"
  s_addYears :: "int \<Rightarrow> int \<Rightarrow> int"
  s_mkdirAll :: "string \<Rightarrow> 'w \<Rightarrow> string option \<times> 'w"
  s_writeFile :: "string \<Rightarrow> string \<Rightarrow> 'w \<Rightarrow> string option \<times> 'w"
  s_readFile :: "string \<Rightarrow> 'w \<Rightarrow> (string + string) \<times> 'w"
  s_yamlSecret :: "secret \<Rightarrow> string"
  s_unyamlSecret :: "string \<Rightarrow> secret option"
  s_mapOrder :: "smap \<Rightarrow> 'w \<Rightarrow> (string \<times> string) list \<times> 'w"
  s_yaml :: "ydoc \<Rightarrow> string"
  s_unyaml :: "string \<Rightarrow> ydoc option"
  s_iniParse :: "string \<Rightarrow> ini option"
  s_iniDump :: "ini \<Rightarrow> string"
  s_iniNewSection :: "string \<Rightarrow> ini \<Rightarrow> ini"
  s_iniNewKey :: "string \<Rightarrow> string \<Rightarrow> string \<Rightarrow> ini \<Rightarrow> ini"
  s_iniDeleteKey :: "string \<Rightarrow> string \<Rightarrow> ini \<Rightarrow> ini"
  s_iniString :: "ini \<Rightarrow> string \<Rightarrow> string \<Rightarrow> string"
  s_formatDSN :: "string \<Rightarrow> string \<Rightarrow> string \<Rightarrow> string \<Rightarrow> string"

section \<open>What the API server promises\<close>

text \<open>
  What may differ between a submitted object and the one the server stores: the server sets
  resource versions and generations, fills in defaults (replicas, grace period, update strategy)
  and gives an empty map back as nil. It keeps the address, the annotations and the data, the
  images of the containers in their order, and every replica count, grace period and strategy
  that was set.
\<close>

definition kept_meta :: "object_meta \<Rightarrow> object_meta \<Rightarrow> bool" where
  "kept_meta a b \<longleftrightarrow> om_name b = om_name a \<and> om_namespace b = om_namespace a \<and>
     gm_fm (om_annotations b) = gm_fm (om_annotations a) \<and> gm_fm (om_labels b) = gm_fm (om_labels a)"

definition kept_default :: "'a \<Rightarrow> 'a option \<Rightarrow> 'a option \<Rightarrow> bool" where
  "kept_default d a b \<longleftrightarrow> b = a \<or> a = None \<and> b = Some d"

definition kept_template :: "pod_template \<Rightarrow> pod_template \<Rightarrow> bool" where
  "kept_template a b \<longleftrightarrow>
     map ct_image (ps_containers (pt_spec b)) = map ct_image (ps_containers (pt_spec a)) \<and>
     gm_fm (om_annotations (pt_meta b)) = gm_fm (om_annotations (pt_meta a)) \<and>
     kept_default 30 (ps_terminationGracePeriodSeconds (pt_spec a)) (ps_terminationGracePeriodSeconds (pt_spec b))"

definition kept_spec :: "kobj \<Rightarrow> kobj \<Rightarrow> bool" where
  "kept_spec a b = (case a of
       OConfigMap x \<Rightarrow> (case b of OConfigMap y \<Rightarrow> gm_fm (cm_data y) = gm_fm (cm_data x) | _ \<Rightarrow> False)
     | OSecret x \<Rightarrow> (case b of OSecret y \<Rightarrow> gm_fm (se_data y) = gm_fm (se_data x) | _ \<Rightarrow> False)
     | OService x \<Rightarrow> (case b of OService y \<Rightarrow>
           gm_fm (sv_selector (sv_spec y)) = gm_fm (sv_selector (sv_spec x)) \<and> sv_ports (sv_spec y) = sv_ports (sv_spec x)
         | _ \<Rightarrow> False)
     | OStatefulSet x \<Rightarrow> (case b of OStatefulSet y \<Rightarrow>
           kept_template (ss_template x) (ss_template y) \<and> kept_default 1 (ss_replicas x) (ss_replicas y)
         | _ \<Rightarrow> False)
     | ODeployment x \<Rightarrow> (case b of ODeployment y \<Rightarrow>
           kept_template (de_template x) (de_template y) \<and> kept_default 1 (de_replicas x) (de_replicas y) \<and>
           (ds_type (de_strategy x) \<noteq> [] \<longrightarrow> de_strategy y = de_strategy x)
         | _ \<Rightarrow> False)
     | OPVC x \<Rightarrow> (case b of OPVC y \<Rightarrow> pv_requests y = pv_requests x | _ \<Rightarrow> False)
     | _ \<Rightarrow> True)"

definition admitted :: "kobj \<Rightarrow> kobj \<Rightarrow> bool" where
  "admitted a b \<longleftrightarrow> kind_of b = kind_of a \<and> kept_meta (meta_of a) (meta_of b) \<and> kept_spec a b"

lemma admitted_oref: "admitted a b \<Longrightarrow> oref b = oref a"
  by (simp add: admitted_def kept_meta_def oref_def)

text \<open>A label selector: the labels it names have the values it gives.\<close>

definition labels_match :: "gomap \<Rightarrow> gomap \<Rightarrow> bool" where
  "labels_match sel lab \<longleftrightarrow> fmpred (\<lambda>k v. fmlookup (gm_fm lab) k = Some v) (gm_fm sel)"

text \<open>
  \<open>store w\<close> is the set of objects of the cluster in the world \<open>w\<close>. \<open>kube_observed\<close> asks little:
  calls may fail for any reason, but a read shows an object that is there, reads, clock and random
  sources change no object, a dry-run call changes no object, and a write changes no object but the
  one it names; a create never replaces and an update never creates.
\<close>

locale kube_observed =
  fixes S :: "'w sys" and store :: "'w \<Rightarrow> kref \<Rightarrow> kobj option"
  assumes get_frame: "s_get S k ns n w = (r, w') \<Longrightarrow> store w' = store w"
    and get_sound: "s_get S k ns n w = (Inr o', w') \<Longrightarrow> store w (kref_of k ns n) = Some o'"
    and get_missing: "s_get S k ns n w = (Inl e, w') \<Longrightarrow> IsNotFound e \<Longrightarrow> store w (kref_of k ns n) = None"
    and store_typed: "store w (k, ns, n) = Some o' \<Longrightarrow> oref o' = (k, ns, n)"
    and list_frame: "s_list S k ns sel w = (lr, w') \<Longrightarrow> store w' = store w"
    and list_sound: "s_list S k ns sel w = (Inr ks, w') \<Longrightarrow> ob \<in> set ks \<Longrightarrow>
      store w (oref ob) = Some ob \<and> kind_of ob = k \<and> (ns = [] \<or> om_namespace (meta_of ob) = ns) \<and>
      labels_match sel (om_labels (meta_of ob))"
    and create_dry: "s_create S True ob w = (r, w') \<Longrightarrow> store w' = store w"
    and update_dry: "s_update S True ob w = (r, w') \<Longrightarrow> store w' = store w"
    and delete_dry: "s_delete S True k ns n w = (d, w') \<Longrightarrow> store w' = store w"
    and create_local: "s_create S b ob w = (r, w') \<Longrightarrow> x \<noteq> oref ob \<Longrightarrow> store w' x = store w x"
    and create_keeps: "s_create S b ob w = (r, w') \<Longrightarrow> store w (oref ob) = Some o1 \<Longrightarrow> store w' (oref ob) = Some o1"
    and update_local: "s_update S b ob w = (r, w') \<Longrightarrow> x \<noteq> oref ob \<Longrightarrow> store w' x = store w x"
    and update_absent: "s_update S b ob w = (r, w') \<Longrightarrow> store w (oref ob) = None \<Longrightarrow> store w' (oref ob) = None"
    and delete_local: "s_delete S b k ns n w = (d, w') \<Longrightarrow> x \<noteq> kref_of k ns n \<Longrightarrow> store w' x = store w x"
    and delete_fewer: "s_delete S b k ns n w = (d, w') \<Longrightarrow>
      store w' (kref_of k ns n) = None \<or> store w' (kref_of k ns n) = store w (kref_of k ns n)"
    and deleteAllOf_frame: "s_deleteAllOf S k ns sel w = (d, w') \<Longrightarrow> store w' (j, ms, n) = store w (j, ms, n) \<or>
      j = k \<and> ms = ns \<and> store w' (j, ms, n) = None"
    and now_frame: "s_now S w = (i, w') \<Longrightarrow> store w' = store w"
    and uuid_frame: "s_uuid S w = (u, w') \<Longrightarrow> store w' = store w"
    and rsa_frame: "s_rsaKeyPair S bits w = (kp, w') \<Longrightarrow> store w' = store w"
    and rsaKey_frame: "s_rsaKey S bits w = (pk, w') \<Longrightarrow> store w' = store w"
    and serial_frame: "s_serial S w = (sn, w') \<Longrightarrow> store w' = store w"
    and certificate_frame: "s_certificate S xt pt pub priv w = (ce, w') \<Longrightarrow> store w' = store w"
    and mkdirAll_frame: "s_mkdirAll S p w = (fe, w') \<Longrightarrow> store w' = store w"
    and writeFile_frame: "s_writeFile S p dat w = (fe, w') \<Longrightarrow> store w' = store w"
    and readFile_frame: "s_readFile S p w = (fr, w') \<Longrightarrow> store w' = store w"
    and mapOrder_frame: "s_mapOrder S gm w = (mo, w') \<Longrightarrow> store w' = store w"
    and owner_address: "s_setOwnerReference S ow m = Inr m' \<Longrightarrow> kept_meta m m'"
    and controller_address: "s_setControllerReference S ow m = Inr m' \<Longrightarrow> kept_meta m m'"

text \<open>
  \<open>kube_healthy\<close>: the server answers every request, and stores what it was given up to
  \<open>admitted\<close>; and keys can be generated.
\<close>

locale kube_healthy = kube_observed S store for S :: "'w sys" and store :: "'w \<Rightarrow> kref \<Rightarrow> kobj option" +
  assumes get_found: "store w (kref_of k ns n) = Some o' \<Longrightarrow> fst (s_get S k ns n w) = Inr o'"
    and get_absent: "store w (kref_of k ns n) = None \<Longrightarrow> \<exists>e. fst (s_get S k ns n w) = Inl e \<and> IsNotFound e"
    and list_complete: "\<exists>ks. fst (s_list S k ns sel w) = Inr ks \<and>
      (\<forall>ob. store w (oref ob) = Some ob \<and> kind_of ob = k \<and> (ns = [] \<or> om_namespace (meta_of ob) = ns) \<and>
         labels_match sel (om_labels (meta_of ob)) \<longrightarrow> ob \<in> set ks)"
    and create_new: "store w (oref ob) = None \<Longrightarrow>
      \<exists>o' w'. s_create S False ob w = (Inr o', w') \<and> admitted ob o' \<and> store w' (oref ob) = Some o'"
    and create_new_dry: "store w (oref ob) = None \<Longrightarrow>
      \<exists>o' w'. s_create S True ob w = (Inr o', w') \<and> admitted ob o'"
    and create_exists: "store w (oref ob) = Some o1 \<Longrightarrow> \<exists>e. fst (s_create S b ob w) = Inl e \<and> IsAlreadyExists e"
    and update_present: "store w (oref ob) = Some o1 \<Longrightarrow>
      \<exists>o' w'. s_update S False ob w = (Inr o', w') \<and> admitted ob o' \<and> store w' (oref ob) = Some o'"
    and update_present_dry: "store w (oref ob) = Some o1 \<Longrightarrow>
      \<exists>o' w'. s_update S True ob w = (Inr o', w') \<and> admitted ob o'"
    and update_missing: "store w (oref ob) = None \<Longrightarrow> \<exists>e. fst (s_update S b ob w) = Inl e \<and> IsNotFound e"
    and delete_present: "store w (kref_of k ns n) = Some o1 \<Longrightarrow>
      \<exists>w'. s_delete S False k ns n w = (None, w') \<and> store w' (kref_of k ns n) = None"
    and delete_present_dry: "store w (kref_of k ns n) = Some o1 \<Longrightarrow> \<exists>w'. s_delete S True k ns n w = (None, w')"
    and delete_missing: "store w (kref_of k ns n) = None \<Longrightarrow> \<exists>e. fst (s_delete S b k ns n w) = Some e \<and> IsNotFound e"
    and rsaKey_works: "\<exists>key w'. s_rsaKey S bits w = (Inr key, w')"

text \<open>
  \<open>kube_quiet\<close>: nobody else changes the cluster, so that waiting and commands in pods change no
  object either.
\<close>

locale kube_quiet = kube_observed S store for S :: "'w sys" and store :: "'w \<Rightarrow> kref \<Rightarrow> kobj option" +
  assumes sleep_frame: "s_sleep S d w = (u, w') \<Longrightarrow> store w' = store w"
    and exec_frame: "s_exec S ns pd ctn cmd inp w = (x, w') \<Longrightarrow> store w' = store w"

section \<open>What the ini library promises\<close>

text \<open>
  A file that was read has sections and keys with distinct names that are not empty. A section with
  a name is added at the end unless it is there; a key keeps its place when its value is set, and a
  new key comes last. A value without references is read as it was set.
\<close>

definition ini_section :: "string \<Rightarrow> ini \<Rightarrow> ini" where
  "ini_section sec f = (if sec \<in> fst ` set f then f else f @ [(sec, [])])"

fun upsert :: "string \<Rightarrow> string \<Rightarrow> (string \<times> string) list \<Rightarrow> (string \<times> string) list" where
  "upsert k v [] = [(k, v)]"
| "upsert k v ((k', v') # kvs) = (if k' = k then (k, v) # kvs else (k', v') # upsert k v kvs)"

definition ini_update :: "string \<Rightarrow> ((string \<times> string) list \<Rightarrow> (string \<times> string) list) \<Rightarrow> ini \<Rightarrow> ini" where
  "ini_update sec g f = map (\<lambda>(n, kvs). if n = sec then (n, g kvs) else (n, kvs)) (ini_section sec f)"

definition ini_value :: "ini \<Rightarrow> string \<Rightarrow> string \<Rightarrow> string option" where
  "ini_value f sec k = (case map_of f sec of None \<Rightarrow> None | Some kvs \<Rightarrow> map_of kvs k)"

definition ini_wf :: "ini \<Rightarrow> bool" where
  "ini_wf f \<longleftrightarrow> distinct (map fst f) \<and> [] \<notin> fst ` set f \<and>
     list_all (\<lambda>(_, kvs). distinct (map fst kvs) \<and> [] \<notin> fst ` set kvs) f"

locale ini_library =
  fixes S :: "'w sys"
  assumes parsed_wf: "s_iniParse S text = Some f \<Longrightarrow> ini_wf f"
    and newSection: "sec \<noteq> [] \<Longrightarrow> s_iniNewSection S sec f = ini_section sec f"
    and newKey: "sec \<noteq> [] \<Longrightarrow> k \<noteq> [] \<Longrightarrow> s_iniNewKey S sec k v f = ini_update sec (upsert k v) f"
    and deleteKey: "sec \<noteq> [] \<Longrightarrow> s_iniDeleteKey S sec k f = ini_update sec (filter (\<lambda>kv. fst kv \<noteq> k)) f"
    and keyString: "ini_value f sec k = Some v \<Longrightarrow> \<not> Contains v ''%('' \<Longrightarrow> s_iniString S f sec k = v"

text \<open>The loop over a Go map visits each entry once, in any order.\<close>

locale go_map =
  fixes S :: "'w sys"
  assumes mapOrder_entries: "s_mapOrder S m w = (kvs, w') \<Longrightarrow> distinct (map fst kvs) \<and> map_of kvs = fmlookup m"

section \<open>An in-memory cluster\<close>

text \<open>
  The objects are kept in a list. Every stored object gets a new resource version. Commands run in
  pods succeed without output and are recorded; sleeping advances the clock.
\<close>

record mem_world =
  mw_objs :: "kobj list"
  mw_clock :: int
  mw_serial :: nat
  mw_execs :: "(string \<times> string \<times> string list) list"
  mw_files :: "(string, string) fmap"

definition mem_store :: "mem_world \<Rightarrow> kref \<Rightarrow> kobj option" where
  "mem_store w x = find (\<lambda>o'. oref o' = x) (mw_objs w)"

definition mem_stamp :: "nat \<Rightarrow> kobj \<Rightarrow> kobj" where
  "mem_stamp n o' = map_meta (om_resourceVersion_update (\<lambda>_. nat_digits n)) o'"

definition mem_get :: "kind \<Rightarrow> string \<Rightarrow> string \<Rightarrow> mem_world \<Rightarrow> (api_error + kobj) \<times> mem_world" where
  "mem_get k ns n w = (case mem_store w (kref_of k ns n) of
       None \<Rightarrow> (Inl (NotFound n), w) | Some o' \<Rightarrow> (Inr o', w))"

definition mem_list :: "kind \<Rightarrow> string \<Rightarrow> gomap \<Rightarrow> mem_world \<Rightarrow> (api_error + kobj list) \<times> mem_world" where
  "mem_list k ns sel w =
     (Inr (filter (\<lambda>o'. mem_store w (oref o') = Some o' \<and> kind_of o' = k \<and> (ns = [] \<or> om_namespace (meta_of o') = ns) \<and>
        labels_match sel (om_labels (meta_of o'))) (mw_objs w)), w)"

definition mem_put :: "kobj \<Rightarrow> mem_world \<Rightarrow> kobj \<times> mem_world" where
  "mem_put ob w = (let o' = mem_stamp (mw_serial w) ob in
     (o', w\<lparr>mw_objs := o' # filter (\<lambda>x. oref x \<noteq> oref ob) (mw_objs w), mw_serial := Suc (mw_serial w)\<rparr>))"

definition mem_create :: "bool \<Rightarrow> kobj \<Rightarrow> mem_world \<Rightarrow> (api_error + kobj) \<times> mem_world" where
  "mem_create dry ob w = (case mem_store w (oref ob) of
       Some _ \<Rightarrow> (Inl (AlreadyExists (om_name (meta_of ob))), w)
     | None \<Rightarrow> (let (o', w') = mem_put ob w in (Inr o', if dry then w else w')))"

definition mem_update :: "bool \<Rightarrow> kobj \<Rightarrow> mem_world \<Rightarrow> (api_error + kobj) \<times> mem_world" where
  "mem_update dry ob w = (case mem_store w (oref ob) of
       None \<Rightarrow> (Inl (NotFound (om_name (meta_of ob))), w)
     | Some _ \<Rightarrow> (let (o', w') = mem_put ob w in (Inr o', if dry then w else w')))"

definition mem_delete :: "bool \<Rightarrow> kind \<Rightarrow> string \<Rightarrow> string \<Rightarrow> mem_world \<Rightarrow> api_error option \<times> mem_world" where
  "mem_delete dry k ns n w = (case mem_store w (kref_of k ns n) of
       None \<Rightarrow> (Some (NotFound n), w)
     | Some _ \<Rightarrow> (None, if dry then w
          else w\<lparr>mw_objs := filter (\<lambda>x. oref x \<noteq> kref_of k ns n) (mw_objs w)\<rparr>))"

definition mem_doomed :: "kind \<Rightarrow> string \<Rightarrow> gomap \<Rightarrow> mem_world \<Rightarrow> kref \<Rightarrow> bool" where
  "mem_doomed k ns sel w x \<longleftrightarrow> fst x = k \<and> fst (snd x) = ns \<and>
     (case mem_store w x of None \<Rightarrow> False | Some o' \<Rightarrow> labels_match sel (om_labels (meta_of o')))"

definition mem_deleteAllOf :: "kind \<Rightarrow> string \<Rightarrow> gomap \<Rightarrow> mem_world \<Rightarrow> api_error option \<times> mem_world" where
  "mem_deleteAllOf k ns sel w =
     (None, w\<lparr>mw_objs := filter (\<lambda>o'. \<not> mem_doomed k ns sel w (oref o')) (mw_objs w)\<rparr>)"

definition mem_exec :: "string \<Rightarrow> string \<Rightarrow> string \<Rightarrow> string list \<Rightarrow> string option \<Rightarrow> mem_world \<Rightarrow>
    (string option \<times> string) \<times> mem_world" where
  "mem_exec ns pod ctn cmd inp w = ((None, []), w\<lparr>mw_execs := mw_execs w @ [(pod, ctn, cmd)]\<rparr>)"

definition mem_own :: "object_meta \<Rightarrow> object_meta \<Rightarrow> string + object_meta" where
  "mem_own ow m = Inr (m\<lparr>om_owners := [om_name ow]\<rparr>)"

text \<open>An encoding of secrets as text, in place of YAML: every character is marked, a dot ends a field.\<close>

definition enc_fields :: "string list \<Rightarrow> string" where
  "enc_fields fs = concat (map (\<lambda>f. concat (map (\<lambda>c. [CHR ''c'', c]) f) @ ''.'') fs)"

fun dec_fields :: "string \<Rightarrow> string \<Rightarrow> string list" where
  "dec_fields acc (m # c # s) = (if m = CHR ''c'' then dec_fields (acc @ [c]) s else acc # dec_fields [] (c # s))"
| "dec_fields acc [m] = [acc]"
| "dec_fields acc [] = []"

fun pairs :: "string list \<Rightarrow> (string \<times> string) list" where
  "pairs (k # v # s) = (k, v) # pairs s"
| "pairs _ = []"

definition mem_yaml :: "secret \<Rightarrow> string" where
  "mem_yaml se = enc_fields [om_name (se_meta se), om_namespace (se_meta se),
     enc_fields (concat (map (\<lambda>(k, v). [k, v]) (fm_items (gm_fm (om_annotations (se_meta se)))))),
     enc_fields (concat (map (\<lambda>(k, v). [k, v]) (fm_items (gm_fm (se_data se)))))]"

definition mem_unyaml :: "string \<Rightarrow> secret option" where
  "mem_unyaml s = (case dec_fields [] s of
       [name, ns, an, da] \<Rightarrow> Some \<lparr>se_meta = (mk_meta name ns)\<lparr>om_annotations := Some (fmap_of_list (pairs (dec_fields [] an)))\<rparr>,
         se_data = Some (fmap_of_list (pairs (dec_fields [] da))), se_type = []\<rparr>
     | _ \<Rightarrow> None)"

lemma dec_fields_field:
  "dec_fields acc (concat (map (\<lambda>c. [CHR ''c'', c]) f) @ CHR ''.'' # s) = (acc @ f) # dec_fields [] s"
  by (induction f arbitrary: acc) (cases s; simp)+

lemma dec_enc_fields: "dec_fields [] (enc_fields fs) = fs"
  by (induction fs) (simp_all add: enc_fields_def dec_fields_field)

lemma pairs_concat: "pairs (concat (map (\<lambda>(k, v). [k, v]) xs)) = xs"
  by (induction xs) auto

lemma mem_yaml_roundtrip:
  "\<exists>y. mem_unyaml (mem_yaml x) = Some y \<and> kept_meta ((se_meta x)\<lparr>om_labels := None\<rparr>) (se_meta y) \<and>
     gm_fm (se_data y) = gm_fm (se_data x)"
  by (simp add: mem_yaml_def mem_unyaml_def dec_enc_fields pairs_concat fm_items_map kept_meta_def mk_meta_def)

fun mem_ydoc :: "ydoc \<Rightarrow> string" where
  "mem_ydoc YNull = ''~''"
| "mem_ydoc (YBool b) = (if b then ''true'' else ''false'')"
| "mem_ydoc (YInt i) = Itoa i"
| "mem_ydoc (YStr s) = s"
| "mem_ydoc (YList ys) = enc_fields (map mem_ydoc ys)"
| "mem_ydoc (YMap kvs) = enc_fields (concat (map (\<lambda>(k, v). [k, mem_ydoc v]) kvs))"

definition mem_ini :: ini where
  "mem_ini = map (\<lambda>n. (n, [])) [''DEFAULT'', ''keystore'', ''zookeeper'', ''database'', ''scheduler'', ''web'', ''executor'',
     ''merger'', ''auth zuul_client'', ''statsd'']"

definition mem_sys :: "mem_world sys" where
  "mem_sys = \<lparr>s_get = mem_get, s_list = mem_list, s_create = mem_create, s_update = mem_update,
     s_delete = mem_delete, s_deleteAllOf = mem_deleteAllOf, s_setOwnerReference = mem_own, s_setControllerReference = mem_own,
     s_exec = mem_exec, s_now = (\<lambda>w. (mw_clock w, w)),
     s_sleep = (\<lambda>d w. ((), w\<lparr>mw_clock := mw_clock w + d\<rparr>)),
     s_uuid = (\<lambda>w. (''uuid-'' @ nat_digits (mw_serial w), w\<lparr>mw_serial := Suc (mw_serial w)\<rparr>)),
     s_rsaKeyPair = (\<lambda>bits w. (Inr (''pub-'' @ nat_digits (mw_serial w), ''priv-'' @ nat_digits (mw_serial w)),
        w\<lparr>mw_serial := Suc (mw_serial w)\<rparr>)),
     s_getenv = (\<lambda>_. None), s_sha256 = (\<lambda>x. x), s_template = (\<lambda>x _. Some x), s_base64 = (\<lambda>x. x),
     s_rsaKey = (\<lambda>bits w. (Inr (''key-'' @ nat_digits (mw_serial w)), w\<lparr>mw_serial := Suc (mw_serial w)\<rparr>)),
     s_serial = (\<lambda>w. (Inr (int (mw_serial w)), w)), s_certificate = (\<lambda>t p pub priv w. (Inr (Join (xt_DNSNames t) '',''), w)),
     s_pkcs8 = Inr, s_pem = (\<lambda>ty bytes. bytes), s_addYears = (\<lambda>n t. t + n * 31557600000000000),
     s_mkdirAll = (\<lambda>_ w. (None, w)),
     s_writeFile = (\<lambda>p d w. (None, w\<lparr>mw_files := fmupd p d (mw_files w)\<rparr>)),
     s_readFile = (\<lambda>p w. (case fmlookup (mw_files w) p of None \<Rightarrow> Inl ''no such file'' | Some d \<Rightarrow> Inr d, w)),
     s_yamlSecret = mem_yaml, s_unyamlSecret = mem_unyaml, s_mapOrder = (\<lambda>m w. (fm_items m, w)),
     s_yaml = mem_ydoc, s_unyaml = (\<lambda>_. None), s_iniParse = (\<lambda>_. Some mem_ini),
     s_iniDump = (\<lambda>i. enc_fields (concat (map (\<lambda>(n, kvs). n # concat (map (\<lambda>(k, v). [k, v]) kvs)) i))),
     s_iniNewSection = ini_section, s_iniNewKey = (\<lambda>sec k v. ini_update sec (upsert k v)),
     s_iniDeleteKey = (\<lambda>sec k. ini_update sec (filter (\<lambda>kv. fst kv \<noteq> k))),
     s_iniString = (\<lambda>f sec k. case ini_value f sec k of None \<Rightarrow> [] | Some v \<Rightarrow> v),
     s_formatDSN = (\<lambda>addr user pass db. user @ '':'' @ pass @ ''@tcp('' @ addr @ '')/'' @ db)\<rparr>"

lemma find_oref_filter [simp]:
  "find (\<lambda>o'. oref o' = x) (filter (\<lambda>o'. oref o' \<noteq> y) xs) =
     (if x = y then None else find (\<lambda>o'. oref o' = x) xs)"
  by (induction xs) auto

lemma find_oref_filter_pred [simp]:
  "find (\<lambda>o'. oref o' = x) (filter (\<lambda>o'. \<not> P (oref o')) xs) =
     (if P x then None else find (\<lambda>o'. oref o' = x) xs)"
  by (induction xs) auto

lemma mem_stamp_simps [simp]:
  "kind_of (mem_stamp n o') = kind_of o'"
  "meta_of (mem_stamp n o') = (meta_of o')\<lparr>om_resourceVersion := nat_digits n\<rparr>"
  "oref (mem_stamp n o') = oref o'"
  by (simp_all add: mem_stamp_def oref_def)

lemma kept_template_refl [simp]: "kept_template t t"
  by (simp add: kept_template_def kept_default_def)

lemma mem_stamp_admitted [simp]: "admitted o' (mem_stamp n o')"
  by (cases o') (simp_all add: admitted_def mem_stamp_def kept_meta_def kept_default_def kept_spec_def)

lemma mem_put_store [simp]:
  "mem_put ob w = (o', w') \<Longrightarrow> mem_store w' = (mem_store w)(oref ob \<mapsto> o')"
  by (auto simp: mem_put_def mem_store_def Let_def fun_eq_iff)

lemma mem_put_admitted: "mem_put ob w = (o', w') \<Longrightarrow> admitted ob o'"
  by (auto simp: mem_put_def Let_def)

lemma mem_store_oref: "mem_store w x = Some o' \<Longrightarrow> oref o' = x"
  by (auto simp: mem_store_def find_Some_iff)

lemma kept_meta_own: "mem_own ow m = Inr m' \<Longrightarrow> kept_meta m m'"
  by (auto simp: mem_own_def kept_meta_def)

lemmas mem_defs = mem_get_def mem_list_def mem_create_def mem_update_def mem_delete_def

lemma mem_delete_store:
  "mem_store (w\<lparr>mw_objs := filter (\<lambda>x. oref x \<noteq> y) (mw_objs w)\<rparr>) = (mem_store w)(y := None)"
  by (auto simp: mem_store_def fun_eq_iff)

lemma mem_store_frame [simp]:
  "mem_store (w\<lparr>mw_clock := c\<rparr>) = mem_store w" "mem_store (w\<lparr>mw_serial := i\<rparr>) = mem_store w"
  "mem_store (w\<lparr>mw_execs := e\<rparr>) = mem_store w" "mem_store (w\<lparr>mw_files := fs\<rparr>) = mem_store w"
  by (simp_all add: mem_store_def fun_eq_iff)

lemma mem_store_in: "mem_store w (oref o') = Some o' \<Longrightarrow> o' \<in> set (mw_objs w)"
  by (auto simp: mem_store_def find_Some_iff)

lemma mem_deleteAllOf_store:
  "mem_deleteAllOf k ns sel w = (d, w') \<Longrightarrow>
     mem_store w' x = (if mem_doomed k ns sel w x then None else mem_store w x)"
  by (auto simp: mem_deleteAllOf_def mem_store_def)

interpretation mem: kube_healthy mem_sys mem_store
proof (unfold_locales, goal_cases)
  case (4 w k ns n o')
  then show ?case by (rule mem_store_oref)
next
  case (16 k ns sel w d w' j m n)
  then show ?case by (auto simp: mem_sys_def mem_deleteAllOf_store mem_doomed_def)
qed (auto simp: mem_sys_def mem_defs mem_delete_store Let_def kept_meta_own
      split: option.splits prod.splits if_splits dest: mem_put_admitted intro: mem_store_in)

lemma mem_ini_wf: "ini_wf mem_ini"
  by (simp add: ini_wf_def mem_ini_def)

interpretation mem_i: ini_library mem_sys
  by unfold_locales (auto simp: mem_sys_def mem_ini_wf)

interpretation mem_m: go_map mem_sys
  by unfold_locales (auto simp: mem_sys_def map_of_fm_items distinct_fm_items)

interpretation mem_q: kube_quiet mem_sys mem_store
  by unfold_locales (auto simp: mem_sys_def mem_exec_def)

end
