(* ===== verification/Client.thy ===== *)
theory Client
  imports Cluster
begin

text \<open>
  The client layer: \<open>controllers/libs/client/helpers.go\<close> and \<open>controllers/context.go\<close>. \<open>kctx\<close> is
  the struct \<open>SFKubeContext\<close> (what the operations read), \<open>st\<close> the state they pass along. A Go call
  is generic in the type of the object it is given; here the type is a \<open>codec\<close>, whose laws
  (locale \<open>codec_laws\<close>) are interpreted for every kind. The locale \<open>kube_client\<close> bounds what each
  call may change on the cluster.
\<close>

section \<open>Context and state\<close>

text \<open>The address, the path and the authority of the server, as the kubeconfig gives them.\<close>

record rest_config =
  rc_Host :: string
  rc_APIPath :: string
  rc_CAData :: string

record 'w kctx =
  k_sys :: "'w sys"
  k_ns :: string
  k_owner :: object_meta
  k_isOpenShift :: bool
  k_standalone :: bool
  k_dryRun :: bool
  k_hasProcMount :: bool
  k_rest :: rest_config

text \<open>
  The world; the conditions of the status of the custom resource and the log server keys last
  installed, which a reconciliation updates in place in the controller; and the package variable
  \<open>base.DefaultPodSecurityContext\<close>, to which pod specs point.
\<close>

record 'w st =
  st_world :: 'w
  st_conditions :: "condition list"
  st_podSC :: pod_security_context
  st_logserverKeys :: string

definition sysc :: "('w \<Rightarrow> 'a \<times> 'w) \<Rightarrow> ('w st, 'a) prog" where
  "sysc f = (\<lambda>s. case f (st_world s) of (a, w) \<Rightarrow> (Ok a, s\<lparr>st_world := w\<rparr>))"

lemma sysc_run: "f (st_world s) = (a, w) \<Longrightarrow> sysc f s = (Ok a, s\<lparr>st_world := w\<rparr>)"
  by (simp add: sysc_def)

section \<open>Typed objects\<close>

record 'o codec =
  c_kind :: kind
  c_enc :: "'o \<Rightarrow> kobj"
  c_dec :: "kobj \<Rightarrow> 'o option"
  c_meta :: "'o \<Rightarrow> object_meta"
  c_mapMeta :: "(object_meta \<Rightarrow> object_meta) \<Rightarrow> 'o \<Rightarrow> 'o"

locale codec_laws =
  fixes C :: "'o codec"
  assumes dec_iff: "c_dec C k = Some x \<longleftrightarrow> k = c_enc C x"
    and dec_kind: "kind_of k = c_kind C \<Longrightarrow> c_dec C k \<noteq> None"
    and enc_kind: "kind_of (c_enc C x) = c_kind C"
    and enc_meta: "meta_of (c_enc C x) = c_meta C x"
    and enc_mapMeta: "c_enc C (c_mapMeta C f x) = map_meta f (c_enc C x)"
begin

lemma dec_enc [simp]: "c_dec C (c_enc C x) = Some x"
  by (simp add: dec_iff)

lemma oref_enc: "oref (c_enc C x) = kref_of (c_kind C) (om_namespace (c_meta C x)) (om_name (c_meta C x))"
  by (simp add: oref_def enc_kind enc_meta)

lemma meta_mapMeta [simp]: "c_meta C (c_mapMeta C f x) = f (c_meta C x)"
  by (metis enc_meta enc_mapMeta meta_of_map_meta)

end

definition cConfigMap :: "configmap codec" where
  "cConfigMap = \<lparr>c_kind = KConfigMap, c_enc = OConfigMap,
     c_dec = (\<lambda>k. case k of OConfigMap x \<Rightarrow> Some x | _ \<Rightarrow> None), c_meta = cm_meta, c_mapMeta = cm_meta_update\<rparr>"

definition cSecret :: "secret codec" where
  "cSecret = \<lparr>c_kind = KSecret, c_enc = OSecret,
     c_dec = (\<lambda>k. case k of OSecret x \<Rightarrow> Some x | _ \<Rightarrow> None), c_meta = se_meta, c_mapMeta = se_meta_update\<rparr>"

definition cService :: "service codec" where
  "cService = \<lparr>c_kind = KService, c_enc = OService,
     c_dec = (\<lambda>k. case k of OService x \<Rightarrow> Some x | _ \<Rightarrow> None), c_meta = sv_meta, c_mapMeta = sv_meta_update\<rparr>"

definition cStatefulSet :: "statefulset codec" where
  "cStatefulSet = \<lparr>c_kind = KStatefulSet, c_enc = OStatefulSet,
     c_dec = (\<lambda>k. case k of OStatefulSet x \<Rightarrow> Some x | _ \<Rightarrow> None), c_meta = ss_meta, c_mapMeta = ss_meta_update\<rparr>"

definition cDeployment :: "deployment codec" where
  "cDeployment = \<lparr>c_kind = KDeployment, c_enc = ODeployment,
     c_dec = (\<lambda>k. case k of ODeployment x \<Rightarrow> Some x | _ \<Rightarrow> None), c_meta = de_meta, c_mapMeta = de_meta_update\<rparr>"

definition cPod :: "pod codec" where
  "cPod = \<lparr>c_kind = KPod, c_enc = OPod,
     c_dec = (\<lambda>k. case k of OPod x \<Rightarrow> Some x | _ \<Rightarrow> None), c_meta = po_meta, c_mapMeta = po_meta_update\<rparr>"

definition cPVC :: "persistent_volume_claim codec" where
  "cPVC = \<lparr>c_kind = KPVC, c_enc = OPVC,
     c_dec = (\<lambda>k. case k of OPVC x \<Rightarrow> Some x | _ \<Rightarrow> None), c_meta = pv_meta, c_mapMeta = pv_meta_update\<rparr>"

definition cStorageClass :: "storage_class codec" where
  "cStorageClass = \<lparr>c_kind = KStorageClass, c_enc = OStorageClass,
     c_dec = (\<lambda>k. case k of OStorageClass x \<Rightarrow> Some x | _ \<Rightarrow> None), c_meta = sk_meta, c_mapMeta = sk_meta_update\<rparr>"

definition cJob :: "job codec" where
  "cJob = \<lparr>c_kind = KJob, c_enc = OJob,
     c_dec = (\<lambda>k. case k of OJob x \<Rightarrow> Some x | _ \<Rightarrow> None), c_meta = jo_meta, c_mapMeta = jo_meta_update\<rparr>"

definition cServiceAccount :: "service_account codec" where
  "cServiceAccount = \<lparr>c_kind = KServiceAccount, c_enc = OServiceAccount,
     c_dec = (\<lambda>k. case k of OServiceAccount x \<Rightarrow> Some x | _ \<Rightarrow> None), c_meta = sa_meta, c_mapMeta = sa_meta_update\<rparr>"

definition cRole :: "role codec" where
  "cRole = \<lparr>c_kind = KRole, c_enc = ORole,
     c_dec = (\<lambda>k. case k of ORole x \<Rightarrow> Some x | _ \<Rightarrow> None), c_meta = ro_meta, c_mapMeta = ro_meta_update\<rparr>"

definition cRoleBinding :: "role_binding codec" where
  "cRoleBinding = \<lparr>c_kind = KRoleBinding, c_enc = ORoleBinding,
     c_dec = (\<lambda>k. case k of ORoleBinding x \<Rightarrow> Some x | _ \<Rightarrow> None), c_meta = rb_meta, c_mapMeta = rb_meta_update\<rparr>"

definition cNamespace :: "namespace_obj codec" where
  "cNamespace = \<lparr>c_kind = KNamespace, c_enc = ONamespace,
     c_dec = (\<lambda>k. case k of ONamespace x \<Rightarrow> Some x | _ \<Rightarrow> None), c_meta = nm_meta, c_mapMeta = nm_meta_update\<rparr>"

definition cRoute :: "route codec" where
  "cRoute = \<lparr>c_kind = KRoute, c_enc = ORoute,
     c_dec = (\<lambda>k. case k of ORoute x \<Rightarrow> Some x | _ \<Rightarrow> None), c_meta = rt_meta, c_mapMeta = rt_meta_update\<rparr>"

definition cIngress :: "ingress codec" where
  "cIngress = \<lparr>c_kind = KIngress, c_enc = OIngress,
     c_dec = (\<lambda>k. case k of OIngress x \<Rightarrow> Some x | _ \<Rightarrow> None), c_meta = ig_meta, c_mapMeta = ig_meta_update\<rparr>"

lemmas codec_defs = cConfigMap_def cSecret_def cService_def cStatefulSet_def cDeployment_def cPod_def
  cPVC_def cStorageClass_def cJob_def cServiceAccount_def cRole_def cRoleBinding_def cNamespace_def
  cRoute_def cIngress_def

lemma kind_exhaust:
  "kind_of k = KConfigMap \<longleftrightarrow> (\<exists>x. k = OConfigMap x)"
  "kind_of k = KSecret \<longleftrightarrow> (\<exists>x. k = OSecret x)"
  "kind_of k = KService \<longleftrightarrow> (\<exists>x. k = OService x)"
  "kind_of k = KStatefulSet \<longleftrightarrow> (\<exists>x. k = OStatefulSet x)"
  "kind_of k = KDeployment \<longleftrightarrow> (\<exists>x. k = ODeployment x)"
  "kind_of k = KPod \<longleftrightarrow> (\<exists>x. k = OPod x)"
  "kind_of k = KPVC \<longleftrightarrow> (\<exists>x. k = OPVC x)"
  "kind_of k = KStorageClass \<longleftrightarrow> (\<exists>x. k = OStorageClass x)"
  "kind_of k = KJob \<longleftrightarrow> (\<exists>x. k = OJob x)"
  "kind_of k = KServiceAccount \<longleftrightarrow> (\<exists>x. k = OServiceAccount x)"
  "kind_of k = KRole \<longleftrightarrow> (\<exists>x. k = ORole x)"
  "kind_of k = KRoleBinding \<longleftrightarrow> (\<exists>x. k = ORoleBinding x)"
  "kind_of k = KNamespace \<longleftrightarrow> (\<exists>x. k = ONamespace x)"
  "kind_of k = KRoute \<longleftrightarrow> (\<exists>x. k = ORoute x)"
  "kind_of k = KIngress \<longleftrightarrow> (\<exists>x. k = OIngress x)"
  by (cases k; simp)+

interpretation ConfigMap: codec_laws cConfigMap
  by unfold_locales (auto simp: cConfigMap_def kind_exhaust split: kobj.splits)
interpretation Secret: codec_laws cSecret
  by unfold_locales (auto simp: cSecret_def kind_exhaust split: kobj.splits)
interpretation Service: codec_laws cService
  by unfold_locales (auto simp: cService_def kind_exhaust split: kobj.splits)
interpretation StatefulSet: codec_laws cStatefulSet
  by unfold_locales (auto simp: cStatefulSet_def kind_exhaust split: kobj.splits)
interpretation Deployment: codec_laws cDeployment
  by unfold_locales (auto simp: cDeployment_def kind_exhaust split: kobj.splits)
interpretation Pod: codec_laws cPod
  by unfold_locales (auto simp: cPod_def kind_exhaust split: kobj.splits)
interpretation PVC: codec_laws cPVC
  by unfold_locales (auto simp: cPVC_def kind_exhaust split: kobj.splits)
interpretation StorageClass: codec_laws cStorageClass
  by unfold_locales (auto simp: cStorageClass_def kind_exhaust split: kobj.splits)
interpretation Job: codec_laws cJob
  by unfold_locales (auto simp: cJob_def kind_exhaust split: kobj.splits)
interpretation ServiceAccount: codec_laws cServiceAccount
  by unfold_locales (auto simp: cServiceAccount_def kind_exhaust split: kobj.splits)
interpretation Role: codec_laws cRole
  by unfold_locales (auto simp: cRole_def kind_exhaust split: kobj.splits)
interpretation RoleBinding: codec_laws cRoleBinding
  by unfold_locales (auto simp: cRoleBinding_def kind_exhaust split: kobj.splits)
interpretation Namespace: codec_laws cNamespace
  by unfold_locales (auto simp: cNamespace_def kind_exhaust split: kobj.splits)
interpretation Route: codec_laws cRoute
  by unfold_locales (auto simp: cRoute_def kind_exhaust split: kobj.splits)
interpretation Ingress: codec_laws cIngress
  by unfold_locales (auto simp: cIngress_def kind_exhaust split: kobj.splits)

section \<open>The helpers of the client package\<close>

definition decode_error :: api_error where
  "decode_error = ServerError ''unable to decode the object''"

text \<open>
  The three results of \<open>Get\<close>: whether the object exists, the error, and what the call stored in
  the object it was given (nothing, when the object is missing or the call failed).
\<close>

definition Get :: "'w kctx \<Rightarrow> 'o codec \<Rightarrow> string \<Rightarrow> ('w st, bool \<times> api_error option \<times> 'o option) prog" where
  "Get r C name = bnd (sysc (s_get (k_sys r) (c_kind C) (k_ns r) name)) (\<lambda>res. ret (case res of
       Inl e \<Rightarrow> if IsNotFound e then (False, None, None) else (True, Some e, None)
     | Inr k \<Rightarrow> (case c_dec C k of None \<Rightarrow> (True, Some decode_error, None) | Some x \<Rightarrow> (True, None, Some x))))"

text \<open>\<open>GetOrDie\<close> returns whether the object exists; here the object itself when it does.\<close>

definition GetOrDie :: "'w kctx \<Rightarrow> 'o codec \<Rightarrow> string \<Rightarrow> ('w st, 'o option) prog" where
  "GetOrDie r C name = bnd (Get r C name) (\<lambda>(exist, err, obj).
     case err of Some e \<Rightarrow> panic (err_Error e) | None \<Rightarrow> ret (if exist then obj else None))"

definition decode_all :: "'o codec \<Rightarrow> kobj list \<Rightarrow> api_error + 'o list" where
  "decode_all C ks = (case those (map (c_dec C) ks) of None \<Rightarrow> Inl decode_error | Some xs \<Rightarrow> Inr xs)"

definition ListSel :: "'w kctx \<Rightarrow> 'o codec \<Rightarrow> gomap \<Rightarrow> ('w st, api_error + 'o list) prog" where
  "ListSel r C sel = bnd (sysc (s_list (k_sys r) (c_kind C) (k_ns r) sel)) (\<lambda>res. ret (case res of
       Inl e \<Rightarrow> Inl e | Inr ks \<Rightarrow> decode_all C ks))"

definition ListAll :: "'w kctx \<Rightarrow> 'o codec \<Rightarrow> ('w st, api_error + 'o list) prog" where
  "ListAll r C = ListSel r C None"

definition ListOrDie :: "'w kctx \<Rightarrow> 'o codec \<Rightarrow> ('w st, 'o list) prog" where
  "ListOrDie r C = bnd (ListAll r C) (\<lambda>res. case res of Inl e \<Rightarrow> panic (err_Error e) | Inr xs \<Rightarrow> ret xs)"

definition MkMeta :: "'w kctx \<Rightarrow> string \<Rightarrow> object_meta" where
  "MkMeta r name = mk_meta name (k_ns r)"

text \<open>
  \<open>r.Client.Create\<close> and \<open>r.Client.Update\<close>: the server's answer is decoded into the object that
  was given.
\<close>

definition client_Create :: "'w kctx \<Rightarrow> bool \<Rightarrow> 'o codec \<Rightarrow> 'o \<Rightarrow> ('w st, api_error + 'o) prog" where
  "client_Create r dry C x = bnd (sysc (s_create (k_sys r) dry (c_enc C x))) (\<lambda>res. ret (case res of
       Inl e \<Rightarrow> Inl e | Inr k \<Rightarrow> (case c_dec C k of None \<Rightarrow> Inl decode_error | Some y \<Rightarrow> Inr y)))"

definition client_Update :: "'w kctx \<Rightarrow> bool \<Rightarrow> 'o codec \<Rightarrow> 'o \<Rightarrow> ('w st, api_error + 'o) prog" where
  "client_Update r dry C x = bnd (sysc (s_update (k_sys r) dry (c_enc C x))) (\<lambda>res. ret (case res of
       Inl e \<Rightarrow> Inl e | Inr k \<Rightarrow> (case c_dec C k of None \<Rightarrow> Inl decode_error | Some y \<Rightarrow> Inr y)))"

definition client_Delete :: "'w kctx \<Rightarrow> bool \<Rightarrow> 'o codec \<Rightarrow> object_meta \<Rightarrow> ('w st, api_error option) prog" where
  "client_Delete r dry C m = sysc (s_delete (k_sys r) dry (c_kind C) (om_namespace m) (om_name m))"

section \<open>The context's operations\<close>

definition DeleteOrDie :: "'w kctx \<Rightarrow> 'o codec \<Rightarrow> object_meta \<Rightarrow> ('w st, bool) prog" where
  "DeleteOrDie r C m = bnd (client_Delete r False C m) (\<lambda>err. case err of
       None \<Rightarrow> ret True
     | Some e \<Rightarrow> if IsNotFound e then ret False else exit_with 1)"

definition UpdateROrDie :: "'w kctx \<Rightarrow> 'o codec \<Rightarrow> 'o \<Rightarrow> ('w st, 'o) prog" where
  "UpdateROrDie r C x = bnd (client_Update r False C x) (\<lambda>res. case res of Inl e \<Rightarrow> exit_with 1 | Inr y \<Rightarrow> ret y)"

definition CreateROrDie :: "'w kctx \<Rightarrow> 'o codec \<Rightarrow> 'o \<Rightarrow> ('w st, 'o) prog" where
  "CreateROrDie r C x =
     (let obj = c_mapMeta C (om_namespace_update (\<lambda>_. k_ns r)) x in
      bnd (client_Create r False C obj) (\<lambda>res. case res of Inl e \<Rightarrow> exit_with 1 | Inr y \<Rightarrow> ret y))"

definition DeleteAllOfOrDie :: "'w kctx \<Rightarrow> kind \<Rightarrow> gomap \<Rightarrow> ('w st, unit) prog" where
  "DeleteAllOfOrDie r k sel = bnd (sysc (s_deleteAllOf (k_sys r) k (k_ns r) sel)) (\<lambda>err. case err of
       None \<Rightarrow> ret () | Some e \<Rightarrow> exit_with 1)"

definition EnsureNamespaceOrDie :: "'w kctx \<Rightarrow> string \<Rightarrow> ('w st, unit) prog" where
  "EnsureNamespaceOrDie r name = bnd (sysc (s_get (k_sys r) KNamespace [] name)) (\<lambda>res. case res of
       Inr k \<Rightarrow> ret ()
     | Inl e \<Rightarrow> if IsNotFound e
         then bnd (CreateROrDie r cNamespace \<lparr>nm_meta = mk_meta name []\<rparr>) (\<lambda>_. ret ())
         else exit_with 1)"

definition EnsureServiceAccountOrDie :: "'w kctx \<Rightarrow> string \<Rightarrow> ('w st, unit) prog" where
  "EnsureServiceAccountOrDie r name = bnd (GetOrDie r cServiceAccount name) (\<lambda>found. case found of
       Some sa \<Rightarrow> ret ()
     | None \<Rightarrow> bnd (CreateROrDie r cServiceAccount \<lparr>sa_meta = mk_meta name []\<rparr>) (\<lambda>_. ret ()))"

text \<open>
  The wait of \<open>ScaleDownSTSAndWait\<close>: ten polls, five seconds apart; the loop ends early when no
  pod is left and returns when listing fails. A nil label selector matches no pod.
\<close>

definition scale_poll :: "'w kctx \<Rightarrow> gomap option \<Rightarrow> ('w st, api_error option option) prog" where
  "scale_poll r sel = bnd (ListSel r cPod (case sel of None \<Rightarrow> None | Some m \<Rightarrow> m)) (\<lambda>res. case res of
       Inl e \<Rightarrow> ret (Some (Some e))
     | Inr pods \<Rightarrow> if sel = None \<or> pods = [] then ret (Some None)
         else bnd (sysc (s_sleep (k_sys r) (5 * 1000000000))) (\<lambda>_. ret None))"

definition ScaleDownSTSAndWait :: "'w kctx \<Rightarrow> string \<Rightarrow> ('w st, api_error option) prog" where
  "ScaleDownSTSAndWait r name = bnd (sysc (s_get (k_sys r) KStatefulSet (k_ns r) name)) (\<lambda>res. case res of
       Inl e \<Rightarrow> ret (if IsNotFound e then None else Some e)
     | Inr k \<Rightarrow> (case c_dec cStatefulSet k of
         None \<Rightarrow> ret (Some decode_error)
       | Some sts \<Rightarrow>
           bnd (if ss_replicas sts = None \<or> ss_replicas sts \<noteq> Some 0
                then client_Update r False cStatefulSet (sts\<lparr>ss_replicas := Some 0\<rparr>)
                else ret (Inr sts)) (\<lambda>upd. case upd of
             Inl e \<Rightarrow> ret (Some e)
           | Inr sts' \<Rightarrow> bnd (for_range 10 (scale_poll r (ss_selector sts')))
               (\<lambda>out. ret (case out of Some (Some e) \<Rightarrow> Some e | _ \<Rightarrow> None)))))"

section \<open>What the calls may change\<close>

text \<open>Between the two states only the objects at the addresses of \<open>X\<close> may differ.\<close>

definition touches :: "('w \<Rightarrow> kref \<Rightarrow> kobj option) \<Rightarrow> kref set \<Rightarrow> 'w st \<Rightarrow> 'w st \<Rightarrow> bool" where
  "touches store X s t \<longleftrightarrow> (\<forall>x. x \<notin> X \<longrightarrow> store (st_world t) x = store (st_world s) x)"

lemma touches_empty: "touches store {} s t \<longleftrightarrow> store (st_world t) = store (st_world s)"
  by (auto simp: touches_def)

lemma touches_mono: "touches store X s t \<Longrightarrow> X \<subseteq> Y \<Longrightarrow> touches store Y s t"
  by (auto simp: touches_def)

interpretation touch: effect_bound "touches store X" for store X
  by unfold_locales (auto simp: touches_def)

lemma within_sysc:
  assumes "\<And>w a w'. f w = (a, w') \<Longrightarrow> \<forall>x. x \<notin> X \<longrightarrow> store w' x = store w x"
  shows "within (touches store X) (sysc f)"
  using assms by (auto simp: within_def sysc_def touches_def split: prod.split)

locale kube_client = kube_observed "k_sys r" store
  for r :: "'w kctx" and store :: "'w \<Rightarrow> kref \<Rightarrow> kobj option"
begin

lemma sysc_get: "within (touches store X) (sysc (s_get (k_sys r) k ns n))"
  and sysc_list: "within (touches store X) (sysc (s_list (k_sys r) k ns sel))"
  and sysc_now: "within (touches store X) (sysc (s_now (k_sys r)))"
  and sysc_uuid: "within (touches store X) (sysc (s_uuid (k_sys r)))"
  and sysc_rsa: "within (touches store X) (sysc (s_rsaKeyPair (k_sys r) bits))"
  by (rule within_sysc; auto dest: get_frame list_frame now_frame uuid_frame rsa_frame)+

lemma get_touches: "within (touches store X) (Get r C n)"
  unfolding Get_def by (intro touch.within_rules sysc_get)

lemma getOrDie_touches: "within (touches store X) (GetOrDie r C n)"
  unfolding GetOrDie_def by (intro touch.within_rules get_touches)

lemma stored_typed:
  assumes "codec_laws C" and "store w (kref_of (c_kind C) ns n) = Some k"
  shows "\<exists>x. k = c_enc C x \<and> oref (c_enc C x) = kref_of (c_kind C) ns n"
proof -
  have "oref k = kref_of (c_kind C) ns n"
    using assms(2) store_typed [of w] unfolding kref_of_def by metis
  moreover from this have "kind_of k = c_kind C"
    by (simp add: oref_def kref_of_def)
  then obtain x where "c_dec C k = Some x"
    using codec_laws.dec_kind [OF assms(1)] by blast
  ultimately show ?thesis
    using codec_laws.dec_iff [OF assms(1)] by auto
qed

lemma getOrDie_Some:
  assumes "codec_laws C" and "GetOrDie r C n s = (Ok (Some x), t)"
  shows "store (st_world s) (kref_of (c_kind C) (k_ns r) n) = Some (c_enc C x) \<and>
    oref (c_enc C x) = kref_of (c_kind C) (k_ns r) n"
proof -
  obtain k where k: "fst (s_get (k_sys r) (c_kind C) (k_ns r) n (st_world s)) = Inr k" "c_dec C k = Some x"
    using assms(2) by (auto simp: GetOrDie_def Get_def bnd_def sysc_def ret_def panic_def
        split: prod.splits sum.splits option.splits if_splits)
  then have "store (st_world s) (kref_of (c_kind C) (k_ns r) n) = Some (c_enc C x)"
    using get_sound [of "c_kind C" "k_ns r" n "st_world s" k] codec_laws.dec_iff [OF assms(1)]
    by (metis prod.collapse)
  with stored_typed [OF assms(1) this] show ?thesis by auto
qed

text \<open>A lookup followed by what is done in the two cases.\<close>

lemma lookup_touches:
  assumes "codec_laws C" and "within (touches store X) (f None)"
    and "\<And>x. oref (c_enc C x) = kref_of (c_kind C) (k_ns r) n \<Longrightarrow> within (touches store X) (f (Some x))"
  shows "within (touches store X) (bnd (GetOrDie r C n) f)"
proof (rule touch.within_bnd_post [OF getOrDie_touches])
  fix s x t assume "GetOrDie r C n s = (Ok x, t)"
  then show "within (touches store X) (f x)"
    using assms getOrDie_Some [OF assms(1)] by (cases x) auto
qed

lemma listSel_touches: "within (touches store X) (ListSel r C sel)"
  unfolding ListSel_def by (intro touch.within_rules sysc_list)

lemma listAll_touches: "within (touches store X) (ListAll r C)"
  unfolding ListAll_def by (rule listSel_touches)

lemma listOrDie_touches: "within (touches store X) (ListOrDie r C)"
  unfolding ListOrDie_def by (intro touch.within_rules listAll_touches)

lemma create_touches:
  "dry \<or> oref (c_enc C x) \<in> X \<Longrightarrow> within (touches store X) (client_Create r dry C x)"
  unfolding client_Create_def
  by (intro touch.within_rules within_sysc) (cases dry; (force dest: create_dry | (clarify, rule create_local, auto)))

lemma update_touches:
  "dry \<or> oref (c_enc C x) \<in> X \<Longrightarrow> within (touches store X) (client_Update r dry C x)"
  unfolding client_Update_def
  by (intro touch.within_rules within_sysc) (cases dry; (force dest: update_dry | (clarify, rule update_local, auto)))

lemma delete_touches:
  "dry \<or> kref_of (c_kind C) (om_namespace m) (om_name m) \<in> X \<Longrightarrow>
     within (touches store X) (client_Delete r dry C m)"
  unfolding client_Delete_def
  by (intro touch.within_rules within_sysc) (cases dry; (force dest: delete_dry | (clarify, rule delete_local, auto)))

lemmas call_touches = get_touches getOrDie_touches listSel_touches listAll_touches listOrDie_touches
  sysc_get sysc_list sysc_now sysc_uuid sysc_rsa

end

interpretation mem_client: kube_client "r\<lparr>k_sys := mem_sys\<rparr>" mem_store for r
  by (simp add: kube_client_def mem.kube_observed_axioms)

text \<open>
  On a healthy server a lookup returns the object that is there; here for a typed object whose
  name resolves to the context's namespace.
\<close>

lemma codec_meta_simps [simp]:
  "c_meta cConfigMap = cm_meta" "c_meta cSecret = se_meta" "c_meta cService = sv_meta" "c_meta cStatefulSet = ss_meta"
  "c_meta cDeployment = de_meta" "c_meta cPVC = pv_meta" "c_meta cJob = jo_meta" "c_meta cServiceAccount = sa_meta"
  "c_meta cRole = ro_meta" "c_meta cRoleBinding = rb_meta" "c_meta cNamespace = nm_meta" "c_meta cRoute = rt_meta"
  "c_meta cIngress = ig_meta"
  by (simp_all add: codec_defs)

lemma codec_axioms:
  "codec_laws cConfigMap" "codec_laws cSecret" "codec_laws cService" "codec_laws cStatefulSet"
  "codec_laws cDeployment" "codec_laws cPod" "codec_laws cPVC" "codec_laws cStorageClass"
  "codec_laws cJob" "codec_laws cServiceAccount" "codec_laws cRole" "codec_laws cRoleBinding"
  "codec_laws cNamespace" "codec_laws cRoute" "codec_laws cIngress"
  by unfold_locales

lemma codec_kind_simps [simp]:
  "c_kind cConfigMap = KConfigMap" "c_kind cSecret = KSecret" "c_kind cService = KService"
  "c_kind cStatefulSet = KStatefulSet" "c_kind cDeployment = KDeployment" "c_kind cPod = KPod"
  "c_kind cPVC = KPVC" "c_kind cStorageClass = KStorageClass" "c_kind cJob = KJob"
  "c_kind cServiceAccount = KServiceAccount" "c_kind cRole = KRole" "c_kind cRoleBinding = KRoleBinding"
  "c_kind cNamespace = KNamespace" "c_kind cRoute = KRoute" "c_kind cIngress = KIngress"
  by (simp_all add: codec_defs)

locale healthy_client = kube_client r store + kube_healthy "k_sys r" store
  for r :: "'w kctx" and store :: "'w \<Rightarrow> kref \<Rightarrow> kobj option"
begin

lemma getOrDie_present:
  assumes "codec_laws C" and "store (st_world s) (kref_of (c_kind C) (k_ns r) n) = Some (c_enc C x)"
  shows "\<exists>w. GetOrDie r C n s = (Ok (Some x), s\<lparr>st_world := w\<rparr>) \<and> store w = store (st_world s)"
  using get_found [OF assms(2)] get_frame [of "c_kind C" "k_ns r" n "st_world s"]
  by (cases "s_get (k_sys r) (c_kind C) (k_ns r) n (st_world s)")
    (auto simp: GetOrDie_def Get_def bnd_def sysc_def ret_def codec_laws.dec_enc [OF assms(1)])

lemma getOrDie_absent:
  assumes "store (st_world s) (kref_of (c_kind C) (k_ns r) n) = None"
  shows "\<exists>w. GetOrDie r C n s = (Ok None, s\<lparr>st_world := w\<rparr>) \<and> store w = store (st_world s)"
  using get_absent [OF assms] get_frame [of "c_kind C" "k_ns r" n "st_world s"]
  by (cases "s_get (k_sys r) (c_kind C) (k_ns r) n (st_world s)")
    (auto simp: GetOrDie_def Get_def bnd_def sysc_def ret_def)

end

section \<open>Programs that only look\<close>

text \<open>
  \<open>looks store m h\<close>: \<open>m\<close> always returns, its result \<open>h\<close> depends on the objects of the cluster alone, and
  it changes none of them.
\<close>

definition looks :: "('w \<Rightarrow> kref \<Rightarrow> kobj option) \<Rightarrow> ('w st, 'a) prog \<Rightarrow> ((kref \<Rightarrow> kobj option) \<Rightarrow> 'a) \<Rightarrow> bool" where
  "looks store m h \<longleftrightarrow> (\<forall>s. \<exists>w. m s = (Ok (h (store (st_world s))), s\<lparr>st_world := w\<rparr>) \<and> store w = store (st_world s))"

lemma looksD: "looks store m h \<Longrightarrow> \<exists>w. m s = (Ok (h (store (st_world s))), s\<lparr>st_world := w\<rparr>) \<and> store w = store (st_world s)"
  by (auto simp: looks_def)

lemma looks_ret: "looks store (ret x) (\<lambda>_. x)"
  unfolding looks_def
proof
  fix s :: "'a st"
  show "\<exists>w. ret x s = (Ok x, s\<lparr>st_world := w\<rparr>) \<and> store w = store (st_world s)"
    by (rule exI [of _ "st_world s"]) simp
qed

lemma looks_bnd:
  assumes "looks store m h" and "\<And>x. looks store (f x) (g x)"
  shows "looks store (bnd m f) (\<lambda>sto. g (h sto) sto)"
  unfolding looks_def
proof
  fix s
  obtain w where w: "m s = (Ok (h (store (st_world s))), s\<lparr>st_world := w\<rparr>)" "store w = store (st_world s)"
    using looksD [OF assms(1), of s] by auto
  obtain w' where "f (h (store (st_world s))) (s\<lparr>st_world := w\<rparr>) =
      (Ok (g (h (store (st_world s))) (store w)), s\<lparr>st_world := w'\<rparr>)" "store w' = store w"
    using looksD [OF assms(2), of "h (store (st_world s))" "s\<lparr>st_world := w\<rparr>"] by auto
  with w show "\<exists>w. bnd m f s = (Ok (g (h (store (st_world s))) (store (st_world s))), s\<lparr>st_world := w\<rparr>) \<and>
      store w = store (st_world s)"
    by (intro exI [of _ w']) (simp add: bnd_def)
qed

fun first_Some :: "('a \<Rightarrow> 'b option) \<Rightarrow> 'a list \<Rightarrow> 'b option" where
  "first_Some f [] = None"
| "first_Some f (x # xs) = (case f x of None \<Rightarrow> first_Some f xs | Some y \<Rightarrow> Some y)"

lemma first_Some_None: "first_Some f xs = None \<longleftrightarrow> (\<forall>x\<in>set xs. f x = None)"
  by (induction xs) (auto split: option.split)

lemma looks_option: "looks store m h \<Longrightarrow> (\<And>y. looks store (f y) (g y)) \<Longrightarrow>
    looks store (case x of None \<Rightarrow> m | Some y \<Rightarrow> f y) (case x of None \<Rightarrow> h | Some y \<Rightarrow> g y)"
  by (cases x) simp_all

lemma looks_if: "looks store m h \<Longrightarrow> looks store n g \<Longrightarrow> looks store (if b then m else n) (if b then h else g)"
  by simp

lemma looks_cong: "looks store m h \<Longrightarrow> (\<And>sto. h sto = h' sto) \<Longrightarrow> looks store m h'"
  by (simp add: looks_def)

lemma looks_for_return:
  "(\<And>x. looks store (f x) (g x)) \<Longrightarrow> looks store (for_return f xs) (\<lambda>sto. first_Some (\<lambda>x. g x sto) xs)"
proof (induction xs)
  case Nil
  show ?case unfolding for_return.simps first_Some.simps by (rule looks_ret)
next
  case (Cons x xs)
  show ?case unfolding for_return.simps
  proof (rule looks_cong [OF looks_bnd [OF Cons.prems [of x]]])
    show "looks store (case y of None \<Rightarrow> for_return f xs | Some v \<Rightarrow> ret (Some v))
        (case y of None \<Rightarrow> \<lambda>sto. first_Some (\<lambda>x. g x sto) xs | Some v \<Rightarrow> \<lambda>_. Some v)" for y
      by (rule looks_option [OF Cons.IH [OF Cons.prems] looks_ret])
  qed (simp split: option.split)
qed

definition typed :: "'o codec \<Rightarrow> kobj option \<Rightarrow> 'o option" where
  "typed C k = (case k of None \<Rightarrow> None | Some ob \<Rightarrow> c_dec C ob)"

context healthy_client
begin

lemma getOrDie_looks:
  assumes "codec_laws C"
  shows "looks store (GetOrDie r C n) (\<lambda>sto. typed C (sto (kref_of (c_kind C) (k_ns r) n)))"
  unfolding looks_def
proof
  fix s
  show "\<exists>w. GetOrDie r C n s = (Ok (typed C (store (st_world s) (kref_of (c_kind C) (k_ns r) n))), s\<lparr>st_world := w\<rparr>) \<and>
      store w = store (st_world s)"
  proof (cases "store (st_world s) (kref_of (c_kind C) (k_ns r) n)")
    case None
    with getOrDie_absent [of s C n] show ?thesis by (simp add: typed_def)
  next
    case (Some k)
    then obtain x where "k = c_enc C x" using stored_typed [OF assms] by blast
    with Some getOrDie_present [OF assms, of s n x] codec_laws.dec_enc [OF assms] show ?thesis
      by (simp add: typed_def)
  qed
qed

end

end
