(* ===== verification/Api_Types.thy ===== *)
theory Api_Types
  imports Kube
begin

text \<open>
  The custom resource: the structs of \<open>api/v1/softwarefactory_types.go\<close>, one record per struct with
  the fields of the struct, and the zero value Go gives to a struct that is left out. The integer
  fields (\<open>uint8\<close> to \<open>int64\<close>) are only compared and printed, so they are unbounded here; a pointer
  is an \<open>option\<close>.
\<close>

record FluentBitForwarderSpec =
  fb_Debug :: "bool option"
  fb_ForwardInputHost :: string
  fb_ForwardInputPort :: int

definition zero_FluentBitForwarderSpec :: FluentBitForwarderSpec where
  "zero_FluentBitForwarderSpec = \<lparr>
     fb_Debug = None, fb_ForwardInputHost = [], fb_ForwardInputPort = 0\<rparr>"

record StorageSpec =
  sto_Size :: quantity
  sto_ClassName :: string

definition zero_StorageSpec :: StorageSpec where
  "zero_StorageSpec = \<lparr>
     sto_Size = qty_zero, sto_ClassName = []\<rparr>"

record StorageDefaultSpec =
  sd_ClassName :: string
  sd_ExtraAnnotations :: gomap

definition zero_StorageDefaultSpec :: StorageDefaultSpec where
  "zero_StorageDefaultSpec = \<lparr>
     sd_ClassName = [], sd_ExtraAnnotations = None\<rparr>"

record ConfigRepositoryLocationSpec =
  crl_Name :: string
  crl_Branch :: string
  crl_ZuulConnectionName :: string
  crl_ClusterAPIURL :: string
  crl_LogserverHost :: string

definition zero_ConfigRepositoryLocationSpec :: ConfigRepositoryLocationSpec where
  "zero_ConfigRepositoryLocationSpec = \<lparr>
     crl_Name = [], crl_Branch = [], crl_ZuulConnectionName = [], crl_ClusterAPIURL = [],
     crl_LogserverHost = []\<rparr>"

record GitLabConnection =
  gl_Name :: string
  gl_Server :: string
  gl_CanonicalHostname :: string
  gl_BaseURL :: string
  gl_Secrets :: string
  gl_CloneURL :: string
  gl_KeepAlive :: int
  gl_DisableConnectionPool :: bool

definition zero_GitLabConnection :: GitLabConnection where
  "zero_GitLabConnection = \<lparr>
     gl_Name = [], gl_Server = [], gl_CanonicalHostname = [], gl_BaseURL = [], gl_Secrets = [],
     gl_CloneURL = [], gl_KeepAlive = 0, gl_DisableConnectionPool = False\<rparr>"

record GitHubConnection =
  gh_Name :: string
  gh_AppID :: int
  gh_Secrets :: string
  gh_Server :: string
  gh_Canonicalhostname :: string
  gh_VerifySSL :: bool

definition zero_GitHubConnection :: GitHubConnection where
  "zero_GitHubConnection = \<lparr>
     gh_Name = [], gh_AppID = 0, gh_Secrets = [], gh_Server = [], gh_Canonicalhostname = [],
     gh_VerifySSL = False\<rparr>"

record GerritConnection =
  ge_Name :: string
  ge_Hostname :: string
  ge_Port :: int
  ge_Puburl :: string
  ge_Username :: string
  ge_Canonicalhostname :: string
  ge_Password :: string
  ge_Sshkey :: string
  ge_GitOverSSH :: bool
  ge_VerifySSL :: "bool option"
  ge_StreamEvents :: "bool option"

definition zero_GerritConnection :: GerritConnection where
  "zero_GerritConnection = \<lparr>
     ge_Name = [], ge_Hostname = [], ge_Port = 0, ge_Puburl = [], ge_Username = [],
     ge_Canonicalhostname = [], ge_Password = [], ge_Sshkey = [], ge_GitOverSSH = False,
     ge_VerifySSL = None, ge_StreamEvents = None\<rparr>"

record PagureConnection =
  pg_Name :: string
  pg_Server :: string
  pg_CanonicalHostname :: string
  pg_BaseURL :: string
  pg_Secrets :: string
  pg_AppName :: string
  pg_CloneURL :: string
  pg_SourceWhitelist :: string

definition zero_PagureConnection :: PagureConnection where
  "zero_PagureConnection = \<lparr>
     pg_Name = [], pg_Server = [], pg_CanonicalHostname = [], pg_BaseURL = [], pg_Secrets = [],
     pg_AppName = [], pg_CloneURL = [], pg_SourceWhitelist = []\<rparr>"

record GitConnection =
  gi_Name :: string
  gi_Baseurl :: string
  gi_PollDelay :: int

definition zero_GitConnection :: GitConnection where
  "zero_GitConnection = \<lparr>
     gi_Name = [], gi_Baseurl = [], gi_PollDelay = 0\<rparr>"

record SMTPConnection =
  sm_Name :: string
  sm_Server :: string
  sm_Port :: int
  sm_DefaultFrom :: string
  sm_DefaultTo :: string
  sm_User :: string
  sm_Password :: string
  sm_TLS :: "bool option"
  sm_Secrets :: "string option"

definition zero_SMTPConnection :: SMTPConnection where
  "zero_SMTPConnection = \<lparr>
     sm_Name = [], sm_Server = [], sm_Port = 0, sm_DefaultFrom = [], sm_DefaultTo = [],
     sm_User = [], sm_Password = [], sm_TLS = None, sm_Secrets = None\<rparr>"

record ElasticSearchConnection =
  es_Name :: string
  es_URI :: string
  es_UseSSL :: "bool option"
  es_VerifyCerts :: "bool option"
  es_BasicAuthSecret :: "string option"

definition zero_ElasticSearchConnection :: ElasticSearchConnection where
  "zero_ElasticSearchConnection = \<lparr>
     es_Name = [], es_URI = [], es_UseSSL = None, es_VerifyCerts = None, es_BasicAuthSecret = None\<rparr>"

record ZuulOIDCAuthenticatorSpec =
  oi_Name :: string
  oi_Realm :: string
  oi_ClientID :: string
  oi_IssuerID :: string
  oi_UIDClaim :: string
  oi_MaxValidityTime :: int
  oi_Skew :: int
  oi_KeysURL :: string
  oi_Scope :: string
  oi_Authority :: string
  oi_Audience :: string
  oi_LoadUserInfo :: bool

definition zero_ZuulOIDCAuthenticatorSpec :: ZuulOIDCAuthenticatorSpec where
  "zero_ZuulOIDCAuthenticatorSpec = \<lparr>
     oi_Name = [], oi_Realm = [], oi_ClientID = [], oi_IssuerID = [], oi_UIDClaim = [],
     oi_MaxValidityTime = 0, oi_Skew = 0, oi_KeysURL = [], oi_Scope = [], oi_Authority = [],
     oi_Audience = [], oi_LoadUserInfo = False\<rparr>"

record LimitsSpec =
  li_Memory :: quantity
  li_CPU :: quantity

definition zero_LimitsSpec :: LimitsSpec where
  "zero_LimitsSpec = \<lparr>
     li_Memory = qty_zero, li_CPU = qty_zero\<rparr>"

record StandaloneZuulExecutorSpec =
  sx_ControlPlanePublicZKHostname :: string
  sx_ControlPlanePublicZKHostnames :: "string list option"
  sx_ControlPlanePublicGSHostname :: string
  sx_PublicHostName :: string
  sx_Zone :: string

definition zero_StandaloneZuulExecutorSpec :: StandaloneZuulExecutorSpec where
  "zero_StandaloneZuulExecutorSpec = \<lparr>
     sx_ControlPlanePublicZKHostname = [], sx_ControlPlanePublicZKHostnames = None,
     sx_ControlPlanePublicGSHostname = [], sx_PublicHostName = [], sx_Zone = []\<rparr>"

record ZuulExecutorSpec =
  zx_Storage :: StorageSpec
  zx_LogLevel :: string
  zx_Enabled :: "bool option"
  zx_Standalone :: "StandaloneZuulExecutorSpec option"
  zx_Limits :: "LimitsSpec option"
  zx_DiskLimitPerJob :: int
  zx_AnsibleSetupTimeout :: int
  zx_TerminationGracePeriodSeconds :: int

definition zero_ZuulExecutorSpec :: ZuulExecutorSpec where
  "zero_ZuulExecutorSpec = \<lparr>
     zx_Storage = zero_StorageSpec, zx_LogLevel = [], zx_Enabled = None, zx_Standalone = None,
     zx_Limits = None, zx_DiskLimitPerJob = 0, zx_AnsibleSetupTimeout = 0,
     zx_TerminationGracePeriodSeconds = 0\<rparr>"

record ZuulWebSpec =
  zw_LogLevel :: string
  zw_Limits :: "LimitsSpec option"

definition zero_ZuulWebSpec :: ZuulWebSpec where
  "zero_ZuulWebSpec = \<lparr>
     zw_LogLevel = [], zw_Limits = None\<rparr>"

record ZuulSchedulerSpec =
  zs_Storage :: StorageSpec
  zs_StatsdTarget :: string
  zs_LogLevel :: string
  zs_Limits :: "LimitsSpec option"
  zs_DefaultHoldExpiration :: "int option"
  zs_MaxHoldExpiration :: "int option"

definition zero_ZuulSchedulerSpec :: ZuulSchedulerSpec where
  "zero_ZuulSchedulerSpec = \<lparr>
     zs_Storage = zero_StorageSpec, zs_StatsdTarget = [], zs_LogLevel = [], zs_Limits = None,
     zs_DefaultHoldExpiration = None, zs_MaxHoldExpiration = None\<rparr>"

record ZuulMergerSpec =
  zm_GitUserName :: string
  zm_GitUserEmail :: string
  zm_GitHTTPLowSpeedLimit :: int
  zm_GitHTTPLowSpeedTime :: int
  zm_GitTimeout :: int
  zm_Storage :: StorageSpec
  zm_LogLevel :: string
  zm_Limits :: "LimitsSpec option"

definition zero_ZuulMergerSpec :: ZuulMergerSpec where
  "zero_ZuulMergerSpec = \<lparr>
     zm_GitUserName = [], zm_GitUserEmail = [], zm_GitHTTPLowSpeedLimit = 0,
     zm_GitHTTPLowSpeedTime = 0, zm_GitTimeout = 0, zm_Storage = zero_StorageSpec,
     zm_LogLevel = [], zm_Limits = None\<rparr>"

record ZuulSpec =
  zu_OIDCAuthenticators :: "ZuulOIDCAuthenticatorSpec list"
  zu_DefaultAuthenticator :: string
  zu_GerritConns :: "GerritConnection list"
  zu_GitHubConns :: "GitHubConnection list"
  zu_GitLabConns :: "GitLabConnection list"
  zu_GitConns :: "GitConnection list"
  zu_PagureConns :: "PagureConnection list"
  zu_ElasticSearchConns :: "ElasticSearchConnection list"
  zu_SMTPConns :: "SMTPConnection list"
  zu_Executor :: ZuulExecutorSpec
  zu_Scheduler :: ZuulSchedulerSpec
  zu_Web :: ZuulWebSpec
  zu_Merger :: ZuulMergerSpec

definition zero_ZuulSpec :: ZuulSpec where
  "zero_ZuulSpec = \<lparr>
     zu_OIDCAuthenticators = [], zu_DefaultAuthenticator = [], zu_GerritConns = [],
     zu_GitHubConns = [], zu_GitLabConns = [], zu_GitConns = [], zu_PagureConns = [],
     zu_ElasticSearchConns = [], zu_SMTPConns = [], zu_Executor = zero_ZuulExecutorSpec,
     zu_Scheduler = zero_ZuulSchedulerSpec, zu_Web = zero_ZuulWebSpec,
     zu_Merger = zero_ZuulMergerSpec\<rparr>"

record NodepoolLauncherSpec =
  nl_LogLevel :: string
  nl_Limits :: "LimitsSpec option"

definition zero_NodepoolLauncherSpec :: NodepoolLauncherSpec where
  "zero_NodepoolLauncherSpec = \<lparr>
     nl_LogLevel = [], nl_Limits = None\<rparr>"

record NodepoolBuilderSpec =
  nb_Storage :: StorageSpec
  nb_LogLevel :: string
  nb_Limits :: "LimitsSpec option"

definition zero_NodepoolBuilderSpec :: NodepoolBuilderSpec where
  "zero_NodepoolBuilderSpec = \<lparr>
     nb_Storage = zero_StorageSpec, nb_LogLevel = [], nb_Limits = None\<rparr>"

record NodepoolSpec =
  np_Launcher :: NodepoolLauncherSpec
  np_Builder :: NodepoolBuilderSpec
  np_StatsdTarget :: string

definition zero_NodepoolSpec :: NodepoolSpec where
  "zero_NodepoolSpec = \<lparr>
     np_Launcher = zero_NodepoolLauncherSpec, np_Builder = zero_NodepoolBuilderSpec,
     np_StatsdTarget = []\<rparr>"

record ZookeeperSpec =
  zk_Storage :: StorageSpec
  zk_Limits :: "LimitsSpec option"

definition zero_ZookeeperSpec :: ZookeeperSpec where
  "zero_ZookeeperSpec = \<lparr>
     zk_Storage = zero_StorageSpec, zk_Limits = None\<rparr>"

record CodesearchSpec =
  co_Storage :: StorageSpec
  co_Limits :: "LimitsSpec option"
  co_Enabled :: "bool option"

definition zero_CodesearchSpec :: CodesearchSpec where
  "zero_CodesearchSpec = \<lparr>
     co_Storage = zero_StorageSpec, co_Limits = None, co_Enabled = None\<rparr>"

record MariaDBSpec =
  md_DBStorage :: StorageSpec
  md_LogStorage :: StorageSpec
  md_Limits :: "LimitsSpec option"

definition zero_MariaDBSpec :: MariaDBSpec where
  "zero_MariaDBSpec = \<lparr>
     md_DBStorage = zero_StorageSpec, md_LogStorage = zero_StorageSpec, md_Limits = None\<rparr>"

record GitServerSpec =
  gs_Storage :: StorageSpec

definition zero_GitServerSpec :: GitServerSpec where
  "zero_GitServerSpec = \<lparr>
     gs_Storage = zero_StorageSpec\<rparr>"

record LogServerSpec =
  ls_RetentionDays :: int
  ls_LoopDelay :: int
  ls_Storage :: StorageSpec
  ls_PodAnnotations :: gomap

definition zero_LogServerSpec :: LogServerSpec where
  "zero_LogServerSpec = \<lparr>
     ls_RetentionDays = 0, ls_LoopDelay = 0, ls_Storage = zero_StorageSpec,
     ls_PodAnnotations = None\<rparr>"

record GatewaySpec =
  gw_ExtraConfigurationConfigMap :: string
  gw_ExtraStaticFilesConfigMap :: "string option"

definition zero_GatewaySpec :: GatewaySpec where
  "zero_GatewaySpec = \<lparr>
     gw_ExtraConfigurationConfigMap = [], gw_ExtraStaticFilesConfigMap = None\<rparr>"

record HostAlias =
  hal_IP :: string
  hal_Hostnames :: "string list"

definition zero_HostAlias :: HostAlias where
  "zero_HostAlias = \<lparr>
     hal_IP = [], hal_Hostnames = []\<rparr>"

record SoftwareFactorySpec =
  sf_FQDN :: string
  sf_FluentBitLogForwarding :: "FluentBitForwarderSpec option"
  sf_StorageDefault :: StorageDefaultSpec
  sf_ExtraLabels :: gomap
  sf_ConfigRepositoryLocation :: ConfigRepositoryLocationSpec
  sf_Zuul :: ZuulSpec
  sf_Nodepool :: NodepoolSpec
  sf_Zookeeper :: ZookeeperSpec
  sf_Logserver :: LogServerSpec
  sf_Logjuicer :: StorageSpec
  sf_MariaDB :: MariaDBSpec
  sf_GitServer :: GitServerSpec
  sf_Codesearch :: CodesearchSpec
  sf_HostAliases :: "HostAlias list"
  sf_Gateway :: "GatewaySpec option"

definition zero_SoftwareFactorySpec :: SoftwareFactorySpec where
  "zero_SoftwareFactorySpec = \<lparr>
     sf_FQDN = [], sf_FluentBitLogForwarding = None, sf_StorageDefault = zero_StorageDefaultSpec,
     sf_ExtraLabels = None, sf_ConfigRepositoryLocation = zero_ConfigRepositoryLocationSpec,
     sf_Zuul = zero_ZuulSpec, sf_Nodepool = zero_NodepoolSpec, sf_Zookeeper = zero_ZookeeperSpec,
     sf_Logserver = zero_LogServerSpec, sf_Logjuicer = zero_StorageSpec,
     sf_MariaDB = zero_MariaDBSpec, sf_GitServer = zero_GitServerSpec,
     sf_Codesearch = zero_CodesearchSpec, sf_HostAliases = [], sf_Gateway = None\<rparr>"

record SoftwareFactoryStatus =
  sfs_Ready :: bool
  sfs_ObservedGeneration :: int
  sfs_ReconciledBy :: string
  sfs_Conditions :: "condition list"

definition zero_SoftwareFactoryStatus :: SoftwareFactoryStatus where
  "zero_SoftwareFactoryStatus = \<lparr>
     sfs_Ready = False, sfs_ObservedGeneration = 0, sfs_ReconciledBy = [], sfs_Conditions = []\<rparr>"

record SoftwareFactory =
  cr_Meta :: object_meta
  cr_Spec :: SoftwareFactorySpec
  cr_Status :: SoftwareFactoryStatus

definition zero_SoftwareFactory :: SoftwareFactory where
  "zero_SoftwareFactory = \<lparr>
     cr_Meta = mk_meta [] [], cr_Spec = zero_SoftwareFactorySpec,
     cr_Status = zero_SoftwareFactoryStatus\<rparr>"

fun GetGitHubConnectionsSecretName :: "ZuulSpec \<Rightarrow> string list" where
  "GetGitHubConnectionsSecretName spec = map gh_Secrets (zu_GitHubConns spec)"

fun GetGitLabConnectionsSecretName :: "ZuulSpec \<Rightarrow> string list" where
  "GetGitLabConnectionsSecretName spec = map gl_Secrets (zu_GitLabConns spec)"

fun GetPagureConnectionsSecretName :: "ZuulSpec \<Rightarrow> string list" where
  "GetPagureConnectionsSecretName spec = map pg_Secrets (zu_PagureConns spec)"

end
