(* ===== verification/Base.thy ===== *)
theory Base
  imports Client Api_Types
begin

text \<open>
  The builders of \<open>controllers/libs/base\<close> (\<open>base.go\<close>, \<open>probes.go\<close>, \<open>images.go\<close>) and the helpers of
  \<open>controllers/libs/utils/utils.go\<close>. The builders that point their pods at the package variable
  \<open>DefaultPodSecurityContext\<close> take its current value as an argument.
\<close>

section \<open>utils.go\<close>

definition GetEnvVarValue :: "'w kctx \<Rightarrow> string \<Rightarrow> string + string" where
  "GetEnvVarValue r varName = (case s_getenv (k_sys r) varName of
       None \<Rightarrow> Inl (varName @ '' unable to find env var'') | Some v \<Rightarrow> Inr v)"

definition BoolPtr :: "bool \<Rightarrow> bool option" where
  "BoolPtr b = Some b"

definition NewUUIDString :: "'w kctx \<Rightarrow> ('w st, string) prog" where
  "NewUUIDString r = sysc (s_uuid (k_sys r))"

definition Qty1Gi :: quantity where
  "Qty1Gi = qty_Gi 1"

text \<open>\<open>s_sha256\<close> is the digest in the hexadecimal form \<open>fmt\<close> gives it.\<close>

definition Checksum :: "'w kctx \<Rightarrow> string \<Rightarrow> string" where
  "Checksum r data = s_sha256 (k_sys r) data"

text \<open>\<open>s_template\<close> gives \<open>None\<close> when the text does not parse or the data does not fit it.\<close>

definition ParseString :: "'w kctx \<Rightarrow> string \<Rightarrow> tmpl_data \<Rightarrow> string + string" where
  "ParseString r text data = (case s_template (k_sys r) text data of
       None \<Rightarrow> Inl (''failure while parsing template '' @ text) | Some x \<Rightarrow> Inr x)"

definition MapEquals :: "gomap \<Rightarrow> gomap \<Rightarrow> bool" where
  "MapEquals m1 m2 \<longleftrightarrow> m1 = m2"

record SSHKey =
  Pub :: string
  Priv :: string

definition MkSSHKey :: "'w kctx \<Rightarrow> ('w st, SSHKey) prog" where
  "MkSSHKey r = bnd (sysc (s_rsaKeyPair (k_sys r) 4096)) (\<lambda>res. case res of
       Inl e \<Rightarrow> panic e | Inr (pub, priv) \<Rightarrow> ret \<lparr>Pub = pub, Priv = priv\<rparr>)"

section \<open>images.go\<close>

record Image =
  im_Name :: string
  im_Container :: string
  im_Version :: string

text \<open>The contents of \<open>static/images.yaml\<close>, which is embedded in the program.\<close>

definition loadImages :: "Image list" where
  "loadImages = [
     \<lparr>im_Name = ''zuul-scheduler'', im_Container = ''quay.io/software-factory/zuul-scheduler'', im_Version = ''14.1.0-20250925-4''\<rparr>,
     \<lparr>im_Name = ''zuul-executor'', im_Container = ''quay.io/software-factory/zuul-executor'', im_Version = ''14.1.0-20250925-4''\<rparr>,
     \<lparr>im_Name = ''zuul-merger'', im_Container = ''quay.io/software-factory/zuul-merger'', im_Version = ''14.1.0-20250925-4''\<rparr>,
     \<lparr>im_Name = ''zuul-web'', im_Container = ''quay.io/software-factory/zuul-web'', im_Version = ''14.1.0-20250925-4''\<rparr>,
     \<lparr>im_Name = ''nodepool-launcher'', im_Container = ''quay.io/software-factory/nodepool-launcher'', im_Version = ''11.0.0-20250925-2''\<rparr>,
     \<lparr>im_Name = ''nodepool-builder'', im_Container = ''quay.io/software-factory/nodepool-builder'', im_Version = ''11.0.0-20250925-2''\<rparr>,
     \<lparr>im_Name = ''zookeeper'', im_Container = ''quay.io/software-factory/zookeeper'', im_Version = ''3.9.4-20250925-2''\<rparr>,
     \<lparr>im_Name = ''git-deamon'', im_Container = ''quay.io/software-factory/git-deamon'', im_Version = ''2.39.3-20250925-1''\<rparr>,
     \<lparr>im_Name = ''sshd'', im_Container = ''quay.io/software-factory/sshd'', im_Version = ''0.2-20250925-1''\<rparr>,
     \<lparr>im_Name = ''purgelogs'', im_Container = ''quay.io/software-factory/purgelogs'', im_Version = ''0.2.4-20250925-1''\<rparr>,
     \<lparr>im_Name = ''mariadb'', im_Container = ''quay.io/software-factory/mariadb'', im_Version = ''11.4-ubi9-1''\<rparr>,
     \<lparr>im_Name = ''zuul-capacity'', im_Container = ''quay.io/software-factory/zuul-capacity'', im_Version = ''0.5.0-20250925-1''\<rparr>,
     \<lparr>im_Name = ''zuul-weeder'', im_Container = ''quay.io/software-factory/zuul-weeder'', im_Version = ''0.1.3-20250925-1''\<rparr>,
     \<lparr>im_Name = ''logjuicer'', im_Container = ''quay.io/software-factory/logjuicer'', im_Version = ''0.16.0-20250925-1''\<rparr>,
     \<lparr>im_Name = ''sf-op-busybox'', im_Container = ''quay.io/software-factory/sf-op-busybox'', im_Version = ''1.5-20250925-1''\<rparr>,
     \<lparr>im_Name = ''httpd'', im_Container = ''quay.io/software-factory/httpd-24'', im_Version = ''1-1756313744''\<rparr>,
     \<lparr>im_Name = ''node-exporter'', im_Container = ''quay.io/prometheus/node-exporter-linux-amd64'', im_Version = ''v1.9.1''\<rparr>,
     \<lparr>im_Name = ''statsd-exporter'', im_Container = ''quay.io/prometheus/statsd-exporter-linux-amd64'', im_Version = ''v0.28.0''\<rparr>,
     \<lparr>im_Name = ''fluent-bit'', im_Container = ''quay.io/software-factory/fluent-bit'', im_Version = ''4.1.1''\<rparr>]"

definition getImage :: "string \<Rightarrow> ('s, string) prog" where
  "getImage name = (case find (\<lambda>img. im_Name img = name) loadImages of
       Some img \<Rightarrow> ret (im_Container img @ '':'' @ im_Version img)
     | None \<Rightarrow> panic (''Unknown container image: '' @ name))"

text \<open>The last image of a name wins, as with the Go map; the result is sorted by name.\<close>

definition GetQuayImages :: "Image list" where
  "GetQuayImages =
     (let quay = filter (\<lambda>img. Contains (im_Container img) ''quay.io'') loadImages;
          imagesByName = fold (\<lambda>img m. fmupd (im_Name img) img m) quay fmempty;
          imageNames = sort (remdups (map im_Name quay))
      in map (\<lambda>n. the (fmlookup imagesByName n)) imageNames)"

definition ZuulExecutorImage :: "('s, string) prog" where "ZuulExecutorImage = getImage ''zuul-executor''"
definition ZuulMergerImage :: "('s, string) prog" where "ZuulMergerImage = getImage ''zuul-merger''"
definition ZuulSchedulerImage :: "('s, string) prog" where "ZuulSchedulerImage = getImage ''zuul-scheduler''"
definition ZuulWebImage :: "('s, string) prog" where "ZuulWebImage = getImage ''zuul-web''"
definition NodepoolBuilderImage :: "('s, string) prog" where "NodepoolBuilderImage = getImage ''nodepool-builder''"
definition NodepoolLauncherImage :: "('s, string) prog" where "NodepoolLauncherImage = getImage ''nodepool-launcher''"
definition BusyboxImage :: "('s, string) prog" where "BusyboxImage = getImage ''sf-op-busybox''"
definition GitServerImage :: "('s, string) prog" where "GitServerImage = getImage ''git-deamon''"
definition SSHDImage :: "('s, string) prog" where "SSHDImage = getImage ''sshd''"
definition PurgelogsImage :: "('s, string) prog" where "PurgelogsImage = getImage ''purgelogs''"
definition MariaDBImage :: "('s, string) prog" where "MariaDBImage = getImage ''mariadb''"
definition ZookeeperImage :: "('s, string) prog" where "ZookeeperImage = getImage ''zookeeper''"
definition ZuulCapacityImage :: "('s, string) prog" where "ZuulCapacityImage = getImage ''zuul-capacity''"
definition ZuulWeederImage :: "('s, string) prog" where "ZuulWeederImage = getImage ''zuul-weeder''"
definition LogJuicerImage :: "('s, string) prog" where "LogJuicerImage = getImage ''logjuicer''"
definition HTTPDImage :: "('s, string) prog" where "HTTPDImage = getImage ''httpd''"
definition NodeExporterImage :: "('s, string) prog" where "NodeExporterImage = getImage ''node-exporter''"
definition StatsdExporterImage :: "('s, string) prog" where "StatsdExporterImage = getImage ''statsd-exporter''"
definition FluentBitImage :: "('s, string) prog" where "FluentBitImage = getImage ''fluent-bit''"

lemmas image_accessors = ZuulExecutorImage_def ZuulMergerImage_def ZuulSchedulerImage_def ZuulWebImage_def NodepoolBuilderImage_def NodepoolLauncherImage_def BusyboxImage_def GitServerImage_def SSHDImage_def PurgelogsImage_def MariaDBImage_def ZookeeperImage_def ZuulCapacityImage_def ZuulWeederImage_def LogJuicerImage_def HTTPDImage_def NodeExporterImage_def StatsdExporterImage_def FluentBitImage_def

section \<open>base.go\<close>

definition initial_DefaultPodSecurityContext :: pod_security_context where
  "initial_DefaultPodSecurityContext = \<lparr>psc_runAsNonRoot = Some True, psc_seccompProfile = Some ''RuntimeDefault''\<rparr>"

definition MkSecurityContext :: "bool \<Rightarrow> bool \<Rightarrow> security_context" where
  "MkSecurityContext privileged openshiftUser =
     (let scc = \<lparr>sc_privileged = Some privileged, sc_allowPrivilegeEscalation = Some privileged,
                 sc_drop = [''ALL''], sc_seccompProfile = Some ''RuntimeDefault'',
                 sc_runAsUser = None, sc_runAsGroup = None, sc_procMount = None\<rparr>
      in if \<not> openshiftUser then scc\<lparr>sc_runAsUser := Some 1001\<rparr> else scc)"

definition SetContainerLimits :: "quantity \<Rightarrow> quantity \<Rightarrow> quantity \<Rightarrow> quantity \<Rightarrow> container \<Rightarrow> container" where
  "SetContainerLimits memRequest memLimit cpuRequest cpuLimit c = c\<lparr>ct_resources :=
     \<lparr>rr_requests = fmap_of_list [(''memory'', memRequest), (''cpu'', cpuRequest)],
      rr_limits = fmap_of_list [(''memory'', memLimit), (''cpu'', cpuLimit)]\<rparr>\<rparr>"

definition setContainerLimitsDefaultProfile :: "container \<Rightarrow> container" where
  "setContainerLimitsDefaultProfile = SetContainerLimits (qty_Mi 128) (qty_Mi 256) (qty_m 100) (qty_m 500)"

definition SetContainerLimitsLowProfile :: "container \<Rightarrow> container" where
  "SetContainerLimitsLowProfile = SetContainerLimits (qty_Mi 32) (qty_Mi 64) (qty_m 10) (qty_m 100)"

definition SetContainerLimitsHighProfile :: "container \<Rightarrow> container" where
  "SetContainerLimitsHighProfile = SetContainerLimits (qty_Mi 128) (qty_Gi 2) (qty_m 100) (qty_m 500)"

definition zero_container :: container where
  "zero_container = \<lparr>ct_name = [], ct_image = [], ct_imagePullPolicy = [], ct_command = [], ct_args = [],
     ct_env = [], ct_ports = [], ct_volumeMounts = [], ct_securityContext = None,
     ct_resources = \<lparr>rr_requests = fmempty, rr_limits = fmempty\<rparr>, ct_readinessProbe = None,
     ct_livenessProbe = None, ct_startupProbe = None, ct_preStop = None\<rparr>"

definition MkContainer :: "string \<Rightarrow> string \<Rightarrow> bool \<Rightarrow> container" where
  "MkContainer name img openshiftUser = setContainerLimitsDefaultProfile
     (zero_container\<lparr>ct_name := name, ct_image := img, ct_imagePullPolicy := ''IfNotPresent'',
        ct_securityContext := Some (MkSecurityContext False openshiftUser)\<rparr>)"

text \<open>
  \<open>UpdateContainerLimit\<close> writes into the limits map of the container and returns the text that
  the pod annotation records.
\<close>

definition UpdateContainerLimit :: "LimitsSpec option \<Rightarrow> container \<Rightarrow> string \<times> container" where
  "UpdateContainerLimit limits c = (case limits of
       Some l \<Rightarrow> (q_text (li_CPU l) @ ''-'' @ q_text (li_Memory l),
          c\<lparr>ct_resources := (ct_resources c)\<lparr>rr_limits :=
              fmupd ''memory'' (li_Memory l) (fmupd ''cpu'' (li_CPU l) (rr_limits (ct_resources c)))\<rparr>\<rparr>)
     | None \<Rightarrow> ([], c))"

definition MkContainerPort :: "int \<Rightarrow> string \<Rightarrow> container_port" where
  "MkContainerPort port name = \<lparr>cp_name = name, cp_protocol = ''TCP'', cp_containerPort = port\<rparr>"

text \<open>The variadic \<open>secretName\<close> is a list; only its first element is used.\<close>

definition MkVolumeSecret :: "string \<Rightarrow> string list \<Rightarrow> volume" where
  "MkVolumeSecret name secretName = \<lparr>vo_name = name,
     vo_source = SecretVolume (case secretName of [] \<Rightarrow> name | s # _ \<Rightarrow> s) [] None\<rparr>"

definition MkVolumeCM :: "string \<Rightarrow> string \<Rightarrow> volume" where
  "MkVolumeCM volumeName configMapRef = \<lparr>vo_name = volumeName, vo_source = ConfigMapVolume configMapRef [] None\<rparr>"

definition MkEmptyDirVolume :: "string \<Rightarrow> volume" where
  "MkEmptyDirVolume name = \<lparr>vo_name = name, vo_source = EmptyDirVolume\<rparr>"

definition MkVolumePVC :: "string \<Rightarrow> string \<Rightarrow> volume" where
  "MkVolumePVC name claimName = \<lparr>vo_name = name, vo_source = PVCVolume claimName\<rparr>"

definition MkSecretEnvVar :: "string \<Rightarrow> string \<Rightarrow> string \<Rightarrow> env_var" where
  "MkSecretEnvVar env secret key = \<lparr>ev_name = env, ev_value = [],
     ev_valueFrom = Some (SecretKeyRef secret (if key = [] then secret else key))\<rparr>"

definition MkEnvVar :: "string \<Rightarrow> string \<Rightarrow> env_var" where
  "MkEnvVar env value = \<lparr>ev_name = env, ev_value = value, ev_valueFrom = None\<rparr>"

definition MkEnvVarFromFieldRef :: "string \<Rightarrow> string \<Rightarrow> env_var" where
  "MkEnvVarFromFieldRef env fieldPath = \<lparr>ev_name = env, ev_value = [], ev_valueFrom = Some (FieldRef fieldPath)\<rparr>"

definition MkSecretFromFunc :: "string \<Rightarrow> string \<Rightarrow> ('s, string) prog \<Rightarrow> ('s, secret) prog" where
  "MkSecretFromFunc name namespace getData = bnd getData (\<lambda>d.
     ret \<lparr>se_meta = mk_meta name namespace, se_data = Some (smap_of [(name, d)]), se_type = []\<rparr>)"

definition MkSSHKeySecret :: "'w kctx \<Rightarrow> string \<Rightarrow> string \<Rightarrow> ('w st, secret) prog" where
  "MkSSHKeySecret r name namespace = bnd (MkSSHKey r) (\<lambda>sshkey.
     ret \<lparr>se_meta = mk_meta name namespace,
          se_data = Some (smap_of [(''priv'', Priv sshkey), (''pub'', Pub sshkey)]), se_type = []\<rparr>)"

record StorageConfig =
  scf_StorageClassName :: "string option"
  scf_Size :: quantity
  scf_ExtraAnnotations :: gomap

definition MkPVC :: "string \<Rightarrow> string \<Rightarrow> StorageConfig \<Rightarrow> string \<Rightarrow> persistent_volume_claim" where
  "MkPVC name ns storageParams accessMode =
     \<lparr>pv_meta = (mk_meta name ns)\<lparr>om_annotations := scf_ExtraAnnotations storageParams\<rparr>,
      pv_storageClassName = scf_StorageClassName storageParams, pv_accessModes = [accessMode],
      pv_requests = fmap_of_list [(''storage'', scf_Size storageParams)],
      pv_capacity = qty_zero, pv_conditionTypes = []\<rparr>"

definition zero_pod_spec :: pod_spec where
  "zero_pod_spec = \<lparr>ps_containers = [], ps_initContainers = [], ps_volumes = [], ps_securityContext = None,
     ps_automountServiceAccountToken = None, ps_hostAliases = [], ps_terminationGracePeriodSeconds = None,
     ps_hostUsers = None, ps_restartPolicy = []\<rparr>"

definition MkJob :: "pod_security_context \<Rightarrow> string \<Rightarrow> string \<Rightarrow> container \<Rightarrow> gomap \<Rightarrow> job" where
  "MkJob psc name ns c extraLabels =
     \<lparr>jo_meta = (mk_meta name ns)\<lparr>om_labels := extraLabels\<rparr>, jo_backoffLimit = None,
      jo_template = \<lparr>pt_meta = mk_meta [] [],
        pt_spec = zero_pod_spec\<lparr>ps_containers := [c], ps_restartPolicy := ''Never'',
                                 ps_securityContext := Some psc\<rparr>\<rparr>,
      jo_succeeded = 0\<rparr>"

definition mkServicePorts :: "int list \<Rightarrow> string \<Rightarrow> service_port list" where
  "mkServicePorts ports portName = map (\<lambda>p. \<lparr>sp_name = portName @ ''-'' @ Itoa p, sp_protocol = ''TCP'',
     sp_port = p, sp_targetPort = FromInt p\<rparr>) ports"

definition mk_service :: "string \<Rightarrow> string \<Rightarrow> gomap \<Rightarrow> service_port list \<Rightarrow> gomap \<Rightarrow> service" where
  "mk_service name ns selector ports extraLabels =
     \<lparr>sv_meta = (mk_meta name ns)\<lparr>om_labels := extraLabels\<rparr>,
      sv_spec = \<lparr>sv_type = [], sv_clusterIP = [], sv_publishNotReadyAddresses = False,
                 sv_selector = selector, sv_ports = ports\<rparr>\<rparr>"

definition MkService :: "string \<Rightarrow> string \<Rightarrow> string \<Rightarrow> int list \<Rightarrow> string \<Rightarrow> gomap \<Rightarrow> service" where
  "MkService name ns selector ports portName extraLabels =
     mk_service name ns (Some (smap_of [(''app'', ''sf''), (''run'', selector)])) (mkServicePorts ports portName) extraLabels"

definition MkServicePod :: "string \<Rightarrow> string \<Rightarrow> string \<Rightarrow> int list \<Rightarrow> string \<Rightarrow> gomap \<Rightarrow> service" where
  "MkServicePod name ns podName ports portName extraLabels =
     mk_service name ns (Some (smap_of [(''statefulset.kubernetes.io/pod-name'', podName)]))
       (mkServicePorts ports portName) extraLabels"

definition headless :: "string \<Rightarrow> service \<Rightarrow> service" where
  "headless name service = service\<lparr>sv_meta := (sv_meta service)\<lparr>om_name := name @ ''-headless''\<rparr>,
     sv_spec := (sv_spec service)\<lparr>sv_clusterIP := ''None''\<rparr>\<rparr>"

definition MkHeadlessService :: "string \<Rightarrow> string \<Rightarrow> string \<Rightarrow> int list \<Rightarrow> string \<Rightarrow> gomap \<Rightarrow> service" where
  "MkHeadlessService name ns selector ports portName extraLabels =
     headless name (MkService name ns selector ports portName extraLabels)"

definition MkHeadlessServicePod :: "string \<Rightarrow> string \<Rightarrow> string \<Rightarrow> int list \<Rightarrow> string \<Rightarrow> gomap \<Rightarrow> service" where
  "MkHeadlessServicePod name ns podName ports portName extraLabels =
     headless name (MkServicePod name ns podName ports portName extraLabels)"

text \<open>The labels of a workload: \<open>maps.Copy\<close> lets the extra labels win.\<close>

definition workload_labels :: "string \<Rightarrow> gomap \<Rightarrow> gomap" where
  "workload_labels name extraLabels = Some (smap_of [(''app'', ''sf''), (''run'', name)] ++\<^sub>f gm_fm extraLabels)"

definition MkStatefulset :: "pod_security_context \<Rightarrow> string \<Rightarrow> string \<Rightarrow> int \<Rightarrow> string \<Rightarrow> container \<Rightarrow>
    persistent_volume_claim \<Rightarrow> gomap \<Rightarrow> statefulset" where
  "MkStatefulset psc name ns replicas serviceName c pvc extraLabels =
     (let labels = workload_labels name extraLabels in
      \<lparr>ss_meta = (mk_meta name ns)\<lparr>om_labels := extraLabels\<rparr>,
       ss_replicas = Int32Ptr replicas, ss_serviceName = serviceName, ss_selector = Some labels,
       ss_template = \<lparr>pt_meta = (mk_meta [] [])\<lparr>om_labels := labels\<rparr>,
          pt_spec = zero_pod_spec\<lparr>ps_securityContext := Some psc, ps_containers := [c],
                                   ps_automountServiceAccountToken := BoolPtr False\<rparr>\<rparr>,
       ss_volumeClaimTemplates = [pvc],
       ss_observedGeneration = 0, ss_readyReplicas = 0, ss_currentReplicas = 0\<rparr>)"

definition MkDeployment :: "pod_security_context \<Rightarrow> string \<Rightarrow> string \<Rightarrow> string \<Rightarrow> gomap \<Rightarrow> bool \<Rightarrow> deployment" where
  "MkDeployment psc name ns img extraLabels openshiftUser =
     (let c = MkContainer name img openshiftUser; labels = workload_labels name extraLabels in
      \<lparr>de_meta = mk_meta name ns, de_replicas = Int32Ptr 1, de_selector = Some labels,
       de_template = \<lparr>pt_meta = (mk_meta [] [])\<lparr>om_labels := labels\<rparr>,
          pt_spec = zero_pod_spec\<lparr>ps_containers := [c], ps_automountServiceAccountToken := BoolPtr False,
                                   ps_securityContext := Some psc\<rparr>\<rparr>,
       de_strategy = \<lparr>ds_type = [], ds_rollingUpdate = None\<rparr>,
       de_observedGeneration = 0, de_statusReplicas = 0, de_readyReplicas = 0, de_availableReplicas = 0\<rparr>)"

text \<open>
  A nil \<open>Spec.Replicas\<close> is dereferenced, which panics, unless the generation already tells that
  the rollout is not done.
\<close>

definition IsStatefulSetRolloutDone :: "statefulset \<Rightarrow> ('s, bool) prog" where
  "IsStatefulSetRolloutDone obj =
     (if \<not> om_generation (ss_meta obj) \<le> ss_observedGeneration obj then ret False
      else case ss_replicas obj of
          None \<Rightarrow> panic ''invalid memory address or nil pointer dereference''
        | Some n \<Rightarrow> ret (ss_readyReplicas obj = n \<and> ss_currentReplicas obj = n))"

definition IsDeploymentRolloutDone :: "deployment \<Rightarrow> bool" where
  "IsDeploymentRolloutDone obj \<longleftrightarrow> om_generation (de_meta obj) \<le> de_observedGeneration obj \<and>
     de_statusReplicas obj = de_readyReplicas obj \<and> de_statusReplicas obj = de_availableReplicas obj"

definition CreateHostAliases :: "HostAlias list \<Rightarrow> host_alias list" where
  "CreateHostAliases hostAliases = map (\<lambda>h. \<lparr>ha_ip = hal_IP h, ha_hostnames = hal_Hostnames h\<rparr>)
     (filter (\<lambda>h. hal_IP h \<noteq> []) hostAliases)"

section \<open>probes.go\<close>

definition mkReadinessProbe :: "probe_handler \<Rightarrow> probe" where
  "mkReadinessProbe handler = \<lparr>pr_handler = handler, pr_initialDelaySeconds = 0, pr_timeoutSeconds = 5,
     pr_periodSeconds = 10, pr_failureThreshold = 20\<rparr>"

definition MkReadinessCMDProbe :: "string list \<Rightarrow> probe" where
  "MkReadinessCMDProbe cmd = mkReadinessProbe (ExecAction cmd)"

definition MkReadinessHTTPProbe :: "string \<Rightarrow> int \<Rightarrow> probe" where
  "MkReadinessHTTPProbe path port = mkReadinessProbe (HTTPGetAction path port)"

definition MkReadinessTCPProbe :: "int \<Rightarrow> probe" where
  "MkReadinessTCPProbe port = mkReadinessProbe (TCPSocketAction port)"

definition mkLivenessProbe :: "probe_handler \<Rightarrow> probe" where
  "mkLivenessProbe handler = \<lparr>pr_handler = handler, pr_initialDelaySeconds = 5, pr_timeoutSeconds = 5,
     pr_periodSeconds = 20, pr_failureThreshold = 20\<rparr>"

definition MkLivenessCMDProbe :: "string list \<Rightarrow> probe" where
  "MkLivenessCMDProbe cmd = mkLivenessProbe (ExecAction cmd)"

definition MkLiveHTTPProbe :: "string \<Rightarrow> int \<Rightarrow> probe" where
  "MkLiveHTTPProbe path port = mkLivenessProbe (HTTPGetAction path port)"

definition mkStartupProbe :: "probe_handler \<Rightarrow> probe" where
  "mkStartupProbe handler = \<lparr>pr_handler = handler, pr_initialDelaySeconds = 5, pr_timeoutSeconds = 2,
     pr_periodSeconds = 20, pr_failureThreshold = 10\<rparr>"

definition MkStartupCMDProbe :: "string list \<Rightarrow> probe" where
  "MkStartupCMDProbe cmd = mkStartupProbe (ExecAction cmd)"

definition MkStartupHTTPProbe :: "string \<Rightarrow> int \<Rightarrow> probe" where
  "MkStartupHTTPProbe path port = mkStartupProbe (HTTPGetAction path port)"

definition SlowStartingProbe :: "probe \<Rightarrow> probe" where
  "SlowStartingProbe probe = probe\<lparr>pr_periodSeconds := 60, pr_failureThreshold := 60\<rparr>"

section \<open>Lemmas\<close>

text \<open>Every accessor of \<open>images.go\<close> names an entry of the table, so none of them panics.\<close>

lemma image_simps [simp]:
  "ZuulExecutorImage = ret ''quay.io/software-factory/zuul-executor:14.1.0-20250925-4''"
  "ZuulMergerImage = ret ''quay.io/software-factory/zuul-merger:14.1.0-20250925-4''"
  "ZuulSchedulerImage = ret ''quay.io/software-factory/zuul-scheduler:14.1.0-20250925-4''"
  "ZuulWebImage = ret ''quay.io/software-factory/zuul-web:14.1.0-20250925-4''"
  "NodepoolBuilderImage = ret ''quay.io/software-factory/nodepool-builder:11.0.0-20250925-2''"
  "NodepoolLauncherImage = ret ''quay.io/software-factory/nodepool-launcher:11.0.0-20250925-2''"
  "BusyboxImage = ret ''quay.io/software-factory/sf-op-busybox:1.5-20250925-1''"
  "GitServerImage = ret ''quay.io/software-factory/git-deamon:2.39.3-20250925-1''"
  "SSHDImage = ret ''quay.io/software-factory/sshd:0.2-20250925-1''"
  "PurgelogsImage = ret ''quay.io/software-factory/purgelogs:0.2.4-20250925-1''"
  "MariaDBImage = ret ''quay.io/software-factory/mariadb:11.4-ubi9-1''"
  "ZookeeperImage = ret ''quay.io/software-factory/zookeeper:3.9.4-20250925-2''"
  "ZuulCapacityImage = ret ''quay.io/software-factory/zuul-capacity:0.5.0-20250925-1''"
  "ZuulWeederImage = ret ''quay.io/software-factory/zuul-weeder:0.1.3-20250925-1''"
  "LogJuicerImage = ret ''quay.io/software-factory/logjuicer:0.16.0-20250925-1''"
  "HTTPDImage = ret ''quay.io/software-factory/httpd-24:1-1756313744''"
  "NodeExporterImage = ret ''quay.io/prometheus/node-exporter-linux-amd64:v1.9.1''"
  "StatsdExporterImage = ret ''quay.io/prometheus/statsd-exporter-linux-amd64:v0.28.0''"
  "FluentBitImage = ret ''quay.io/software-factory/fluent-bit:4.1.1''"
  by (simp_all add: image_accessors getImage_def loadImages_def)

end
