(* ===== verification/Ensure.thy ===== *)
theory Ensure
  imports Base
begin

text \<open>
  The API primitives and the \<open>Ensure\<close> functions of \<open>controllers/utils.go\<close>: every change the
  operator makes on the cluster goes through them. The locale \<open>ensured\<close> states the contract of an
  \<open>Ensure\<close> function (it settles its object, it is quiet once the object is settled, it touches no
  other object); its instances are the functions for config maps, secrets and services on any
  healthy server.
\<close>

section \<open>API primitives\<close>

definition setOwnerReference :: "'w kctx \<Rightarrow> object_meta \<Rightarrow> string + object_meta" where
  "setOwnerReference r controlled =
     (if k_standalone r then s_setOwnerReference (k_sys r) (k_owner r) controlled
      else s_setControllerReference (k_sys r) (k_owner r) controlled)"

text \<open>The callers ignore the error, so that the object is then left as it is.\<close>

definition owned :: "'w kctx \<Rightarrow> 'o codec \<Rightarrow> 'o \<Rightarrow> 'o" where
  "owned r C x = (case setOwnerReference r (c_meta C x) of Inl _ \<Rightarrow> x | Inr m \<Rightarrow> c_mapMeta C (\<lambda>_. m) x)"

definition ReadSecret :: "'w kctx \<Rightarrow> string \<Rightarrow> ('w st, gomap) prog" where
  "ReadSecret r name = bnd (GetOrDie r cSecret name) (\<lambda>sec. ret (case sec of
       Some s \<Rightarrow> se_data s | None \<Rightarrow> Some fmempty))"

definition ReadSecretValue :: "'w kctx \<Rightarrow> string \<Rightarrow> string \<Rightarrow> ('w st, string) prog" where
  "ReadSecretValue r name key = bnd (ReadSecret r name) (\<lambda>m. ret (gm_get m key))"

text \<open>
  \<open>CreateR\<close> and \<open>UpdateR\<close> fill the object they are given with the server's answer; here they
  return it.
\<close>

definition CreateR :: "'w kctx \<Rightarrow> 'o codec \<Rightarrow> 'o \<Rightarrow> ('w st, 'o) prog" where
  "CreateR r C x =
     (let obj = owned r C x in
      bnd (client_Create r (k_dryRun r) C obj) (\<lambda>res. case res of
          Inr y \<Rightarrow> ret y
        | Inl e \<Rightarrow> if \<not> IsAlreadyExists e then panic (err_Error e) else ret obj))"

definition DeleteR :: "'w kctx \<Rightarrow> 'o codec \<Rightarrow> object_meta \<Rightarrow> ('w st, unit) prog" where
  "DeleteR r C m = bnd (client_Delete r (k_dryRun r) C m) (\<lambda>err. case err of
       None \<Rightarrow> ret ()
     | Some e \<Rightarrow> if \<not> IsNotFound e then panic (err_Error e) else ret ())"

definition DeleteSecret :: "'w kctx \<Rightarrow> string \<Rightarrow> ('w st, unit) prog" where
  "DeleteSecret r name = DeleteR r cSecret (mk_meta name (k_ns r))"

definition UpdateR :: "'w kctx \<Rightarrow> 'o codec \<Rightarrow> 'o \<Rightarrow> ('w st, bool \<times> 'o) prog" where
  "UpdateR r C x =
     (let obj = owned r C x in
      bnd (client_Update r (k_dryRun r) C obj) (\<lambda>res. case res of
          Inr y \<Rightarrow> ret (True, y)
        | Inl e \<Rightarrow> if k_dryRun r \<and> IsNotFound e then ret (True, obj) else panic (err_Error e)))"

definition GetOrCreate :: "'w kctx \<Rightarrow> 'o codec \<Rightarrow> 'o \<Rightarrow> ('w st, bool \<times> 'o) prog" where
  "GetOrCreate r C x = bnd (GetOrDie r C (om_name (c_meta C x))) (\<lambda>found. case found of
       None \<Rightarrow> bnd (CreateR r C x) (\<lambda>y. ret (False, y))
     | Some y \<Rightarrow> ret (True, y))"

text \<open>Commands in pods. What they write on the standard output is returned with the error.\<close>

definition PodExecIn :: "'w kctx \<Rightarrow> string \<Rightarrow> string \<Rightarrow> string list \<Rightarrow> string \<Rightarrow> ('w st, string option) prog" where
  "PodExecIn r pod ctn command inp =
     bnd (sysc (s_exec (k_sys r) (k_ns r) pod ctn command (Some inp))) (\<lambda>(err, _). ret err)"

definition PodExecOut :: "'w kctx \<Rightarrow> string \<Rightarrow> string \<Rightarrow> string list \<Rightarrow> ('w st, string option \<times> string) prog" where
  "PodExecOut r pod ctn command = sysc (s_exec (k_sys r) (k_ns r) pod ctn command None)"

definition PodExec :: "'w kctx \<Rightarrow> string \<Rightarrow> string \<Rightarrow> string list \<Rightarrow> ('w st, string option) prog" where
  "PodExec r pod ctn command = bnd (PodExecOut r pod ctn command) (\<lambda>(err, _). ret err)"

definition PodExecM :: "'w kctx \<Rightarrow> string \<Rightarrow> string \<Rightarrow> string list \<Rightarrow> ('w st, unit) prog" where
  "PodExecM r pod ctn command = bnd (PodExecOut r pod ctn command) (\<lambda>(err, _). case err of
       Some e \<Rightarrow> panic (''Command exec failed: '' @ e) | None \<Rightarrow> ret ())"

definition PodExecBytes :: "'w kctx \<Rightarrow> string \<Rightarrow> string \<Rightarrow> string list \<Rightarrow> ('w st, string \<times> string option) prog" where
  "PodExecBytes r pod ctn command = bnd (PodExecOut r pod ctn command) (\<lambda>(err, out). ret (out, err))"

definition RunPodCmd :: "'w kctx \<Rightarrow> string \<Rightarrow> string \<Rightarrow> string list \<Rightarrow> ('w st, string + string) prog" where
  "RunPodCmd r pod ctn cmdArgs = bnd (sysc (s_exec (k_sys r) (k_ns r) pod ctn cmdArgs None)) (\<lambda>(err, out).
     ret (case err of Some e \<Rightarrow> Inl e | None \<Rightarrow> Inr out))"

section \<open>Ensure functions\<close>

definition EnsureConfigMap :: "'w kctx \<Rightarrow> string \<Rightarrow> gomap \<Rightarrow> ('w st, configmap) prog" where
  "EnsureConfigMap r baseName data =
     (let name = baseName @ ''-config-map'' in
      bnd (GetOrDie r cConfigMap name) (\<lambda>found. case found of
          None \<Rightarrow> CreateR r cConfigMap \<lparr>cm_meta = mk_meta name (k_ns r), cm_data = data\<rparr>
        | Some cm \<Rightarrow>
            if cm_data cm \<noteq> data
            then bnd (UpdateR r cConfigMap (cm\<lparr>cm_data := data\<rparr>)) (\<lambda>(_, cm'). ret cm')
            else ret cm))"

definition EnsureSecret :: "'w kctx \<Rightarrow> secret \<Rightarrow> ('w st, unit) prog" where
  "EnsureSecret r secret =
     bnd (GetOrDie r cSecret (om_name (se_meta secret))) (\<lambda>found. case found of
         None \<Rightarrow> bnd (CreateR r cSecret secret) (\<lambda>_. ret ())
       | Some current \<Rightarrow>
           if se_data current \<noteq> se_data secret
           then bnd (UpdateR r cSecret (current\<lparr>se_data := se_data secret\<rparr>)) (\<lambda>_. ret ())
           else ret ())"

definition ensureSecretFromFunc :: "'w kctx \<Rightarrow> string \<Rightarrow> ('w st, string) prog \<Rightarrow> ('w st, secret) prog" where
  "ensureSecretFromFunc r name getData = bnd (GetOrDie r cSecret name) (\<lambda>found. case found of
       None \<Rightarrow> bnd (MkSecretFromFunc name (k_ns r) getData) (\<lambda>secret. CreateR r cSecret secret)
     | Some secret \<Rightarrow> ret secret)"

definition EnsureSecretUUID :: "'w kctx \<Rightarrow> string \<Rightarrow> ('w st, secret) prog" where
  "EnsureSecretUUID r name = ensureSecretFromFunc r name (NewUUIDString r)"

definition EnsureSSHKeySecret :: "'w kctx \<Rightarrow> string \<Rightarrow> ('w st, secret) prog" where
  "EnsureSSHKeySecret r name = bnd (GetOrDie r cSecret name) (\<lambda>found. case found of
       None \<Rightarrow> bnd (MkSSHKeySecret r name (k_ns r)) (\<lambda>secret. CreateR r cSecret secret)
     | Some secret \<Rightarrow> ret secret)"

text \<open>The fingerprint of the ports: all their fields, sorted, without separators.\<close>

definition spsAsString :: "service_port list \<Rightarrow> string" where
  "spsAsString sps = Join (sort (concat
     (map (\<lambda>p. [Itoa (sp_port p), sp_name p, ios_String (sp_targetPort p), sp_protocol p]) sps))) []"

definition EnsureService :: "'w kctx \<Rightarrow> service \<Rightarrow> ('w st, unit) prog" where
  "EnsureService r service =
     bnd (GetOrDie r cService (om_name (sv_meta service))) (\<lambda>found. case found of
         None \<Rightarrow> bnd (CreateR r cService service) (\<lambda>_. ret ())
       | Some current \<Rightarrow>
           if sv_selector (sv_spec current) \<noteq> sv_selector (sv_spec service) \<or>
              spsAsString (sv_ports (sv_spec current)) \<noteq> spsAsString (sv_ports (sv_spec service))
           then bnd (UpdateR r cService (current\<lparr>sv_spec := sv_spec service\<rparr>)) (\<lambda>_. ret ())
           else ret ())"

section \<open>Reading config maps and secrets\<close>

definition GetConfigMap :: "'w kctx \<Rightarrow> string \<Rightarrow> ('w st, string + configmap) prog" where
  "GetConfigMap r name =
     (let err = Inl (''configMap named '' @ [CHR 0x27] @ name @ [CHR 0x27] @ '' was not found'') in
      if name \<noteq> [] then bnd (GetOrDie r cConfigMap name) (\<lambda>f. ret (case f of Some d \<Rightarrow> Inr d | None \<Rightarrow> err))
      else ret err)"

definition GetSecret :: "'w kctx \<Rightarrow> string \<Rightarrow> ('w st, string + secret) prog" where
  "GetSecret r name =
     (let err = Inl (''secret named '' @ [CHR 0x27] @ name @ [CHR 0x27] @ '' was not found'') in
      if name \<noteq> [] then bnd (GetOrDie r cSecret name) (\<lambda>f. ret (case f of Some d \<Rightarrow> Inr d | None \<Rightarrow> err))
      else ret err)"

definition GetValueFromKeySecret :: "secret \<Rightarrow> string \<Rightarrow> string + string" where
  "GetValueFromKeySecret secret keyname =
     (let keyvalue = gm_get (se_data secret) keyname in
      if keyvalue = [] then Inl (''key named '' @ keyname @ '' not found in Secret '' @ om_name (se_meta secret) @
          '' at namespace '' @ om_namespace (se_meta secret))
      else Inr keyvalue)"

definition GetSecretDataFromKey :: "'w kctx \<Rightarrow> string \<Rightarrow> string \<Rightarrow> ('w st, string + string) prog" where
  "GetSecretDataFromKey r name key = bnd (GetSecret r name) (\<lambda>res. ret (case res of
       Inl e \<Rightarrow> Inl e
     | Inr secret \<Rightarrow> GetValueFromKeySecret secret (if key = [] then name else key)))"

definition getSecretData :: "'w kctx \<Rightarrow> string \<Rightarrow> ('w st, string + string) prog" where
  "getSecretData r name = GetSecretDataFromKey r name []"

definition CorporateCACerts :: string where "CorporateCACerts = ''corporate-ca-certs''"
definition UpdateCATrustAnchorsPath :: string where
  "UpdateCATrustAnchorsPath = ''/usr/share/pki/ca-trust-source/anchors/''"
definition TrustedCAExtractedMountPath :: string where
  "TrustedCAExtractedMountPath = ''/etc/pki/ca-trust/extracted''"
definition UpdateCATrustCommand :: string where
  "UpdateCATrustCommand = ''set -x && update-ca-trust extract -o '' @ TrustedCAExtractedMountPath"

definition CorporateCAConfigMapExists :: "'w kctx \<Rightarrow> ('w st, configmap option) prog" where
  "CorporateCAConfigMapExists r = bnd (GetConfigMap r CorporateCACerts) (\<lambda>res. ret (case res of
       Inl _ \<Rightarrow> None | Inr cm \<Rightarrow> Some cm))"

definition mk_mount :: "string \<Rightarrow> string \<Rightarrow> volume_mount" where
  "mk_mount name path = \<lparr>vm_name = name, vm_mountPath = path, vm_subPath = [], vm_readOnly = False\<rparr>"

definition AppendCorporateCACertsVolumeMount :: "volume_mount list \<Rightarrow> string \<Rightarrow> volume_mount list" where
  "AppendCorporateCACertsVolumeMount volumeMounts volumeName =
     volumeMounts @ [mk_mount volumeName UpdateCATrustAnchorsPath]"

definition mkToolingVolume :: volume where
  "mkToolingVolume = \<lparr>vo_name = ''tooling-vol'',
     vo_source = ConfigMapVolume ''zuul-scheduler-tooling-config-map'' [] (Some Execmod)\<rparr>"

definition AppendToolingVolume :: "volume list \<Rightarrow> volume list" where
  "AppendToolingVolume vs = vs @ [mkToolingVolume]"

section \<open>What the operations may change\<close>

lemma kept_spec_map_meta [simp]: "kept_spec (map_meta f a) b = kept_spec a b"
  by (cases a) (simp_all add: kept_spec_def split: kobj.split)

lemma kept_meta_trans: "kept_meta a b \<Longrightarrow> kept_meta b c \<Longrightarrow> kept_meta a c"
  by (simp add: kept_meta_def)

lemma oref_cm: "oref (c_enc cConfigMap x) = kref_of KConfigMap (om_namespace (cm_meta x)) (om_name (cm_meta x))"
  and oref_se: "oref (c_enc cSecret y) = kref_of KSecret (om_namespace (se_meta y)) (om_name (se_meta y))"
  and oref_sv: "oref (c_enc cService z) = kref_of KService (om_namespace (sv_meta z)) (om_name (sv_meta z))"
  by (simp_all add: oref_def codec_defs)

context kube_client
begin

lemma owned_keeps:
  assumes "codec_laws C"
  shows "kept_meta (c_meta C x) (c_meta C (owned r C x))"
    and "oref (c_enc C (owned r C x)) = oref (c_enc C x)"
    and "admitted (c_enc C (owned r C x)) k \<Longrightarrow> admitted (c_enc C x) k"
proof -
  show m: "kept_meta (c_meta C x) (c_meta C (owned r C x))"
    by (auto simp: owned_def setOwnerReference_def kept_meta_def codec_laws.meta_mapMeta [OF assms]
        split: sum.split dest: owner_address controller_address)
  show "oref (c_enc C (owned r C x)) = oref (c_enc C x)"
    using m by (simp add: codec_laws.oref_enc [OF assms] kept_meta_def)
  have "kept_spec (c_enc C (owned r C x)) k = kept_spec (c_enc C x) k"
    by (simp add: owned_def codec_laws.enc_mapMeta [OF assms] split: sum.split)
  then show "admitted (c_enc C (owned r C x)) k \<Longrightarrow> admitted (c_enc C x) k"
    using m kept_meta_trans
    by (auto simp: admitted_def codec_laws.enc_kind [OF assms] codec_laws.enc_meta [OF assms])
qed

lemma createR_touches:
  "codec_laws C \<Longrightarrow> k_dryRun r \<or> oref (c_enc C x) \<in> X \<Longrightarrow> within (touches store X) (CreateR r C x)"
  unfolding CreateR_def Let_def by (intro touch.within_rules create_touches) (simp add: owned_keeps)

lemma updateR_touches:
  "codec_laws C \<Longrightarrow> k_dryRun r \<or> oref (c_enc C x) \<in> X \<Longrightarrow> within (touches store X) (UpdateR r C x)"
  unfolding UpdateR_def Let_def by (intro touch.within_rules update_touches) (simp add: owned_keeps)

lemma deleteR_touches:
  "k_dryRun r \<or> kref_of (c_kind C) (om_namespace m) (om_name m) \<in> X \<Longrightarrow>
     within (touches store X) (DeleteR r C m)"
  unfolding DeleteR_def by (intro touch.within_rules delete_touches)

lemma getOrCreate_touches:
  "codec_laws C \<Longrightarrow> k_dryRun r \<or> oref (c_enc C x) \<in> X \<Longrightarrow> within (touches store X) (GetOrCreate r C x)"
  unfolding GetOrCreate_def by (intro touch.within_rules getOrDie_touches createR_touches)

lemma ensureConfigMap_touches:
  "k_dryRun r \<or> kref_of KConfigMap (k_ns r) (baseName @ ''-config-map'') \<in> X \<Longrightarrow>
     within (touches store X) (EnsureConfigMap r baseName data)"
  unfolding EnsureConfigMap_def Let_def
  by (rule lookup_touches)
    (auto intro!: touch.within_rules createR_touches updateR_touches codec_axioms simp: oref_cm mk_meta_def)

lemma ensureSecret_touches:
  "k_dryRun r \<or> om_namespace (se_meta secret) = k_ns r \<and> kref_of KSecret (k_ns r) (om_name (se_meta secret)) \<in> X \<Longrightarrow>
     within (touches store X) (EnsureSecret r secret)"
  unfolding EnsureSecret_def
  by (rule lookup_touches)
    (auto intro!: touch.within_rules createR_touches updateR_touches codec_axioms simp: oref_se)

lemma ensureService_touches:
  "k_dryRun r \<or> om_namespace (sv_meta service) = k_ns r \<and> kref_of KService (k_ns r) (om_name (sv_meta service)) \<in> X \<Longrightarrow>
     within (touches store X) (EnsureService r service)"
  unfolding EnsureService_def
  by (rule lookup_touches)
    (auto intro!: touch.within_rules createR_touches updateR_touches codec_axioms simp: oref_sv)

lemma ensureSecretUUID_touches:
  "k_dryRun r \<or> kref_of KSecret (k_ns r) name \<in> X \<Longrightarrow> within (touches store X) (EnsureSecretUUID r name)"
  unfolding EnsureSecretUUID_def ensureSecretFromFunc_def MkSecretFromFunc_def NewUUIDString_def bnd_assoc
  by (rule lookup_touches)
    (auto intro!: touch.within_rules createR_touches call_touches codec_axioms simp: oref_se mk_meta_def)

lemma ensureSSHKeySecret_touches:
  "k_dryRun r \<or> kref_of KSecret (k_ns r) name \<in> X \<Longrightarrow> within (touches store X) (EnsureSSHKeySecret r name)"
  unfolding EnsureSSHKeySecret_def MkSSHKeySecret_def MkSSHKey_def bnd_assoc
  by (rule lookup_touches)
    (auto intro!: touch.within_rules createR_touches call_touches codec_axioms simp: oref_se mk_meta_def)

lemmas ensure_touches = createR_touches updateR_touches deleteR_touches getOrCreate_touches
  ensureConfigMap_touches ensureSecret_touches ensureService_touches ensureSecretUUID_touches
  ensureSSHKeySecret_touches

end

section \<open>The contract of an Ensure function\<close>

text \<open>
  \<open>run\<close> keeps the object at \<open>addr\<close> in a state \<open>good\<close>: from any state it ends with the object there
  and good, once the object is good it changes nothing, and it never touches another object.
  Running it again after it ended is then a no-op, however often.
\<close>

locale ensured =
  fixes run :: "('w st, 'a) prog" and store :: "'w \<Rightarrow> kref \<Rightarrow> kobj option"
    and addr :: kref and good :: "kobj \<Rightarrow> bool"
  assumes settles: "\<exists>a t ob. run s = (Ok a, t) \<and> store (st_world t) addr = Some ob \<and> good ob"
    and quiet: "store (st_world s) addr = Some ob \<Longrightarrow> good ob \<Longrightarrow>
      store (st_world (snd (run s))) = store (st_world s)"
    and touches_only: "within (touches store {addr}) run"
begin

lemma idempotent:
  assumes "run s = (Ok a, t)"
  shows "\<exists>b u. run t = (Ok b, u) \<and> store (st_world u) = store (st_world t)"
  using settles [of s] settles [of t] quiet [of t] assms by auto

lemma converges:
  "\<exists>a t ob. run s = (Ok a, t) \<and> store (st_world t) addr = Some ob \<and> good ob \<and>
     (\<forall>x. x \<noteq> addr \<longrightarrow> store (st_world t) x = store (st_world s) x) \<and>
     (\<exists>b u. run t = (Ok b, u) \<and> store (st_world u) = store (st_world t))"
proof -
  obtain a t ob where t: "run s = (Ok a, t)" "store (st_world t) addr = Some ob" "good ob"
    using settles [of s] by blast
  with withinD [OF touches_only t(1)] idempotent [OF t(1)] show ?thesis
    unfolding touches_def by blast
qed

fun rounds :: "nat \<Rightarrow> ('w st, unit) prog" where
  "rounds 0 = ret ()"
| "rounds (Suc n) = bnd run (\<lambda>_. rounds n)"

lemma rounds_quiet:
  assumes "store (st_world s) addr = Some ob" and "good ob"
  shows "\<exists>t. rounds n s = (Ok (), t) \<and> store (st_world t) = store (st_world s)"
  using assms
proof (induction n arbitrary: s)
  case (Suc n)
  obtain a t where run: "run s = (Ok a, t)" using settles [of s] by blast
  with quiet [OF Suc.prems] have "store (st_world t) = store (st_world s)" by simp
  with Suc.IH [of t] Suc.prems run show ?case by (auto simp: bnd_def)
qed simp

end

text \<open>A healthy server that is not in dry-run mode.\<close>

locale live_client = healthy_client r store for r :: "'w kctx" and store :: "'w \<Rightarrow> kref \<Rightarrow> kobj option" +
  assumes live: "\<not> k_dryRun r"
begin

lemma createR_absent:
  assumes C: "codec_laws C" and absent: "store (st_world s) (oref (c_enc C x)) = None"
  shows "\<exists>y w. CreateR r C x s = (Ok y, s\<lparr>st_world := w\<rparr>) \<and> admitted (c_enc C x) (c_enc C y) \<and>
    store w (oref (c_enc C x)) = Some (c_enc C y)"
proof -
  let ?x = "c_enc C (owned r C x)"
  have a: "store (st_world s) (oref ?x) = None" using absent C by (simp add: owned_keeps)
  obtain k w where k: "s_create (k_sys r) False ?x (st_world s) = (Inr k, w)" "admitted ?x k"
      "store w (oref ?x) = Some k"
    using create_new [OF a] by blast
  have "kind_of k = c_kind C" using k(2) C by (simp add: admitted_def codec_laws.enc_kind)
  then obtain y where y: "k = c_enc C y" "c_dec C k = Some y"
    using codec_laws.dec_kind [OF C] codec_laws.dec_iff [OF C] by (metis option.exhaust)
  have "CreateR r C x s = (Ok y, s\<lparr>st_world := w\<rparr>)"
    using k(1) y(2) live by (simp add: CreateR_def Let_def client_Create_def bnd_def sysc_def ret_def)
  with k(2,3) y(1) C show ?thesis by (auto simp: owned_keeps)
qed

lemma updateR_present:
  assumes C: "codec_laws C" and present: "store (st_world s) (oref (c_enc C x)) \<noteq> None"
  shows "\<exists>y w. UpdateR r C x s = (Ok (True, y), s\<lparr>st_world := w\<rparr>) \<and> admitted (c_enc C x) (c_enc C y) \<and>
    store w (oref (c_enc C x)) = Some (c_enc C y)"
proof -
  let ?x = "c_enc C (owned r C x)"
  obtain o1 where a: "store (st_world s) (oref ?x) = Some o1" using present C by (auto simp: owned_keeps)
  obtain k w where k: "s_update (k_sys r) False ?x (st_world s) = (Inr k, w)" "admitted ?x k"
      "store w (oref ?x) = Some k"
    using update_present [OF a] by blast
  have "kind_of k = c_kind C" using k(2) C by (simp add: admitted_def codec_laws.enc_kind)
  then obtain y where y: "k = c_enc C y" "c_dec C k = Some y"
    using codec_laws.dec_kind [OF C] codec_laws.dec_iff [OF C] by (metis option.exhaust)
  have "UpdateR r C x s = (Ok (True, y), s\<lparr>st_world := w\<rparr>)"
    using k(1) y(2) live by (simp add: UpdateR_def Let_def client_Update_def bnd_def sysc_def ret_def)
  with k(2,3) y(1) C show ?thesis by (auto simp: owned_keeps)
qed

text \<open>
  The shape the \<open>Ensure\<close> functions share: look the object up, create it, or update it when it is
  not as it should be.
\<close>

lemma ensured_by_lookup:
  assumes C: "codec_laws C" and addr: "addr = kref_of (c_kind C) (k_ns r) n"
    and run: "run = bnd (GetOrDie r C n) f"
    and create: "f None = bnd (CreateR r C newobj) g" "oref (c_enc C newobj) = addr" "\<And>y. \<exists>a. g y = ret a"
      "\<And>y. admitted (c_enc C newobj) (c_enc C y) \<Longrightarrow> good (c_enc C y)"
    and update: "\<And>x. \<not> good (c_enc C x) \<Longrightarrow> f (Some x) = bnd (UpdateR r C (u x)) (h x)"
      "\<And>x. oref (c_enc C (u x)) = oref (c_enc C x)" "\<And>x y. \<exists>a. h x y = ret a"
      "\<And>x y. admitted (c_enc C (u x)) (c_enc C y) \<Longrightarrow> good (c_enc C y)"
    and leave: "\<And>x. good (c_enc C x) \<Longrightarrow> \<exists>a. f (Some x) = ret a"
  shows "ensured run store addr good"
proof unfold_locales
  fix s
  show "\<exists>a t ob. run s = (Ok a, t) \<and> store (st_world t) addr = Some ob \<and> good ob"
  proof (cases "store (st_world s) addr")
    case None
    then obtain w where w: "GetOrDie r C n s = (Ok None, s\<lparr>st_world := w\<rparr>)" "store w = store (st_world s)"
      using getOrDie_absent [of s C n] addr by auto
    then obtain y w' where "CreateR r C newobj (s\<lparr>st_world := w\<rparr>) = (Ok y, s\<lparr>st_world := w'\<rparr>)"
        "admitted (c_enc C newobj) (c_enc C y)" "store w' addr = Some (c_enc C y)"
      using createR_absent [OF C, of "s\<lparr>st_world := w\<rparr>" newobj] None create(2) by auto
    with w create(1,4) create(3) [of y] show ?thesis unfolding run by (auto simp: bnd_def)
  next
    case (Some k)
    then obtain x where x: "k = c_enc C x" "oref (c_enc C x) = addr"
      using stored_typed [OF C] addr by blast
    obtain w where w: "GetOrDie r C n s = (Ok (Some x), s\<lparr>st_world := w\<rparr>)" "store w = store (st_world s)"
      using getOrDie_present [OF C, of s n x] Some addr x by auto
    show ?thesis
    proof (cases "good k")
      case True
      with leave [of x] w Some x show ?thesis unfolding run by (auto simp: bnd_def)
    next
      case False
      obtain y w' where "UpdateR r C (u x) (s\<lparr>st_world := w\<rparr>) = (Ok (True, y), s\<lparr>st_world := w'\<rparr>)"
          "admitted (c_enc C (u x)) (c_enc C y)" "store w' addr = Some (c_enc C y)"
        using updateR_present [OF C, of "s\<lparr>st_world := w\<rparr>" "u x"] Some w x update(2) by auto
      with False w x update(1) [of x] update(3) [of x "(True, y)"] update(4) [of x y] show ?thesis
        unfolding run by (auto simp: bnd_def)
    qed
  qed
  fix ob assume good: "store (st_world s) addr = Some ob" "good ob"
  then obtain x where x: "ob = c_enc C x" using stored_typed [OF C] addr by blast
  with good getOrDie_present [OF C, of s n x] leave [of x] addr
  show "store (st_world (snd (run s))) = store (st_world s)" unfolding run by (auto simp: bnd_def)
next
  have ends: "within (touches store {addr}) p" if "\<exists>a. p = ret a" for p :: "('w st, 'e) prog"
    using that touch.within_ret by metis
  show "within (touches store {addr}) run"
    unfolding run
  proof (rule lookup_touches [OF C])
    show "within (touches store {addr}) (f None)"
      unfolding create(1) by (intro touch.within_bnd createR_touches [OF C] ends create(3)) (simp add: create(2))
    fix x assume "oref (c_enc C x) = kref_of (c_kind C) (k_ns r) n"
    then have "oref (c_enc C (u x)) = addr" by (simp add: addr update(2))
    then have "within (touches store {addr}) (bnd (UpdateR r C (u x)) (h x))"
      by (intro touch.within_bnd updateR_touches [OF C] ends update(3)) simp
    then show "within (touches store {addr}) (f (Some x))"
      using update(1) [of x] leave [of x] by (cases "good (c_enc C x)") (auto intro: touch.within_ret)
  qed
qed

end

section \<open>The instances\<close>

text \<open>
  What the three functions settle: the data of the config map or of the secret is the wanted data;
  the service has the wanted selector and ports with the wanted fingerprint.
\<close>

definition cm_good :: "gomap \<Rightarrow> kobj \<Rightarrow> bool" where
  "cm_good data ob \<longleftrightarrow> (\<exists>cm. ob = OConfigMap cm \<and> cm_data cm = data)"

definition se_good :: "gomap \<Rightarrow> kobj \<Rightarrow> bool" where
  "se_good data ob \<longleftrightarrow> (\<exists>se. ob = OSecret se \<and> se_data se = data)"

definition sv_good :: "service_spec \<Rightarrow> kobj \<Rightarrow> bool" where
  "sv_good spec ob \<longleftrightarrow> (\<exists>sv. ob = OService sv \<and> sv_selector (sv_spec sv) = sv_selector spec \<and>
     spsAsString (sv_ports (sv_spec sv)) = spsAsString (sv_ports spec))"

lemma admitted_good:
  "admitted (OConfigMap cm) ob \<Longrightarrow> gm_fm (cm_data cm) \<noteq> fmempty \<Longrightarrow> cm_good (cm_data cm) ob"
  "admitted (OSecret se) ob \<Longrightarrow> gm_fm (se_data se) \<noteq> fmempty \<Longrightarrow> se_good (se_data se) ob"
  "admitted (OService sv) ob \<Longrightarrow> gm_fm (sv_selector (sv_spec sv)) \<noteq> fmempty \<Longrightarrow> sv_good (sv_spec sv) ob"
  by (auto simp: admitted_def kept_spec_def cm_good_def se_good_def sv_good_def kind_exhaust gm_fm_def
      split: option.splits)

lemma enc_simps [simp]:
  "c_enc cConfigMap = OConfigMap" "c_enc cSecret = OSecret" "c_enc cService = OService"
  "c_enc cStatefulSet = OStatefulSet" "c_enc cDeployment = ODeployment"
  by (simp_all add: codec_defs)

context live_client
begin

lemma configmap_ensured:
  assumes "gm_fm data \<noteq> fmempty"
  shows "ensured (EnsureConfigMap r baseName data) store
    (kref_of KConfigMap (k_ns r) (baseName @ ''-config-map'')) (cm_good data)"
  unfolding EnsureConfigMap_def Let_def
  by (rule ensured_by_lookup [OF codec_axioms(1) _ refl, where g = ret
        and newobj = "\<lparr>cm_meta = mk_meta (baseName @ ''-config-map'') (k_ns r), cm_data = data\<rparr>"
        and u = "\<lambda>x. x\<lparr>cm_data := data\<rparr>" and h = "\<lambda>_ (_, cm). ret cm"])
    (auto simp: cm_good_def oref_def mk_meta_def assms split: prod.split
      dest!: admitted_good(1) [unfolded cm_good_def])

lemma secret_ensured:
  assumes "gm_fm (se_data secret) \<noteq> fmempty" and "om_namespace (se_meta secret) = k_ns r"
  shows "ensured (EnsureSecret r secret) store
    (kref_of KSecret (k_ns r) (om_name (se_meta secret))) (se_good (se_data secret))"
  unfolding EnsureSecret_def
  by (rule ensured_by_lookup [OF codec_axioms(2) _ refl, where g = "\<lambda>_. ret ()" and newobj = secret
        and u = "\<lambda>x. x\<lparr>se_data := se_data secret\<rparr>" and h = "\<lambda>_ _. ret ()"])
    (auto simp: se_good_def oref_def assms dest!: admitted_good(2) [unfolded se_good_def])

lemma service_ensured:
  assumes "gm_fm (sv_selector (sv_spec service)) \<noteq> fmempty" and "om_namespace (sv_meta service) = k_ns r"
  shows "ensured (EnsureService r service) store
    (kref_of KService (k_ns r) (om_name (sv_meta service))) (sv_good (sv_spec service))"
  unfolding EnsureService_def
  by (rule ensured_by_lookup [OF codec_axioms(3) _ refl, where g = "\<lambda>_. ret ()" and newobj = service
        and u = "\<lambda>x. x\<lparr>sv_spec := sv_spec service\<rparr>" and h = "\<lambda>_ _. ret ()"])
    (auto simp: sv_good_def oref_def assms dest!: admitted_good(3) [unfolded sv_good_def])

end

text \<open>A config map with at least one entry.\<close>

sublocale live_client \<subseteq> cm: ensured "EnsureConfigMap r baseName (Some (fmupd key value data))" store
  "kref_of KConfigMap (k_ns r) (baseName @ ''-config-map'')" "cm_good (Some (fmupd key value data))"
  for baseName key "value" data
  by (rule configmap_ensured) simp

interpretation mem_live: live_client "r\<lparr>k_sys := mem_sys, k_dryRun := False\<rparr>" mem_store for r
  by (simp add: live_client_def live_client_axioms_def healthy_client_def kube_client_def
      mem.kube_observed_axioms mem.kube_healthy_axioms)

end
