(* ===== verification/Workload.thy ===== *)
theory Workload
  imports Ensure
begin

text \<open>
  The second half of \<open>controllers/utils.go\<close>: building, updating and watching the stateful sets and
  deployments, growing their volumes, and the wait loops. The clock is read through \<open>s_now\<close>; the
  locale \<open>clock\<close> says that it does not run backwards and that sleeping advances it, which bounds
  the number of polls of \<open>waitStatefulset\<close>.
\<close>

section \<open>Builders\<close>

definition mkStatefulSet :: "'w kctx \<Rightarrow> pod_security_context \<Rightarrow> string \<Rightarrow> string \<Rightarrow> StorageConfig \<Rightarrow> string \<Rightarrow> gomap \<Rightarrow>
    bool \<Rightarrow> string list \<Rightarrow> statefulset" where
  "mkStatefulSet r psc name img storageConfig accessMode extraLabels openshiftUser nameSuffix =
     (let serviceName = (case nameSuffix of [] \<Rightarrow> name | suf # _ \<Rightarrow> name @ ''-'' @ suf);
          c = MkContainer name img openshiftUser;
          pvc = MkPVC name (k_ns r) storageConfig accessMode
      in MkStatefulset psc name (k_ns r) 1 serviceName c pvc extraLabels)"

definition mkHeadlessStatefulSet :: "'w kctx \<Rightarrow> pod_security_context \<Rightarrow> string \<Rightarrow> string \<Rightarrow> StorageConfig \<Rightarrow> string \<Rightarrow>
    gomap \<Rightarrow> bool \<Rightarrow> statefulset" where
  "mkHeadlessStatefulSet r psc name img storageConfig accessMode extraLabels openshiftUser =
     mkStatefulSet r psc name img storageConfig accessMode extraLabels openshiftUser [''headless'']"

definition BaseGetStorageConfOrDefault :: "StorageSpec \<Rightarrow> StorageDefaultSpec \<Rightarrow> StorageConfig" where
  "BaseGetStorageConfOrDefault storageSpec storageDefault =
     (let className = (if sd_ClassName storageDefault \<noteq> [] then Some (sd_ClassName storageDefault) else None);
          size = (if q_milli (sto_Size storageSpec) \<noteq> 0 then sto_Size storageSpec else Qty1Gi);
          className' = (if sto_ClassName storageSpec \<noteq> [] then Some (sto_ClassName storageSpec) else className)
      in \<lparr>scf_StorageClassName = className', scf_Size = size, scf_ExtraAnnotations = sd_ExtraAnnotations storageDefault\<rparr>)"

section \<open>Readiness\<close>

fun collect_running :: "pod list \<Rightarrow> pod list \<Rightarrow> pod list \<times> bool" where
  "collect_running pods [] = (pods, True)"
| "collect_running pods (p # ps) =
     (if po_phase p \<noteq> ''Running'' then (pods, False)
      else if \<not> list_all cs_ready (po_containerStatuses p) then (pods, False)
      else collect_running (pods @ [p]) ps)"

definition getPods :: "'w kctx \<Rightarrow> statefulset \<Rightarrow> ('w st, pod list \<times> bool) prog" where
  "getPods r dep =
     (if 0 < ss_readyReplicas dep then
        (case ss_selector dep of
           None \<Rightarrow> panic nil_deref
         | Some matchLabels \<Rightarrow> bnd (ListSel r cPod matchLabels) (\<lambda>res. case res of
             Inl e \<Rightarrow> panic (err_Error e)
           | Inr items \<Rightarrow> ret (collect_running [] items)))
      else ret ([], True))"

definition IsStatefulSetReady :: "'w kctx \<Rightarrow> statefulset \<Rightarrow> ('w st, bool) prog" where
  "IsStatefulSetReady r dep =
     (if k_dryRun r then ret True
      else bnd (IsStatefulSetRolloutDone dep) (\<lambda>rolloutOk.
        if rolloutOk then
          (let replicas = (case ss_replicas dep of None \<Rightarrow> 1 | Some n \<Rightarrow> n) in
           if replicas \<noteq> ss_readyReplicas dep then ret False
           else if 0 < replicas then bnd (getPods r dep) (\<lambda>(_, ok). ret ok)
           else ret True)
        else ret False))"

definition IsDeploymentReady :: "'w kctx \<Rightarrow> deployment \<Rightarrow> bool" where
  "IsDeploymentReady r dep =
     (if k_dryRun r then True
      else if IsDeploymentRolloutDone dep then
        (let replicas = (case de_replicas dep of None \<Rightarrow> 1 | Some n \<Rightarrow> n) in
         if 0 < replicas then 0 < de_readyReplicas dep else True)
      else False)"

definition status_crashing :: "container_status \<Rightarrow> bool" where
  "status_crashing cs \<longleftrightarrow> cs_waitingReason cs = Some ''CrashLoopBackOff''"

definition hasCrashLoopBackOff :: "'w kctx \<Rightarrow> statefulset \<Rightarrow> ('w st, bool) prog" where
  "hasCrashLoopBackOff r sts = (case ss_selector sts of
       None \<Rightarrow> ret False
     | Some matchLabels \<Rightarrow> bnd (ListSel r cPod matchLabels) (\<lambda>res. ret (case res of
         Inl _ \<Rightarrow> False
       | Inr items \<Rightarrow> list_ex (\<lambda>p. list_ex status_crashing (po_containerStatuses p) \<or>
             list_ex status_crashing (po_initContainerStatuses p)) items)))"

section \<open>Comparing and updating workloads\<close>

definition quoted :: "string \<Rightarrow> string" where
  "quoted s = [CHR 0x27] @ s @ [CHR 0x27]"

text \<open>
  The messages for added and changed, then for removed annotations. Go iterates over a map in an
  arbitrary order; the messages are sorted at the end, so that the order does not matter.
\<close>

definition annotation_diff :: "smap \<Rightarrow> string \<Rightarrow> string \<Rightarrow> string list" where
  "annotation_diff current key desiredValue = (case fmlookup current key of
       None \<Rightarrow> [''annotation '' @ quoted key @ '' added with value: '' @ desiredValue]
     | Some currentValue \<Rightarrow> if currentValue \<noteq> desiredValue
         then [''annotation '' @ quoted key @ '' changed from '' @ quoted desiredValue @ '' to '' @ quoted currentValue]
         else [])"

definition annotation_removed :: "smap \<Rightarrow> string \<Rightarrow> string \<Rightarrow> string list" where
  "annotation_removed desired key currentValue =
     (if fmlookup desired key = None
      then [''annotation '' @ quoted key @ '' with value '' @ quoted currentValue @ '' removed''] else [])"

definition compareAnnotations :: "gomap \<Rightarrow> gomap \<Rightarrow> string list" where
  "compareAnnotations current desired = sort
     (concat (map (\<lambda>(k, v). annotation_diff (gm_fm current) k v) (fm_items (gm_fm desired))) @
      concat (map (\<lambda>(k, v). annotation_removed (gm_fm desired) k v) (fm_items (gm_fm current))))"

definition getGracePeriod :: "statefulset \<Rightarrow> int" where
  "getGracePeriod sts = (case ps_terminationGracePeriodSeconds (pt_spec (ss_template sts)) of
       Some g \<Rightarrow> g | None \<Rightarrow> 30)"

fun imageChanged :: "container list \<Rightarrow> container list \<Rightarrow> string list" where
  "imageChanged [] current = []"
| "imageChanged (d # ds) [] = ct_image d # imageChanged ds []"
| "imageChanged (d # ds) (c # cs) = (if ct_image c \<noteq> ct_image d then ct_image d # imageChanged ds cs else imageChanged ds cs)"

text \<open>
  The messages that describe the differences only go to the log and are left out. The result is the
  object and whether it was created or updated.
\<close>

definition template_annotations :: "pod_template \<Rightarrow> gomap" where
  "template_annotations t = om_annotations (pt_meta t)"

definition template_images :: "pod_template \<Rightarrow> container list" where
  "template_images t = ps_containers (pt_spec t)"

definition sts_needUpdate :: "statefulset \<Rightarrow> int option \<Rightarrow> statefulset \<Rightarrow> bool" where
  "sts_needUpdate sts desiredReplicaCount current \<longleftrightarrow>
     (case desiredReplicaCount of None \<Rightarrow> False
      | Some n \<Rightarrow> n \<noteq> (case ss_replicas current of None \<Rightarrow> 1 | Some m \<Rightarrow> m)) \<or>
     imageChanged (template_images (ss_template sts)) (template_images (ss_template current)) \<noteq> [] \<or>
     \<not> MapEquals (template_annotations (ss_template current)) (template_annotations (ss_template sts)) \<or>
     getGracePeriod current \<noteq> getGracePeriod sts"

definition sts_updated :: "statefulset \<Rightarrow> int option \<Rightarrow> statefulset \<Rightarrow> statefulset" where
  "sts_updated sts desiredReplicaCount current =
     (let current = (case desiredReplicaCount of
          None \<Rightarrow> current
        | Some n \<Rightarrow> if n \<noteq> (case ss_replicas current of None \<Rightarrow> 1 | Some m \<Rightarrow> m)
            then current\<lparr>ss_replicas := desiredReplicaCount\<rparr> else current)
      in current\<lparr>ss_template := ss_template sts\<rparr>)"

definition ensureStatefulset :: "'w kctx \<Rightarrow> statefulset \<Rightarrow> int option \<Rightarrow> ('w st, statefulset \<times> bool) prog" where
  "ensureStatefulset r sts desiredReplicaCount =
     bnd (GetOrDie r cStatefulSet (om_name (ss_meta sts))) (\<lambda>found. case found of
         Some current \<Rightarrow>
           if sts_needUpdate sts desiredReplicaCount current
           then bnd (UpdateR r cStatefulSet (sts_updated sts desiredReplicaCount current)) (\<lambda>(_, c). ret (c, True))
           else ret (current, False)
       | None \<Rightarrow> bnd (CreateR r cStatefulSet sts) (\<lambda>c. ret (c, True)))"

definition no_strategy :: deployment_strategy where
  "no_strategy = \<lparr>ds_type = [], ds_rollingUpdate = None\<rparr>"

definition strategy_changed :: "deployment \<Rightarrow> deployment \<Rightarrow> bool" where
  "strategy_changed dep current \<longleftrightarrow> de_strategy current \<noteq> de_strategy dep \<and> de_strategy dep \<noteq> no_strategy"

definition dep_needUpdate :: "deployment \<Rightarrow> int option \<Rightarrow> deployment \<Rightarrow> bool" where
  "dep_needUpdate dep desiredReplicaCount current \<longleftrightarrow>
     (case desiredReplicaCount of None \<Rightarrow> False
      | Some n \<Rightarrow> n \<noteq> (case de_replicas current of None \<Rightarrow> 1 | Some m \<Rightarrow> m)) \<or>
     imageChanged (template_images (de_template dep)) (template_images (de_template current)) \<noteq> [] \<or>
     \<not> MapEquals (template_annotations (de_template current)) (template_annotations (de_template dep)) \<or>
     strategy_changed dep current"

definition dep_updated :: "deployment \<Rightarrow> int option \<Rightarrow> deployment \<Rightarrow> deployment" where
  "dep_updated dep desiredReplicaCount current =
     (let c1 = (case desiredReplicaCount of
          None \<Rightarrow> current
        | Some n \<Rightarrow> if n \<noteq> (case de_replicas current of None \<Rightarrow> 1 | Some m \<Rightarrow> m)
            then current\<lparr>de_replicas := desiredReplicaCount\<rparr> else current);
          c2 = (if strategy_changed dep current then c1\<lparr>de_strategy := de_strategy dep\<rparr> else c1)
      in c2\<lparr>de_template := de_template dep\<rparr>)"

definition ensureDeployment :: "'w kctx \<Rightarrow> deployment \<Rightarrow> int option \<Rightarrow> ('w st, deployment \<times> bool) prog" where
  "ensureDeployment r dep desiredReplicaCount =
     bnd (GetOrDie r cDeployment (om_name (de_meta dep))) (\<lambda>found. case found of
         Some current \<Rightarrow>
           if dep_needUpdate dep desiredReplicaCount current
           then bnd (UpdateR r cDeployment (dep_updated dep desiredReplicaCount current)) (\<lambda>(_, c). ret (c, True))
           else ret (current, False)
       | None \<Rightarrow> bnd (CreateR r cDeployment dep) (\<lambda>c. ret (c, True)))"

definition DebugStatefulSet :: "'w kctx \<Rightarrow> string \<Rightarrow> ('w st, unit) prog" where
  "DebugStatefulSet r name = bnd (GetOrDie r cStatefulSet name) (\<lambda>found. case found of
       None \<Rightarrow> panic (''Can'' @ [CHR 0x27] @ ''t find the statefulset'')
     | Some dep \<Rightarrow>
         (let t = ss_template dep; spec = pt_spec t in
          case ps_containers spec of
            [] \<Rightarrow> panic ''index out of range''
          | c # cs \<Rightarrow>
              bnd (UpdateR r cStatefulSet (dep\<lparr>ss_template := t\<lparr>pt_spec := spec\<lparr>ps_containers :=
                 c\<lparr>ct_readinessProbe := None, ct_livenessProbe := None,
                   ct_command := [''sleep'', ''infinity'']\<rparr> # cs\<rparr>\<rparr>\<rparr>)) (\<lambda>_. ret ())))"

section \<open>Volumes\<close>

definition canStorageResize :: "'w kctx \<Rightarrow> string option \<Rightarrow> ('w st, bool) prog" where
  "canStorageResize r storageName = (case storageName of
       None \<Rightarrow> ret True
     | Some name \<Rightarrow> if name = [] then ret True
         else bnd (GetOrDie r cStorageClass name) (\<lambda>found. ret (case found of
             None \<Rightarrow> True | Some sc \<Rightarrow> sk_allowVolumeExpansion sc = Some True)))"

definition reconcileExpandPVC :: "'w kctx \<Rightarrow> string \<Rightarrow> StorageSpec \<Rightarrow> ('w st, bool) prog" where
  "reconcileExpandPVC r pvcName newStorageSpec =
     (let newQTY = sto_Size newStorageSpec in
      if q_milli newQTY \<le> 0 then ret True
      else bnd (GetOrDie r cPVC pvcName) (\<lambda>found. case found of
          None \<Rightarrow> ret False
        | Some foundPVC \<Rightarrow>
            (let currentQTY = pv_capacity foundPVC in
             if q_milli currentQTY = 0 then ret False
             else if list_ex (\<lambda>c. c = ''Resizing'' \<or> c = ''FileSystemResizePending'') (pv_conditionTypes foundPVC)
               then ret False
             else if q_milli newQTY < q_milli currentQTY then ret True
             else if q_milli newQTY = q_milli currentQTY then ret True
             else bnd (canStorageResize r (pv_storageClassName foundPVC)) (\<lambda>can.
               if \<not> can then ret True
               else bnd (client_Update r False cPVC
                   (foundPVC\<lparr>pv_requests := fmap_of_list [(''storage'', newQTY)]\<rparr>)) (\<lambda>_. ret False)))))"

definition reconcileExpandPVCs :: "'w kctx \<Rightarrow> string \<Rightarrow> StorageSpec \<Rightarrow> ('w st, bool) prog" where
  "reconcileExpandPVCs r serviceName newStorageSpec =
     bnd (ListSel r cPVC (Some (smap_of [(''run'', serviceName), (''app'', ''sf'')]))) (\<lambda>res. case res of
         Inl _ \<Rightarrow> ret False
       | Inr items \<Rightarrow>
           bnd (map_prog (\<lambda>pvc. reconcileExpandPVC r (om_name (pv_meta pvc)) newStorageSpec) items) (\<lambda>readyList.
             ret (list_all id readyList)))"

section \<open>Waiting\<close>

definition second :: int where "second = 1000000000"

text \<open>
  One turn of the loop of \<open>waitStatefulset\<close> and the loop itself. \<open>seen\<close> is \<open>crashLoopFirstSeen\<close>
  (\<open>None\<close> for the zero time). The loop ends when the clock passes the deadline; the fuel is one
  turn for every two seconds of the grace period, the poll interval, and two more.
\<close>

definition crash_check :: "'w kctx \<Rightarrow> bool \<Rightarrow> int option \<Rightarrow> ('w st, int option \<times> bool) prog" where
  "crash_check r crash seen =
     (if crash then
        bnd (case seen of None \<Rightarrow> sysc (s_now (k_sys r)) | Some x \<Rightarrow> ret x) (\<lambda>first.
        bnd (sysc (s_now (k_sys r))) (\<lambda>t. ret (Some first, 30 * second < t - first)))
      else ret (None, False))"

fun waitLoop :: "nat \<Rightarrow> 'w kctx \<Rightarrow> string \<Rightarrow> int \<Rightarrow> int option \<Rightarrow> statefulset \<Rightarrow> ('w st, bool \<times> statefulset) prog" where
  "waitLoop 0 r name deadline seen sts = stuck"
| "waitLoop (Suc n) r name deadline seen sts =
     bnd (sysc (s_now (k_sys r))) (\<lambda>t.
       if \<not> t < deadline then ret (False, sts)
       else bnd (GetOrDie r cStatefulSet name) (\<lambda>found.
         let sts' = (case found of None \<Rightarrow> sts | Some x \<Rightarrow> x) in
         bnd (IsStatefulSetReady r sts') (\<lambda>ready.
           if ready then ret (True, sts')
           else bnd (hasCrashLoopBackOff r sts') (\<lambda>crash.
             bnd (crash_check r crash seen) (\<lambda>(seen', bail).
               if bail then ret (False, sts')
               else bnd (sysc (s_sleep (k_sys r) (2 * second))) (\<lambda>_. waitLoop n r name deadline seen' sts'))))))"

definition wait_fuel :: "statefulset \<Rightarrow> nat" where
  "wait_fuel sts = nat (getGracePeriod sts div 2) + 2"

definition waitStatefulset :: "'w kctx \<Rightarrow> statefulset \<Rightarrow> ('w st, bool \<times> statefulset) prog" where
  "waitStatefulset r sts = bnd (sysc (s_now (k_sys r))) (\<lambda>now.
     waitLoop (wait_fuel sts) r (om_name (ss_meta sts)) (now + getGracePeriod sts * second) None sts)"

text \<open>\<open>WaitFor\<close>: \<open>left\<close> is how many more attempts follow a failed one.\<close>

fun waitForFrom :: "nat \<Rightarrow> 'w kctx \<Rightarrow> ('w st, bool) prog \<Rightarrow> ('w st, bool) prog" where
  "waitForFrom left r ensureFun = bnd ensureFun (\<lambda>ok.
     if ok then ret True
     else case left of 0 \<Rightarrow> ret False
       | Suc n \<Rightarrow> bnd (sysc (s_sleep (k_sys r) second)) (\<lambda>_. waitForFrom n r ensureFun))"

definition WaitFor :: "'w kctx \<Rightarrow> ('w st, bool) prog \<Rightarrow> ('w st, bool) prog" where
  "WaitFor r ensureFun = waitForFrom 300 r ensureFun"

section \<open>Lemmas on the pure parts\<close>

lemma imageChanged_Nil:
  "imageChanged ds cs = [] \<longleftrightarrow>
     length ds \<le> length cs \<and> map ct_image ds = map ct_image (take (length ds) cs)"
  by (induction ds cs rule: imageChanged.induct) auto

lemma imageChanged_same: "map ct_image cs = map ct_image ds \<Longrightarrow> imageChanged ds cs = []"
  unfolding imageChanged_Nil by (metis length_map order_refl take_all)

lemma sort_Nil: "sort xs = [] \<longleftrightarrow> xs = []"
  by (metis length_0_conv length_sort)

lemma concat_items_Nil:
  "concat (map (\<lambda>(k, v). f k v) (fm_items m)) = [] \<longleftrightarrow> (\<forall>k v. fmlookup m k = Some v \<longrightarrow> f k v = [])"
  unfolding concat_eq_Nil_conv set_map by (auto simp flip: fm_items_iff)

lemma annotation_diff_Nil: "annotation_diff m k v = [] \<longleftrightarrow> fmlookup m k = Some v"
  and annotation_removed_Nil: "annotation_removed m k v = [] \<longleftrightarrow> fmlookup m k \<noteq> None"
  by (auto simp: annotation_diff_def annotation_removed_def split: option.split)

lemma compareAnnotations_Nil: "compareAnnotations a b = [] \<longleftrightarrow> gm_fm a = gm_fm b"
proof -
  have "compareAnnotations a b = [] \<longleftrightarrow>
      (\<forall>k v. fmlookup (gm_fm b) k = Some v \<longrightarrow> fmlookup (gm_fm a) k = Some v) \<and>
      (\<forall>k v. fmlookup (gm_fm a) k = Some v \<longrightarrow> fmlookup (gm_fm b) k \<noteq> None)"
    by (simp add: compareAnnotations_def sort_Nil concat_items_Nil annotation_diff_Nil
        annotation_removed_Nil del: concat_eq_Nil_conv)
  also have "\<dots> \<longleftrightarrow> (\<forall>k. fmlookup (gm_fm a) k = fmlookup (gm_fm b) k)"
    by (metis option.exhaust option.distinct(1) option.inject)
  finally show ?thesis by (auto intro: fmap_ext)
qed

section \<open>What the operations may change\<close>

lemma upd_meta [simp]:
  "ss_meta (sts_updated sts n x) = ss_meta x" "de_meta (dep_updated dep n y) = de_meta y"
  by (auto simp: sts_updated_def dep_updated_def Let_def split: option.split)

context kube_client
begin

lemma ensureStatefulset_touches:
  "k_dryRun r \<or> om_namespace (ss_meta sts) = k_ns r \<and> kref_of KStatefulSet (k_ns r) (om_name (ss_meta sts)) \<in> X \<Longrightarrow>
     within (touches store X) (ensureStatefulset r sts n)"
  unfolding ensureStatefulset_def
  by (rule lookup_touches)
    (auto intro!: touch.within_rules createR_touches updateR_touches codec_axioms simp: oref_def)

lemma ensureDeployment_touches:
  "k_dryRun r \<or> om_namespace (de_meta dep) = k_ns r \<and> kref_of KDeployment (k_ns r) (om_name (de_meta dep)) \<in> X \<Longrightarrow>
     within (touches store X) (ensureDeployment r dep n)"
  unfolding ensureDeployment_def
  by (rule lookup_touches)
    (auto intro!: touch.within_rules createR_touches updateR_touches codec_axioms simp: oref_def)

lemma getPods_touches: "within (touches store X) (getPods r dep)"
  unfolding getPods_def by (intro touch.within_rules call_touches)

lemma isStatefulSetReady_touches: "within (touches store X) (IsStatefulSetReady r dep)"
  unfolding IsStatefulSetReady_def IsStatefulSetRolloutDone_def Let_def
  by (intro touch.within_rules getPods_touches)

lemma hasCrashLoopBackOff_touches: "within (touches store X) (hasCrashLoopBackOff r sts)"
  unfolding hasCrashLoopBackOff_def by (intro touch.within_rules call_touches)

lemma canStorageResize_touches: "within (touches store X) (canStorageResize r n)"
  unfolding canStorageResize_def by (intro touch.within_rules call_touches)

text \<open>The expansion of a volume writes to the claim, in dry-run mode too.\<close>

lemma reconcileExpandPVC_touches:
  "kref_of KPVC (k_ns r) n \<in> X \<Longrightarrow> within (touches store X) (reconcileExpandPVC r n spec)"
  unfolding reconcileExpandPVC_def Let_def
  by (intro touch.within_if touch.within_ret lookup_touches codec_axioms)
    (auto intro!: touch.within_rules canStorageResize_touches update_touches simp: oref_def codec_defs)

lemma reconcileExpandPVC_grows:
  assumes "reconcileExpandPVC r n spec s = (out, t)" and "store (st_world t) \<noteq> store (st_world s)"
  shows "\<exists>pvc. store (st_world s) (kref_of KPVC (k_ns r) n) = Some (OPVC pvc) \<and>
    0 < q_milli (sto_Size spec) \<and> q_milli (pv_capacity pvc) < q_milli (sto_Size spec)"
proof (rule ccontr)
  assume small: "\<not> ?thesis"
  then have "0 < q_milli (sto_Size spec) \<Longrightarrow> GetOrDie r cPVC n s = (Ok (Some pvc), u) \<Longrightarrow>
      \<not> q_milli (pv_capacity pvc) < q_milli (sto_Size spec)" for pvc u
    using getOrDie_Some [OF codec_axioms(7), of n s pvc u] by (auto simp: codec_defs)
  moreover obtain o1 u where get: "GetOrDie r cPVC n s = (o1, u)" by fastforce
  moreover have "touches store {} s u" using withinD [OF getOrDie_touches get] .
  ultimately have "touches store {} s t"
    using assms(1) by (cases o1) (auto simp: reconcileExpandPVC_def Let_def bnd_def touches_empty
        split: if_splits option.splits)
  with assms(2) show False by (simp add: touches_empty)
qed

end

section \<open>The contract of the workload functions\<close>

definition sts_good :: "statefulset \<Rightarrow> int option \<Rightarrow> kobj \<Rightarrow> bool" where
  "sts_good sts n ob \<longleftrightarrow> (\<exists>x. ob = OStatefulSet x \<and> \<not> sts_needUpdate sts n x)"

definition dep_good :: "deployment \<Rightarrow> int option \<Rightarrow> kobj \<Rightarrow> bool" where
  "dep_good dep n ob \<longleftrightarrow> (\<exists>x. ob = ODeployment x \<and> \<not> dep_needUpdate dep n x)"

text \<open>The count given to the function is the one of the object, when both are given.\<close>

definition count_agrees :: "int option \<Rightarrow> int option \<Rightarrow> bool" where
  "count_agrees desired replicas \<longleftrightarrow> desired = None \<or> desired = replicas"

lemma kept_template_current:
  assumes "kept_template t t'" and "gm_fm (template_annotations t) \<noteq> fmempty"
  shows "imageChanged (template_images t) (template_images t') = []" and "template_annotations t' = template_annotations t"
    and "(case ps_terminationGracePeriodSeconds (pt_spec t') of None \<Rightarrow> 30 | Some g \<Rightarrow> g) =
      (case ps_terminationGracePeriodSeconds (pt_spec t) of None \<Rightarrow> 30 | Some g \<Rightarrow> g)"
  using assms gm_fm_eq_Some [of "template_annotations t'" "gm_fm (template_annotations t)"]
  by (auto simp: kept_template_def template_images_def template_annotations_def kept_default_def gm_fm_def
      intro!: imageChanged_same split: option.splits)

lemma admitted_sts:
  assumes "admitted (OStatefulSet x) (OStatefulSet y)" and "ss_template x = ss_template sts"
    and "gm_fm (template_annotations (ss_template sts)) \<noteq> fmempty"
    and "n = None \<or> n = Some (case ss_replicas x of None \<Rightarrow> 1 | Some m \<Rightarrow> m)"
  shows "\<not> sts_needUpdate sts n y"
proof -
  have k: "kept_template (ss_template sts) (ss_template y)" "kept_default 1 (ss_replicas x) (ss_replicas y)"
    using assms(1,2) by (auto simp: admitted_def kept_spec_def)
  show ?thesis
    using kept_template_current [OF k(1) assms(3)] k(2) assms(4)
    by (auto simp: sts_needUpdate_def getGracePeriod_def MapEquals_def kept_default_def)
qed

lemma admitted_dep:
  assumes "admitted (ODeployment x) (ODeployment y)" and "de_template x = de_template dep"
    and "gm_fm (template_annotations (de_template dep)) \<noteq> fmempty"
    and "n = None \<or> n = Some (case de_replicas x of None \<Rightarrow> 1 | Some m \<Rightarrow> m)"
    and "de_strategy dep = no_strategy \<or> ds_type (de_strategy dep) \<noteq> [] \<and> de_strategy x = de_strategy dep"
  shows "\<not> dep_needUpdate dep n y"
proof -
  have k: "kept_template (de_template dep) (de_template y)" "kept_default 1 (de_replicas x) (de_replicas y)"
      "ds_type (de_strategy x) \<noteq> [] \<Longrightarrow> de_strategy y = de_strategy x"
    using assms(1,2) by (auto simp: admitted_def kept_spec_def)
  show ?thesis
    using kept_template_current [OF k(1) assms(3)] k(2,3) assms(4,5)
    by (auto simp: dep_needUpdate_def MapEquals_def kept_default_def strategy_changed_def)
qed

lemma sts_updated_fields:
  "ss_template (sts_updated sts n x) = ss_template sts"
  "n = None \<or> n = Some (case ss_replicas (sts_updated sts n x) of None \<Rightarrow> 1 | Some m \<Rightarrow> m)"
  by (auto simp: sts_updated_def Let_def split: option.splits)

lemma dep_updated_fields:
  "de_template (dep_updated dep n x) = de_template dep"
  "n = None \<or> n = Some (case de_replicas (dep_updated dep n x) of None \<Rightarrow> 1 | Some m \<Rightarrow> m)"
  "de_strategy dep = no_strategy \<or> de_strategy (dep_updated dep n x) = de_strategy dep"
  by (auto simp: dep_updated_def Let_def strategy_changed_def split: option.splits)

lemma images_kept:
  "imageChanged ds cs = [] \<Longrightarrow> i < length ds \<Longrightarrow> i < length cs \<and> ct_image (cs ! i) = ct_image (ds ! i)"
  by (induction ds cs arbitrary: i rule: imageChanged.induct) (auto simp: less_Suc_eq_0_disj split: if_splits)

text \<open>What an object looks like that needs no update.\<close>

lemma sts_current:
  assumes "\<not> sts_needUpdate sts n x"
  shows "\<forall>i < length (template_images (ss_template sts)). i < length (template_images (ss_template x)) \<and>
      ct_image (template_images (ss_template x) ! i) = ct_image (template_images (ss_template sts) ! i)"
    and "template_annotations (ss_template x) = template_annotations (ss_template sts)"
    and "getGracePeriod x = getGracePeriod sts"
    and "n \<noteq> None \<longrightarrow> n = Some (case ss_replicas x of None \<Rightarrow> 1 | Some m \<Rightarrow> m)"
  using assms images_kept [of "template_images (ss_template sts)" "template_images (ss_template x)"]
  by (auto simp: sts_needUpdate_def MapEquals_def split: option.splits)

lemma dep_current:
  assumes "\<not> dep_needUpdate dep n x"
  shows "\<forall>i < length (template_images (de_template dep)). i < length (template_images (de_template x)) \<and>
      ct_image (template_images (de_template x) ! i) = ct_image (template_images (de_template dep) ! i)"
    and "template_annotations (de_template x) = template_annotations (de_template dep)"
    and "de_strategy dep \<noteq> no_strategy \<longrightarrow> de_strategy x = de_strategy dep"
    and "n \<noteq> None \<longrightarrow> n = Some (case de_replicas x of None \<Rightarrow> 1 | Some m \<Rightarrow> m)"
  using assms images_kept [of "template_images (de_template dep)" "template_images (de_template x)"]
  by (auto simp: dep_needUpdate_def strategy_changed_def MapEquals_def split: option.splits)

context live_client
begin

lemma statefulset_ensured:
  assumes "gm_fm (template_annotations (ss_template sts)) \<noteq> fmempty" and "om_namespace (ss_meta sts) = k_ns r"
    and "count_agrees n (ss_replicas sts)"
  shows "ensured (ensureStatefulset r sts n) store
    (kref_of KStatefulSet (k_ns r) (om_name (ss_meta sts))) (sts_good sts n)"
  unfolding ensureStatefulset_def
proof (rule ensured_by_lookup [OF codec_axioms(4) _ refl, where g = "\<lambda>c. ret (c, True)" and newobj = sts
        and u = "sts_updated sts n" and h = "\<lambda>_ (_, c). ret (c, True)"], goal_cases)
  case (5 y)
  have "n = None \<or> n = Some (case ss_replicas sts of None \<Rightarrow> 1 | Some m \<Rightarrow> m)"
    using assms(3) by (auto simp: count_agrees_def split: option.splits)
  with 5 show ?case using admitted_sts [of sts y sts n] assms(1) by (simp add: sts_good_def)
next
  case (9 x y)
  then show ?case
    using admitted_sts [of "sts_updated sts n x" y sts n] assms(1) sts_updated_fields [where sts = sts and n = n and x = x]
    by (simp add: sts_good_def)
qed (use assms in \<open>auto simp: sts_good_def oref_def split: prod.split\<close>)

lemma deployment_ensured:
  assumes "gm_fm (template_annotations (de_template dep)) \<noteq> fmempty" and "om_namespace (de_meta dep) = k_ns r"
    and "count_agrees n (de_replicas dep)"
    and "de_strategy dep = no_strategy \<or> ds_type (de_strategy dep) \<noteq> []"
  shows "ensured (ensureDeployment r dep n) store
    (kref_of KDeployment (k_ns r) (om_name (de_meta dep))) (dep_good dep n)"
  unfolding ensureDeployment_def
proof (rule ensured_by_lookup [OF codec_axioms(5) _ refl, where g = "\<lambda>c. ret (c, True)" and newobj = dep
        and u = "dep_updated dep n" and h = "\<lambda>_ (_, c). ret (c, True)"], goal_cases)
  case (5 y)
  have "n = None \<or> n = Some (case de_replicas dep of None \<Rightarrow> 1 | Some m \<Rightarrow> m)"
    using assms(3) by (auto simp: count_agrees_def split: option.splits)
  with 5 show ?case using admitted_dep [of dep y dep n] assms(1,4) by (simp add: dep_good_def)
next
  case (9 x y)
  then show ?case
    using admitted_dep [of "dep_updated dep n x" y dep n] assms(1,4) dep_updated_fields [where dep = dep and n = n and x = x]
    by (auto simp: dep_good_def)
qed (use assms in \<open>auto simp: dep_good_def oref_def split: prod.split\<close>)

end

section \<open>The wait loops end\<close>

text \<open>\<open>time w\<close> is the reading of the monotonic clock in the world \<open>w\<close>, in nanoseconds.\<close>

locale clock =
  fixes S :: "'w sys" and time :: "'w \<Rightarrow> int"
  assumes now_reads: "s_now S w = (i, w') \<Longrightarrow> time w \<le> i \<and> i \<le> time w'"
    and sleep_advances: "s_sleep S d w = (u, w') \<Longrightarrow> time w + d \<le> time w'"
    and get_time: "s_get S k ns n w = (g, w') \<Longrightarrow> time w \<le> time w'"
    and list_time: "s_list S k ns sel w = (ls, w') \<Longrightarrow> time w \<le> time w'"

interpretation mem_clock: clock mem_sys mw_clock
  by unfold_locales (auto simp: mem_sys_def mem_get_def mem_list_def split: option.splits)

definition later :: "('w \<Rightarrow> int) \<Rightarrow> 'w st \<Rightarrow> 'w st \<Rightarrow> bool" where
  "later time s t \<longleftrightarrow> time (st_world s) \<le> time (st_world t)"

interpretation late: effect_bound "later time" for time
  by unfold_locales (auto simp: later_def)

lemma unstuck_sysc [simp]: "unstuck (sysc f)"
  by (auto simp: unstuck_def sysc_def split: prod.split)

lemma unstuck_lookup [simp]: "unstuck (GetOrDie r C n)" "unstuck (ListSel r C sel)"
  unfolding GetOrDie_def Get_def ListSel_def by (intro unstuck_intros unstuck_sysc)+

lemma unstuck_ready [simp]: "unstuck (IsStatefulSetReady r sts)" "unstuck (hasCrashLoopBackOff r sts)"
    "unstuck (crash_check r b seen)"
  unfolding IsStatefulSetReady_def IsStatefulSetRolloutDone_def getPods_def hasCrashLoopBackOff_def
    crash_check_def Let_def
  by (intro unstuck_intros unstuck_sysc unstuck_lookup)+

locale clock_client = clock "k_sys r" time for r :: "'w kctx" and time :: "'w \<Rightarrow> int"
begin

lemma sysc_later:
  "within (later time) (sysc (s_get (k_sys r) k ns n))"
  "within (later time) (sysc (s_list (k_sys r) k ns sel))"
  "within (later time) (sysc (s_now (k_sys r)))"
  by (auto simp: within_def sysc_def later_def split: prod.split dest: get_time list_time now_reads)

lemma turn_later:
  "within (later time) (GetOrDie r C n)"
  "within (later time) (IsStatefulSetReady r sts)"
  "within (later time) (hasCrashLoopBackOff r sts)"
  "within (later time) (crash_check r crash seen)"
  unfolding GetOrDie_def Get_def IsStatefulSetReady_def IsStatefulSetRolloutDone_def getPods_def Let_def
    ListSel_def hasCrashLoopBackOff_def crash_check_def
  by (intro late.within_rules sysc_later)+

lemma sleep_run:
  "sysc (s_sleep (k_sys r) d) s = (Ok u, t) \<Longrightarrow> time (st_world s) + d \<le> time (st_world t)"
  by (auto simp: sysc_def split: prod.splits dest: sleep_advances)

lemma step_unstuck:
  assumes "unstuck m" and "within (later time) m" and "\<And>x t. m s = (Ok x, t) \<Longrightarrow> later time s t \<Longrightarrow> fst (f x t) \<noteq> Stuck"
  shows "fst (bnd m f s) \<noteq> Stuck"
  using assms by (intro bnd_unstuck_at) (auto simp: unstuck_def dest: withinD)

lemma step_from:
  assumes "unstuck m" and "within (later time) m" and "later time s s'"
    and "\<And>x t. later time s t \<Longrightarrow> fst (f x t) \<noteq> Stuck"
  shows "fst (bnd m f s') \<noteq> Stuck"
  using step_unstuck [OF assms(1,2), of s' f] assms(3,4) late.bound_trans by metis

lemma branch_from:
  "(b \<Longrightarrow> fst (m t) \<noteq> Stuck) \<Longrightarrow> (\<not> b \<Longrightarrow> fst (n t) \<noteq> Stuck) \<Longrightarrow> fst ((if b then m else n) t) \<noteq> Stuck"
  "(\<And>x y. fst (f x y t) \<noteq> Stuck) \<Longrightarrow> fst ((case p of (x, y) \<Rightarrow> f x y) t) \<noteq> Stuck"
  "fst (ret v t) \<noteq> Stuck"
  by (auto split: prod.split)

lemma waitLoop_ends:
  assumes "deadline - time (st_world s) \<le> 2 * second * int n"
  shows "fst (waitLoop (Suc n) r name deadline seen sts s) \<noteq> Stuck"
  using assms
proof (induction n arbitrary: seen sts s)
  case 0
  show ?case unfolding waitLoop.simps
  proof (rule step_unstuck [OF unstuck_sysc sysc_later(3)])
    fix t u assume "sysc (s_now (k_sys r)) s = (Ok t, u)"
    then have "\<not> t < deadline" using 0 now_reads [of "st_world s"] by (force simp: sysc_def split: prod.splits)
    then show "fst ((if \<not> t < deadline then ret (False, sts) else f) u) \<noteq> Stuck" for f :: "('w st, bool \<times> statefulset) prog"
      by simp
  qed
next
  case (Suc n)
  have turn: "fst (bnd (sysc (s_sleep (k_sys r) (2 * second))) (\<lambda>_. waitLoop (Suc n) r name deadline seen' sts') t) \<noteq> Stuck"
    if "later time s t" for t seen' sts'
  proof (rule bnd_unstuck_at)
    fix x u assume "sysc (s_sleep (k_sys r) (2 * second)) t = (Ok x, u)"
    then have "time (st_world s) + 2 * second \<le> time (st_world u)"
      using that sleep_run by (fastforce simp: later_def)
    with Suc.prems show "fst (waitLoop (Suc n) r name deadline seen' sts' u) \<noteq> Stuck"
      by (intro Suc.IH) (simp add: algebra_simps)
  qed (metis unstuck_sysc unstuck_def)
  show ?case
    unfolding waitLoop.simps(2) [of "Suc n"] Let_def
    by (rule step_from [where s = s], rule unstuck_sysc, rule sysc_later, rule late.bound_refl)
      (intro branch_from step_from [where s = s] unstuck_lookup unstuck_ready turn_later turn; assumption)
qed

lemma waitStatefulset_ends: "fst (waitStatefulset r sts s) \<noteq> Stuck"
  unfolding waitStatefulset_def
proof (rule step_unstuck [OF unstuck_sysc sysc_later(3)])
  fix now t assume "sysc (s_now (k_sys r)) s = (Ok now, t)"
  then have "now \<le> time (st_world t)"
    using now_reads by (auto simp: sysc_def split: prod.splits)
  moreover have "getGracePeriod sts \<le> 2 * int (nat (getGracePeriod sts div 2) + 1)" by auto
  then have "getGracePeriod sts * second \<le> 2 * second * int (nat (getGracePeriod sts div 2) + 1)"
    by (simp add: second_def)
  ultimately show "fst (waitLoop (wait_fuel sts) r (om_name (ss_meta sts)) (now + getGracePeriod sts * second) None sts t) \<noteq> Stuck"
    using waitLoop_ends [of "now + getGracePeriod sts * second" t "nat (getGracePeriod sts div 2) + 1"]
    by (simp add: wait_fuel_def)
qed

end

interpretation mem_wait: clock_client "r\<lparr>k_sys := mem_sys\<rparr>" mw_clock for r
  by (simp add: clock_client_def mem_clock.clock_axioms)

end
