(* ===== verification/Conditions.thy ===== *)
theory Conditions
  imports Workload
begin

text \<open>
  The conditions of the status: \<open>controllers/libs/conds/conditions.go\<close>. The list of conditions is
  the field \<open>st_conditions\<close> of the state.
\<close>

definition GetOperatorConditionName :: "'w kctx \<Rightarrow> string" where
  "GetOperatorConditionName r = (case GetEnvVarValue r ''OPERATOR_CONDITION_NAME'' of Inl _ \<Rightarrow> [] | Inr v \<Rightarrow> v)"

definition mkCondition :: "int \<Rightarrow> string \<Rightarrow> string \<Rightarrow> string \<Rightarrow> condition" where
  "mkCondition now conditiontype reason message =
     \<lparr>cd_type = conditiontype, cd_status = ''Unknown'', cd_observedGeneration = 0, cd_lastTransitionTime = now,
      cd_reason = reason, cd_message = message\<rparr>"

definition zero_condition :: condition where
  "zero_condition = \<lparr>cd_type = [], cd_status = [], cd_observedGeneration = 0, cd_lastTransitionTime = 0,
     cd_reason = [], cd_message = []\<rparr>"

definition refresh_one :: "'w kctx \<Rightarrow> string \<Rightarrow> string \<Rightarrow> string \<Rightarrow> string \<Rightarrow> condition \<Rightarrow> ('w st, condition) prog" where
  "refresh_one r conditiontype status reason message c =
     (if cd_type c = conditiontype \<and> (cd_status c \<noteq> status \<or> cd_reason c \<noteq> reason \<or> cd_message c \<noteq> message)
      then bnd (sysc (s_now (k_sys r))) (\<lambda>now.
        ret (c\<lparr>cd_status := status, cd_reason := reason, cd_message := message, cd_lastTransitionTime := now\<rparr>))
      else ret c)"

definition RefreshCondition :: "'w kctx \<Rightarrow> string \<Rightarrow> string \<Rightarrow> string \<Rightarrow> string \<Rightarrow> ('w st, unit) prog" where
  "RefreshCondition r conditiontype status reason message =
     bnd (reads st_conditions) (\<lambda>conditions.
     bnd (map_prog (refresh_one r conditiontype status reason message) conditions) (\<lambda>conditions'.
       let foundCondition = fold (\<lambda>c f. if cd_type c = conditiontype then c else f) conditions zero_condition in
       if foundCondition = zero_condition
       then bnd (sysc (s_now (k_sys r))) (\<lambda>now.
         modify (\<lambda>s. s\<lparr>st_conditions := mkCondition now conditiontype reason message # conditions'\<rparr>))
       else modify (\<lambda>s. s\<lparr>st_conditions := conditions'\<rparr>)))"

definition UpdateConditions :: "'w kctx \<Rightarrow> string \<Rightarrow> bool \<Rightarrow> ('w st, unit) prog" where
  "UpdateConditions r condType ready =
     (if ready
      then RefreshCondition r condType ''True'' ''Complete''
        (''Initialization of '' @ condType @ '' service completed.'')
      else RefreshCondition r condType ''False'' ''Awaiting''
        (''Initializing '' @ condType @ '' service...''))"

section \<open>Lemmas\<close>

text \<open>The condition of a type, as a reader of the status finds it.\<close>

definition condition_of :: "string \<Rightarrow> condition list \<Rightarrow> condition option" where
  "condition_of ty cs = find (\<lambda>c. cd_type c = ty) cs"

lemma found_zero:
  assumes "ty \<noteq> []"
  shows "fold (\<lambda>c f. if cd_type c = ty then c else f) cs z = zero_condition \<longleftrightarrow>
    z = zero_condition \<and> ty \<notin> cd_type ` set cs"
proof (induction cs arbitrary: z)
  case (Cons c cs)
  have "cd_type c = ty \<Longrightarrow> c \<noteq> zero_condition" using assms by (metis condition.select_convs(1) zero_condition_def)
  with Cons.IH [of "if cd_type c = ty then c else z"] show ?case by auto
qed simp

text \<open>What a refresh does to one condition.\<close>

definition refreshed :: "string \<Rightarrow> string \<Rightarrow> string \<Rightarrow> string \<Rightarrow> condition \<Rightarrow> condition \<Rightarrow> bool" where
  "refreshed ty st re ms c c' \<longleftrightarrow> cd_type c' = cd_type c \<and> (cd_type c \<noteq> ty \<longrightarrow> c' = c) \<and>
     (cd_type c = ty \<longrightarrow> cd_status c' = st \<and> cd_reason c' = re \<and> cd_message c' = ms) \<and>
     (cd_status c = st \<and> cd_reason c = re \<and> cd_message c = ms \<longrightarrow> c' = c)"

lemma refreshed_none:
  "list_all2 (refreshed ty st re ms) cs cs' \<Longrightarrow> ty \<notin> cd_type ` set cs \<Longrightarrow> cs' = cs"
  by (induction rule: list_all2_induct) (auto simp: refreshed_def)

lemma now_run: "\<exists>i w. sysc (s_now S) s = (Ok i, s\<lparr>st_world := w\<rparr>)"
  by (cases "s_now S (st_world s)") (auto simp: sysc_def)

lemma refresh_one_run:
  "\<exists>c' w. refresh_one r ty st re ms c s = (Ok c', s\<lparr>st_world := w\<rparr>) \<and> refreshed ty st re ms c c'"
proof (cases "cd_type c = ty \<and> (cd_status c \<noteq> st \<or> cd_reason c \<noteq> re \<or> cd_message c \<noteq> ms)")
  case True
  with now_run [of "k_sys r" s] show ?thesis
    unfolding refresh_one_def by (auto simp: bnd_def refreshed_def)
next
  case False
  have "refresh_one r ty st re ms c = ret c" unfolding refresh_one_def by (rule if_not_P) (rule False)
  with False show ?thesis by (intro exI [of _ c] exI [of _ "st_world s"]) (auto simp: refreshed_def)
qed

lemma refresh_run:
  "\<exists>cs' w. map_prog (refresh_one r ty st re ms) cs s = (Ok cs', s\<lparr>st_world := w\<rparr>) \<and>
     list_all2 (refreshed ty st re ms) cs cs'"
proof (induction cs arbitrary: s)
  case Nil
  show ?case by (intro exI [of _ "[]"] exI [of _ "st_world s"]) simp
next
  case (Cons c cs)
  obtain c' w where "refresh_one r ty st re ms c s = (Ok c', s\<lparr>st_world := w\<rparr>)" "refreshed ty st re ms c c'"
    using refresh_one_run [of r ty st re ms c s] by auto
  moreover obtain cs' w' where "map_prog (refresh_one r ty st re ms) cs (s\<lparr>st_world := w\<rparr>) = (Ok cs', s\<lparr>st_world := w'\<rparr>)"
      "list_all2 (refreshed ty st re ms) cs cs'"
    using Cons.IH [of "s\<lparr>st_world := w\<rparr>"] by auto
  ultimately show ?case by (intro exI [of _ "c' # cs'"] exI [of _ w']) (simp add: bnd_def)
qed

text \<open>
  The effect of \<open>RefreshCondition\<close> on the list: a condition that is missing is added in front with the
  status Unknown, whatever status was asked for; a condition that exists gets the new values, and
  the others stay.
\<close>

lemma RefreshCondition_run:
  assumes "ty \<noteq> []"
  shows "\<exists>w cs'. RefreshCondition r ty st re ms s = (Ok (), s\<lparr>st_world := w, st_conditions := cs'\<rparr>) \<and>
    (if ty \<in> cd_type ` set (st_conditions s)
     then list_all2 (refreshed ty st re ms) (st_conditions s) cs'
     else \<exists>now. cs' = mkCondition now ty re ms # st_conditions s)"
proof -
  obtain cs' w where m: "map_prog (refresh_one r ty st re ms) (st_conditions s) s = (Ok cs', s\<lparr>st_world := w\<rparr>)"
      "list_all2 (refreshed ty st re ms) (st_conditions s) cs'"
    using refresh_run [of r ty st re ms "st_conditions s" s] by auto
  show ?thesis
  proof (cases "ty \<in> cd_type ` set (st_conditions s)")
    case True
    with m found_zero [OF assms] show ?thesis
      by (intro exI [of _ w] exI [of _ cs']) (simp add: RefreshCondition_def bnd_def)
  next
    case False
    with m(2) have "cs' = st_conditions s" by (rule refreshed_none)
    moreover obtain i w' where "sysc (s_now (k_sys r)) (s\<lparr>st_world := w\<rparr>) = (Ok i, s\<lparr>st_world := w'\<rparr>)"
      using now_run [of "k_sys r" "s\<lparr>st_world := w\<rparr>"] by auto
    ultimately show ?thesis using False m(1) found_zero [OF assms]
      by (intro exI [of _ w'] exI [of _ "mkCondition i ty re ms # st_conditions s"])
        (auto simp: RefreshCondition_def bnd_def)
  qed
qed

lemma within_RefreshCondition:
  assumes "\<And>X. within (touches store X) (sysc (s_now (k_sys r)))"
  shows "within (touches store X) (RefreshCondition r ty st re ms)"
  unfolding RefreshCondition_def refresh_one_def Let_def
  by (intro touch.within_rules assms) (simp_all add: within_def touches_def)

context kube_client
begin

lemma updateConditions_touches: "within (touches store X) (UpdateConditions r ty ready)"
  unfolding UpdateConditions_def by (intro touch.within_if within_RefreshCondition sysc_now)

end

end
