(* ===== verification/Connections.thy ===== *)
theory Connections
  imports Conditions
begin

text \<open>
  The controller object and what it decides from the custom resource: the Zuul connections and their
  validation, the base URL of the config repository, the secrets the resource names
  (\<open>controllers/softwarefactory_controller.go\<close>, \<open>controllers/zuul_external.go\<close>, \<open>controllers/git_server.go\<close>).
\<close>

text \<open>
  \<open>SFController\<close> with its constant fields; the conditions and the log server keys are in the state.
  \<open>c_static\<close> gives the text of a file that is embedded in the program.
\<close>

record 'w SFController =
  c_k :: "'w kctx"
  c_cr :: SoftwareFactory
  c_configBaseURL :: string
  c_needOpendev :: bool
  c_static :: "string \<Rightarrow> string"

abbreviation c_spec :: "'w SFController \<Rightarrow> SoftwareFactorySpec" where
  "c_spec r \<equiv> cr_Spec (c_cr r)"

abbreviation c_crName :: "'w SFController \<Rightarrow> string" where
  "c_crName r \<equiv> om_name (cr_Meta (c_cr r))"

definition getStorageConfOrDefault :: "'w SFController \<Rightarrow> StorageSpec \<Rightarrow> StorageConfig" where
  "getStorageConfOrDefault r storageSpec = BaseGetStorageConfOrDefault storageSpec (sf_StorageDefault (c_spec r))"

definition isConfigRepoSet :: "'w SFController \<Rightarrow> bool" where
  "isConfigRepoSet r \<longleftrightarrow> crl_Name (sf_ConfigRepositoryLocation (c_spec r)) \<noteq> [] \<and>
     crl_ZuulConnectionName (sf_ConfigRepositoryLocation (c_spec r)) \<noteq> []"

definition MkClientDNSNames :: "'w SFController \<Rightarrow> string \<Rightarrow> string list" where
  "MkClientDNSNames r serviceName = [serviceName, serviceName @ ''.'' @ c_crName r,
     serviceName @ ''.'' @ sf_FQDN (c_spec r), c_crName r]"

definition IsCodesearchEnabled :: "'w SFController \<Rightarrow> bool" where
  "IsCodesearchEnabled r \<longleftrightarrow> co_Enabled (sf_Codesearch (c_spec r)) = None \<or>
     co_Enabled (sf_Codesearch (c_spec r)) = Some True"

section \<open>The URL of the config repository\<close>

definition ensureTrailingSlash :: "string \<Rightarrow> string" where
  "ensureTrailingSlash url = (if 0 < length url \<and> last url \<noteq> CHR ''/'' then url @ ''/'' else url)"

definition https_url :: "string \<Rightarrow> string" where
  "https_url host = ''https://'' @ host @ ''/''"

definition resolveConfigBaseURL :: "SoftwareFactory \<Rightarrow> string" where
  "resolveConfigBaseURL cr =
     (let name = crl_ZuulConnectionName (sf_ConfigRepositoryLocation (cr_Spec cr)); zuul = sf_Zuul (cr_Spec cr) in
      case find (\<lambda>c. ge_Name c = name) (zu_GerritConns zuul) of
        Some conn \<Rightarrow> ensureTrailingSlash (if ge_Puburl conn \<noteq> [] then ge_Puburl conn else https_url (ge_Hostname conn))
      | None \<Rightarrow> (case find (\<lambda>c. gh_Name c = name) (zu_GitHubConns zuul) of
        Some conn \<Rightarrow> ensureTrailingSlash (if gh_Server conn = [] then ''https://github.com/'' else https_url (gh_Server conn))
      | None \<Rightarrow> (case find (\<lambda>c. gl_Name c = name) (zu_GitLabConns zuul) of
        Some conn \<Rightarrow> ensureTrailingSlash (if gl_BaseURL conn \<noteq> [] then gl_BaseURL conn else https_url (gl_Server conn))
      | None \<Rightarrow> (case find (\<lambda>c. gi_Name c = name) (zu_GitConns zuul) of
        Some conn \<Rightarrow> ensureTrailingSlash (gi_Baseurl conn)
      | None \<Rightarrow> (case find (\<lambda>c. pg_Name c = name) (zu_PagureConns zuul) of
        Some conn \<Rightarrow> ensureTrailingSlash (if pg_BaseURL conn \<noteq> [] then pg_BaseURL conn else https_url (pg_Server conn))
      | None \<Rightarrow> [])))))"

section \<open>The connections\<close>

text \<open>
  The names in the order of the loops. A loop that rejects a connection returns the names collected
  so far with the error, and the later loops do not run.
\<close>

fun collect_names :: "('c \<Rightarrow> string) \<Rightarrow> ('c \<Rightarrow> string option) \<Rightarrow> 'c list \<Rightarrow> string list \<times> string option \<Rightarrow>
    string list \<times> string option" where
  "collect_names nm chk cs (conns, Some err) = (conns, Some err)"
| "collect_names nm chk [] (conns, None) = (conns, None)"
| "collect_names nm chk (c # cs) (conns, None) = (case chk c of
       Some err \<Rightarrow> (conns, Some err)
     | None \<Rightarrow> collect_names nm chk cs (conns @ [nm c], None))"

definition opendev :: string where "opendev = ''opendev.org''"

definition not_opendev :: "('c \<Rightarrow> string) \<Rightarrow> 'c \<Rightarrow> string option" where
  "not_opendev nm c = (if nm c = opendev then Some ''opendev.org must be a gerrit or git connection'' else None)"

definition GetUserDefinedConnections :: "ZuulSpec \<Rightarrow> string list \<times> string option" where
  "GetUserDefinedConnections zuul =
     (collect_names sm_Name (not_opendev sm_Name) (zu_SMTPConns zuul) \<circ>
      collect_names es_Name (not_opendev es_Name) (zu_ElasticSearchConns zuul) \<circ>
      collect_names pg_Name (not_opendev pg_Name) (zu_PagureConns zuul) \<circ>
      collect_names gi_Name (\<lambda>c. if gi_Name c = opendev \<and> gi_Baseurl c \<noteq> ''https://opendev.org''
         then Some ''opendev.org git connection must be for https://opendev.org'' else None) (zu_GitConns zuul) \<circ>
      collect_names gl_Name (not_opendev gl_Name) (zu_GitLabConns zuul) \<circ>
      collect_names gh_Name (not_opendev gh_Name) (zu_GitHubConns zuul) \<circ>
      collect_names ge_Name (\<lambda>c. if ge_Name c = opendev \<and> ge_Hostname c \<noteq> ''review.opendev.org''
         then Some ''opendev.org gerrit connection must be for review.opendev.org'' else None) (zu_GerritConns zuul))
     ([], None)"

fun HasDuplicate :: "string list \<Rightarrow> string" where
  "HasDuplicate [] = []"
| "HasDuplicate (conn # conns) = (if conn \<in> set conns then conn else HasDuplicate conns)"

text \<open>\<open>MkSFController\<close> ends the process on a resource whose connections are not valid.\<close>

definition MkSFController :: "(string \<Rightarrow> string) \<Rightarrow> 'w kctx \<Rightarrow> SoftwareFactory \<Rightarrow> ('w st, 'w SFController) prog" where
  "MkSFController static r cr =
     (let (conns, err) = GetUserDefinedConnections (sf_Zuul (cr_Spec cr)) in
      if err \<noteq> None then exit_with 1
      else if HasDuplicate conns \<noteq> [] then exit_with 1
      else if ''git-server'' \<in> set conns then exit_with 1
      else bnd (modify (\<lambda>s. s\<lparr>st_conditions := sfs_Conditions (cr_Status cr), st_logserverKeys := ''unknown''\<rparr>)) (\<lambda>_.
        ret \<lparr>c_k = r, c_cr = cr, c_configBaseURL = resolveConfigBaseURL cr,
             c_needOpendev = (opendev \<notin> set conns), c_static = static\<rparr>))"

text \<open>The dummy connections of the config check.\<close>

definition makeZuulConnectionConfig :: "ZuulSpec \<Rightarrow> string" where
  "makeZuulConnectionConfig spec =
     (let names = fst (GetUserDefinedConnections spec);
          names1 = (if opendev \<notin> set names then names @ [opendev] else names);
          names2 = (if ''git-server'' \<notin> set names1 then names1 @ [''git-server''] else names1)
      in newline @ concat (map (\<lambda>name. ''[connection '' @ name @ '']'' @ newline @ ''driver=git'' @ newline @
           ''baseurl=localhost'' @ newline @ newline) names2))"

definition validateZuulConnectionsSecrets :: "'w SFController \<Rightarrow> ('w st, string option) prog" where
  "validateZuulConnectionsSecrets r =
     bnd (for_return (\<lambda>connection. bnd (GetSecret (c_k r) (gh_Secrets connection)) (\<lambda>res. ret (case res of
         Inl _ \<Rightarrow> Some (''Missing github secret: '' @ gh_Secrets connection)
       | Inr secret \<Rightarrow> if 0 < gh_AppID connection \<and> gm_get (se_data secret) ''app_key'' = []
           then Some (''Missing github app_key field in: '' @ gh_Secrets connection) else None)))
       (zu_GitHubConns (sf_Zuul (c_spec r)))) (\<lambda>err. case err of
       Some e \<Rightarrow> ret (Some e)
     | None \<Rightarrow> for_return (\<lambda>conn.
         if ge_Sshkey conn \<noteq> []
         then bnd (GetSecretDataFromKey (c_k r) (ge_Sshkey conn) ''priv'') (\<lambda>res. ret (case res of
             Inl _ \<Rightarrow> Some (''Missing gerrit secret: '' @ ge_Sshkey conn) | Inr _ \<Rightarrow> None))
         else ret None) (zu_GerritConns (sf_Zuul (c_spec r))))"

section \<open>Remote executors\<close>

definition CRSecrets :: "SoftwareFactory \<Rightarrow> string list" where
  "CRSecrets cr = (let zuul = sf_Zuul (cr_Spec cr) in
     filter (\<lambda>s. s \<noteq> []) (map ge_Sshkey (zu_GerritConns zuul)) @
     filter (\<lambda>s. s \<noteq> []) (map gh_Secrets (zu_GitHubConns zuul)) @
     filter (\<lambda>s. s \<noteq> []) (map pg_Secrets (zu_PagureConns zuul)) @
     filter (\<lambda>s. s \<noteq> []) (map gl_Secrets (zu_GitLabConns zuul)))"

text \<open>
  The secrets are read from the cluster of the control plane and written to the cluster of the
  executor. The two clusters are part of one world; each context has the operations of its own.
\<close>

definition copySecrets :: "'w kctx \<Rightarrow> SoftwareFactory \<Rightarrow> 'w kctx \<Rightarrow> ('w st, string option) prog" where
  "copySecrets r eCR controlEnv =
     for_return (\<lambda>secret. bnd (GetOrDie controlEnv cSecret secret) (\<lambda>found. case found of
         None \<Rightarrow> ret (Some (''failed to read secret '' @ secret))
       | Some sec \<Rightarrow>
           (let sec' = sec\<lparr>se_meta := (se_meta sec)\<lparr>om_namespace := k_ns r, om_resourceVersion := []\<rparr>\<rparr> in
            bnd (EnsureSecret r sec') (\<lambda>_. ret None))))
       ([''zuul-keystore-password'', ''zookeeper-client-tls'', ''zuul-ssh-key''] @ CRSecrets eCR)"

definition setupFingerLB :: "'w kctx \<Rightarrow> ('w st, unit) prog" where
  "setupFingerLB r = EnsureService r
     \<lparr>sv_meta = mk_meta ''zuul-executor-lb'' (k_ns r),
      sv_spec = \<lparr>sv_type = ''LoadBalancer'', sv_clusterIP = [], sv_publishNotReadyAddresses = False,
        sv_selector = Some (smap_of [(''app'', ''sf''), (''run'', ''zuul-executor'')]),
        sv_ports = [\<lparr>sp_name = ''zuul-executorf-7900'', sp_protocol = ''TCP'', sp_port = 7900,
                     sp_targetPort = FromInt 7900\<rparr>]\<rparr>\<rparr>"

section \<open>Lemmas\<close>

lemma collect_names_ok:
  "collect_names nm chk cs (conns, e) = (out, None) \<longleftrightarrow>
     e = None \<and> (\<forall>c\<in>set cs. chk c = None) \<and> out = conns @ map nm cs"
proof (induction cs arbitrary: conns e)
  case Nil
  then show ?case by (cases e) auto
next
  case (Cons c cs)
  then show ?case by (cases e) (auto split: option.split)
qed

lemma collect_names_snd:
  "snd (collect_names nm chk cs p) = None \<longleftrightarrow> snd p = None \<and> (\<forall>c\<in>set cs. chk c = None)"
  using collect_names_ok [of nm chk cs "fst p" "snd p"] by (metis prod.collapse snd_conv)

lemma collect_names_fst:
  "snd p = None \<Longrightarrow> \<forall>c\<in>set cs. chk c = None \<Longrightarrow> fst (collect_names nm chk cs p) = fst p @ map nm cs"
  using collect_names_ok [of nm chk cs "fst p" "snd p"] by (metis prod.collapse fst_conv)

text \<open>All the names of the resource, and the rules for the name \<open>opendev.org\<close>.\<close>

definition connection_names :: "ZuulSpec \<Rightarrow> string list" where
  "connection_names zuul = map ge_Name (zu_GerritConns zuul) @ map gh_Name (zu_GitHubConns zuul) @
     map gl_Name (zu_GitLabConns zuul) @ map gi_Name (zu_GitConns zuul) @ map pg_Name (zu_PagureConns zuul) @
     map es_Name (zu_ElasticSearchConns zuul) @ map sm_Name (zu_SMTPConns zuul)"

definition opendev_ok :: "ZuulSpec \<Rightarrow> bool" where
  "opendev_ok zuul \<longleftrightarrow>
     (\<forall>c\<in>set (zu_GerritConns zuul). ge_Name c = opendev \<longrightarrow> ge_Hostname c = ''review.opendev.org'') \<and>
     (\<forall>c\<in>set (zu_GitConns zuul). gi_Name c = opendev \<longrightarrow> gi_Baseurl c = ''https://opendev.org'') \<and>
     opendev \<notin> set (map gh_Name (zu_GitHubConns zuul) @ map gl_Name (zu_GitLabConns zuul) @
       map pg_Name (zu_PagureConns zuul) @ map es_Name (zu_ElasticSearchConns zuul) @ map sm_Name (zu_SMTPConns zuul))"

lemma not_opendev_all: "(\<forall>c\<in>set cs. not_opendev nm c = None) \<longleftrightarrow> opendev \<notin> nm ` set cs"
  by (auto simp: not_opendev_def image_iff)

lemma GetUserDefinedConnections_snd: "snd (GetUserDefinedConnections zuul) = None \<longleftrightarrow> opendev_ok zuul"
  unfolding GetUserDefinedConnections_def comp_def collect_names_snd opendev_ok_def not_opendev_all
  by auto

lemma GetUserDefinedConnections_fst:
  assumes "opendev_ok zuul"
  shows "fst (GetUserDefinedConnections zuul) = connection_names zuul"
proof -
  have "snd (GetUserDefinedConnections zuul) = None"
    using assms by (simp add: GetUserDefinedConnections_snd)
  then show ?thesis
    unfolding GetUserDefinedConnections_def comp_def collect_names_snd connection_names_def
    by (simp add: collect_names_fst collect_names_snd del: collect_names.simps)
qed

lemma GetUserDefinedConnections_ok:
  "GetUserDefinedConnections zuul = (out, None) \<longleftrightarrow> opendev_ok zuul \<and> out = connection_names zuul"
  by (metis GetUserDefinedConnections_fst GetUserDefinedConnections_snd prod.collapse fst_conv snd_conv)

lemma HasDuplicate_Nil: "[] \<notin> set conns \<Longrightarrow> HasDuplicate conns = [] \<longleftrightarrow> distinct conns"
  by (induction conns) auto

lemma ensureTrailingSlash_last: "url = [] \<or> last (ensureTrailingSlash url) = CHR ''/''"
  by (auto simp: ensureTrailingSlash_def)

lemma ensureTrailingSlash_idem [simp]: "ensureTrailingSlash (ensureTrailingSlash url) = ensureTrailingSlash url"
  by (auto simp: ensureTrailingSlash_def)

lemma unstuck_Ensure [simp]:
  "unstuck (CreateR r C x)" "unstuck (UpdateR r C x)" "unstuck (DeleteR r C m)" "unstuck (EnsureSecret r se)"
  unfolding CreateR_def UpdateR_def DeleteR_def EnsureSecret_def client_Create_def client_Update_def client_Delete_def Let_def
  by (intro unstuck_intros unstuck_sysc unstuck_lookup)+

context kube_client
begin

lemma getSecret_touches: "within (touches store X) (GetSecret r n)"
  unfolding GetSecret_def Let_def by (intro touch.within_rules call_touches)

lemma getSecretDataFromKey_touches: "within (touches store X) (GetSecretDataFromKey r n key)"
  unfolding GetSecretDataFromKey_def by (intro touch.within_rules getSecret_touches)

end

section \<open>What the validation of the secrets checks\<close>

text \<open>The secret a name refers to in a cluster, and the two checks on it.\<close>

definition secret_at :: "'w kctx \<Rightarrow> (kref \<Rightarrow> kobj option) \<Rightarrow> string \<Rightarrow> secret option" where
  "secret_at r sto n = (if n = [] then None else typed cSecret (sto (kref_of KSecret (k_ns r) n)))"

definition github_secret_ok :: "'w kctx \<Rightarrow> (kref \<Rightarrow> kobj option) \<Rightarrow> GitHubConnection \<Rightarrow> bool" where
  "github_secret_ok r sto c \<longleftrightarrow> (case secret_at r sto (gh_Secrets c) of None \<Rightarrow> False
     | Some se \<Rightarrow> 0 < gh_AppID c \<longrightarrow> gm_get (se_data se) ''app_key'' \<noteq> [])"

definition gerrit_secret_ok :: "'w kctx \<Rightarrow> (kref \<Rightarrow> kobj option) \<Rightarrow> GerritConnection \<Rightarrow> bool" where
  "gerrit_secret_ok r sto c \<longleftrightarrow> ge_Sshkey c = [] \<or> (case secret_at r sto (ge_Sshkey c) of None \<Rightarrow> False
     | Some se \<Rightarrow> gm_get (se_data se) ''priv'' \<noteq> [])"

definition connection_secrets_ok :: "'w SFController \<Rightarrow> (kref \<Rightarrow> kobj option) \<Rightarrow> bool" where
  "connection_secrets_ok r sto \<longleftrightarrow>
     (\<forall>c \<in> set (zu_GitHubConns (sf_Zuul (c_spec r))). github_secret_ok (c_k r) sto c) \<and>
     (\<forall>c \<in> set (zu_GerritConns (sf_Zuul (c_spec r))). gerrit_secret_ok (c_k r) sto c)"

context healthy_client
begin

lemma getSecret_looks:
  "looks store (GetSecret r n) (\<lambda>sto. case secret_at r sto n of
     None \<Rightarrow> Inl (''secret named '' @ [CHR 0x27] @ n @ [CHR 0x27] @ '' was not found'') | Some se \<Rightarrow> Inr se)"
  unfolding GetSecret_def Let_def secret_at_def
  by (cases "n = []")
    (auto intro!: looks_ret looks_cong [OF looks_bnd [OF getOrDie_looks [OF codec_axioms(2)] looks_ret]]
      split: option.split)

lemma getSecretDataFromKey_looks:
  "key \<noteq> [] \<Longrightarrow> looks store (GetSecretDataFromKey r n key) (\<lambda>sto. case secret_at r sto n of
     None \<Rightarrow> Inl (''secret named '' @ [CHR 0x27] @ n @ [CHR 0x27] @ '' was not found'')
   | Some se \<Rightarrow> GetValueFromKeySecret se key)"
  unfolding GetSecretDataFromKey_def
  by (rule looks_cong [OF looks_bnd [OF getSecret_looks looks_ret]]) (simp split: option.split)

end

text \<open>The complaint about one connection and the first complaint of all, as functions of the cluster.\<close>

definition github_complaint :: "'w kctx \<Rightarrow> (kref \<Rightarrow> kobj option) \<Rightarrow> GitHubConnection \<Rightarrow> string option" where
  "github_complaint r sto c = (case secret_at r sto (gh_Secrets c) of
       None \<Rightarrow> Some (''Missing github secret: '' @ gh_Secrets c)
     | Some se \<Rightarrow> if github_secret_ok r sto c then None else Some (''Missing github app_key field in: '' @ gh_Secrets c))"

definition gerrit_complaint :: "'w kctx \<Rightarrow> (kref \<Rightarrow> kobj option) \<Rightarrow> GerritConnection \<Rightarrow> string option" where
  "gerrit_complaint r sto c = (if gerrit_secret_ok r sto c then None else Some (''Missing gerrit secret: '' @ ge_Sshkey c))"

definition secrets_complaint :: "'w SFController \<Rightarrow> (kref \<Rightarrow> kobj option) \<Rightarrow> string option" where
  "secrets_complaint r sto = (case first_Some (github_complaint (c_k r) sto) (zu_GitHubConns (sf_Zuul (c_spec r))) of
       Some e \<Rightarrow> Some e
     | None \<Rightarrow> first_Some (gerrit_complaint (c_k r) sto) (zu_GerritConns (sf_Zuul (c_spec r))))"

lemma github_complaint_None: "github_complaint r sto c = None \<longleftrightarrow> github_secret_ok r sto c"
  by (simp add: github_complaint_def github_secret_ok_def split: option.split)

lemma gerrit_complaint_None: "gerrit_complaint r sto c = None \<longleftrightarrow> gerrit_secret_ok r sto c"
  by (simp add: gerrit_complaint_def)

lemma secrets_complaint_None: "secrets_complaint r sto = None \<longleftrightarrow> connection_secrets_ok r sto"
proof (cases "first_Some (github_complaint (c_k r) sto) (zu_GitHubConns (sf_Zuul (c_spec r)))")
  case None
  then have "\<forall>c \<in> set (zu_GitHubConns (sf_Zuul (c_spec r))). github_secret_ok (c_k r) sto c"
    by (simp add: first_Some_None github_complaint_None)
  moreover have "secrets_complaint r sto = first_Some (gerrit_complaint (c_k r) sto) (zu_GerritConns (sf_Zuul (c_spec r)))"
    using None by (simp add: secrets_complaint_def)
  ultimately show ?thesis
    by (simp add: connection_secrets_ok_def first_Some_None gerrit_complaint_None)
next
  case (Some e)
  then have "\<not> (\<forall>c \<in> set (zu_GitHubConns (sf_Zuul (c_spec r))). github_secret_ok (c_k r) sto c)"
    by (metis first_Some_None github_complaint_None option.distinct(1))
  with Some show ?thesis by (simp add: secrets_complaint_def connection_secrets_ok_def)
qed

context healthy_client
begin

lemma github_check_looks:
  "looks store (bnd (GetSecret r (gh_Secrets c)) (\<lambda>res. ret (case res of
         Inl _ \<Rightarrow> Some (''Missing github secret: '' @ gh_Secrets c)
       | Inr secret \<Rightarrow> if 0 < gh_AppID c \<and> gm_get (se_data secret) ''app_key'' = []
           then Some (''Missing github app_key field in: '' @ gh_Secrets c) else None)))
     (\<lambda>sto. github_complaint r sto c)"
  by (rule looks_cong [OF looks_bnd [OF getSecret_looks looks_ret]])
    (simp add: github_complaint_def github_secret_ok_def split: option.split)

lemma gerrit_check_looks:
  "looks store (if ge_Sshkey c \<noteq> []
         then bnd (GetSecretDataFromKey r (ge_Sshkey c) ''priv'') (\<lambda>res. ret (case res of
             Inl _ \<Rightarrow> Some (''Missing gerrit secret: '' @ ge_Sshkey c) | Inr _ \<Rightarrow> None))
         else ret None)
     (\<lambda>sto. gerrit_complaint r sto c)"
  by (rule looks_cong [OF looks_if [OF looks_bnd [OF getSecretDataFromKey_looks looks_ret] looks_ret]])
    (simp_all add: gerrit_complaint_def gerrit_secret_ok_def GetValueFromKeySecret_def Let_def split: option.split)

end

lemma validate_looks:
  assumes "healthy_client (c_k r) store"
  shows "looks store (validateZuulConnectionsSecrets r) (secrets_complaint r)"
proof (rule looks_cong)
  show "looks store (validateZuulConnectionsSecrets r)
    (\<lambda>sto. (case first_Some (\<lambda>c. github_complaint (c_k r) sto c) (zu_GitHubConns (sf_Zuul (c_spec r))) of
       None \<Rightarrow> \<lambda>sto. first_Some (\<lambda>c. gerrit_complaint (c_k r) sto c) (zu_GerritConns (sf_Zuul (c_spec r)))
     | Some e \<Rightarrow> \<lambda>_. Some e) sto)"
    unfolding validateZuulConnectionsSecrets_def
    by (rule looks_bnd [OF looks_for_return [OF healthy_client.github_check_looks [OF assms]]
          looks_option [OF looks_for_return [OF healthy_client.gerrit_check_looks [OF assms]] looks_ret]])
qed (simp add: secrets_complaint_def split: option.split)

end
