(* ===== verification/Certs.thy ===== *)
theory Certs
  imports Client
begin

text \<open>
  \<open>controllers/libs/cert/certificates.go\<close>: the authority of an instance and the certificates it signs. A failed
  step is only logged: a key that could not be generated is then used through a nil pointer, a certificate that could not be
  created is empty.
\<close>

definition validity :: int where "validity = 30"

definition or_empty :: "string + string \<Rightarrow> string" where
  "or_empty res = (case res of Inl _ \<Rightarrow> [] | Inr b \<Rightarrow> b)"

definition X509CA :: "'w kctx \<Rightarrow> ('w st, x509_template \<times> string \<times> string \<times> string) prog" where
  "X509CA r =
     bnd (sysc (s_now (k_sys r))) (\<lambda>now.
     bnd (sysc (s_now (k_sys r))) (\<lambda>now'.
     let caCert = \<lparr>xt_SerialNumber = Some 1, xt_CommonName = ''SF Local CA'', xt_Organization = [''Red Hat, INC.''],
           xt_DNSNames = [], xt_NotBefore = s_addYears (k_sys r) (- 1) now,
           xt_NotAfter = s_addYears (k_sys r) validity now', xt_IsCA = True,
           xt_ExtKeyUsage = [''ClientAuth'', ''ServerAuth''], xt_KeyUsage = [''CertSign'', ''CRLSign''],
           xt_BasicConstraintsValid = True\<rparr> in
     bnd (sysc (s_rsaKey (k_sys r) 4096)) (\<lambda>key. case key of
       Inl e \<Rightarrow> panic nil_deref
     | Inr caPrivKey \<Rightarrow>
         bnd (sysc (s_certificate (k_sys r) caCert caCert caPrivKey caPrivKey)) (\<lambda>caBytes.
           ret (caCert, caPrivKey, s_pem (k_sys r) ''CERTIFICATE'' (or_empty caBytes),
             s_pem (k_sys r) ''RSA PRIVATE KEY'' (or_empty (s_pkcs8 (k_sys r) caPrivKey)))))))"

definition generateSerialNumber :: "'w kctx \<Rightarrow> ('w st, string + int) prog" where
  "generateSerialNumber r = sysc (s_serial (k_sys r))"

definition X509Cert :: "'w kctx \<Rightarrow> x509_template \<Rightarrow> string \<Rightarrow> string list \<Rightarrow> ('w st, string \<times> string) prog" where
  "X509Cert r caCert caPrivKey dnsNames =
     bnd (generateSerialNumber r) (\<lambda>serialNumber.
     bnd (sysc (s_now (k_sys r))) (\<lambda>now.
     bnd (sysc (s_now (k_sys r))) (\<lambda>now'.
     let cert = \<lparr>xt_SerialNumber = (case serialNumber of Inl _ \<Rightarrow> None | Inr n \<Rightarrow> Some n), xt_CommonName = ''Certificate'',
           xt_Organization = [''Red Hat, INC.''], xt_DNSNames = dnsNames,
           xt_NotBefore = s_addYears (k_sys r) (- 1) now, xt_NotAfter = s_addYears (k_sys r) validity now', xt_IsCA = False,
           xt_ExtKeyUsage = [''ClientAuth'', ''ServerAuth''], xt_KeyUsage = [''DigitalSignature''],
           xt_BasicConstraintsValid = False\<rparr> in
     bnd (sysc (s_rsaKey (k_sys r) 4096)) (\<lambda>key. case key of
       Inl e \<Rightarrow> panic nil_deref
     | Inr certPrivKey \<Rightarrow>
         bnd (sysc (s_certificate (k_sys r) cert caCert certPrivKey caPrivKey)) (\<lambda>certBytes.
           ret (s_pem (k_sys r) ''CERTIFICATE'' (or_empty certBytes),
             s_pem (k_sys r) ''RSA PRIVATE KEY'' (or_empty (s_pkcs8 (k_sys r) certPrivKey))))))))"

context kube_client
begin

lemma sysc_crypto: "within (touches store X) (sysc (s_rsaKey (k_sys r) bits))"
  "within (touches store X) (sysc (s_serial (k_sys r)))"
  "within (touches store X) (sysc (s_certificate (k_sys r) xt pt pub priv))"
  by (rule within_sysc; auto dest: rsaKey_frame serial_frame certificate_frame)+

lemma cert_touches: "within (touches store X) (X509CA r)" "within (touches store X) (X509Cert r ca key names)"
  unfolding X509CA_def X509Cert_def generateSerialNumber_def Let_def by (intro touch.within_rules sysc_now sysc_crypto)+

end

lemma cert_unstuck: "unstuck (X509CA r)" "unstuck (X509Cert r ca key names)"
  unfolding X509CA_def X509Cert_def generateSerialNumber_def Let_def
  by (intro unstuck_intros; simp add: unstuck_def sysc_def split: prod.split)+

end
