(* ===== verification/Sidecars.thy ===== *)
theory Sidecars
  imports Connections Certs
begin

text \<open>
  What the service components share: editing the parts of a workload, the log forwarder sidecar
  (\<open>controllers/libs/logging/logging.go\<close>) and the monitoring sidecars
  (\<open>controllers/libs/monitoring/monitoring.go\<close>), and the certificates of ZooKeeper (\<open>utils.go\<close>).
\<close>

section \<open>Editing workloads\<close>

text \<open>
  The code changes a workload it has just built through \<open>Spec.Template.Spec.Containers[0]\<close> and the
  like; the builders always put one container there.
\<close>

definition upd_head :: "('a \<Rightarrow> 'a) \<Rightarrow> 'a list \<Rightarrow> 'a list" where
  "upd_head f xs = (case xs of [] \<Rightarrow> [] | x # ys \<Rightarrow> f x # ys)"

definition template_spec :: "(pod_spec \<Rightarrow> pod_spec) \<Rightarrow> pod_template \<Rightarrow> pod_template" where
  "template_spec f t = t\<lparr>pt_spec := f (pt_spec t)\<rparr>"

definition template_main :: "(container \<Rightarrow> container) \<Rightarrow> pod_template \<Rightarrow> pod_template" where
  "template_main f = template_spec (\<lambda>p. p\<lparr>ps_containers := upd_head f (ps_containers p)\<rparr>)"

definition template_annotated :: "smap \<Rightarrow> pod_template \<Rightarrow> pod_template" where
  "template_annotated a t = t\<lparr>pt_meta := (pt_meta t)\<lparr>om_annotations := Some a\<rparr>\<rparr>"

definition sts_template :: "(pod_template \<Rightarrow> pod_template) \<Rightarrow> statefulset \<Rightarrow> statefulset" where
  "sts_template f sts = sts\<lparr>ss_template := f (ss_template sts)\<rparr>"

definition dep_template :: "(pod_template \<Rightarrow> pod_template) \<Rightarrow> deployment \<Rightarrow> deployment" where
  "dep_template f dep = dep\<lparr>de_template := f (de_template dep)\<rparr>"

abbreviation mount_sub :: "string \<Rightarrow> string \<Rightarrow> string \<Rightarrow> volume_mount" where
  "mount_sub name path sub \<equiv> (mk_mount name path)\<lparr>vm_subPath := sub\<rparr>"

abbreviation mount_ro :: "string \<Rightarrow> string \<Rightarrow> volume_mount" where
  "mount_ro name path \<equiv> (mk_mount name path)\<lparr>vm_readOnly := True\<rparr>"

abbreviation mount_ro_sub :: "string \<Rightarrow> string \<Rightarrow> string \<Rightarrow> volume_mount" where
  "mount_ro_sub name path sub \<equiv> (mk_mount name path)\<lparr>vm_readOnly := True, vm_subPath := sub\<rparr>"

text \<open>The text of a template whose error the callers drop.\<close>

definition parsed :: "'w kctx \<Rightarrow> string \<Rightarrow> tmpl_data \<Rightarrow> string" where
  "parsed r text data = (case ParseString r text data of Inl _ \<Rightarrow> [] | Inr t \<Rightarrow> t)"

section \<open>logging.go\<close>

record FluentBitLabel =
  fl_Key :: string
  fl_Value :: string

record TemplateInputParams =
  ti_InUse :: bool
  ti_Host :: string
  ti_Port :: string

record TemplateLoggingParams =
  tl_Tag :: string
  tl_LogLevel :: string
  tl_ForwardInputConfig :: TemplateInputParams

definition CreateForwarderEnvVars :: "string \<Rightarrow> FluentBitLabel list \<Rightarrow> env_var list" where
  "CreateForwarderEnvVars name extraLabels =
     [MkEnvVarFromFieldRef ''K8S_NODENAME'' ''spec.nodeName'',
      MkEnvVarFromFieldRef ''K8S_PODNAME'' ''metadata.name'',
      MkEnvVarFromFieldRef ''K8S_NAMESPACE'' ''metadata.namespace'',
      MkEnvVarFromFieldRef ''K8S_PODIP'' ''status.podIP'',
      MkEnvVar ''K8S_LABELS_RUN'' name,
      MkEnvVar ''K8S_LABELS_APP'' ''sf''] @
     map (\<lambda>l. MkEnvVar (''K8S_'' @ fl_Key l) (fl_Value l)) extraLabels"

definition CreateBaseLoggingExtraKeys :: "string \<Rightarrow> string \<Rightarrow> string \<Rightarrow> string \<Rightarrow> FluentBitLabel list" where
  "CreateBaseLoggingExtraKeys name component container namespace =
     [\<lparr>fl_Key = ''labels_app'', fl_Value = ''sf''\<rparr>,
      \<lparr>fl_Key = ''labels_run'', fl_Value = name\<rparr>,
      \<lparr>fl_Key = ''component'', fl_Value = component\<rparr>,
      \<lparr>fl_Key = ''namespace'', fl_Value = namespace\<rparr>,
      \<lparr>fl_Key = ''container'', fl_Value = container\<rparr>]"

definition CreateForwarderConfigTemplateParams :: "string \<Rightarrow> FluentBitForwarderSpec option \<Rightarrow> TemplateLoggingParams" where
  "CreateForwarderConfigTemplateParams tag forwarderSpec =
     (let loggingParams = \<lparr>tl_Tag = tag, tl_LogLevel = ''info'',
            tl_ForwardInputConfig = \<lparr>ti_InUse = False, ti_Host = [], ti_Port = []\<rparr>\<rparr> in
      case forwarderSpec of
        None \<Rightarrow> loggingParams
      | Some spec \<Rightarrow>
          (let lp = (if fb_ForwardInputHost spec \<noteq> []
                     then loggingParams\<lparr>tl_ForwardInputConfig :=
                       \<lparr>ti_InUse = True, ti_Host = fb_ForwardInputHost spec, ti_Port = Itoa (fb_ForwardInputPort spec)\<rparr>\<rparr>
                     else loggingParams)
           in if fb_Debug spec = Some True then lp\<lparr>tl_LogLevel := ''debug''\<rparr> else lp))"

text \<open>\<open>SetupLogForwarding\<close> writes into the annotations it is given; here it returns them too.\<close>

definition SetupLogForwarding :: "string \<Rightarrow> FluentBitForwarderSpec option \<Rightarrow> FluentBitLabel list \<Rightarrow> smap \<Rightarrow>
    smap \<times> env_var list" where
  "SetupLogForwarding serviceName forwarderSpec extraLabels annotations = (case forwarderSpec of
       Some spec \<Rightarrow> (fmupd ''log-forwarding'' (fb_ForwardInputHost spec @ '':'' @ Itoa (fb_ForwardInputPort spec)) annotations,
          CreateForwarderEnvVars serviceName extraLabels)
     | None \<Rightarrow> (fmupd ''log-forwarding'' ''disabled'' annotations, []))"

definition CreateFluentBitSideCarContainer :: "string \<Rightarrow> FluentBitLabel list \<Rightarrow> volume_mount list \<Rightarrow> bool \<Rightarrow>
    ('s, container \<times> volume) prog" where
  "CreateFluentBitSideCarContainer serviceName extraLabels volumeMounts openshiftUser =
     bnd FluentBitImage (\<lambda>img. ret
       ((MkContainer ''fluentbit'' img openshiftUser)\<lparr>
           ct_env := CreateForwarderEnvVars serviceName extraLabels,
           ct_ports := [\<lparr>cp_name = ''fb-http-server'', cp_protocol = [], cp_containerPort = 2020\<rparr>],
           ct_volumeMounts := volumeMounts @ [mk_mount (serviceName @ ''-fb-buf'') ''/buffer-storage/'']\<rparr>,
        MkEmptyDirVolume (serviceName @ ''-fb-buf'')))"

text \<open>The data of the fluent-bit templates.\<close>

definition logging_data :: "FluentBitLabel list \<Rightarrow> TemplateLoggingParams \<Rightarrow> tmpl_data" where
  "logging_data extraKeys p = TStruct
     [(''ExtraKeys'', TList (map (\<lambda>l. TStruct [(''Key'', TText (fl_Key l)), (''Value'', TText (fl_Value l))]) extraKeys)),
      (''LoggingParams'', TStruct [(''Tag'', TText (tl_Tag p)), (''LogLevel'', TText (tl_LogLevel p)),
         (''ForwardInputConfig'', TStruct [(''InUse'', TBool (ti_InUse (tl_ForwardInputConfig p))),
            (''Host'', TText (ti_Host (tl_ForwardInputConfig p))), (''Port'', TText (ti_Port (tl_ForwardInputConfig p)))])])]"

section \<open>monitoring.go\<close>

text \<open>A suffix of more than fifteen characters makes the slice bound negative.\<close>

definition GetTruncatedPortName :: "string \<Rightarrow> string \<Rightarrow> ('s, string) prog" where
  "GetTruncatedPortName serviceName suffix =
     (if 15 < length suffix then panic ''slice bounds out of range''
      else ret (take (min (15 - length suffix) (length serviceName)) serviceName @ suffix))"

definition NodeExporterPort :: int where "NodeExporterPort = 9100"

definition getNodeExporterArgs :: "volume_mount list \<Rightarrow> string list" where
  "getNodeExporterArgs volumeMounts =
     [''--collector.disable-defaults'', ''--collector.filesystem'',
      ''--collector.filesystem.mount-points-exclude='' @
        ''^(/etc/hosts|/etc/hostname|/etc/passwd|/etc/resolv.conf|/run/.containerenv|/run/secrets|/dev|/proc|/sys)($|/)'']"

definition MkNodeExporterSideCarContainer :: "string \<Rightarrow> volume_mount list \<Rightarrow> bool \<Rightarrow> ('s, container) prog" where
  "MkNodeExporterSideCarContainer serviceName volumeMounts openshiftUser =
     bnd NodeExporterImage (\<lambda>img.
     bnd (GetTruncatedPortName serviceName ''-ne'') (\<lambda>portName. ret
       (SetContainerLimitsLowProfile ((MkContainer (serviceName @ ''-nodeexporter'') img openshiftUser)\<lparr>
          ct_args := getNodeExporterArgs volumeMounts,
          ct_ports := [MkContainerPort NodeExporterPort portName],
          ct_volumeMounts := volumeMounts\<rparr>))))"

definition StatsdExporterPortListen :: int where "StatsdExporterPortListen = 9125"
definition statsdExporterPortExpose :: int where "statsdExporterPortExpose = 9102"
definition StatsdExporterConfigFile :: string where "StatsdExporterConfigFile = ''statsd_mapping.yaml''"

record StatsdMetricMappingLabel =
  sl_LabelName :: string
  sl_LabelValue :: string

record StatsdMetricMapping =
  sm_MetricName :: string
  sm_ProviderName :: string
  sm_Match :: string
  sm_Help :: string
  sm_Labels :: "StatsdMetricMappingLabel list"

definition getStatsdExporterArgs :: "string \<Rightarrow> string option \<Rightarrow> string list" where
  "getStatsdExporterArgs configPath relayAddress =
     [''--statsd.mapping-config='' @ configPath,
      ''--statsd.listen-udp=:'' @ Itoa StatsdExporterPortListen,
      ''--web.listen-address=:'' @ Itoa statsdExporterPortExpose] @
     (case relayAddress of None \<Rightarrow> [] | Some a \<Rightarrow> [''--statsd.relay.address='' @ a])"

definition GetStatsdExporterPort :: "string \<Rightarrow> ('s, string) prog" where
  "GetStatsdExporterPort serviceName = GetTruncatedPortName serviceName (''-se'' @ ''e'')"

definition MkStatsdExporterSideCarContainer :: "string \<Rightarrow> string \<Rightarrow> string option \<Rightarrow> bool \<Rightarrow> ('s, container) prog" where
  "MkStatsdExporterSideCarContainer serviceName configVolumeName relayAddress openshiftUser =
     (let configPath = ''/tmp/'' @ StatsdExporterConfigFile in
      bnd (GetTruncatedPortName serviceName (''-se'' @ ''l'')) (\<lambda>seListenPortName.
      bnd (GetStatsdExporterPort serviceName) (\<lambda>seExposePortName.
      bnd StatsdExporterImage (\<lambda>img. ret
        ((MkContainer (serviceName @ ''-statsd'') img openshiftUser)\<lparr>
           ct_args := getStatsdExporterArgs configPath relayAddress,
           ct_volumeMounts := [mount_sub configVolumeName configPath StatsdExporterConfigFile],
           ct_ports := [\<lparr>cp_name = seListenPortName, cp_protocol = ''UDP'', cp_containerPort = StatsdExporterPortListen\<rparr>,
              \<lparr>cp_name = seExposePortName, cp_protocol = ''TCP'', cp_containerPort = statsdExporterPortExpose\<rparr>]\<rparr>)))))"

text \<open>
  \<open>clouds.yaml\<close> is decoded into nested Go maps; an assertion on a value of another type panics.
  \<open>strings.Replace\<close> with a count of -1 replaces every dot.
\<close>

definition as_map :: "ydoc \<Rightarrow> ('s, (string \<times> ydoc) list) prog" where
  "as_map y = (case y of YMap kvs \<Rightarrow> ret kvs | _ \<Rightarrow> panic ''interface conversion'')"

definition as_string :: "ydoc \<Rightarrow> ('s, string) prog" where
  "as_string y = (case y of YStr s \<Rightarrow> ret s | _ \<Rightarrow> panic ''interface conversion'')"

definition statsd_prefix :: "(string \<times> ydoc) list \<Rightarrow> ('s, string option) prog" where
  "statsd_prefix conf = (case map_of conf ''metrics'' of
       None \<Rightarrow> ret None
     | Some m \<Rightarrow> bnd (as_map m) (\<lambda>mC. case map_of mC ''statsd'' of
         None \<Rightarrow> ret None
       | Some s \<Rightarrow> bnd (as_map s) (\<lambda>sC. case map_of sC ''prefix'' of
           None \<Rightarrow> ret None
         | Some p \<Rightarrow> bnd (as_string p) (\<lambda>prefix. ret (Some prefix)))))"

definition mk_mapping :: "string \<Rightarrow> string \<Rightarrow> string \<Rightarrow> StatsdMetricMapping" where
  "mk_mapping prefix provider help =
     \<lparr>sm_MetricName = map (\<lambda>c. if c = CHR ''.'' then CHR ''_'' else c) prefix, sm_ProviderName = provider,
      sm_Match = prefix @ ''.*.*.*.*'', sm_Help = help,
      sm_Labels = [\<lparr>sl_LabelName = ''service'', sl_LabelValue = ''$1''\<rparr>, \<lparr>sl_LabelName = ''method'', sl_LabelValue = ''$2''\<rparr>,
        \<lparr>sl_LabelName = ''resource'', sl_LabelValue = ''$3''\<rparr>, \<lparr>sl_LabelName = ''status'', sl_LabelValue = ''$4''\<rparr>]\<rparr>"

definition MkStatsdMappingsFromCloudsYaml :: "StatsdMetricMapping list \<Rightarrow> (string \<times> ydoc) list \<Rightarrow>
    ('s, StatsdMetricMapping list) prog" where
  "MkStatsdMappingsFromCloudsYaml extraMappings cloudsYaml =
     bnd (statsd_prefix cloudsYaml) (\<lambda>gp.
       let globalPrefix = (case gp of None \<Rightarrow> ''openstack.api'' | Some p \<Rightarrow> p) in
     bnd (case map_of cloudsYaml ''clouds'' of
            None \<Rightarrow> ret []
          | Some cs \<Rightarrow> bnd (as_map cs) (\<lambda>cCs.
              map_prog (\<lambda>cloudName.
                bnd (as_map (the (map_of cCs cloudName))) (\<lambda>cC.
                bnd (statsd_prefix cC) (\<lambda>p. ret (case p of
                    None \<Rightarrow> []
                  | Some prefix \<Rightarrow> [mk_mapping prefix cloudName
                      (''API calls metrics issued by openstacksdk for cloud '' @ cloudName)]))))
                (sort (remdups (map fst cCs))))) (\<lambda>found.
       ret (extraMappings @ concat found @ [mk_mapping globalPrefix ''ALL'' ''API calls metrics issued by openstacksdk''])))"

section \<open>Certificates of ZooKeeper\<close>

definition zk_annotations :: gomap where
  "zk_annotations = Some (smap_of [(''serial'', ''2'')])"

definition zk_secretReady :: "'w kctx \<Rightarrow> string \<Rightarrow> ('w st, bool) prog" where
  "zk_secretReady r name = bnd (GetOrDie r cSecret name) (\<lambda>found. ret (case found of
       None \<Rightarrow> False
     | Some current \<Rightarrow> MapEquals (om_annotations (se_meta current)) zk_annotations))"

definition zk_clientDNSNames :: "'w SFController \<Rightarrow> string \<Rightarrow> nat \<Rightarrow> string list" where
  "zk_clientDNSNames r ident replicas =
     [ident, ident @ ''.'' @ c_crName r, ident @ ''.'' @ sf_FQDN (c_spec r), ''localhost''] @
     concat (map (\<lambda>i. let n = ident @ ''-'' @ Itoa (int i) in
        [n, n @ ''.'' @ c_crName r, n @ ''.'' @ sf_FQDN (c_spec r)]) [0..<replicas])"

definition zk_serverDNSNames :: "'w SFController \<Rightarrow> string \<Rightarrow> nat \<Rightarrow> string list" where
  "zk_serverDNSNames r ident i =
     (let replicaName = ident @ ''-'' @ Itoa (int i); replicaWithService = replicaName @ ''.'' @ ident @ ''-headless''
      in [replicaName, replicaWithService, replicaWithService @ ''.'' @ k_ns (c_k r),
          replicaWithService @ ''.'' @ sf_FQDN (c_spec r)])"

definition zk_secret :: "'w kctx \<Rightarrow> string \<Rightarrow> smap \<Rightarrow> secret" where
  "zk_secret r name data = \<lparr>se_meta = (mk_meta name (k_ns r))\<lparr>om_annotations := zk_annotations\<rparr>,
     se_data = Some data, se_type = []\<rparr>"

definition EnsureZookeeperCertificates :: "'w SFController \<Rightarrow> string \<Rightarrow> nat \<Rightarrow> ('w st, unit) prog" where
  "EnsureZookeeperCertificates r ident replicas = (let k = c_k r in
     bnd (bnd (zk_secretReady k ''zookeeper-client-tls'') (\<lambda>b.
          if b then zk_secretReady k ''zookeeper-server-tls'' else ret False)) (\<lambda>ready.
     if ready then ret ()
     else
       bnd (DeleteSecret k ''zookeeper-client-tls'') (\<lambda>_.
       bnd (DeleteSecret k ''zookeeper-server-tls'') (\<lambda>_.
       bnd (X509CA k) (\<lambda>(caCert, caPrivKey, caPEM, caPrivKeyPEM).
       bnd (X509Cert k caCert caPrivKey (zk_clientDNSNames r ident replicas)) (\<lambda>(certPEM, keyPEM).
       bnd (CreateR k cSecret (zk_secret k ''zookeeper-client-tls''
          (smap_of [(''ca.crt'', caPEM), (''tls.crt'', certPEM), (''tls.key'', keyPEM)]))) (\<lambda>_.
       bnd (map_prog (\<lambda>i. bnd (X509Cert k caCert caPrivKey (zk_serverDNSNames r ident i)) (\<lambda>(c, key).
            ret [(Itoa (int i) @ ''-tls.crt'', c), (Itoa (int i) @ ''-tls.key'', key)])) [0..<replicas]) (\<lambda>servers.
       bnd (CreateR k cSecret (zk_secret k ''zookeeper-server-tls''
          (smap_of ((''ca.crt'', caPEM) # concat servers)))) (\<lambda>_. ret ())))))))))"

end
