(* ===== verification/ZuulCF.thy ===== *)
theory ZuulCF
  imports Sidecars
begin

text \<open>
  The library that builds Zuul configurations, \<open>controllers/libs/zuulcf/zuulcf.go\<close>: one record per
  struct, its rendering as a YAML document by its struct tags (a field with \<open>omitempty\<close> is left out
  when it has the zero value, an \<open>inline\<close> field is spliced in, the keys of a map are sorted), and
  the functions that choose the parts of a pipeline by the driver of a connection.
\<close>

section \<open>Rendering\<close>

definition yfield :: "string \<Rightarrow> ydoc \<Rightarrow> (string \<times> ydoc) list" where
  "yfield k v = [(k, v)]"

definition yopt :: "bool \<Rightarrow> string \<Rightarrow> ydoc \<Rightarrow> (string \<times> ydoc) list" where
  "yopt present k v = (if present then [(k, v)] else [])"

definition ystrs :: "string list \<Rightarrow> ydoc" where
  "ystrs xs = YList (map YStr xs)"

definition ymap :: "('a \<Rightarrow> ydoc) \<Rightarrow> (string, 'a) fmap \<Rightarrow> (string \<times> ydoc) list" where
  "ymap f m = map (\<lambda>k. (k, f (the (fmlookup m k)))) (sorted_list_of_fset (fmdom m))"

section \<open>Tenants\<close>

definition TenantTemplate :: string where
  "TenantTemplate = ''- tenant:'' @ newline @ ''    name: {{ .Name }}'' @ newline @ ''    source:'' @ newline @ ''      {{ .Source }}:'' @ newline @ ''        {{ if .Trusted }}config-projects:'' @ newline @ ''        {{ range .Trusted}}- {{ . }}'' @ newline @ ''        {{end}}'' @ newline @ ''        {{- end -}}'' @ newline @ ''        {{ if .Untrusted  }}untrusted-projects:'' @ newline @ ''        {{ range .Untrusted}}- {{ . }}'' @ newline @ ''        {{ end -}}'' @ newline @ ''        {{- end }}'' @ newline"

record TenantTemplateStruct =
  tts_Name :: string
  tts_Source :: string
  tts_Trusted :: "string list"
  tts_Untrusted :: "string list"

definition GenerateZuulTemplateFile :: "'w kctx \<Rightarrow> TenantTemplateStruct \<Rightarrow> string + string" where
  "GenerateZuulTemplateFile r tenant = ParseString r TenantTemplate (TStruct
     [(''Name'', TText (tts_Name tenant)), (''Source'', TText (tts_Source tenant)),
      (''Trusted'', TList (map TText (tts_Trusted tenant))), (''Untrusted'', TList (map TText (tts_Untrusted tenant)))])"

record TenantConnProjects =
  tcp_ConfigProjects :: "string list"
  tcp_UntrustedProjects :: "string list"

record TenantBody =
  ten_Name :: string
  ten_Source :: "(string, TenantConnProjects) fmap"

definition TenantConnProjects_yaml :: "TenantConnProjects \<Rightarrow> ydoc" where
  "TenantConnProjects_yaml p = YMap (yfield ''config-projects'' (ystrs (tcp_ConfigProjects p)) @
     yfield ''untrusted-projects'' (ystrs (tcp_UntrustedProjects p)))"

definition TenantConfig_yaml :: "TenantBody list \<Rightarrow> ydoc" where
  "TenantConfig_yaml ts = YList (map (\<lambda>t. YMap [(''tenant'', YMap (yfield ''name'' (YStr (ten_Name t)) @
     yopt (ten_Source t \<noteq> fmempty) ''source'' (YMap (ymap TenantConnProjects_yaml (ten_Source t)))))]) ts)"

section \<open>Projects\<close>

definition GetZuulProjectMergeMode :: "string \<Rightarrow> string" where
  "GetZuulProjectMergeMode mergemode =
     (if mergemode \<in> set [''merge'', ''merge-resolve'', ''cherry-pick'', ''squash-merge'', ''rebase'']
      then mergemode else [])"

record ZuulProjectPipeline =
  zpp_Jobs :: "string list"
  zpp_Debug :: bool
  zpp_FailFast :: bool

record ZuulProjectBody =
  zpb_Name :: string
  zpb_Templates :: "string list"
  zpb_DefaultBranch :: string
  zpb_MergeMode :: string
  zpb_Vars :: "(string, ydoc) fmap"
  zpb_Queue :: string
  zpb_Pipeline :: "(string, ZuulProjectPipeline) fmap"

definition ZuulProjectPipeline_yaml :: "ZuulProjectPipeline \<Rightarrow> ydoc" where
  "ZuulProjectPipeline_yaml p = YMap (yopt (zpp_Jobs p \<noteq> []) ''jobs'' (ystrs (zpp_Jobs p)) @
     yopt (zpp_Debug p) ''debug'' (YBool True) @ yopt (zpp_FailFast p) ''fail-fast'' (YBool True))"

definition ProjectConfig_yaml :: "ZuulProjectBody list \<Rightarrow> ydoc" where
  "ProjectConfig_yaml ps = YList (map (\<lambda>p. YMap [(''project'', YMap (
     yopt (zpb_Name p \<noteq> []) ''name'' (YStr (zpb_Name p)) @
     yopt (zpb_Templates p \<noteq> []) ''templates'' (ystrs (zpb_Templates p)) @
     yopt (zpb_DefaultBranch p \<noteq> []) ''default-branch'' (YStr (zpb_DefaultBranch p)) @
     yopt (zpb_MergeMode p \<noteq> []) ''merge-mode'' (YStr (zpb_MergeMode p)) @
     yopt (zpb_Vars p \<noteq> fmempty) ''vars'' (YMap (ymap id (zpb_Vars p))) @
     yopt (zpb_Queue p \<noteq> []) ''queue'' (YStr (zpb_Queue p)) @
     ymap ZuulProjectPipeline_yaml (zpb_Pipeline p)))]) ps)"

section \<open>Jobs\<close>

record JobSecrets =
  jse_Name :: string
  jse_Secret :: string
  jse_PassToParent :: bool

definition JobSecrets_yaml :: "JobSecrets \<Rightarrow> ydoc" where
  "JobSecrets_yaml s = YMap (yfield ''name'' (YStr (jse_Name s)) @ yfield ''secret'' (YStr (jse_Secret s)) @
     yopt (jse_PassToParent s) ''pass-to-parent'' (YBool True))"

record JobRunNameAndSemaphore =
  jrs_Name :: string
  jrs_Semaphore :: string

record NodeSetNodesBody =
  nsn_Name :: string
  nsn_Label :: string

record NodeSetBody =
  nsb_Name :: string
  nsb_Nodes :: "NodeSetNodesBody list"
  nsb_Groups :: "NodeSetNodesBody list"
  nsb_Alternatives :: "string list"

definition zero_NodeSetBody :: NodeSetBody where
  "zero_NodeSetBody = \<lparr>nsb_Name = [], nsb_Nodes = [], nsb_Groups = [], nsb_Alternatives = []\<rparr>"

definition NodeSetNodesBody_yaml :: "NodeSetNodesBody \<Rightarrow> ydoc" where
  "NodeSetNodesBody_yaml n = YMap [(''name'', YStr (nsn_Name n)), (''label'', YStr (nsn_Label n))]"

definition NodeSetBody_yaml :: "NodeSetBody \<Rightarrow> ydoc" where
  "NodeSetBody_yaml n = YMap (yopt (nsb_Name n \<noteq> []) ''name'' (YStr (nsb_Name n)) @
     yopt (nsb_Nodes n \<noteq> []) ''nodes'' (YList (map NodeSetNodesBody_yaml (nsb_Nodes n))) @
     yopt (nsb_Groups n \<noteq> []) ''groups'' (YList (map NodeSetNodesBody_yaml (nsb_Groups n))) @
     yopt (nsb_Alternatives n \<noteq> []) ''alternatives'' (ystrs (nsb_Alternatives n)))"

text \<open>The fields of type \<open>interface\<close> hold documents; \<open>uint16\<close> and \<open>uint8\<close> fields are integers.\<close>

record JobBody =
  jbo_Name :: string
  jbo_Description :: string
  jbo_ExtraVars :: "(string, ydoc) fmap"
  jbo_Parent :: "string option"
  jbo_PostRun :: "string list"
  jbo_PreRun :: "string list"
  jbo_Roles :: "(string, string) fmap list"
  jbo_Secrets :: "ydoc list"
  jbo_Timeout :: int
  jbo_Attempts :: int
  jbo_Final :: bool
  jbo_Run :: "ydoc list"
  jbo_NodeSet :: NodeSetBody
  jbo_Semaphores :: "JobRunNameAndSemaphore list"

definition zero_JobBody :: JobBody where
  "zero_JobBody = \<lparr>jbo_Name = [], jbo_Description = [], jbo_ExtraVars = fmempty, jbo_Parent = None, jbo_PostRun = [],
     jbo_PreRun = [], jbo_Roles = [], jbo_Secrets = [], jbo_Timeout = 0, jbo_Attempts = 0, jbo_Final = False, jbo_Run = [],
     jbo_NodeSet = zero_NodeSetBody, jbo_Semaphores = []\<rparr>"

definition JobBody_yaml :: "JobBody \<Rightarrow> ydoc" where
  "JobBody_yaml j = YMap (
     yfield ''name'' (YStr (jbo_Name j)) @
     yopt (jbo_Description j \<noteq> []) ''description'' (YStr (jbo_Description j)) @
     yopt (jbo_ExtraVars j \<noteq> fmempty) ''extra-vars'' (YMap (ymap id (jbo_ExtraVars j))) @
     yfield ''parent'' (case jbo_Parent j of None \<Rightarrow> YNull | Some p \<Rightarrow> YStr p) @
     yopt (jbo_PostRun j \<noteq> []) ''post-run'' (ystrs (jbo_PostRun j)) @
     yopt (jbo_PreRun j \<noteq> []) ''pre-run'' (ystrs (jbo_PreRun j)) @
     yopt (jbo_Roles j \<noteq> []) ''roles'' (YList (map (\<lambda>m. YMap (ymap YStr m)) (jbo_Roles j))) @
     yopt (jbo_Secrets j \<noteq> []) ''secrets'' (YList (jbo_Secrets j)) @
     yopt (jbo_Timeout j \<noteq> 0) ''timeout'' (YInt (jbo_Timeout j)) @
     yopt (jbo_Attempts j \<noteq> 0) ''attempts'' (YInt (jbo_Attempts j)) @
     yopt (jbo_Final j) ''final'' (YBool True) @
     yopt (jbo_Run j \<noteq> []) ''run'' (YList (jbo_Run j)) @
     yopt (jbo_NodeSet j \<noteq> zero_NodeSetBody) ''nodeset'' (NodeSetBody_yaml (jbo_NodeSet j)) @
     yopt (jbo_Semaphores j \<noteq> []) ''semaphores'' (YList (map (\<lambda>s. YMap (yfield ''name'' (YStr (jrs_Name s)) @
        yopt (jrs_Semaphore s \<noteq> []) ''semaphore'' (YStr (jrs_Semaphore s)))) (jbo_Semaphores j))))"

definition JobConfig_yaml :: "JobBody list \<Rightarrow> ydoc" where
  "JobConfig_yaml js = YList (map (\<lambda>j. YMap [(''job'', JobBody_yaml j)]) js)"

section \<open>Pipelines\<close>

definition GetZuulPipelineManager :: "string \<Rightarrow> string" where
  "GetZuulPipelineManager manager =
     (if manager \<in> set [''independent'', ''dependent'', ''serial'', ''supercedent''] then manager else ''independent'')"

text \<open>The case \<open>normal\<close> of the switch has no statement and does not fall through.\<close>

definition GetZuulPipelinePrecedence :: "string \<Rightarrow> string" where
  "GetZuulPipelinePrecedence precedence =
     (if precedence = ''high'' then ''high'' else if precedence = ''low'' then ''low''
      else if precedence = ''normal'' then [] else ''normal'')"

definition vote_of :: "(string \<times> int) list \<Rightarrow> string \<Rightarrow> int" where
  "vote_of votes v = (case map_of votes v of None \<Rightarrow> 0 | Some i \<Rightarrow> i)"

definition GetZuulPipelineReporterVerified :: "string \<Rightarrow> int" where
  "GetZuulPipelineReporterVerified = vote_of [(''2'', 2), (''1'', 1), (''0'', 0), (''-1'', -1), (''-2'', -2)]"

definition GetGerritWorkflowValue :: "string \<Rightarrow> int" where
  "GetGerritWorkflowValue = vote_of [(''1'', 1), (''0'', 0), (''-1'', -1)]"

definition GetGerritCodeReviewValue :: "string \<Rightarrow> int" where
  "GetGerritCodeReviewValue = vote_of [(''2'', 2), (''1'', 1), (''0'', 0), (''-1'', -1), (''-2'', -2)]"

record PipelineRequireGerritApproval =
  pga_Workflow :: int
  pga_Verified :: int
  pga_CodeReview :: int

definition zero_approval :: PipelineRequireGerritApproval where
  "zero_approval = \<lparr>pga_Workflow = 0, pga_Verified = 0, pga_CodeReview = 0\<rparr>"

definition PipelineRequireGerritApproval_yaml :: "PipelineRequireGerritApproval \<Rightarrow> ydoc" where
  "PipelineRequireGerritApproval_yaml a = YMap (yopt (pga_Workflow a \<noteq> 0) ''Workflow'' (YInt (pga_Workflow a)) @
     yopt (pga_Verified a \<noteq> 0) ''Verified'' (YInt (pga_Verified a)) @
     yopt (pga_CodeReview a \<noteq> 0) ''Code-Review'' (YInt (pga_CodeReview a)))"

record PipelineGerritRequirement =
  pgr_Username :: string
  pgr_CurrentPatchset :: bool
  pgr_Verified :: "int list"
  pgr_GerritApproval :: "PipelineRequireGerritApproval list"
  pgr_Workflow :: int

definition zero_PipelineGerritRequirement :: PipelineGerritRequirement where
  "zero_PipelineGerritRequirement = \<lparr>pgr_Username = [], pgr_CurrentPatchset = False, pgr_Verified = [],
     pgr_GerritApproval = [], pgr_Workflow = 0\<rparr>"

definition PipelineGerritRequirement_fields :: "PipelineGerritRequirement \<Rightarrow> (string \<times> ydoc) list" where
  "PipelineGerritRequirement_fields g = yopt (pgr_Username g \<noteq> []) ''username'' (YStr (pgr_Username g)) @
     yopt (pgr_CurrentPatchset g) ''current-patchset'' (YBool True) @
     yopt (pgr_Verified g \<noteq> []) ''Verified'' (YList (map YInt (pgr_Verified g))) @
     yopt (pgr_GerritApproval g \<noteq> []) ''approval'' (YList (map PipelineRequireGerritApproval_yaml (pgr_GerritApproval g))) @
     yopt (pgr_Workflow g \<noteq> 0) ''Workflow'' (YInt (pgr_Workflow g))"

record PipelineGitLabRequirement =
  pgl_Merged :: bool
  pgl_Approved :: bool
  pgl_Labels :: "string list"

definition zero_PipelineGitLabRequirement :: PipelineGitLabRequirement where
  "zero_PipelineGitLabRequirement = \<lparr>pgl_Merged = False, pgl_Approved = False, pgl_Labels = []\<rparr>"

definition PipelineGitLabRequirement_fields :: "PipelineGitLabRequirement \<Rightarrow> (string \<times> ydoc) list" where
  "PipelineGitLabRequirement_fields g = yopt (pgl_Merged g) ''merged'' (YBool True) @
     yopt (pgl_Approved g) ''approved'' (YBool True) @ yopt (pgl_Labels g \<noteq> []) ''labels'' (ystrs (pgl_Labels g))"

record PipelineRequireApproval =
  pra_Open :: bool
  pra_Gerrit :: PipelineGerritRequirement
  pra_Gitlab :: PipelineGitLabRequirement

definition zero_PipelineRequireApproval :: PipelineRequireApproval where
  "zero_PipelineRequireApproval = \<lparr>pra_Open = False, pra_Gerrit = zero_PipelineGerritRequirement,
     pra_Gitlab = zero_PipelineGitLabRequirement\<rparr>"

definition PipelineRequireApproval_yaml :: "PipelineRequireApproval \<Rightarrow> ydoc" where
  "PipelineRequireApproval_yaml a = YMap (yopt (pra_Open a) ''open'' (YBool True) @
     PipelineGerritRequirement_fields (pra_Gerrit a) @ PipelineGitLabRequirement_fields (pra_Gitlab a))"

text \<open>
  \<open>PipelineTrigger\<close> inlines a Gerrit and a GitLab part; the \<open>require\<close> part of the former is itself a
  list of approvals.
\<close>

record PipelineTriggerGit =
  pti_Gerrit :: "PipelineRequireApproval list"
  pti_Approval :: "PipelineRequireGerritApproval list"
  pti_Username :: string

record PipelineTriggerGitLab =
  ptl_Action :: "string list"
  ptl_Labels :: "string list"
  ptl_Unlabels :: "string list"

record PipelineTrigger =
  ptr_Event :: string
  ptr_Comment :: string
  ptr_Ref :: "string list"
  ptr_GitTrigger :: PipelineTriggerGit
  ptr_GitLabTrigger :: PipelineTriggerGitLab

definition zero_PipelineTriggerGit :: PipelineTriggerGit where
  "zero_PipelineTriggerGit = \<lparr>pti_Gerrit = [], pti_Approval = [], pti_Username = []\<rparr>"

definition zero_PipelineTriggerGitLab :: PipelineTriggerGitLab where
  "zero_PipelineTriggerGitLab = \<lparr>ptl_Action = [], ptl_Labels = [], ptl_Unlabels = []\<rparr>"

definition on_event :: "string \<Rightarrow> PipelineTrigger" where
  "on_event e = \<lparr>ptr_Event = e, ptr_Comment = [], ptr_Ref = [], ptr_GitTrigger = zero_PipelineTriggerGit,
     ptr_GitLabTrigger = zero_PipelineTriggerGitLab\<rparr>"

definition PipelineTrigger_yaml :: "PipelineTrigger \<Rightarrow> ydoc" where
  "PipelineTrigger_yaml t = (let g = ptr_GitTrigger t; l = ptr_GitLabTrigger t in YMap (
     yfield ''event'' (YStr (ptr_Event t)) @
     yopt (ptr_Comment t \<noteq> []) ''comment'' (YStr (ptr_Comment t)) @
     yopt (ptr_Ref t \<noteq> []) ''ref'' (ystrs (ptr_Ref t)) @
     yopt (pti_Gerrit g \<noteq> []) ''require'' (YMap [(''approval'', YList (map PipelineRequireApproval_yaml (pti_Gerrit g)))]) @
     yopt (pti_Approval g \<noteq> []) ''approval'' (YList (map PipelineRequireGerritApproval_yaml (pti_Approval g))) @
     yopt (pti_Username g \<noteq> []) ''username'' (YStr (pti_Username g)) @
     yopt (ptl_Action l \<noteq> []) ''action'' (ystrs (ptl_Action l)) @
     yopt (ptl_Labels l \<noteq> []) ''labels'' (ystrs (ptl_Labels l)) @
     yopt (ptl_Unlabels l \<noteq> []) ''unlabels'' (ystrs (ptl_Unlabels l))))"

record PipelineGitLabReporter =
  rgl_Comment :: bool
  rgl_Approval :: bool
  rgl_Merge :: bool
  rgl_Labels :: "string list"
  rgl_Unlabels :: "string list"

record PipelineGerritReporter =
  rge_Submit :: bool
  rge_Verified :: int

record PipelineDriverReporter =
  rdr_Gitlab :: "PipelineGitLabReporter option"
  rdr_Gerrit :: "PipelineGerritReporter option"

definition PipelineDriverReporter_yaml :: "PipelineDriverReporter \<Rightarrow> ydoc" where
  "PipelineDriverReporter_yaml d = YMap (
     (case rdr_Gitlab d of None \<Rightarrow> [] | Some g \<Rightarrow> yfield ''comment'' (YBool (rgl_Comment g)) @
        yfield ''approval'' (YBool (rgl_Approval g)) @ yopt (rgl_Merge g) ''merge'' (YBool True) @
        yopt (rgl_Labels g \<noteq> []) ''labels'' (ystrs (rgl_Labels g)) @
        yopt (rgl_Unlabels g \<noteq> []) ''unlabels'' (ystrs (rgl_Unlabels g))) @
     (case rdr_Gerrit d of None \<Rightarrow> [] | Some g \<Rightarrow> yopt (rge_Submit g) ''submit'' (YBool True) @
        yfield ''Verified'' (YInt (rge_Verified g))))"

record PipelineReporter =
  rep_Reporter :: "(string, PipelineDriverReporter) fmap"
  rep_SQLReporter :: "string list"

definition zero_PipelineReporter :: PipelineReporter where
  "zero_PipelineReporter = \<lparr>rep_Reporter = fmempty, rep_SQLReporter = []\<rparr>"

definition PipelineReporter_yaml :: "PipelineReporter \<Rightarrow> ydoc" where
  "PipelineReporter_yaml p = YMap (yopt (rep_SQLReporter p \<noteq> []) ''sqlreporter'' (ystrs (rep_SQLReporter p)) @
     ymap PipelineDriverReporter_yaml (rep_Reporter p))"

type_synonym PipelineRequire = "(string, PipelineRequireApproval) fmap"
type_synonym PipelineGenericTrigger = "(string, PipelineTrigger list) fmap"

record PipelineBody =
  pip_Name :: string
  pip_Description :: string
  pip_Manager :: string
  pip_PostReview :: bool
  pip_Precedence :: string
  pip_Supercedes :: "string list"
  pip_SuccessMessage :: string
  pip_FailureMessage :: string
  pip_Require :: PipelineRequire
  pip_Start :: PipelineReporter
  pip_Success :: PipelineReporter
  pip_Failure :: PipelineReporter
  pip_Trigger :: PipelineGenericTrigger
  pip_WindowFloor :: int
  pip_WindowIncreaseFactor :: int

definition zero_PipelineBody :: PipelineBody where
  "zero_PipelineBody = \<lparr>pip_Name = [], pip_Description = [], pip_Manager = [], pip_PostReview = False, pip_Precedence = [],
     pip_Supercedes = [], pip_SuccessMessage = [], pip_FailureMessage = [], pip_Require = fmempty,
     pip_Start = zero_PipelineReporter, pip_Success = zero_PipelineReporter, pip_Failure = zero_PipelineReporter,
     pip_Trigger = fmempty, pip_WindowFloor = 0, pip_WindowIncreaseFactor = 0\<rparr>"

definition PipelineBody_yaml :: "PipelineBody \<Rightarrow> ydoc" where
  "PipelineBody_yaml p = YMap (
     yfield ''name'' (YStr (pip_Name p)) @
     yopt (pip_Description p \<noteq> []) ''description'' (YStr (pip_Description p)) @
     yfield ''manager'' (YStr (pip_Manager p)) @
     yopt (pip_PostReview p) ''post-review'' (YBool True) @
     yopt (pip_Precedence p \<noteq> []) ''precedence'' (YStr (pip_Precedence p)) @
     yopt (pip_Supercedes p \<noteq> []) ''supercedes'' (ystrs (pip_Supercedes p)) @
     yopt (pip_SuccessMessage p \<noteq> []) ''success-message'' (YStr (pip_SuccessMessage p)) @
     yopt (pip_FailureMessage p \<noteq> []) ''failure-message'' (YStr (pip_FailureMessage p)) @
     yopt (pip_Require p \<noteq> fmempty) ''require'' (YMap (ymap PipelineRequireApproval_yaml (pip_Require p))) @
     yopt (pip_Start p \<noteq> zero_PipelineReporter) ''start'' (PipelineReporter_yaml (pip_Start p)) @
     yopt (pip_Success p \<noteq> zero_PipelineReporter) ''success'' (PipelineReporter_yaml (pip_Success p)) @
     yopt (pip_Failure p \<noteq> zero_PipelineReporter) ''failure'' (PipelineReporter_yaml (pip_Failure p)) @
     yopt (pip_Trigger p \<noteq> fmempty) ''trigger'' (YMap (ymap (\<lambda>ts. YList (map PipelineTrigger_yaml ts)) (pip_Trigger p))) @
     yopt (pip_WindowFloor p \<noteq> 0) ''window-floor'' (YInt (pip_WindowFloor p)) @
     yopt (pip_WindowIncreaseFactor p \<noteq> 0) ''window-increase-factor'' (YInt (pip_WindowIncreaseFactor p)))"

definition PipelineConfig_yaml :: "PipelineBody list \<Rightarrow> ydoc" where
  "PipelineConfig_yaml ps = YList (map (\<lambda>p. YMap [(''pipeline'', PipelineBody_yaml p)]) ps)"

section \<open>Playbooks and semaphores\<close>

record AnsiblePlay =
  apl_Hosts :: string
  apl_Roles :: "(string, ydoc) fmap list"
  apl_Vars :: "(string, ydoc) fmap list"
  apl_Tasks :: "(string, ydoc) fmap list"

definition AnsiblePlayBook_yaml :: "AnsiblePlay list \<Rightarrow> ydoc" where
  "AnsiblePlayBook_yaml ps = YList (map (\<lambda>p. YMap (yfield ''hosts'' (YStr (apl_Hosts p)) @
     yopt (apl_Roles p \<noteq> []) ''roles'' (YList (map (\<lambda>m. YMap (ymap id m)) (apl_Roles p))) @
     yopt (apl_Vars p \<noteq> []) ''vars'' (YList (map (\<lambda>m. YMap (ymap id m)) (apl_Vars p))) @
     yopt (apl_Tasks p \<noteq> []) ''tasks'' (YList (map (\<lambda>m. YMap (ymap id m)) (apl_Tasks p))))) ps)"

record SemaphoreBody =
  sem_Name :: string
  sem_Max :: int

definition Semaphores_yaml :: "SemaphoreBody list \<Rightarrow> ydoc" where
  "Semaphores_yaml ss = YList (map (\<lambda>s. YMap [(''semaphore'', YMap (yfield ''name'' (YStr (sem_Name s)) @
     yopt (sem_Max s \<noteq> 0) ''max'' (YInt (sem_Max s))))]) ss)"

section \<open>The parts of a pipeline by driver\<close>

text \<open>The result is the value together with the error, as in the code: both are returned.\<close>

definition unsupported :: "string \<Rightarrow> string \<Rightarrow> string option" where
  "unsupported what driver = Some (what @ '': Driver of type '' @ [CHR 0x22] @ driver @ [CHR 0x22] @ '' is not supported'')"

definition GetRequireCheckByDriver :: "string \<Rightarrow> string \<Rightarrow> PipelineRequire \<times> string option" where
  "GetRequireCheckByDriver driver connection =
     (if driver = ''gerrit'' then
        (fmap_of_list [(connection, zero_PipelineRequireApproval\<lparr>pra_Open := True,
           pra_Gerrit := zero_PipelineGerritRequirement\<lparr>pgr_CurrentPatchset := True\<rparr>\<rparr>)], None)
      else if driver = ''gitlab'' then
        (fmap_of_list [(connection, zero_PipelineRequireApproval\<lparr>pra_Open := True\<rparr>)], None)
      else (fmempty, unsupported ''check Pipeline Require'' driver))"

definition GetRequireGateByDriver :: "string \<Rightarrow> string \<Rightarrow> PipelineRequire \<times> string option" where
  "GetRequireGateByDriver driver connection =
     (if driver = ''gerrit'' then
        (fmap_of_list [(connection, zero_PipelineRequireApproval\<lparr>pra_Open := True,
           pra_Gerrit := zero_PipelineGerritRequirement\<lparr>pgr_CurrentPatchset := True,
             pgr_GerritApproval := [zero_approval\<lparr>pga_Workflow := GetGerritWorkflowValue ''1''\<rparr>]\<rparr>\<rparr>)], None)
      else if driver = ''gitlab'' then
        (fmap_of_list [(connection, zero_PipelineRequireApproval\<lparr>pra_Open := True,
           pra_Gitlab := zero_PipelineGitLabRequirement\<lparr>pgl_Approved := True, pgl_Labels := [''workflow'']\<rparr>\<rparr>)], None)
      else (fmempty, unsupported ''gate Pipeline Require'' driver))"

definition gl_action :: "string list \<Rightarrow> PipelineTriggerGitLab" where
  "gl_action as = zero_PipelineTriggerGitLab\<lparr>ptl_Action := as\<rparr>"

definition GetTriggerCheckByDriver :: "string \<Rightarrow> string \<Rightarrow> PipelineGenericTrigger \<times> string option" where
  "GetTriggerCheckByDriver driver connection =
     (if driver = ''gerrit'' then
        (fmap_of_list [(connection, [on_event ''patchset-created'', on_event ''change-restored'',
           (on_event ''comment-added'')\<lparr>ptr_Comment := ''(?i)^(Patch Set [0-9]+:)?( ['' @ [CHR 0x5C] @ ''w'' @ [CHR 0x5C] @ ''+-]*)*('' @ [CHR 0x5C] @ ''n'' @ [CHR 0x5C] @ ''n)?'' @ [CHR 0x5C] @ ''s*(recheck|reverify)''\<rparr>])], None)
      else if driver = ''gitlab'' then
        (fmap_of_list [(connection,
           [(on_event ''gl_merge_request'')\<lparr>ptr_GitLabTrigger := gl_action [''comment''], ptr_Comment := ''(?i)^'' @ [CHR 0x5C] @ ''s*recheck'' @ [CHR 0x5C] @ ''s*$''\<rparr>,
            (on_event ''gl_merge_request'')\<lparr>ptr_GitLabTrigger := gl_action [''opened'', ''changed'']\<rparr>])], None)
      else (fmempty, unsupported ''check Pipeline Trigger'' driver))"

definition GetTriggerGateByDriver :: "string \<Rightarrow> string \<Rightarrow> PipelineGenericTrigger \<times> string option" where
  "GetTriggerGateByDriver driver connection =
     (if driver = ''gerrit'' then
        (fmap_of_list [(connection,
           [(on_event ''comment-added'')\<lparr>ptr_GitTrigger := zero_PipelineTriggerGit\<lparr>pti_Approval :=
               [zero_approval\<lparr>pga_Workflow := GetGerritWorkflowValue ''1''\<rparr>]\<rparr>\<rparr>,
            (on_event ''comment-added'')\<lparr>ptr_GitTrigger := zero_PipelineTriggerGit\<lparr>pti_Approval :=
               [zero_approval\<lparr>pga_Verified := GetZuulPipelineReporterVerified ''1''\<rparr>], pti_Username := ''zuul''\<rparr>\<rparr>])], None)
      else if driver = ''gitlab'' then
        (fmap_of_list [(connection,
           [(on_event ''gl_merge_request'')\<lparr>ptr_GitLabTrigger := gl_action [''approved'']\<rparr>,
            (on_event ''gl_merge_request'')\<lparr>ptr_GitLabTrigger := (gl_action [''labeled''])\<lparr>ptl_Labels := [''workflow'']\<rparr>\<rparr>])], None)
      else (fmempty, unsupported ''gate Pipeline Trigger'' driver))"

definition GetTriggerPostByDriver :: "string \<Rightarrow> string \<Rightarrow> PipelineGenericTrigger \<times> string option" where
  "GetTriggerPostByDriver driver connection =
     (let trigger = fmap_of_list [(''git-server'', [on_event ''ref-updated''])];
          refs = [''^refs/heads/master$'', ''^refs/heads/main$''] in
      if driver = ''gerrit'' then (fmupd connection [(on_event ''ref-updated'')\<lparr>ptr_Ref := refs\<rparr>] trigger, None)
      else if driver = ''gitlab'' then (fmupd connection [(on_event ''gl_push'')\<lparr>ptr_Ref := refs\<rparr>] trigger, None)
      else (trigger, unsupported ''post Pipeline Trigger'' driver))"

definition gerrit_report :: "string \<Rightarrow> string \<Rightarrow> bool \<Rightarrow> PipelineReporter" where
  "gerrit_report connection vote submit = zero_PipelineReporter\<lparr>rep_Reporter := fmap_of_list [(connection,
     \<lparr>rdr_Gitlab = None, rdr_Gerrit = Some \<lparr>rge_Submit = submit, rge_Verified = GetZuulPipelineReporterVerified vote\<rparr>\<rparr>)]\<rparr>"

definition gitlab_report :: "string \<Rightarrow> bool \<Rightarrow> bool \<Rightarrow> PipelineReporter" where
  "gitlab_report connection approval merge = zero_PipelineReporter\<lparr>rep_Reporter := fmap_of_list [(connection,
     \<lparr>rdr_Gitlab = Some \<lparr>rgl_Comment = True, rgl_Approval = approval, rgl_Merge = merge, rgl_Labels = [], rgl_Unlabels = []\<rparr>,
      rdr_Gerrit = None\<rparr>)]\<rparr>"

text \<open>The reporters at the start, on success and on failure.\<close>

definition GetReportersCheckByDriver :: "string \<Rightarrow> string \<Rightarrow> PipelineReporter list \<times> string option" where
  "GetReportersCheckByDriver driver connection =
     (if driver = ''gerrit'' then
        ([gerrit_report connection ''0'' False, gerrit_report connection ''1'' False, gerrit_report connection ''-1'' False], None)
      else if driver = ''gitlab'' then
        ([gitlab_report connection False False, gitlab_report connection True False, gitlab_report connection False False], None)
      else ([zero_PipelineReporter, zero_PipelineReporter, zero_PipelineReporter], unsupported ''check Pipeline Reporters'' driver))"

definition GetReportersGateByDriver :: "string \<Rightarrow> string \<Rightarrow> PipelineReporter list \<times> string option" where
  "GetReportersGateByDriver driver connection =
     (if driver = ''gerrit'' then
        ([gerrit_report connection ''0'' False, gerrit_report connection ''2'' True, gerrit_report connection ''-2'' False], None)
      else if driver = ''gitlab'' then
        ([gitlab_report connection False False, gitlab_report connection True True, gitlab_report connection False False], None)
      else ([zero_PipelineReporter, zero_PipelineReporter, zero_PipelineReporter], unsupported ''gate Pipeline Reporters'' driver))"

section \<open>Lemmas\<close>

text \<open>The votes stay in the range that Gerrit accepts.\<close>

lemma vote_range:
  "GetZuulPipelineReporterVerified v \<in> {-2..2}" "GetGerritWorkflowValue v \<in> {-1..1}" "GetGerritCodeReviewValue v \<in> {-2..2}"
  by (auto simp: GetZuulPipelineReporterVerified_def GetGerritWorkflowValue_def GetGerritCodeReviewValue_def vote_of_def)

text \<open>There are always three reporters, so that the indices 0, 1 and 2 of the callers are in range.\<close>

lemma three_reporters:
  "length (fst (GetReportersCheckByDriver d c)) = 3" "length (fst (GetReportersGateByDriver d c)) = 3"
  by (simp_all add: GetReportersCheckByDriver_def GetReportersGateByDriver_def)

end
