(* ===== verification/Backing.thy ===== *)
theory Backing
  imports ZuulCF
begin

text \<open>
  The backing services of Zuul and Nodepool: the database (\<open>controllers/mariadb.go\<close>) and ZooKeeper
  (\<open>controllers/zookeeper.go\<close>). The pod templates are pure functions of the resource; the \<open>Deploy\<close>
  functions are the programs around them. The embedded files are read through \<open>c_static\<close>.
\<close>

section \<open>Shared parts\<close>

text \<open>What \<open>UpdateContainerLimit\<close> returns does not depend on the container.\<close>

definition limits_text :: "LimitsSpec option \<Rightarrow> string" where
  "limits_text limits = fst (UpdateContainerLimit limits zero_container)"

definition limited :: "LimitsSpec option \<Rightarrow> container \<Rightarrow> container" where
  "limited limits c = snd (UpdateContainerLimit limits c)"

lemma UpdateContainerLimit_split: "UpdateContainerLimit limits c = (limits_text limits, limited limits c)"
  by (simp add: limits_text_def limited_def UpdateContainerLimit_def split: option.split)

text \<open>Appending containers and volumes to a pod, and its host aliases.\<close>

definition template_append :: "container list \<Rightarrow> volume list \<Rightarrow> pod_template \<Rightarrow> pod_template" where
  "template_append cs vs = template_spec (\<lambda>p. p\<lparr>ps_containers := ps_containers p @ cs, ps_volumes := ps_volumes p @ vs\<rparr>)"

definition template_hosts :: "SoftwareFactorySpec \<Rightarrow> pod_template \<Rightarrow> pod_template" where
  "template_hosts spec = template_spec (\<lambda>p. p\<lparr>ps_hostAliases := CreateHostAliases (sf_HostAliases spec)\<rparr>)"

text \<open>A secret with one entry.\<close>

definition one_secret :: "'w kctx \<Rightarrow> string \<Rightarrow> string \<Rightarrow> string \<Rightarrow> secret" where
  "one_secret k name key value = \<lparr>se_meta = mk_meta name (k_ns k), se_data = Some (smap_of [(key, value)]), se_type = []\<rparr>"

text \<open>
  The log forwarder of the two services: \<open>createLogForwarderSidecar\<close> and \<open>createZKLogForwarderSidecar\<close>
  differ in these names only. The result is the annotations, the volumes and the sidecar.
\<close>

definition fluent_conf :: "'w SFController \<Rightarrow> string \<Rightarrow> string \<Rightarrow> string" where
  "fluent_conf r tag path = parsed (c_k r) (c_static r path)
     (logging_data [] (CreateForwarderConfigTemplateParams tag (sf_FluentBitLogForwarding (c_spec r))))"

definition forwarder :: "'w SFController \<Rightarrow> string \<Rightarrow> string \<Rightarrow> string \<Rightarrow> string \<Rightarrow> string \<Rightarrow> smap \<Rightarrow>
    ('w st, smap \<times> volume list \<times> container) prog" where
  "forwarder r service short conf cmBase logs annotations =
     bnd (EnsureConfigMap (c_k r) cmBase (Some (smap_of [(''fluent-bit.conf'', conf)]))) (\<lambda>_.
     bnd (CreateFluentBitSideCarContainer service []
        [mk_mount logs ''/watch/'', mk_mount (short @ ''-log-forwarder-config'') ''/fluent-bit/etc/''] (k_isOpenShift (c_k r)))
       (\<lambda>(sidecar, storageEmptyDir). ret
        (fmupd (short @ ''-fluent-bit-image'') (ct_image sidecar)
           (fmupd (short @ ''-fluent-bit.conf'') (Checksum (c_k r) conf) annotations),
         [MkVolumeCM (short @ ''-log-forwarder-config'') (cmBase @ ''-config-map''), storageEmptyDir], sidecar)))"

section \<open>MariaDB\<close>

definition MariaDBIdent :: string where "MariaDBIdent = ''mariadb''"
definition mariadbPort :: int where "mariadbPort = 3306"
definition mariaDBPortName :: string where "mariaDBPortName = ''mariadb-port''"
definition zuulDBConfigSecret :: string where "zuulDBConfigSecret = ''zuul-db-connection''"
definition MariadbAdminPass :: string where "MariadbAdminPass = ''mariadb-root-password''"

definition createLogForwarderSidecar :: "'w SFController \<Rightarrow> smap \<Rightarrow> ('w st, smap \<times> volume list \<times> container) prog" where
  "createLogForwarderSidecar r annotations = forwarder r MariaDBIdent ''mariadb''
     (fluent_conf r ''mariadb'' ''static/mariadb/fluentbit/fluent-bit.conf.tmpl'') ''fluentbit-mariadb-cfg'' ''mariadb-logs'' annotations"

definition db_statement :: "string \<Rightarrow> string \<Rightarrow> string" where
  "db_statement username dbname =
     ''CREATE DATABASE IF NOT EXISTS '' @ dbname @ '' CHARACTER SET utf8 COLLATE utf8_general_ci;'' @
     ''GRANT ALL PRIVILEGES ON '' @ dbname @ ''.* TO '' @ [CHR 0x27] @ username @
     [CHR 0x27] @ ''@'' @ [CHR 0x27] @ ''%'' @ [CHR 0x27] @ '' IDENTIFIED BY '' @ [CHR 0x27] @ ''${USER_PASSWORD}'' @ [CHR 0x27] @ '' WITH GRANT OPTION; FLUSH PRIVILEGES;''"

definition CreateDBInitContainer :: "'w SFController \<Rightarrow> string \<Rightarrow> string \<Rightarrow> string \<Rightarrow> ('w st, container) prog" where
  "CreateDBInitContainer r username password dbname =
     (let cg = db_statement username dbname in
      bnd MariaDBImage (\<lambda>img. ret
        ((SetContainerLimitsLowProfile (MkContainer ''mariadb-client'' img (k_isOpenShift (c_k r))))\<lparr>
           ct_command := [''sh'', ''-c'',
             newline @ [CHR 0x09] @ ''echo '' @ [CHR 0x27] @ ''Running: mysql --host='' @ [CHR 0x22] @ MariaDBIdent @
             [CHR 0x22] @ '' --user=root --password='' @ [CHR 0x22] @ ''$MARIADB_ROOT_PASSWORD'' @ [CHR 0x22] @ '' -e '' @ [CHR 0x22] @ cg @ [CHR 0x22] @ [CHR 0x27] @ newline @ [CHR 0x09] @ ''ATTEMPT=0'' @ newline @ [CHR 0x09] @ ''while ! mysql --host=mariadb --user=root --password='' @ [CHR 0x22] @ ''$MARIADB_ROOT_PASSWORD'' @ [CHR 0x22] @ '' -e '' @ [CHR 0x22] @ cg @
             [CHR 0x22] @ ''; do'' @ newline @ [CHR 0x09] @ [CHR 0x09] @ ''ATTEMPT=$[ $ATTEMPT + 1 ]'' @ newline @ [CHR 0x09] @ [CHR 0x09] @ ''if test $ATTEMPT -eq 10; then'' @ newline @ [CHR 0x09] @ [CHR 0x09] @ [CHR 0x09] @ ''echo '' @ [CHR 0x22] @ ''Failed after $ATTEMPT attempt'' @ [CHR 0x22] @ '';'' @ newline @ [CHR 0x09] @ [CHR 0x09] @ [CHR 0x09] @ ''exit 1'' @ newline @ [CHR 0x09] @ [CHR 0x09] @ ''fi'' @ newline @ [CHR 0x09] @ [CHR 0x09] @ ''sleep 10;'' @ newline @ [CHR 0x09] @ ''done'' @ newline @ [CHR 0x09]],
           ct_env := [MkSecretEnvVar ''MARIADB_ROOT_PASSWORD'' ''mariadb-root-password'' ''mariadb-root-password'',
             MkEnvVar ''USER_PASSWORD'' password]\<rparr>)))"

definition db_job :: "'w SFController \<Rightarrow> string \<Rightarrow> string \<Rightarrow> container \<Rightarrow> job" where
  "db_job r database password c =
     \<lparr>jo_meta = (mk_meta (database @ ''-db-provision'') (k_ns (c_k r)))\<lparr>om_annotations :=
        Some (smap_of [(''cfg'', Checksum (c_k r) password)])\<rparr>,
      jo_backoffLimit = Some 5,
      jo_template = \<lparr>pt_meta = mk_meta [] [],
        pt_spec = zero_pod_spec\<lparr>ps_restartPolicy := ''OnFailure'', ps_containers := [c]\<rparr>\<rparr>,
      jo_succeeded = 0\<rparr>"

definition EnsureProvisionDBJob :: "'w SFController \<Rightarrow> string \<Rightarrow> string \<Rightarrow> ('w st, bool) prog" where
  "EnsureProvisionDBJob r database password =
     bnd (CreateDBInitContainer r database password database) (\<lambda>c.
       let dbInitJob = db_job r database password c in
     bnd (GetOrCreate (c_k r) cJob dbInitJob) (\<lambda>(found, current).
       if found \<and> gm_get (om_annotations (jo_meta dbInitJob)) ''cfg'' \<noteq> gm_get (om_annotations (jo_meta current)) ''cfg''
       then bnd (DeleteR (c_k r) cJob (jo_meta current)) (\<lambda>_.
            bnd (CreateR (c_k r) cJob dbInitJob) (\<lambda>_. ret False))
       else ret (0 < jo_succeeded current)))"

definition mkDSN :: "'w kctx \<Rightarrow> string \<Rightarrow> string" where
  "mkDSN k password = s_formatDSN (k_sys k) (MariaDBIdent @ '':'' @ Itoa mariadbPort) ''zuul'' password ''zuul''"

definition initfile_sql :: "string \<Rightarrow> string" where
  "initfile_sql pass =
     ''CREATE USER IF NOT EXISTS root@localhost IDENTIFIED BY '' @ [CHR 0x27] @ pass @
     [CHR 0x27] @ '';'' @ newline @ ''SET PASSWORD FOR root@localhost = PASSWORD('' @ [CHR 0x27] @ pass @
     [CHR 0x27] @ '');'' @ newline @ ''GRANT ALL ON *.* TO root@localhost WITH GRANT OPTION;'' @ newline @ ''CREATE USER IF NOT EXISTS root@'' @ [CHR 0x27] @ ''%'' @ [CHR 0x27] @ '' IDENTIFIED BY '' @ [CHR 0x27] @ pass @
     [CHR 0x27] @ '';'' @ newline @ ''SET PASSWORD FOR root@'' @ [CHR 0x27] @ ''%'' @ [CHR 0x27] @ '' = PASSWORD('' @ [CHR 0x27] @ pass @
     [CHR 0x27] @ '');'' @ newline @ ''GRANT ALL ON *.* TO root@'' @ [CHR 0x27] @ ''%'' @ [CHR 0x27] @ '' WITH GRANT OPTION;''"

definition mariadb_data_mounts :: "volume_mount list" where
  "mariadb_data_mounts = [mk_mount MariaDBIdent ''/var/lib/mysql'', mk_mount ''mariadb-logs'' ''/var/log/mariadb'']"

definition mariadb_main :: "'w SFController \<Rightarrow> container \<Rightarrow> container" where
  "mariadb_main r c = (limited (md_Limits (sf_MariaDB (c_spec r))) (SetContainerLimitsHighProfile c))\<lparr>
     ct_volumeMounts := [mk_mount ''mariadb-run'' ''/run/mariadb'',
         mount_ro_sub ''mariadb-config-secrets'' ''/var/lib/mysql/.my.cnf'' ''my.cnf'',
         mount_ro_sub ''mariadb-initdb-secrets'' ''/docker-entrypoint-initdb.d/initfile.sql'' ''initfile.sql''] @ mariadb_data_mounts,
     ct_env := [MkEnvVar ''HOME'' ''/var/lib/mysql'',
         MkSecretEnvVar ''MARIADB_ROOT_PASSWORD'' ''mariadb-root-password'' ''mariadb-root-password'',
         MkEnvVar ''MARIADB_DISABLE_UPGRADE_BACKUP'' ''1'', MkEnvVar ''MARIADB_AUTO_UPGRADE'' ''1''],
     ct_ports := [MkContainerPort mariadbPort mariaDBPortName],
     ct_readinessProbe := Some (MkReadinessCMDProbe [''/usr/bin/mariadb'', ''-h'', ''127.0.0.1'', ''-e'', ''SELECT 1'']),
     ct_livenessProbe := Some (MkLivenessCMDProbe [''/usr/bin/mariadb-admin'', ''ping''])\<rparr>"

definition mariadb_sts :: "'w SFController \<Rightarrow> pod_security_context \<Rightarrow> string \<Rightarrow> smap \<Rightarrow> volume list \<Rightarrow> container list \<Rightarrow> statefulset" where
  "mariadb_sts r psc img annotations vols sidecars =
     (let k = c_k r; spec = c_spec r;
          sts = mkStatefulSet k psc MariaDBIdent img (getStorageConfOrDefault r (md_DBStorage (sf_MariaDB spec)))
            ''ReadWriteOnce'' (sf_ExtraLabels spec) (k_isOpenShift k) []
      in sts_template (\<lambda>t. template_hosts spec (template_annotated annotations (template_append sidecars vols
           (template_spec (\<lambda>p. p\<lparr>ps_volumes := [MkEmptyDirVolume ''mariadb-run'',
               MkVolumeSecret ''mariadb-config-secrets'' [''mariadb-config-secrets''],
               MkVolumeSecret ''mariadb-initdb-secrets'' [''mariadb-initdb-secrets'']]\<rparr>)
             (template_main (mariadb_main r) t)))))
         (sts\<lparr>ss_volumeClaimTemplates := ss_volumeClaimTemplates sts @
            [MkPVC ''mariadb-logs'' (k_ns k) (getStorageConfOrDefault r (md_LogStorage (sf_MariaDB spec))) ''ReadWriteOnce'']\<rparr>))"

definition mariadb_annotations :: "'w SFController \<Rightarrow> smap" where
  "mariadb_annotations r = smap_of [(''serial'', ''6''), (''limits'', limits_text (md_Limits (sf_MariaDB (c_spec r))))]"

text \<open>The connection secret of Zuul is created once, with a fresh password; then the database is provisioned.\<close>

definition zuul_db_secret :: "'w kctx \<Rightarrow> string \<Rightarrow> secret" where
  "zuul_db_secret k password = \<lparr>se_meta = mk_meta zuulDBConfigSecret (k_ns k),
     se_data = Some (smap_of [(''username'', ''zuul''), (''password'', password), (''host'', MariaDBIdent),
       (''port'', Itoa mariadbPort), (''database'', ''zuul''), (''dsn'', mkDSN k password)]), se_type = []\<rparr>"

definition provision_zuul_db :: "'w SFController \<Rightarrow> ('w st, bool) prog" where
  "provision_zuul_db r = (let k = c_k r in
     bnd (GetOrDie k cSecret zuulDBConfigSecret) (\<lambda>found.
     bnd (case found of
            Some zuulDBSecret \<Rightarrow> ret zuulDBSecret
          | None \<Rightarrow> bnd (NewUUIDString k) (\<lambda>password. CreateR k cSecret (zuul_db_secret k password))) (\<lambda>zuulDBSecret.
       EnsureProvisionDBJob r ''zuul'' (gm_get (se_data zuulDBSecret) ''password''))))"

definition DeployMariadb :: "'w SFController \<Rightarrow> ('w st, bool) prog" where
  "DeployMariadb r = (let k = c_k r; spec = c_spec r in
     bnd (EnsureSecretUUID k MariadbAdminPass) (\<lambda>adminPassSecret.
       let pass = gm_get (se_data adminPassSecret) ''mariadb-root-password'' in
     bnd (EnsureSecret k (one_secret k ''mariadb-config-secrets'' ''my.cnf''
        (parsed k (c_static r ''static/mariadb/my.cnf.tmpl'') (TStruct [(''MYSQLRootPassword'', TText pass)])))) (\<lambda>_.
     bnd (EnsureSecret k (one_secret k ''mariadb-initdb-secrets'' ''initfile.sql'' (initfile_sql pass))) (\<lambda>_.
     bnd MariaDBImage (\<lambda>img.
     bnd (reads st_podSC) (\<lambda>psc.
     bnd (if sf_FluentBitLogForwarding spec \<noteq> None
          then bnd (createLogForwarderSidecar r (mariadb_annotations r)) (\<lambda>(annotations, fbVolumes, fbSidecar).
            ret (annotations, fbVolumes, [fbSidecar]))
          else ret (mariadb_annotations r, [], [])) (\<lambda>(annotations, fbVolumes, fbSidecars).
     bnd (MkNodeExporterSideCarContainer MariaDBIdent mariadb_data_mounts (k_isOpenShift k)) (\<lambda>statsExporter.
     bnd (ensureStatefulset k (mariadb_sts r psc img annotations fbVolumes (fbSidecars @ [statsExporter])) None) (\<lambda>(current, changed).
     if changed then ret False
     else
       bnd (EnsureService k (MkServicePod MariaDBIdent (k_ns k) ''mariadb-0'' [mariadbPort] mariaDBPortName (sf_ExtraLabels spec))) (\<lambda>_.
       bnd (waitStatefulset k current) (\<lambda>(stsReady, _).
       bnd (if stsReady then provision_zuul_db r else ret False) (\<lambda>postReady.
       bnd (reconcileExpandPVC k (MariaDBIdent @ ''-'' @ MariaDBIdent @ ''-0'') (md_DBStorage (sf_MariaDB spec))) (\<lambda>pvcDataReadiness.
       bnd (reconcileExpandPVC k (MariaDBIdent @ ''-logs-'' @ MariaDBIdent @ ''-0'') (md_LogStorage (sf_MariaDB spec))) (\<lambda>pvcLogsReadiness.
         let isReady = (stsReady \<and> pvcDataReadiness \<and> pvcLogsReadiness \<and> postReady) in
       bnd (UpdateConditions k MariaDBIdent isReady) (\<lambda>_. ret isReady)))))))))))))))"

section \<open>ZooKeeper\<close>

definition zkClientPort :: int where "zkClientPort = 2281"
definition zkElectionPort :: int where "zkElectionPort = 3888"
definition zkServerPort :: int where "zkServerPort = 2888"
definition ZookeeperIdent :: string where "ZookeeperIdent = ''zookeeper''"
definition ZookeeperReplicas :: nat where "ZookeeperReplicas = 1"
definition zkPIMountPath :: string where "zkPIMountPath = ''/config-scripts''"

definition createZKLogForwarderSidecar :: "'w SFController \<Rightarrow> smap \<Rightarrow> ('w st, smap \<times> volume list \<times> container) prog" where
  "createZKLogForwarderSidecar r annotations = forwarder r ''zookeeper'' ''zk''
     (fluent_conf r ''zookeeper'' ''static/zookeeper/fluent-bit.conf.tmpl'') ''fluentbit-zk-cfg'' (ZookeeperIdent @ ''-logs'') annotations"

definition zk_scripts :: "'w SFController \<Rightarrow> smap" where
  "zk_scripts r = smap_of [(''probe.sh'', c_static r ''static/zookeeper/probe.sh''),
     (''run.sh'', c_static r ''static/zookeeper/run.sh''), (''logback.xml'', c_static r ''static/zookeeper/logback.xml'')]"

definition zk_pod_annotations :: "'w SFController \<Rightarrow> smap" where
  "zk_pod_annotations r = smap_of
     [(''config-hash'', Checksum (c_k r) (c_static r ''static/zookeeper/probe.sh'' @ newline @ c_static r ''static/zookeeper/run.sh'' @
         newline @ c_static r ''static/zookeeper/logback.xml'')),
      (''serial'', ''9''), (''limits'', limits_text (zk_Limits (sf_Zookeeper (c_spec r))))]"

definition zk_port :: "string \<Rightarrow> int \<Rightarrow> service_port" where
  "zk_port name p = \<lparr>sp_name = name, sp_protocol = ''TCP'', sp_port = p, sp_targetPort = FromInt p\<rparr>"

definition zk_headless :: "'w SFController \<Rightarrow> service" where
  "zk_headless r = \<lparr>sv_meta = (mk_meta (ZookeeperIdent @ ''-headless'') (k_ns (c_k r)))\<lparr>om_labels := sf_ExtraLabels (c_spec r)\<rparr>,
     sv_spec = \<lparr>sv_type = [], sv_clusterIP = ''None'', sv_publishNotReadyAddresses = True,
       sv_selector = Some (smap_of [(''app'', ''sf''), (''run'', ZookeeperIdent)]),
       sv_ports = [zk_port ''election'' zkElectionPort, zk_port ''server'' zkServerPort, zk_port ''client'' zkClientPort]\<rparr>\<rparr>"

definition zk_data_mounts :: "volume_mount list" where
  "zk_data_mounts = [mk_mount (ZookeeperIdent @ ''-data'') ''/data'', mk_mount (ZookeeperIdent @ ''-logs'') ''/var/log'']"

definition zk_main :: "'w SFController \<Rightarrow> container \<Rightarrow> container" where
  "zk_main r c = limited (zk_Limits (sf_Zookeeper (c_spec r))) (SetContainerLimitsHighProfile (c\<lparr>
     ct_command := [''/config-scripts/run.sh''],
     ct_volumeMounts := [mount_ro ''zookeeper-server-tls'' ''/tls/server'', mount_ro ''zookeeper-client-tls'' ''/tls/client'',
        mk_mount (ZookeeperIdent @ ''-conf'') ''/conf'', mk_mount (ZookeeperIdent @ ''-pi'') zkPIMountPath] @ zk_data_mounts,
     ct_readinessProbe := Some (MkReadinessCMDProbe [''/bin/bash'', ''/config-scripts/probe.sh'']),
     ct_livenessProbe := Some (MkLivenessCMDProbe [''/bin/bash'', ''/config-scripts/probe.sh'']),
     ct_ports := [MkContainerPort zkClientPort ''client'', MkContainerPort zkElectionPort ''election'',
        MkContainerPort zkServerPort ''server''],
     ct_env := [MkEnvVar ''ZK_REPLICAS'' (Itoa (int ZookeeperReplicas))],
     ct_preStop := Some [''/bin/sh'', ''-c'', ''pkill java; sleep 60'']\<rparr>))"

definition zk_volumes :: "volume list" where
  "zk_volumes = [MkVolumeSecret ''zookeeper-client-tls'' [], MkVolumeSecret ''zookeeper-server-tls'' [],
     MkEmptyDirVolume (ZookeeperIdent @ ''-conf''),
     \<lparr>vo_name = ZookeeperIdent @ ''-pi'', vo_source = ConfigMapVolume (ZookeeperIdent @ ''-pi-config-map'')
        [\<lparr>kp_key = ''run.sh'', kp_path = ''run.sh'', kp_mode = Some Execmod\<rparr>,
         \<lparr>kp_key = ''probe.sh'', kp_path = ''probe.sh'', kp_mode = Some Execmod\<rparr>,
         \<lparr>kp_key = ''logback.xml'', kp_path = ''logback.xml'', kp_mode = Some Readmod\<rparr>] None\<rparr>]"

definition zk_sts :: "'w SFController \<Rightarrow> pod_security_context \<Rightarrow> string \<Rightarrow> smap \<Rightarrow> volume list \<Rightarrow> container list \<Rightarrow> statefulset" where
  "zk_sts r psc img annotations vols sidecars =
     (let k = c_k r; spec = c_spec r; storageConfig = getStorageConfOrDefault r (zk_Storage (sf_Zookeeper spec));
          logStorageConfig = storageConfig\<lparr>scf_Size := Qty1Gi\<rparr>;
          sts = mkHeadlessStatefulSet k psc ZookeeperIdent img storageConfig ''ReadWriteOnce'' (sf_ExtraLabels spec) (k_isOpenShift k)
      in sts_template (\<lambda>t. template_hosts spec (template_annotated annotations (template_append sidecars vols
           (template_spec (\<lambda>p. p\<lparr>ps_volumes := zk_volumes, ps_terminationGracePeriodSeconds := Some 120\<rparr>)
             (template_main (zk_main r) t)))))
         (sts\<lparr>ss_replicas := Int32Ptr (int ZookeeperReplicas), ss_volumeClaimTemplates :=
            [MkPVC (ZookeeperIdent @ ''-data'') (k_ns k) storageConfig ''ReadWriteOnce'',
             MkPVC (ZookeeperIdent @ ''-logs'') (k_ns k) logStorageConfig ''ReadWriteOnce'']\<rparr>))"

text \<open>Expanding the volumes of the replicas: the first one that is not ready stops the expansion.\<close>

fun zk_expand :: "'w SFController \<Rightarrow> nat list \<Rightarrow> ('w st, bool) prog" where
  "zk_expand r [] = ret True"
| "zk_expand r (i # is) = bnd (reconcileExpandPVC (c_k r) (ZookeeperIdent @ ''-data-'' @ ZookeeperIdent @ ''-'' @ Itoa (int i))
       (zk_Storage (sf_Zookeeper (c_spec r)))) (\<lambda>ok. if ok then zk_expand r is else ret False)"

definition DeployZookeeper :: "'w SFController \<Rightarrow> ('w st, bool) prog" where
  "DeployZookeeper r = (let k = c_k r; spec = c_spec r in
     bnd (EnsureZookeeperCertificates r ZookeeperIdent ZookeeperReplicas) (\<lambda>_.
     bnd (EnsureConfigMap k (ZookeeperIdent @ ''-pi'') (Some (zk_scripts r))) (\<lambda>_.
     bnd (EnsureService k (zk_headless r)) (\<lambda>_.
     bnd (EnsureService k (MkService ZookeeperIdent (k_ns k) ZookeeperIdent [zkClientPort] ZookeeperIdent (sf_ExtraLabels spec))) (\<lambda>_.
     bnd ZookeeperImage (\<lambda>img.
     bnd (reads st_podSC) (\<lambda>psc.
     bnd (if sf_FluentBitLogForwarding spec \<noteq> None
          then bnd (createZKLogForwarderSidecar r (zk_pod_annotations r)) (\<lambda>(annotations, fbVolumes, fbSidecar).
            ret (annotations, fbVolumes, [fbSidecar]))
          else ret (zk_pod_annotations r, [], [])) (\<lambda>(annotations, fbVolumes, fbSidecars).
     bnd (MkNodeExporterSideCarContainer ZookeeperIdent zk_data_mounts (k_isOpenShift k)) (\<lambda>statsExporter.
     bnd (ensureStatefulset k (zk_sts r psc img annotations fbVolumes (fbSidecars @ [statsExporter]))
        (Some (int ZookeeperReplicas))) (\<lambda>(current, changed).
     if changed then ret False
     else if length (ss_volumeClaimTemplates current) < 2
     then bnd (DeleteR k cStatefulSet (ss_meta current)) (\<lambda>_. ret False)
     else
       bnd (zk_expand r [0..<ZookeeperReplicas]) (\<lambda>pvcReadiness.
       bnd (if pvcReadiness then bnd (waitStatefulset k current) (\<lambda>(ok, _). ret ok) else ret False) (\<lambda>isReady.
       bnd (UpdateConditions k ZookeeperIdent isReady) (\<lambda>_. ret isReady)))))))))))))"

end
