(* ===== verification/GitServer.thy ===== *)
theory GitServer
  imports Backing
begin

text \<open>
  The internal git server, \<open>controllers/git_server.go\<close>: the script that fills the \<open>system-config\<close>
  repository with the jobs, pipelines and projects of the config repository, and the service.
\<close>

definition GitServerIdent :: string where "GitServerIdent = ''git-server''"
definition GitServerIdentRW :: string where "GitServerIdentRW = ''git-server-rw''"
definition gsGitPort :: int where "gsGitPort = 9418"
definition gsGitPortRW :: int where "gsGitPortRW = 9419"
definition gsGitPortName :: string where "gsGitPortName = ''git-server-port''"
definition gsGitMountPath :: string where "gsGitMountPath = ''/git''"
definition gsPiMountPath :: string where "gsPiMountPath = ''/entry''"

section \<open>The configuration of the config repository\<close>

definition getConnectionDriver :: "'w SFController \<Rightarrow> string \<Rightarrow> string" where
  "getConnectionDriver r connName =
     (if list_ex (\<lambda>con. connName = ge_Name con) (zu_GerritConns (sf_Zuul (c_spec r))) then ''gerrit''
      else if list_ex (\<lambda>con. connName = gl_Name con) (zu_GitLabConns (sf_Zuul (c_spec r))) then ''gitlab''
      else ''gerrit'')"

definition system_semaphores :: "SemaphoreBody list" where
  "system_semaphores = [\<lparr>sem_Name = ''semaphore-config-update'', sem_Max = 1\<rparr>]"

definition system_jobs :: "JobBody list" where
  "system_jobs =
     [zero_JobBody\<lparr>jbo_Name := ''base'', jbo_Parent := None, jbo_Description := ''The base job.'',
        jbo_PreRun := [''playbooks/base/pre.yaml''], jbo_PostRun := [''playbooks/base/post.yaml''],
        jbo_Roles := [fmap_of_list [(''zuul'', ''zuul/zuul-jobs'')]], jbo_Timeout := 1800, jbo_Attempts := 3,
        jbo_Secrets := [YStr ''site_sflogs'']\<rparr>,
      zero_JobBody\<lparr>jbo_Name := ''config-check'', jbo_Parent := Some ''base'', jbo_Final := True,
        jbo_Description := ''Validate the config repo.'', jbo_Run := [YStr ''playbooks/config/check.yaml'']\<rparr>,
      zero_JobBody\<lparr>jbo_Name := ''config-update'', jbo_Parent := Some ''base'', jbo_Final := True,
        jbo_Description := ''Deploy config repo update.'', jbo_Run := [YStr ''playbooks/config/update.yaml''],
        jbo_Secrets := [YStr ''k8s_config''],
        jbo_Semaphores := [\<lparr>jrs_Name = ''semaphore-config-update'', jrs_Semaphore = []\<rparr>]\<rparr>]"

definition system_pipelines :: "string \<Rightarrow> string \<Rightarrow> PipelineBody list" where
  "system_pipelines driver conn =
     (let check = fst (GetReportersCheckByDriver driver conn); gate = fst (GetReportersGateByDriver driver conn) in
     [zero_PipelineBody\<lparr>pip_Name := ''check'',
        pip_Description := ''Newly uploaded patchsets enter this pipeline to receive an initial +/-1 Verified vote.'',
        pip_Manager := ''independent'', pip_Require := fst (GetRequireCheckByDriver driver conn),
        pip_Trigger := fst (GetTriggerCheckByDriver driver conn),
        pip_Start := check ! 0, pip_Success := check ! 1, pip_Failure := check ! 2\<rparr>,
      zero_PipelineBody\<lparr>pip_Name := ''gate'',
        pip_Description := ''Changes that have been approved by core developers are enqueued in order in this pipeline, and if they pass tests, will be merged.'',
        pip_SuccessMessage := ''Build succeeded (gate pipeline).'', pip_FailureMessage := ''Build failed (gate pipeline).'',
        pip_Manager := ''dependent'', pip_Precedence := ''high'', pip_Supercedes := [''check''], pip_PostReview := True,
        pip_Require := fst (GetRequireGateByDriver driver conn), pip_Trigger := fst (GetTriggerGateByDriver driver conn),
        pip_Start := gate ! 0, pip_Success := gate ! 1, pip_Failure := gate ! 2,
        pip_WindowFloor := 20, pip_WindowIncreaseFactor := 2\<rparr>,
      zero_PipelineBody\<lparr>pip_Name := ''post'', pip_PostReview := True,
        pip_Description := ''This pipeline runs jobs that operate after each change is merged.'',
        pip_Manager := ''supercedent'', pip_Precedence := ''low'', pip_Trigger := fst (GetTriggerPostByDriver driver conn)\<rparr>])"

definition jobs_of :: "string list \<Rightarrow> ZuulProjectPipeline" where
  "jobs_of js = \<lparr>zpp_Jobs = js, zpp_Debug = False, zpp_FailFast = False\<rparr>"

definition system_projects :: "string \<Rightarrow> ZuulProjectBody list" where
  "system_projects configRepoName =
     [\<lparr>zpb_Name = configRepoName, zpb_Templates = [], zpb_DefaultBranch = [], zpb_MergeMode = [], zpb_Vars = fmempty,
       zpb_Queue = [], zpb_Pipeline = fmap_of_list [(''check'', jobs_of [''config-check'']),
         (''gate'', jobs_of [''config-check'']), (''post'', jobs_of [''config-update''])]\<rparr>]"

definition MkPreInitScript :: "'w SFController \<Rightarrow> string" where
  "MkPreInitScript r =
     (let loc = sf_ConfigRepositoryLocation (c_spec r); conn = crl_ZuulConnectionName loc;
          driver = getConnectionDriver r conn; yaml = s_yaml (k_sys (c_k r));
          template = c_static r ''static/git-server/update-system-config.sh'';
          template = ReplaceFirst template ''# Semaphores'' (yaml (Semaphores_yaml system_semaphores));
          template = ReplaceFirst template ''# JobsBase'' (yaml (JobConfig_yaml system_jobs));
          template = ReplaceFirst template ''# Pipelines'' (yaml (PipelineConfig_yaml (system_pipelines driver conn)));
          template = ReplaceFirst template ''# Projects'' (yaml (ProjectConfig_yaml (system_projects (crl_Name loc))))
      in ReplaceFirst template ''# ZUUL_CONNECTIONS'' (makeZuulConnectionConfig (sf_Zuul (c_spec r))))"

section \<open>The service\<close>

definition logserver_host :: "'w SFController \<Rightarrow> string" where
  "logserver_host r = (let h = crl_LogserverHost (sf_ConfigRepositoryLocation (c_spec r)) in if h \<noteq> [] then h else ''logserver'')"

definition git_annotations :: "'w SFController \<Rightarrow> smap" where
  "git_annotations r =
     (let loc = sf_ConfigRepositoryLocation (c_spec r);
          annotations = smap_of [(''config-hash'', Checksum (c_k r) (MkPreInitScript r)), (''fqdn'', sf_FQDN (c_spec r)), (''serial'', ''3'')]
      in if isConfigRepoSet r
         then fmupd ''config-logserver-host'' (logserver_host r) (fmupd ''config-cluster-api-url'' (crl_ClusterAPIURL loc)
           (fmupd ''config-zuul-connection-name'' (crl_ZuulConnectionName loc) (fmupd ''config-repo-name'' (crl_Name loc) annotations)))
         else annotations)"

definition git_probe :: "int \<Rightarrow> string list" where
  "git_probe port = [''git'', ''ls-remote'', ''git://localhost:'' @ Itoa port @ ''/system-config'']"

definition git_main :: "container \<Rightarrow> container" where
  "git_main c = (SetContainerLimitsLowProfile (c\<lparr>
     ct_volumeMounts := [mount_ro GitServerIdent gsGitMountPath],
     ct_command := [''git'', ''daemon'', ''--base-path=/git'', ''--export-all''],
     ct_readinessProbe := Some (MkReadinessCMDProbe (git_probe gsGitPort)),
     ct_startupProbe := Some (MkStartupCMDProbe (git_probe gsGitPort))\<rparr>))\<lparr>
     ct_ports := [MkContainerPort gsGitPort gsGitPortName]\<rparr>"

definition git_rw :: "'w SFController \<Rightarrow> string \<Rightarrow> container" where
  "git_rw r img = SetContainerLimitsLowProfile ((MkContainer GitServerIdentRW img (k_isOpenShift (c_k r)))\<lparr>
     ct_command := [''git'', ''daemon'', ''--base-path=/git'', ''--enable=receive-pack'', ''--export-all'', ''--port='' @ Itoa gsGitPortRW],
     ct_volumeMounts := [mk_mount GitServerIdent gsGitMountPath],
     ct_readinessProbe := Some (MkReadinessCMDProbe (git_probe gsGitPortRW)),
     ct_startupProbe := Some (MkStartupCMDProbe (git_probe gsGitPortRW))\<rparr>)"

definition git_init :: "'w SFController \<Rightarrow> string \<Rightarrow> container" where
  "git_init r img = (let loc = sf_ConfigRepositoryLocation (c_spec r) in
     (MkContainer ''init-config'' img (k_isOpenShift (c_k r)))\<lparr>
       ct_command := [''/bin/bash'', ''/entry/pre-init.sh''],
       ct_env := [MkEnvVar ''FQDN'' (sf_FQDN (c_spec r)), MkEnvVar ''ZUUL_LOGSERVER_HOST'' (logserver_host r),
           MkEnvVar ''KUBERNETES_PUBLIC_API_URL'' (crl_ClusterAPIURL loc)] @
         (if isConfigRepoSet r then [MkEnvVar ''CONFIG_REPO_NAME'' (crl_Name loc)] else []),
       ct_volumeMounts := [mk_mount GitServerIdent gsGitMountPath, mk_mount (GitServerIdent @ ''-pi'') gsPiMountPath]\<rparr>)"

definition git_sts :: "'w SFController \<Rightarrow> pod_security_context \<Rightarrow> string \<Rightarrow> statefulset" where
  "git_sts r psc img = (let k = c_k r; spec = c_spec r in
     sts_template (\<lambda>t. template_hosts spec (template_spec (\<lambda>p. p\<lparr>
         ps_volumes := [MkVolumeCM (GitServerIdent @ ''-pi'') (GitServerIdent @ ''-pi-config-map'')],
         ps_initContainers := [git_init r img]\<rparr>)
       (template_append [git_rw r img] [] (template_main git_main (template_annotated (git_annotations r) t)))))
     (mkStatefulSet k psc GitServerIdent img (getStorageConfOrDefault r (gs_Storage (sf_GitServer spec)))
        ''ReadWriteOnce'' (sf_ExtraLabels spec) (k_isOpenShift k) []))"

definition DeployGitServer :: "'w SFController \<Rightarrow> ('w st, bool) prog" where
  "DeployGitServer r = (let k = c_k r; spec = c_spec r in
     bnd (EnsureConfigMap k (GitServerIdent @ ''-pi'') (Some (smap_of [(''pre-init.sh'', MkPreInitScript r)]))) (\<lambda>_.
     bnd GitServerImage (\<lambda>img.
     bnd (reads st_podSC) (\<lambda>psc.
     bnd (ensureStatefulset k (git_sts r psc img) None) (\<lambda>(current, changed).
     if changed then ret False
     else
       bnd (EnsureService k (MkServicePod GitServerIdent (k_ns k) (GitServerIdent @ ''-0'') [gsGitPort] gsGitPortName (sf_ExtraLabels spec))) (\<lambda>_.
       bnd (EnsureService k (MkServicePod GitServerIdentRW (k_ns k) (GitServerIdent @ ''-0'') [gsGitPortRW] gsGitPortName (sf_ExtraLabels spec))) (\<lambda>_.
       bnd (waitStatefulset k current) (\<lambda>(ready, _).
       bnd (UpdateConditions k GitServerIdent ready) (\<lambda>_. ret ready)))))))))"

section \<open>Lemmas\<close>

text \<open>The driver that is chosen is one that the builders of the pipelines support, so none of them fails.\<close>

lemma driver_supported: "getConnectionDriver r conn \<in> {''gerrit'', ''gitlab''}"
  by (simp add: getConnectionDriver_def)

lemma supported_no_error:
  assumes "driver \<in> {''gerrit'', ''gitlab''}"
  shows "snd (GetRequireCheckByDriver driver conn) = None" "snd (GetTriggerCheckByDriver driver conn) = None"
    "snd (GetReportersCheckByDriver driver conn) = None" "snd (GetRequireGateByDriver driver conn) = None"
    "snd (GetTriggerGateByDriver driver conn) = None" "snd (GetReportersGateByDriver driver conn) = None"
    "snd (GetTriggerPostByDriver driver conn) = None"
  using assms by (auto simp: GetRequireCheckByDriver_def GetTriggerCheckByDriver_def GetReportersCheckByDriver_def
      GetRequireGateByDriver_def GetTriggerGateByDriver_def GetReportersGateByDriver_def GetTriggerPostByDriver_def)

end
