(* ===== verification/Services.thy ===== *)
theory Services
  imports GitServer
begin

text \<open>
  The services around Zuul: the gateway (\<open>controllers/gateway.go\<close>), the log server
  (\<open>controllers/logserver.go\<close> and \<open>reconcileLogserverKeys\<close> of \<open>utils.go\<close>), the code search
  (\<open>controllers/hound-search.go\<close>), LogJuicer (\<open>controllers/logjuicer.go\<close>), the weeder
  (\<open>controllers/weeder.go\<close>) and the container of the capacity exporter (\<open>controllers/capacity.go\<close>).
\<close>

section \<open>Shared parts\<close>

text \<open>\<open>CorporateCAConfigMapExists\<close> returns the config map and whether it exists: here an option.\<close>

definition getCMVersion :: "configmap option \<Rightarrow> string" where
  "getCMVersion cm = (case cm of None \<Rightarrow> ''0'' | Some c \<Rightarrow> om_resourceVersion (cm_meta c))"

definition deployment_ready :: "'w kctx \<Rightarrow> deployment \<Rightarrow> ('w st, bool) prog" where
  "deployment_ready k dep = bnd (ensureDeployment k dep None) (\<lambda>(current, changed).
     ret (\<not> changed \<and> IsDeploymentReady k current))"

section \<open>Gateway\<close>

text \<open>The text that is hashed, for the entries in the order in which the loops visit them.\<close>

definition gateway_hash :: "string \<Rightarrow> (string \<times> string) list \<Rightarrow> string" where
  "gateway_hash start kvs = foldl (\<lambda>h (f, contents). h @ ''-'' @ f @ ''-'' @ contents) start kvs"

definition gateway_dep :: "'w SFController \<Rightarrow> pod_security_context \<Rightarrow> string \<Rightarrow> volume list \<Rightarrow> volume_mount list \<Rightarrow> string \<Rightarrow> deployment" where
  "gateway_dep r psc img volumes volumeMounts configHash = (let k = c_k r; spec = c_spec r in
     dep_template (\<lambda>t. template_annotated (smap_of [(''config-hash'', Checksum k configHash), (''serial'', ''2'')])
       (template_hosts spec (template_main (\<lambda>c. c\<lparr>ct_volumeMounts := volumeMounts\<rparr>)
         (template_spec (\<lambda>p. p\<lparr>ps_volumes := volumes\<rparr>) t))))
     (MkDeployment psc ''gateway'' (k_ns k) img (sf_ExtraLabels spec) (k_isOpenShift k)))"

text \<open>
  The configuration and the static files that the resource adds: the volumes, the mounts and the hash;
  \<open>None\<close> when a config map is missing.
\<close>

definition gateway_extra :: "'w SFController \<Rightarrow> volume list \<times> volume_mount list \<times> string \<Rightarrow>
    ('w st, (volume list \<times> volume_mount list \<times> string) option) prog" where
  "gateway_extra r = (\<lambda>(volumes, volumeMounts, configHash). let k = c_k r in
     case sf_Gateway (c_spec r) of
       None \<Rightarrow> ret (Some (volumes, volumeMounts, configHash))
     | Some gatewaySpec \<Rightarrow> (let extraConfigCMName = gw_ExtraConfigurationConfigMap gatewaySpec in
         bnd (GetOrDie k cConfigMap extraConfigCMName) (\<lambda>found. case found of
           None \<Rightarrow> ret None
         | Some extraConfigCM \<Rightarrow>
             bnd (sysc (s_mapOrder (k_sys k) (gm_fm (cm_data extraConfigCM)))) (\<lambda>kvs.
               let configHash = gateway_hash configHash kvs;
                   volumeMounts = volumeMounts @ map (\<lambda>(f, _). mount_ro_sub extraConfigCMName (''/etc/httpd/conf.d/'' @ f) f) kvs;
                   volumes = volumes @ [MkVolumeCM extraConfigCMName extraConfigCMName] in
             case gw_ExtraStaticFilesConfigMap gatewaySpec of
               None \<Rightarrow> ret (Some (volumes, volumeMounts, configHash))
             | Some extraStaticFilesCMName \<Rightarrow>
                 bnd (GetOrDie k cConfigMap extraStaticFilesCMName) (\<lambda>found. case found of
                   None \<Rightarrow> ret None
                 | Some extraStaticFilesCM \<Rightarrow>
                     bnd (sysc (s_mapOrder (k_sys k) (gm_fm (cm_data extraStaticFilesCM)))) (\<lambda>files.
                       ret (Some (volumes @ [MkVolumeCM extraStaticFilesCMName extraStaticFilesCMName],
                         volumeMounts @ [mount_ro extraStaticFilesCMName ''/var/www/html/''],
                         gateway_hash configHash files))))))))"

definition DeployHTTPDGateway :: "'w SFController \<Rightarrow> ('w st, bool) prog" where
  "DeployHTTPDGateway r = (let k = c_k r; spec = c_spec r; gatewayConfig = c_static r ''static/gateway/gateway.conf'' in
     bnd (GetOrCreate k cService (MkService ''gateway'' (k_ns k) ''gateway'' [8080] ''gateway'' (sf_ExtraLabels spec))) (\<lambda>_.
     bnd (EnsureConfigMap k ''gateway'' (Some (smap_of [(''gateway.conf'', gatewayConfig)]))) (\<lambda>_.
     bnd (gateway_extra r ([MkVolumeCM ''gateway'' ''gateway-config-map''],
        [mount_ro_sub ''gateway'' ''/etc/httpd/conf.d/99-gateway.conf'' ''gateway.conf''], gatewayConfig)) (\<lambda>extra. case extra of
       None \<Rightarrow> ret False
     | Some (volumes, volumeMounts, configHash) \<Rightarrow>
         bnd HTTPDImage (\<lambda>img.
         bnd (reads st_podSC) (\<lambda>psc.
           deployment_ready k (gateway_dep r psc img volumes volumeMounts configHash)))))))"

section \<open>Log server\<close>

definition logserverIdent :: string where "logserverIdent = ''logserver''"
definition httpdPort :: int where "httpdPort = 8080"
definition httpdPortName :: string where "httpdPortName = ''logserver-httpd''"
definition sshdPort :: int where "sshdPort = 2222"
definition sshdPortName :: string where "sshdPortName = ''logserver-sshd''"
definition purgelogIdent :: string where "purgelogIdent = ''purgelogs''"
definition logsDir :: string where "logsDir = ''/var/www/html/logs''"

definition lgEntryScriptName :: string where "lgEntryScriptName = logserverIdent @ ''-entrypoint.sh''"

definition logserver_data :: "'w SFController \<Rightarrow> smap" where
  "logserver_data r = smap_of [(''logserver.conf'', c_static r ''static/logserver/logserver.conf''),
     (''run.sh'', c_static r ''static/logserver/run.sh''),
     (lgEntryScriptName, c_static r ''static/logserver/logserver-entrypoint.sh'')]"

definition logserver_main :: "container \<Rightarrow> container" where
  "logserver_main c = c\<lparr>
     ct_volumeMounts := [mount_ro_sub (logserverIdent @ ''-config-vol'') ''/etc/httpd/conf.d/logserver.conf'' ''logserver.conf'',
       mk_mount logserverIdent logsDir,
       mount_sub (logserverIdent @ ''-config-vol'') (''/usr/bin/'' @ lgEntryScriptName) lgEntryScriptName],
     ct_ports := [MkContainerPort httpdPort httpdPortName],
     ct_readinessProbe := Some (MkReadinessHTTPProbe ''/'' httpdPort),
     ct_startupProbe := Some (MkStartupHTTPProbe ''/'' httpdPort),
     ct_livenessProbe := Some (MkLiveHTTPProbe ''/'' httpdPort),
     ct_command := [''/usr/bin/'' @ lgEntryScriptName]\<rparr>"

definition logserver_volumes :: "'w SFController \<Rightarrow> volume list" where
  "logserver_volumes r =
     [\<lparr>vo_name = logserverIdent @ ''-config-vol'', vo_source = ConfigMapVolume (logserverIdent @ ''-config-map'') [] (Some Execmod)\<rparr>,
      \<lparr>vo_name = logserverIdent @ ''-keys'', vo_source = SecretVolume (logserverIdent @ ''-keys'') []
         (if k_isOpenShift (c_k r) then Some Readmod else None)\<rparr>]"

text \<open>The keys that may upload logs: those that are not empty, one per line.\<close>

definition authorized_keys :: "string list \<Rightarrow> string" where
  "authorized_keys keys = Join (filter (\<lambda>key. key \<noteq> []) keys) newline"

definition logserver_sshd :: "'w SFController \<Rightarrow> string \<Rightarrow> string \<Rightarrow> container" where
  "logserver_sshd r img pubKeyB64 =
     (let c = MkContainer sshdPortName img (k_isOpenShift (c_k r));
          sc = ct_securityContext c in
      limited (Some \<lparr>li_Memory = qty_Mi 512, li_CPU = qty_m 500\<rparr>) (c\<lparr>
        ct_command := [''bash'', ''/conf/run.sh''],
        ct_securityContext := (if k_isOpenShift (c_k r) then sc
          else map_option (\<lambda>s. s\<lparr>sc_runAsUser := Some 1000, sc_runAsGroup := Some 1000\<rparr>) sc),
        ct_livenessProbe := Some (MkReadinessTCPProbe sshdPort),
        ct_startupProbe := Some (MkReadinessTCPProbe sshdPort),
        ct_env := [MkEnvVar ''AUTHORIZED_KEY'' pubKeyB64],
        ct_volumeMounts := [mk_mount logserverIdent ''/home/data/rsync'', mount_ro (logserverIdent @ ''-keys'') ''/var/ssh-keys'',
          mk_mount (logserverIdent @ ''-config-vol'') ''/conf''],
        ct_ports := [MkContainerPort sshdPort sshdPortName]\<rparr>))"

definition logserver_purge :: "'w SFController \<Rightarrow> string \<Rightarrow> container" where
  "logserver_purge r img =
     (let ls = sf_Logserver (c_spec r);
          retentionDays = (if ls_RetentionDays ls = 0 then 60 else ls_RetentionDays ls);
          loopDelay = (if ls_LoopDelay ls = 0 then 3600 else ls_LoopDelay ls)
      in (MkContainer purgelogIdent img (k_isOpenShift (c_k r)))\<lparr>
        ct_command := [''/usr/local/bin/purgelogs'', ''--retention-days'', Itoa retentionDays, ''--loop'', Itoa loopDelay,
          ''--log-path-dir'', logsDir, ''--debug''],
        ct_volumeMounts := [mk_mount logserverIdent logsDir]\<rparr>)"

definition logserver_annotations :: "'w SFController \<Rightarrow> smap" where
  "logserver_annotations r = (let ls = sf_Logserver (c_spec r) in
     fmupd ''purgeLogConfig'' (''retentionDays:'' @ Itoa (ls_RetentionDays ls) @ '' loopDelay:'' @ Itoa (ls_LoopDelay ls))
      (fmupd ''config-hash'' (Checksum (c_k r) (c_static r ''static/logserver/logserver.conf''))
        (fmupd ''serial'' ''8'' (fmupd ''fqdn'' (sf_FQDN (c_spec r)) (gm_fm (ls_PodAnnotations ls))))))"

definition logserver_sts :: "'w SFController \<Rightarrow> pod_security_context \<Rightarrow> string \<Rightarrow> container list \<Rightarrow> statefulset" where
  "logserver_sts r psc img sidecars = (let k = c_k r; spec = c_spec r in
     sts_template (\<lambda>t. template_hosts spec (template_annotated (logserver_annotations r) (template_append sidecars []
       (template_spec (\<lambda>p. p\<lparr>ps_volumes := logserver_volumes r\<rparr>) (template_main logserver_main t)))))
     (mkStatefulSet k psc logserverIdent img (BaseGetStorageConfOrDefault (ls_Storage (sf_Logserver spec)) (sf_StorageDefault spec))
        ''ReadWriteOnce'' (sf_ExtraLabels spec) (k_isOpenShift k) []))"

definition reconcileLogserverKeys :: "'w kctx \<Rightarrow> string \<Rightarrow> ('w st, bool) prog" where
  "reconcileLogserverKeys k pubKeyClear = (let podName = logserverIdent @ ''-0'' in
     bnd (GetOrDie k cPod podName) (\<lambda>found. case found of
       None \<Rightarrow> ret False
     | Some pod \<Rightarrow> if po_phase pod \<noteq> ''Running'' then ret False
         else bnd (PodExecOut k podName sshdPortName [''cat'', ''/tmp/home/.ssh/authorized_keys'']) (\<lambda>(_, currentKeys).
           if currentKeys = pubKeyClear then ret True
           else bnd (PodExecIn k podName sshdPortName [''sh'', ''-c'',
               ''mkdir -p /tmp/home/.ssh && '' @ ''cat > /tmp/home/.ssh/authorized_keys.tmp && '' @
               ''chmod 400 /tmp/home/.ssh/authorized_keys.tmp && '' @
               ''mv /tmp/home/.ssh/authorized_keys.tmp /tmp/home/.ssh/authorized_keys''] pubKeyClear) (\<lambda>err.
             ret (err = None)))))"

text \<open>The keys that were installed last are a field of the controller, \<open>st_logserverKeys\<close> here.\<close>

definition install_logserver_keys :: "'w kctx \<Rightarrow> bool \<Rightarrow> string \<Rightarrow> string \<Rightarrow> ('w st, bool) prog" where
  "install_logserver_keys k isReady pubKeysClear pubKeyB64 =
     bnd (reads st_logserverKeys) (\<lambda>keys.
       if isReady \<and> keys \<noteq> pubKeyB64
       then bnd (reconcileLogserverKeys k pubKeysClear) (\<lambda>keysUpdated.
         if keysUpdated then bnd (modify (\<lambda>s. s\<lparr>st_logserverKeys := pubKeyB64\<rparr>)) (\<lambda>_. ret True) else ret False)
       else ret isReady)"

definition DeployLogserver :: "'w SFController \<Rightarrow> ('w st, bool) prog" where
  "DeployLogserver r = (let k = c_k r; spec = c_spec r in
     bnd (EnsureSSHKeySecret k ''logserver-keys'') (\<lambda>_.
     bnd (EnsureSSHKeySecret k ''logserver-uploader-keys'') (\<lambda>uploaderKey.
     bnd (EnsureSSHKeySecret k ''logserver-uploader-spare-keys'') (\<lambda>uploaderSpareKey.
     bnd (EnsureConfigMap k logserverIdent (Some (logserver_data r))) (\<lambda>_.
     bnd (EnsureService k (MkServicePod logserverIdent (k_ns k) (logserverIdent @ ''-0'') [httpdPort, sshdPort, 9100]
        logserverIdent (sf_ExtraLabels spec))) (\<lambda>_.
     bnd HTTPDImage (\<lambda>img.
     bnd (reads st_podSC) (\<lambda>psc.
     bnd SSHDImage (\<lambda>sshdImg.
     bnd (ReadSecretValue k ''zuul-ssh-key'' ''pub'') (\<lambda>zuulPubKey.
       let pubKeysClear = authorized_keys [zuulPubKey, gm_get (se_data uploaderKey) ''pub'', gm_get (se_data uploaderSpareKey) ''pub''];
           pubKeyB64 = s_base64 (k_sys k) pubKeysClear in
     bnd PurgelogsImage (\<lambda>purgeImg.
     bnd (MkNodeExporterSideCarContainer logserverIdent [mk_mount logserverIdent ''/home/data/rsync''] (k_isOpenShift k)) (\<lambda>statsExporter.
     bnd (ensureStatefulset k (logserver_sts r psc img [logserver_sshd r sshdImg pubKeyB64, logserver_purge r purgeImg, statsExporter]) None)
       (\<lambda>(current, stsUpdated).
     if stsUpdated then ret False
     else
       bnd (reconcileExpandPVC k (logserverIdent @ ''-'' @ logserverIdent @ ''-0'') (ls_Storage (sf_Logserver spec))) (\<lambda>pvcReadiness.
       bnd (if pvcReadiness then bnd (waitStatefulset k current) (\<lambda>(ok, _). ret ok) else ret False) (\<lambda>ready.
       bnd (install_logserver_keys k ready pubKeysClear pubKeyB64) (\<lambda>isReady.
       bnd (UpdateConditions k logserverIdent isReady) (\<lambda>_. ret isReady)))))))))))))))))"

section \<open>Code search\<close>

definition houndSearchIdent :: string where "houndSearchIdent = ''hound-search''"
definition houndSearchData :: string where "houndSearchData = ''hound-search-data''"
definition houndSearchImage :: string where "houndSearchImage = ''quay.io/software-factory/hound:0.5.1-3''"

definition MkHoundSearchContainer :: "bool \<Rightarrow> bool \<Rightarrow> container" where
  "MkHoundSearchContainer corporateCMExists openshiftUser =
     (let mounts = [mk_mount houndSearchData ''/var/lib/hound'', mount_ro ''zuul-config'' ''/etc/zuul'', mount_ro ''tooling-vol'' ''/sf-tooling'']
      in (MkContainer houndSearchIdent houndSearchImage openshiftUser)\<lparr>
        ct_command := [''/sf-tooling/hound-search-init.sh''],
        ct_ports := [MkContainerPort 6080 houndSearchIdent],
        ct_readinessProbe := Some (MkReadinessHTTPProbe ''/healthz'' 6080),
        ct_volumeMounts := (if corporateCMExists
          then AppendCorporateCACertsVolumeMount mounts ''hound-search-ca-certs'' @ [mk_mount ''hound-search-ca'' TrustedCAExtractedMountPath]
          else mounts)\<rparr>)"

definition TerminateHoundSearch :: "'w kctx \<Rightarrow> ('w st, unit) prog" where
  "TerminateHoundSearch k =
     bnd (DeleteR k cService (mk_meta houndSearchIdent (k_ns k))) (\<lambda>_.
     bnd (DeleteR k cStatefulSet (mk_meta houndSearchIdent (k_ns k))) (\<lambda>_.
       DeleteR k cPVC (mk_meta houndSearchData (k_ns k))))"

definition hound_limits :: "'w SFController \<Rightarrow> LimitsSpec" where
  "hound_limits r = (case co_Limits (sf_Codesearch (c_spec r)) of
       None \<Rightarrow> \<lparr>li_Memory = qty_Gi 2, li_CPU = qty_m 500\<rparr> | Some l \<Rightarrow> \<lparr>li_Memory = li_Memory l, li_CPU = li_CPU l\<rparr>)"

definition hound_sts :: "'w SFController \<Rightarrow> pod_security_context \<Rightarrow> configmap option \<Rightarrow> statefulset" where
  "hound_sts r psc corporateCM =
     (let k = c_k r; spec = c_spec r; name = crl_Name (sf_ConfigRepositoryLocation spec);
          c = (MkHoundSearchContainer (corporateCM \<noteq> None) (k_isOpenShift k))\<lparr>ct_env :=
            [MkEnvVar ''CONFIG_REPO_BASE_URL'' (c_configBaseURL r), MkEnvVar ''CONFIG_REPO_NAME'' name]\<rparr>;
          pvc = MkPVC houndSearchData (k_ns k) (getStorageConfOrDefault r (co_Storage (sf_Codesearch spec))) ''ReadWriteOnce'';
          annotations = smap_of
            [(''config-hash'', Checksum k (c_configBaseURL r @ name)), (''corporate-ca-certs-version'', getCMVersion corporateCM),
             (''serial'', ''1''),
             (''config-scripts'', Checksum k (c_static r ''static/hound-search/hound-search-render.py'' @
                c_static r ''static/hound-search/hound-search-init.sh'' @ c_static r ''static/hound-search/hound-search-config.sh'')),
             (''limits'', limits_text (Some (hound_limits r)))]
      in sts_template (\<lambda>t. template_annotated annotations (template_hosts spec
           (template_main (limited (Some (hound_limits r)))
             (template_spec (\<lambda>p. p\<lparr>ps_volumes := AppendToolingVolume (ps_volumes p) @ [MkVolumeSecret ''zuul-config'' []] @
               (if corporateCM \<noteq> None then [MkVolumeCM ''hound-search-ca-certs'' CorporateCACerts, MkEmptyDirVolume ''hound-search-ca''] else [])\<rparr>) t))))
         (MkStatefulset psc houndSearchIdent (k_ns k) 1 houndSearchIdent c pvc (sf_ExtraLabels spec)))"

definition DeployHoundSearch :: "'w SFController \<Rightarrow> ('w st, bool) prog" where
  "DeployHoundSearch r = (let k = c_k r; spec = c_spec r in
     bnd (EnsureService k (MkService houndSearchIdent (k_ns k) houndSearchIdent [6080] houndSearchIdent (sf_ExtraLabels spec))) (\<lambda>_.
     bnd (CorporateCAConfigMapExists k) (\<lambda>corporateCM.
     bnd (reads st_podSC) (\<lambda>psc.
     bnd (ensureStatefulset k (hound_sts r psc corporateCM) None) (\<lambda>(current, stsUpdated).
     if stsUpdated then ret False
     else
       bnd (reconcileExpandPVC k (houndSearchIdent @ ''-data-'' @ houndSearchIdent @ ''-0'') (co_Storage (sf_Codesearch spec))) (\<lambda>pvcReadiness.
       bnd (if pvcReadiness then bnd (waitStatefulset k current) (\<lambda>(ok, _). ret ok) else ret False) (\<lambda>isReady.
       bnd (UpdateConditions k houndSearchIdent isReady) (\<lambda>_. ret isReady))))))))"

section \<open>LogJuicer\<close>

text \<open>
  The loop over the config map leaves after its first entry, so that one of the files, whichever the
  iteration gives first, is mounted. The result is the version and the change of the pod.
\<close>

definition AddCorporateCA :: "'w kctx \<Rightarrow> ('w st, string \<times> (pod_template \<Rightarrow> pod_template)) prog" where
  "AddCorporateCA k = bnd (CorporateCAConfigMapExists k) (\<lambda>corporateCM. case corporateCM of
       None \<Rightarrow> ret (''0'', \<lambda>t. t)
     | Some cm \<Rightarrow> bnd (sysc (s_mapOrder (k_sys k) (gm_fm (cm_data cm)))) (\<lambda>kvs.
         ret (om_resourceVersion (cm_meta cm), case kvs of
             [] \<Rightarrow> (\<lambda>t. t)
           | (fileName, _) # _ \<Rightarrow> (\<lambda>t. template_main (\<lambda>c. c\<lparr>
                 ct_volumeMounts := ct_volumeMounts c @ [mk_mount ''certs'' ''/certs''],
                 ct_env := ct_env c @ [MkEnvVar ''LOGJUICER_CA_EXTRA'' (''/certs/'' @ fileName)]\<rparr>)
               (template_spec (\<lambda>p. p\<lparr>ps_volumes := ps_volumes p @ [MkVolumeCM ''certs'' CorporateCACerts]\<rparr>) t)))))"

definition logjuicer_env :: "env_var list" where
  "logjuicer_env = [MkEnvVar ''LOGJUICER_BASE_URL'' ''/logjuicer/'']"

definition logjuicer_dep :: "'w SFController \<Rightarrow> pod_security_context \<Rightarrow> string \<Rightarrow> string \<Rightarrow> (pod_template \<Rightarrow> pod_template) \<Rightarrow> deployment" where
  "logjuicer_dep r psc img certs addCA = (let k = c_k r; spec = c_spec r;
       dep = MkDeployment psc ''logjuicer'' (k_ns k) img (sf_ExtraLabels spec) (k_isOpenShift k) in
     dep_template (\<lambda>t. template_hosts spec (template_annotated (smap_of
         [(''config-hash'', Checksum k (concat (map ev_value logjuicer_env))), (''serial'', ''2''), (''certs'', certs)])
       (addCA (template_main (\<lambda>c. c\<lparr>ct_imagePullPolicy := ''Always'', ct_volumeMounts := [mk_mount ''logjuicer-data'' ''/data''],
           ct_env := logjuicer_env, ct_ports := [MkContainerPort 3000 ''logjuicer''],
           ct_readinessProbe := Some (MkReadinessHTTPProbe ''/ready'' 3000)\<rparr>)
         (template_spec (\<lambda>p. p\<lparr>ps_volumes := [MkVolumePVC ''logjuicer-data'' ''logjuicer-pvc'']\<rparr>) t)))))
     (dep\<lparr>de_strategy := (de_strategy dep)\<lparr>ds_type := ''Recreate''\<rparr>\<rparr>))"

definition EnsureLogJuicer :: "'w SFController \<Rightarrow> ('w st, bool) prog" where
  "EnsureLogJuicer r = (let k = c_k r; spec = c_spec r in
     bnd (GetOrCreate k cPVC (MkPVC ''logjuicer-pvc'' (k_ns k) (getStorageConfOrDefault r (sf_Logjuicer spec)) ''ReadWriteOnce'')) (\<lambda>_.
     bnd (GetOrCreate k cService (MkService ''logjuicer'' (k_ns k) ''logjuicer'' [3000] ''logjuicer'' (sf_ExtraLabels spec))) (\<lambda>_.
     bnd LogJuicerImage (\<lambda>img.
     bnd (reads st_podSC) (\<lambda>psc.
     bnd (AddCorporateCA k) (\<lambda>(certs, addCA).
     bnd (reconcileExpandPVC k ''logjuicer-pvc'' (sf_Logjuicer spec)) (\<lambda>pvcReadiness.
     bnd (deployment_ready k (logjuicer_dep r psc img certs addCA)) (\<lambda>ready. ret (ready \<and> pvcReadiness)))))))))"

section \<open>Weeder\<close>

definition weeder_dep :: "'w SFController \<Rightarrow> pod_security_context \<Rightarrow> string \<Rightarrow> string \<Rightarrow> deployment" where
  "weeder_dep r psc img checksum = (let k = c_k r; spec = c_spec r in
     dep_template (\<lambda>t. template_hosts spec (template_main (\<lambda>c. c\<lparr>ct_imagePullPolicy := ''Always'',
         ct_volumeMounts := [mk_mount ''weeder-tmp'' ''/var/tmp/weeder'', mount_ro ''zuul-config'' ''/etc/zuul'',
           mount_ro ''zookeeper-client-tls'' ''/tls/client''],
         ct_env := [MkEnvVar ''WEEDER_ROOT_URL'' ''/weeder''], ct_ports := [MkContainerPort 9001 ''zuul-weeder''],
         ct_readinessProbe := Some (MkReadinessHTTPProbe ''/health'' 9001)\<rparr>)
       (template_spec (\<lambda>p. p\<lparr>ps_volumes := [MkEmptyDirVolume ''weeder-tmp'', MkVolumeSecret ''zuul-config'' [],
           MkVolumeSecret ''zookeeper-client-tls'' []]\<rparr>)
         (template_annotated (smap_of [(''zuul-connections'', checksum), (''serial'', ''2'')]) t))))
     (MkDeployment psc ''zuul-weeder'' (k_ns k) img (sf_ExtraLabels spec) (k_isOpenShift k)))"

definition EnsureZuulWeeder :: "'w SFController \<Rightarrow> string \<Rightarrow> ('w st, bool) prog" where
  "EnsureZuulWeeder r checksum = (let k = c_k r in
     bnd (GetOrCreate k cService (MkService ''zuul-weeder'' (k_ns k) ''zuul-weeder'' [9001] ''zuul-weeder'' (sf_ExtraLabels (c_spec r)))) (\<lambda>_.
     bnd ZuulWeederImage (\<lambda>img.
     bnd (reads st_podSC) (\<lambda>psc.
       deployment_ready k (weeder_dep r psc img checksum)))))"

section \<open>Capacity\<close>

definition MkZuulCapacityContainer :: "bool \<Rightarrow> bool \<Rightarrow> ('s, container) prog" where
  "MkZuulCapacityContainer openshiftUser corporateCMExists = bnd ZuulCapacityImage (\<lambda>img. ret
     ((MkContainer ''zuul-capacity'' img openshiftUser)\<lparr>
        ct_args := [''--port'', ''9100''],
        ct_env := [MkEnvVar ''OS_CLIENT_CONFIG_FILE'' ''/.openstack/clouds.yaml''],
        ct_ports := [MkContainerPort 9100 ''zuul-capacity''],
        ct_readinessProbe := Some (MkReadinessHTTPProbe ''/'' 9100),
        ct_volumeMounts := [mount_ro ''nodepool-config'' ''/etc/nodepool'', mount_ro ''zookeeper-client-tls'' ''/tls/client'',
            mount_ro_sub ''nodepool-providers-secrets'' ''/.openstack/clouds.yaml'' ''clouds.yaml''] @
          (if corporateCMExists then [mk_mount ''nodepool-ca'' TrustedCAExtractedMountPath] else [])\<rparr>))"

end
