(* ===== verification/Zuul_Conf.thy ===== *)
theory Zuul_Conf
  imports Services
begin

text \<open>
  The configuration file of Zuul: the ini helpers of \<open>controllers/libs/utils/utils.go\<close> and the part of
  \<open>controllers/zuul.go\<close> that builds \<open>zuul.conf\<close> from the custom resource and the secrets of the cluster. The ini library is
  reached through the \<open>s_ini\<close> operations of the outside world; a file is passed along where the code
  updates it in place.
\<close>

section \<open>utils.go\<close>

definition ini_keys :: "(string \<times> string) list \<Rightarrow> string list" where
  "ini_keys kvs = map fst kvs"

definition IniGetSectionBody :: "'w kctx \<Rightarrow> ini \<Rightarrow> string \<Rightarrow> (string \<times> string) list \<Rightarrow> string" where
  "IniGetSectionBody k cfg name kvs = concat (map (\<lambda>key. key @ s_iniString (k_sys k) cfg name key) (sort (ini_keys kvs)))"

fun ini_sections_data :: "'w kctx \<Rightarrow> ini \<Rightarrow> string list \<Rightarrow> ('s, string) prog" where
  "ini_sections_data k cfg [] = ret []"
| "ini_sections_data k cfg (name # names) = (case map_of cfg name of
       None \<Rightarrow> panic (''No such ini section: '' @ name)
     | Some kvs \<Rightarrow> bnd (ini_sections_data k cfg names) (\<lambda>data. ret (IniGetSectionBody k cfg name kvs @ data)))"

definition IniSectionsChecksum :: "'w kctx \<Rightarrow> ini \<Rightarrow> string list \<Rightarrow> ('s, string) prog" where
  "IniSectionsChecksum k cfg names = bnd (ini_sections_data k cfg names) (\<lambda>data. ret (Checksum k data))"

definition IniGetSectionNamesByPrefix :: "ini \<Rightarrow> string \<Rightarrow> string list" where
  "IniGetSectionNamesByPrefix cfg prefix = filter (\<lambda>n. HasPrefix n prefix) (map fst cfg)"

section \<open>Writing sections\<close>

definition set_keys :: "'w kctx \<Rightarrow> string \<Rightarrow> (string \<times> string) list \<Rightarrow> ini \<Rightarrow> ini" where
  "set_keys k section kvs cfg = foldl (\<lambda>c (key, v). s_iniNewKey (k_sys k) section key v c) cfg kvs"

definition new_section :: "'w kctx \<Rightarrow> string \<Rightarrow> (string \<times> string) list \<Rightarrow> ini \<Rightarrow> ini" where
  "new_section k section kvs cfg = set_keys k section kvs (s_iniNewSection (k_sys k) section cfg)"

definition key_if :: "bool \<Rightarrow> string \<Rightarrow> string \<Rightarrow> (string \<times> string) list" where
  "key_if b key v = (if b then [(key, v)] else [])"

definition secret_text :: "string + string \<Rightarrow> string" where
  "secret_text res = (case res of Inl _ \<Rightarrow> [] | Inr v \<Rightarrow> v)"

definition addKeyToSection :: "'w kctx \<Rightarrow> string \<Rightarrow> string \<Rightarrow> string \<Rightarrow> ini \<Rightarrow> ini" where
  "addKeyToSection k section fieldKey fieldValue cfg =
     (if fieldKey = ''server'' \<or> fieldValue \<noteq> []
      then s_iniNewKey (k_sys k) section fieldKey (if fieldValue = [] then ''localhost'' else fieldValue) cfg
      else cfg)"

text \<open>The loops over a map literal, which visit its entries in any order.\<close>

definition add_fields :: "'w kctx \<Rightarrow> string \<Rightarrow> (string \<times> string) list \<Rightarrow> ini \<Rightarrow> ini" where
  "add_fields k section kvs cfg = foldl (\<lambda>c (key, v). addKeyToSection k section key v c) cfg kvs"

definition add_map :: "'w kctx \<Rightarrow> string \<Rightarrow> smap \<Rightarrow> ini \<Rightarrow> ('w st, ini) prog" where
  "add_map k section m cfg = bnd (sysc (s_mapOrder (k_sys k) m)) (\<lambda>kvs. ret (add_fields k section kvs cfg))"

section \<open>Connections\<close>

definition readSecretContent :: "'w kctx \<Rightarrow> string \<Rightarrow> ('w st, string) prog" where
  "readSecretContent k name = bnd (GetOrDie k cSecret name) (\<lambda>found. ret (case found of
       None \<Rightarrow> [] | Some secret \<Rightarrow> gm_get (se_data secret) name))"

definition AddOIDCAuthenticator :: "'w kctx \<Rightarrow> ZuulOIDCAuthenticatorSpec \<Rightarrow> ini \<Rightarrow> ini" where
  "AddOIDCAuthenticator k a = new_section k (''auth '' @ oi_Name a)
     ([(''driver'', ''OpenIDConnect''), (''realm'', oi_Realm a), (''client_id'', oi_ClientID a), (''issuer_id'', oi_IssuerID a),
       (''uid_claim'', if oi_UIDClaim a = [] then ''sub'' else oi_UIDClaim a)] @
      key_if (oi_MaxValidityTime a \<noteq> 0) ''max_validity_time'' (Itoa (oi_MaxValidityTime a)) @
      key_if (oi_Skew a \<noteq> 0) ''skew'' (Itoa (oi_Skew a)) @
      [(''scope'', if oi_Scope a = [] then ''openid profile'' else oi_Scope a)] @
      key_if (oi_Authority a \<noteq> []) ''authority'' (oi_Authority a) @
      key_if (oi_Audience a \<noteq> []) ''audience'' (oi_Audience a) @
      key_if (\<not> oi_LoadUserInfo a) ''load_user_info'' (FormatBool (oi_LoadUserInfo a)) @
      key_if (oi_KeysURL a \<noteq> []) ''keys_url'' (oi_KeysURL a))"

definition AddGerritConnection :: "'w kctx \<Rightarrow> GerritConnection \<Rightarrow> ini \<Rightarrow> ('w st, ini) prog" where
  "AddGerritConnection k conn cfg =
     bnd (if ge_Password conn \<noteq> [] then readSecretContent k (ge_Password conn) else ret []) (\<lambda>password.
       ret (new_section k (''connection '' @ ge_Name conn)
         ([(''driver'', ''gerrit''), (''server'', ge_Hostname conn),
           (''sshkey'', if ge_Sshkey conn \<noteq> [] then ''/var/lib/zuul-'' @ ge_Sshkey conn @ ''/..data/priv''
              else ''/var/lib/zuul-ssh/..data/priv''),
           (''gitweb_url_template'', ''{baseurl}/plugins/gitiles/{project.name}/+/{sha}^!/'')] @
          key_if (ge_Username conn \<noteq> []) ''user'' (ge_Username conn) @
          key_if (0 < ge_Port conn) ''port'' (Itoa (ge_Port conn)) @
          key_if (ge_Puburl conn \<noteq> []) ''baseurl'' (ge_Puburl conn) @
          key_if (ge_Password conn \<noteq> []) ''password'' password @
          key_if (ge_Canonicalhostname conn \<noteq> []) ''canonical_hostname'' (ge_Canonicalhostname conn) @
          key_if (ge_VerifySSL conn = Some False) ''verify_ssl'' ''false'' @
          key_if (ge_GitOverSSH conn) ''git_over_ssh'' ''true'' @
          key_if (ge_StreamEvents conn = Some False) ''stream_events'' ''false'') cfg))"

definition AddGitHubConnection :: "'w kctx \<Rightarrow> GitHubConnection \<Rightarrow> ini \<Rightarrow> ('w st, ini) prog" where
  "AddGitHubConnection k conn cfg =
     (let section = ''connection '' @ gh_Name conn; noApp = (Itoa (gh_AppID conn) = ''0'');
          appID = (if noApp then [] else Itoa (gh_AppID conn));
          appKey = (if noApp then [] else ''/var/lib/zuul/'' @ gh_Secrets conn @ ''/app_key'') in
      bnd (GetSecretDataFromKey k (gh_Secrets conn) ''api_token'') (\<lambda>apiToken.
      bnd (GetSecretDataFromKey k (gh_Secrets conn) ''webhook_token'') (\<lambda>webhookToken.
        add_map k section (smap_of
          [(''driver'', ''github''), (''app_id'', appID), (''app_key'', appKey), (''api_token'', secret_text apiToken),
           (''webhook_token'', secret_text webhookToken), (''sshkey'', ''/var/lib/zuul-ssh/..data/priv''), (''server'', gh_Server conn),
           (''canonical_hostname'', gh_Canonicalhostname conn), (''verify_ssl'', FormatBool (gh_VerifySSL conn))])
          (s_iniNewSection (k_sys k) section cfg))))"

definition AddGitLabConnection :: "'w kctx \<Rightarrow> GitLabConnection \<Rightarrow> ini \<Rightarrow> ('w st, ini) prog" where
  "AddGitLabConnection k conn cfg = (let section = ''connection '' @ gl_Name conn in
      bnd (GetSecretDataFromKey k (gl_Secrets conn) ''api_token'') (\<lambda>apiToken.
      bnd (GetSecretDataFromKey k (gl_Secrets conn) ''webhook_token'') (\<lambda>webHookToken.
      bnd (add_map k section (smap_of
          [(''driver'', ''gitlab''), (''server'', gl_Server conn), (''canonical_hostname'', gl_CanonicalHostname conn),
           (''baseurl'', gl_BaseURL conn), (''sshkey'', ''/var/lib/zuul-ssh/..data/priv''), (''cloneurl'', gl_CloneURL conn),
           (''keepalive'', Itoa (gl_KeepAlive conn)), (''disable_connection_pool'', FormatBool (gl_DisableConnectionPool conn)),
           (''api_token_name'', ''zuul'')])
          (s_iniNewSection (k_sys k) section cfg)) (\<lambda>cfg.
        ret (set_keys k section [(''api_token'', secret_text apiToken), (''webhook_token'', secret_text webHookToken)] cfg)))))"

definition AddPagureConnection :: "'w kctx \<Rightarrow> PagureConnection \<Rightarrow> ini \<Rightarrow> ('w st, ini) prog" where
  "AddPagureConnection k conn cfg = (let section = ''connection '' @ pg_Name conn in
      bnd (GetSecretDataFromKey k (pg_Secrets conn) ''api_token'') (\<lambda>apiToken.
        add_map k section (smap_of
          [(''driver'', ''pagure''), (''server'', pg_Server conn), (''canonical_hostname'', pg_CanonicalHostname conn),
           (''baseurl'', pg_BaseURL conn), (''cloneurl'', pg_CloneURL conn), (''api_token'', secret_text apiToken),
           (''app_name'', pg_AppName conn), (''source_whitelist'', pg_SourceWhitelist conn)])
          (s_iniNewSection (k_sys k) section cfg)))"

definition AddGitConnection :: "'w kctx \<Rightarrow> string \<Rightarrow> string \<Rightarrow> int \<Rightarrow> ini \<Rightarrow> ini" where
  "AddGitConnection k name baseurl poolDelay = new_section k (''connection '' @ name)
     ([(''driver'', ''git''), (''baseurl'', baseurl)] @ key_if (0 < poolDelay) ''poll_delay'' (Itoa poolDelay))"

text \<open>The scheme and the rest of an address; the match against the pattern of an address with a password only logs.\<close>

definition split_scheme :: "string \<Rightarrow> string \<times> string" where
  "split_scheme uri =
     (let (scheme, uri) = (if HasPrefix uri ''https://'' then (''https://'', drop (length ''https://'') uri) else ([], uri))
      in if HasPrefix uri ''http://'' then (''http://'', drop (length ''http://'') uri) else (scheme, uri))"

definition AddElasticSearchConnection :: "'w kctx \<Rightarrow> ElasticSearchConnection \<Rightarrow> ini \<Rightarrow> ('w st, ini) prog" where
  "AddElasticSearchConnection k conn cfg = (let (scheme, uri) = split_scheme (es_URI conn) in
      bnd (case es_BasicAuthSecret conn of
             None \<Rightarrow> ret uri
           | Some secret \<Rightarrow> bnd (GetSecretDataFromKey k secret ''password'') (\<lambda>password.
               bnd (GetSecretDataFromKey k secret ''username'') (\<lambda>username.
                 ret (secret_text username @ '':'' @ secret_text password @ ''@'' @ uri)))) (\<lambda>uri.
        ret (new_section k (''connection '' @ es_Name conn)
          ([(''driver'', ''elasticsearch''), (''ca_certs'', ''/etc/ssl/certs/ca-bundle.crt''), (''uri'', scheme @ uri)] @
           key_if (es_UseSSL conn = Some False) ''use_ssl'' ''false'' @
           key_if (es_VerifyCerts conn = Some False) ''verify_certs'' ''false'') cfg)))"

definition AddSMTPConnection :: "'w kctx \<Rightarrow> SMTPConnection \<Rightarrow> ini \<Rightarrow> ('w st, ini) prog" where
  "AddSMTPConnection k conn cfg =
      bnd (case sm_Secrets conn of
             Some secret \<Rightarrow> bnd (GetSecretDataFromKey k secret ''password'') (\<lambda>password. ret [(''password'', secret_text password)])
           | None \<Rightarrow> ret (key_if (sm_Password conn \<noteq> []) ''password'' (sm_Password conn))) (\<lambda>password.
        ret (new_section k (''connection '' @ sm_Name conn)
          ([(''driver'', ''smtp''), (''server'', sm_Server conn)] @
           key_if (0 < sm_Port conn) ''port'' (Itoa (sm_Port conn)) @
           key_if (sm_DefaultFrom conn \<noteq> []) ''default_from'' (sm_DefaultFrom conn) @
           key_if (sm_DefaultTo conn \<noteq> []) ''default_to'' (sm_DefaultTo conn) @
           key_if (sm_User conn \<noteq> []) ''user'' (sm_User conn) @ password @
           key_if (sm_TLS conn = Some False) ''use_starttls'' ''false'') cfg))"

definition zuulWEBPort :: int where "zuulWEBPort = 9000"
definition zuulPrometheusPort :: int where "zuulPrometheusPort = 9090"

definition AddWebClientSection :: "'w kctx \<Rightarrow> ini \<Rightarrow> ini" where
  "AddWebClientSection k = new_section k ''webclient'' [(''url'', ''http://zuul-web:'' @ Itoa zuulWEBPort)]"

definition AddDefaultConnections :: "'w SFController \<Rightarrow> string \<Rightarrow> ini \<Rightarrow> ini" where
  "AddDefaultConnections r gitServerURL cfg =
     (let cfg = AddGitConnection (c_k r) ''git-server'' gitServerURL 0 cfg
      in if c_needOpendev r then AddGitConnection (c_k r) ''opendev.org'' ''https://opendev.org/'' 0 cfg else cfg)"

definition LoadConfigINI :: "'w kctx \<Rightarrow> string \<Rightarrow> ('s, ini) prog" where
  "LoadConfigINI k zuulConf = (case s_iniParse (k_sys k) zuulConf of None \<Rightarrow> panic ''error reading ini'' | Some cfg \<Rightarrow> ret cfg)"

text \<open>\<open>DumpConfigINI\<close> sorts the keys of every section of the file in place, and gives its text.\<close>

definition sort_section :: "'w kctx \<Rightarrow> string \<times> (string \<times> string) list \<Rightarrow> ini \<Rightarrow> ini" where
  "sort_section k = (\<lambda>(name, kvs) cfg.
     (let keys = sort_key fst kvs;
          cfg = foldl (\<lambda>c (key, _). s_iniDeleteKey (k_sys k) name key c) cfg keys
      in set_keys k name keys cfg))"

definition DumpConfigINI :: "'w kctx \<Rightarrow> ini \<Rightarrow> string \<times> ini" where
  "DumpConfigINI k cfg = (let sorted = fold (sort_section k) cfg cfg in (s_iniDump (k_sys k) sorted, sorted))"

section \<open>zuul.conf\<close>

definition IsExternalExecutorEnabled :: "'w SFController \<Rightarrow> bool" where
  "IsExternalExecutorEnabled r \<longleftrightarrow> zx_Standalone (zu_Executor (sf_Zuul (c_spec r))) \<noteq> None"

definition add_connections :: "'w SFController \<Rightarrow> ini \<Rightarrow> ('w st, ini) prog" where
  "add_connections r cfg = (let k = c_k r; zuul = sf_Zuul (c_spec r) in
     bnd (fold_prog (AddGerritConnection k) (zu_GerritConns zuul) cfg) (\<lambda>cfg.
     bnd (fold_prog (AddGitHubConnection k) (zu_GitHubConns zuul) cfg) (\<lambda>cfg.
     bnd (fold_prog (AddGitLabConnection k) (zu_GitLabConns zuul) cfg) (\<lambda>cfg.
     bnd (fold_prog (AddPagureConnection k) (zu_PagureConns zuul) cfg) (\<lambda>cfg.
       let cfg = fold (\<lambda>c. AddGitConnection k (gi_Name c) (gi_Baseurl c) (gi_PollDelay c)) (zu_GitConns zuul) cfg in
     bnd (fold_prog (AddElasticSearchConnection k) (zu_ElasticSearchConns zuul) cfg) (\<lambda>cfg.
       fold_prog (AddSMTPConnection k) (zu_SMTPConns zuul) cfg))))))"

definition git_server_url :: "'w SFController \<Rightarrow> string" where
  "git_server_url r = (case zx_Standalone (zu_Executor (sf_Zuul (c_spec r))) of
       None \<Rightarrow> ''git://git-server/'' | Some sx \<Rightarrow> ''git://'' @ sx_ControlPlanePublicGSHostname sx @ ''/'')"

definition default_authenticator :: "ZuulSpec \<Rightarrow> string option" where
  "default_authenticator zuul = (case zu_OIDCAuthenticators zuul of
       [a] \<Rightarrow> Some (oi_Name a)
     | _ \<Rightarrow> if zu_DefaultAuthenticator zuul \<noteq> [] then Some (zu_DefaultAuthenticator zuul) else None)"

text \<open>The settings of the services that come from the resource alone.\<close>

definition add_settings :: "'w SFController \<Rightarrow> ini \<Rightarrow> ini" where
  "add_settings r cfg = (let k = c_k r; zuul = sf_Zuul (c_spec r); zs = zu_Scheduler zuul; zx = zu_Executor zuul; zm = zu_Merger zuul;
       cfg = (case default_authenticator zuul of None \<Rightarrow> cfg | Some a \<Rightarrow> set_keys k (''auth '' @ a) [(''default'', ''true'')] cfg);
       cfg = set_keys k ''scheduler''
         ((case zs_DefaultHoldExpiration zs of None \<Rightarrow> [] | Some i \<Rightarrow> [(''default_hold_expiration'', Itoa i)]) @
          (case zs_MaxHoldExpiration zs of None \<Rightarrow> [] | Some i \<Rightarrow> [(''max_hold_expiration'', Itoa i)])) cfg;
       cfg = set_keys k ''executor''
         (key_if (zx_DiskLimitPerJob zx \<noteq> 0) ''disk_limit_per_job'' (Itoa (max (-1) (zx_DiskLimitPerJob zx))) @
          key_if (zx_AnsibleSetupTimeout zx \<noteq> 0) ''ansible_setup_timeout'' (Itoa (zx_AnsibleSetupTimeout zx)) @
          (case zx_Standalone zx of None \<Rightarrow> [] | Some sx \<Rightarrow> key_if (sx_Zone sx \<noteq> []) ''zone'' (sx_Zone sx))) cfg;
       cfg = fold (\<lambda>srv. set_keys k srv [(''prometheus_port'', Itoa zuulPrometheusPort)]) [''web'', ''executor'', ''scheduler'', ''merger''] cfg;
       cfg = set_keys k ''web'' [(''root'', ''https://'' @ sf_FQDN (c_spec r) @ ''/zuul/'')] cfg
     in set_keys k ''merger''
         (key_if (zm_GitUserName zm \<noteq> []) ''git_user_name'' (zm_GitUserName zm) @
          key_if (zm_GitUserEmail zm \<noteq> []) ''git_user_email'' (zm_GitUserEmail zm) @
          key_if (0 \<le> zm_GitHTTPLowSpeedLimit zm) ''git_http_low_speed_limit'' (Itoa (zm_GitHTTPLowSpeedLimit zm)) @
          key_if (0 \<le> zm_GitHTTPLowSpeedTime zm) ''git_http_low_speed_time'' (Itoa (zm_GitHTTPLowSpeedTime zm)) @
          key_if (0 < zm_GitTimeout zm) ''git_timeout'' (Itoa (zm_GitTimeout zm))) cfg)"

definition db_uri :: "secret \<Rightarrow> string" where
  "db_uri dbSettings = ''mariadb+pymysql://'' @ gm_get (se_data dbSettings) ''username'' @ '':'' @ gm_get (se_data dbSettings) ''password'' @
     ''@'' @ gm_get (se_data dbSettings) ''host'' @ ''/'' @ gm_get (se_data dbSettings) ''database''"

definition zk_hosts :: "'w SFController \<Rightarrow> string" where
  "zk_hosts r = TrimSuffix (case zx_Standalone (zu_Executor (sf_Zuul (c_spec r))) of
       Some sx \<Rightarrow> (case sx_ControlPlanePublicZKHostnames sx of
           Some hs \<Rightarrow> concat (map (\<lambda>h. h @ '':2281,'') hs)
         | None \<Rightarrow> sx_ControlPlanePublicZKHostname sx @ '':2281'')
     | None \<Rightarrow> concat (map (\<lambda>i. ZookeeperIdent @ ''-'' @ Itoa (int i) @ ''.'' @ ZookeeperIdent @ ''-headless.'' @ k_ns (c_k r) @ '':2281,'')
         [0..<ZookeeperReplicas])) '',''"

definition add_hosts :: "'w SFController \<Rightarrow> ini \<Rightarrow> ini" where
  "add_hosts r cfg = (let k = c_k r; cfg = set_keys k ''zookeeper'' [(''hosts'', zk_hosts r)] cfg in
     case zx_Standalone (zu_Executor (sf_Zuul (c_spec r))) of
       None \<Rightarrow> cfg
     | Some sx \<Rightarrow> set_keys k ''executor'' (key_if (sx_PublicHostName sx \<noteq> []) ''hostname'' (sx_PublicHostName sx)) cfg)"

text \<open>The parts that need a secret: \<open>None\<close> when it is missing.\<close>

definition add_database :: "'w SFController \<Rightarrow> bool \<Rightarrow> ini \<Rightarrow> ('w st, ini option) prog" where
  "add_database r remoteExecutor cfg = (if remoteExecutor then ret (Some cfg)
     else bnd (GetOrDie (c_k r) cSecret zuulDBConfigSecret) (\<lambda>found. ret (case found of
         None \<Rightarrow> None | Some dbSettings \<Rightarrow> Some (set_keys (c_k r) ''database'' [(''dburi'', db_uri dbSettings)] cfg))))"

definition add_keystore :: "'w SFController \<Rightarrow> ini \<Rightarrow> ('w st, ini option) prog" where
  "add_keystore r cfg = bnd (getSecretData (c_k r) ''zuul-keystore-password'') (\<lambda>res. ret (case res of
       Inl _ \<Rightarrow> None | Inr pass \<Rightarrow> Some (set_keys (c_k r) ''keystore'' [(''password'', pass)] cfg)))"

definition add_client_auth :: "'w SFController \<Rightarrow> bool \<Rightarrow> ini \<Rightarrow> ('w st, ini option) prog" where
  "add_client_auth r remoteExecutor cfg = (if remoteExecutor then ret (Some cfg)
     else bnd (getSecretData (c_k r) ''zuul-auth-secret'') (\<lambda>res. ret (case res of
         Inl _ \<Rightarrow> None
       | Inr cliAuthSecret \<Rightarrow> Some (set_keys (c_k r) ''auth zuul_client''
           [(''secret'', cliAuthSecret), (''realm'', ''zuul.'' @ sf_FQDN (c_spec r))] cfg))))"

definition zuul_config_secret :: "'w kctx \<Rightarrow> string \<Rightarrow> secret" where
  "zuul_config_secret k text = one_secret k ''zuul-config'' ''zuul.conf'' text"

definition EnsureZuulConfigSecret :: "'w SFController \<Rightarrow> bool \<Rightarrow> ('w st, ini option) prog" where
  "EnsureZuulConfigSecret r remoteExecutor = (let k = c_k r; zuul = sf_Zuul (c_spec r) in
     bnd (LoadConfigINI k (c_static r ''static/zuul/zuul.conf'')) (\<lambda>cfg.
     bnd (add_connections r cfg) (\<lambda>cfg.
       let cfg = AddWebClientSection k (AddDefaultConnections r (git_server_url r) cfg);
           cfg = add_settings r (fold (AddOIDCAuthenticator k) (zu_OIDCAuthenticators zuul) cfg) in
     bnd (add_database r remoteExecutor cfg) (\<lambda>db. case db of
       None \<Rightarrow> ret None
     | Some cfg \<Rightarrow> bnd (add_keystore r (add_hosts r cfg)) (\<lambda>ks. case ks of
         None \<Rightarrow> ret None
       | Some cfg \<Rightarrow> bnd (add_client_auth r remoteExecutor cfg) (\<lambda>ca. case ca of
           None \<Rightarrow> ret None
         | Some cfg \<Rightarrow>
             (let (text, sorted) = DumpConfigINI k (set_keys k ''statsd'' [(''port'', Itoa StatsdExporterPortListen)] cfg) in
              bnd (EnsureSecret k (zuul_config_secret k text)) (\<lambda>_. ret (Some sorted)))))))))"

end
