(* ===== verification/Reconcile.thy ===== *)
theory Reconcile
  imports Connections
begin

text \<open>
  The reconciliation: \<open>Step\<close> and what it is made of, and the loop of the standalone mode
  (\<open>controllers/softwarefactory_controller.go\<close>). The operations that deploy the single services are
  the fields of the record \<open>deploys\<close>, the interface between the reconciliation and the service
  components: the order in which \<open>Step\<close> calls them, the conditions under which it does and what it
  reports do not depend on how a service is deployed.
\<close>

type_synonym services = "(string, bool) fmap"

definition svc_get :: "services \<Rightarrow> string \<Rightarrow> bool" where
  "svc_get services name = (case fmlookup services name of None \<Rightarrow> False | Some b \<Rightarrow> b)"

definition isOperatorReady :: "services \<Rightarrow> bool" where
  "isOperatorReady services \<longleftrightarrow> fmpred (\<lambda>_ v. v) services"

text \<open>\<open>'c\<close> is the type of the generated Zuul configuration.\<close>

record ('w, 'c) deploys =
  d_DeployZuulSecrets :: "('w st, unit) prog"
  d_DeployGitServer :: "('w st, bool) prog"
  d_DeployMariadb :: "('w st, bool) prog"
  d_DeployLogserver :: "('w st, bool) prog"
  d_DeployHTTPDGateway :: "('w st, bool) prog"
  d_DeployHoundSearch :: "('w st, bool) prog"
  d_TerminateHoundSearch :: "('w st, unit) prog"
  d_EnsureLogJuicer :: "('w st, bool) prog"
  d_DeployZookeeper :: "('w st, bool) prog"
  d_DeployNodepool :: "('w st, services) prog"
  d_DeployZuul :: "('w st, services) prog"
  d_SetupConfigJob :: "('w st, bool) prog"
  d_EnsureZuulConfigSecret :: "bool \<Rightarrow> ('w st, 'c option) prog"
  d_EnsureZuulExecutorService :: "('w st, unit) prog"
  d_EnsureZuulExecutor :: "'c \<Rightarrow> ('w st, bool) prog"

definition LauncherIdent :: string where "LauncherIdent = ''nodepool-launcher''"
definition BuilderIdent :: string where "BuilderIdent = ''nodepool-builder''"
definition ZuulKeystorePasswordName :: string where "ZuulKeystorePasswordName = ''zuul-keystore-password''"

section \<open>Cleaning up\<close>

text \<open>A failing list leaves the list of pods empty.\<close>

definition nukeZKClients :: "'w kctx \<Rightarrow> ('w st, unit) prog" where
  "nukeZKClients r = bnd (ListAll r cPod) (\<lambda>res.
     for_each (\<lambda>pod.
       if HasPrefix (om_name (po_meta pod)) ''zuul-'' \<or> HasPrefix (om_name (po_meta pod)) ''nodepool-'' then
         (case ps_containers (po_spec pod) of
            [] \<Rightarrow> panic ''index out of range''
          | c # _ \<Rightarrow>
              (let cName = ct_name c in
               bnd (PodExec r (om_name (po_meta pod)) cName [''kill'', ''-9'', ''1'']) (\<lambda>_.
                 if cName = ''zuul-web'' \<or> cName = ''zuul-weeder'' \<or> cName = ''nodepool-launcher''
                 then DeleteR r cDeployment (mk_meta cName (k_ns r))
                 else DeleteR r cStatefulSet (mk_meta cName (k_ns r)))))
       else ret ())
     (case res of Inl _ \<Rightarrow> [] | Inr pods \<Rightarrow> pods))"

definition nukeZK :: "'w kctx \<Rightarrow> ('w st, unit) prog" where
  "nukeZK r = bnd (nukeZKClients r) (\<lambda>_. DeleteR r cStatefulSet (mk_meta ''zookeeper'' (k_ns r)))"

definition cleanup :: "'w SFController \<Rightarrow> ('w st, unit) prog" where
  "cleanup r =
     bnd (if zx_Standalone (zu_Executor (sf_Zuul (c_spec r))) = None
          then bnd (GetOrDie (c_k r) cSecret ''zookeeper-client-tls'') (\<lambda>found.
            case found of None \<Rightarrow> nukeZK (c_k r) | Some _ \<Rightarrow> ret ())
          else ret ()) (\<lambda>_.
     bnd (GetOrDie (c_k r) cConfigMap ''zk-clients-need-refresh-config-map'') (\<lambda>found.
     bnd (case found of
            Some zkRefresh \<Rightarrow> bnd (nukeZKClients (c_k r)) (\<lambda>_. DeleteR (c_k r) cConfigMap (cm_meta zkRefresh))
          | None \<Rightarrow> ret ()) (\<lambda>_.
       DeleteSecret (c_k r) ''ca-cert'')))"

section \<open>One step\<close>

definition tooling_data :: "'w SFController \<Rightarrow> smap" where
  "tooling_data r = smap_of
     [(''init-container.sh'', c_static r ''static/zuul/scheduler-init-container.sh''),
      (''generate-zuul-tenant-yaml.sh'', c_static r ''static/zuul/generate-tenant-config.sh''),
      (''reconnect-zk.py'', c_static r ''static/zuul/reconnect-zk.py''),
      (''rotate-keystore.py'', c_static r ''static/zuul/rotate-keystore.py''),
      (''fetch-config-repo.sh'', c_static r ''static/fetch-config-repo.sh''),
      (''hound-search-init.sh'', c_static r ''static/hound-search/hound-search-init.sh''),
      (''hound-search-config.sh'', c_static r ''static/hound-search/hound-search-config.sh''),
      (''hound-search-render.py'', c_static r ''static/hound-search/hound-search-render.py''),
      (''zuul-change-dump.py'', case ParseString (c_k r) (c_static r ''static/zuul/zuul-change-dump.py.tmpl'')
          (TStruct [(''ZuulWebURL'', TText (''https://'' @ sf_FQDN (c_spec r) @ ''/zuul''))]) of
          Inl _ \<Rightarrow> [] | Inr t \<Rightarrow> t)]"

definition EnsureToolingVolume :: "'w SFController \<Rightarrow> ('w st, unit) prog" where
  "EnsureToolingVolume r = bnd (EnsureConfigMap (c_k r) ''zuul-scheduler-tooling'' (Some (tooling_data r))) (\<lambda>_. ret ())"

definition deployStandaloneExectorStep :: "'w SFController \<Rightarrow> ('w, 'c) deploys \<Rightarrow> services \<Rightarrow> ('w st, services) prog" where
  "deployStandaloneExectorStep r d services =
     (let services = fmupd ''Zuul'' False services in
      bnd (for_return (\<lambda>sn. bnd (GetSecret (c_k r) sn) (\<lambda>res. ret (case res of
          Inl e \<Rightarrow> Some e | Inr _ \<Rightarrow> None)))
        [ZuulKeystorePasswordName, ''zuul-ssh-key'', ''zookeeper-client-tls'']) (\<lambda>missing. case missing of
        Some _ \<Rightarrow> ret services
      | None \<Rightarrow> bnd (d_EnsureZuulConfigSecret d True) (\<lambda>cfg. case cfg of
          None \<Rightarrow> ret services
        | Some cfg \<Rightarrow>
            bnd (d_EnsureZuulExecutorService d) (\<lambda>_.
            bnd (d_EnsureZuulExecutor d cfg) (\<lambda>ready. ret (fmupd ''Zuul'' ready services))))))"

definition deployZKAndZuulAndNodepool :: "('w, 'c) deploys \<Rightarrow> services \<Rightarrow> ('w st, services) prog" where
  "deployZKAndZuulAndNodepool d services =
     bnd (d_DeployZookeeper d) (\<lambda>zk.
       let services = fmupd ''Zookeeper'' zk services in
       if \<not> svc_get services ''Zookeeper'' then ret services
       else if \<not> svc_get services ''GitServer'' \<or> \<not> svc_get services ''MariaDB'' then ret services
       else bnd (d_DeployNodepool d) (\<lambda>nodepool.
         let services = fmupd ''NodePoolBuilder'' (svc_get nodepool BuilderIdent)
               (fmupd ''NodePoolLauncher'' (svc_get nodepool LauncherIdent) services) in
         bnd (d_DeployZuul d) (\<lambda>zuul.
           let services = fmupd ''Zuul'' (svc_get zuul ''Zuul'') services in
           ret (if \<not> svc_get services ''Zuul'' then services ++\<^sub>f zuul else services))))"

definition deploySFStep :: "'w SFController \<Rightarrow> ('w, 'c) deploys \<Rightarrow> services \<Rightarrow> ('w st, services) prog" where
  "deploySFStep r d services =
     bnd (d_DeployZuulSecrets d) (\<lambda>_.
     bnd (EnsureToolingVolume r) (\<lambda>_.
     bnd (d_DeployGitServer d) (\<lambda>gs.
     bnd (d_DeployMariadb d) (\<lambda>db.
     bnd (d_DeployLogserver d) (\<lambda>ls.
     bnd (d_DeployHTTPDGateway d) (\<lambda>gw.
       let services = fmupd ''Gateway'' gw (fmupd ''Logserver'' ls (fmupd ''MariaDB'' db (fmupd ''GitServer'' gs services))) in
     bnd (if IsCodesearchEnabled r
          then bnd (d_DeployHoundSearch d) (\<lambda>hs. ret (fmupd ''HoundSearch'' hs services))
          else bnd (d_TerminateHoundSearch d) (\<lambda>_. ret services)) (\<lambda>services.
     bnd (d_EnsureLogJuicer d) (\<lambda>lj.
     bnd (deployZKAndZuulAndNodepool d (fmupd ''LogJuicer'' lj services)) (\<lambda>services.
       if \<not> svc_get services ''Zuul'' \<or> \<not> svc_get services ''Logserver''
       then ret (fmupd ''Config'' False services)
       else bnd (d_SetupConfigJob d) (\<lambda>config.
         bnd (if config then RefreshCondition (c_k r) ''ConfigReady'' ''True'' ''Ready'' ''Config is ready'' else ret ()) (\<lambda>_.
           ret (fmupd ''Config'' config services))))))))))))"

definition Step :: "'w SFController \<Rightarrow> ('w, 'c) deploys \<Rightarrow> ('w st, SoftwareFactoryStatus) prog" where
  "Step r d =
     bnd (cleanup r) (\<lambda>_.
     bnd (validateZuulConnectionsSecrets r) (\<lambda>err.
       if err \<noteq> None
       then bnd (reads st_conditions) (\<lambda>cs.
         ret ((cr_Status (c_cr r))\<lparr>sfs_Ready := False, sfs_Conditions := cs\<rparr>))
       else bnd (if zx_Standalone (zu_Executor (sf_Zuul (c_spec r))) \<noteq> None
                 then deployStandaloneExectorStep r d fmempty
                 else deploySFStep r d fmempty) (\<lambda>services.
         bnd (reads st_conditions) (\<lambda>cs.
           ret \<lparr>sfs_Ready = isOperatorReady services, sfs_ObservedGeneration = om_generation (cr_Meta (c_cr r)),
                sfs_ReconciledBy = GetOperatorConditionName (c_k r), sfs_Conditions = cs\<rparr>))))"

definition DebugService :: "'w SFController \<Rightarrow> string \<Rightarrow> ('w st, unit) prog" where
  "DebugService r debugService =
     (if debugService = ''zuul-executor'' then DebugStatefulSet (c_k r) debugService else panic ''Unknown service'')"

section \<open>Standalone mode\<close>

definition controllerCMName :: string where "controllerCMName = ''sf-standalone-owner''"

text \<open>\<open>GetStandaloneOwner\<close> and \<open>EnsureStandaloneOwner\<close> set the owner; here they return the new context.\<close>

definition GetStandaloneOwner :: "'w kctx \<Rightarrow> ('w st, bool \<times> 'w kctx) prog" where
  "GetStandaloneOwner r = bnd (GetOrDie r cConfigMap controllerCMName) (\<lambda>found. ret (case found of
       Some cm \<Rightarrow> (True, r\<lparr>k_owner := cm_meta cm\<rparr>) | None \<Rightarrow> (False, r)))"

text \<open>\<open>marshal\<close> is the YAML encoder.\<close>

definition EnsureStandaloneOwner :: "(SoftwareFactorySpec \<Rightarrow> string) \<Rightarrow> 'w kctx \<Rightarrow> SoftwareFactorySpec \<Rightarrow>
    ('w st, 'w kctx) prog" where
  "EnsureStandaloneOwner marshal r spec = bnd (GetStandaloneOwner r) (\<lambda>(found, r').
     if \<not> found
     then bnd (client_Create r False cConfigMap
         \<lparr>cm_meta = mk_meta controllerCMName (k_ns r), cm_data = Some (smap_of [(''spec'', marshal spec)])\<rparr>) (\<lambda>res. case res of
           Inl _ \<Rightarrow> exit_with 1
         | Inr controllerCM \<Rightarrow> ret (r'\<lparr>k_owner := cm_meta controllerCM\<rparr>))
     else ret r')"

definition max_attempts_error :: string where
  "max_attempts_error = ''unable to reconcile after max attempts''"

text \<open>What a successful attempt records in the owner's config map.\<close>

definition record_success :: "(SoftwareFactorySpec \<Rightarrow> string) \<Rightarrow> gomap \<Rightarrow> 'w kctx \<Rightarrow> SoftwareFactory \<Rightarrow>
    ('w st, string option) prog" where
  "record_success marshal annotations r sf = bnd (GetOrDie r cConfigMap controllerCMName) (\<lambda>found. case found of
       Some cm \<Rightarrow> bnd (client_Update r False cConfigMap
           (cm\<lparr>cm_data := Some (smap_of [(''spec'', marshal (cr_Spec sf))]),
               cm_meta := (cm_meta cm)\<lparr>om_annotations := annotations\<rparr>\<rparr>)) (\<lambda>res. ret (case res of
             Inl e \<Rightarrow> Some (err_Error e) | Inr _ \<Rightarrow> None))
     | None \<Rightarrow> ret None)"

text \<open>
  The loop: \<open>left\<close> is how many attempts may follow the current one, 59 for the first. The result is
  the error.
\<close>

fun standalone_loop :: "nat \<Rightarrow> 'w kctx \<Rightarrow> ('w st, SoftwareFactoryStatus) prog \<Rightarrow> ('w st, string option) prog \<Rightarrow>
    ('w st, string option) prog" where
  "standalone_loop left r step success = bnd step (\<lambda>status.
     if k_dryRun r then ret None
     else case left of
         0 \<Rightarrow> ret (Some max_attempts_error)
       | Suc n \<Rightarrow> if sfs_Ready status then success
           else bnd (sysc (s_sleep (k_sys r) (5 * second))) (\<lambda>_. standalone_loop n r step success))"

definition maxAttempt :: nat where "maxAttempt = 60"

text \<open>
  \<open>impl\<close> gives the deploy operations of a controller, \<open>version\<close> is what \<open>utils.GetVersion\<close> returns.
\<close>

definition StandaloneReconcile :: "(SoftwareFactorySpec \<Rightarrow> string) \<Rightarrow> string \<Rightarrow> (string \<Rightarrow> string) \<Rightarrow>
    ('w SFController \<Rightarrow> ('w, 'c) deploys) \<Rightarrow> 'w kctx \<Rightarrow> SoftwareFactory \<Rightarrow> ('w st, string option) prog" where
  "StandaloneReconcile marshal version static impl r sf =
     bnd (sysc (s_now (k_sys r))) (\<lambda>now.
     bnd (EnsureStandaloneOwner marshal r (cr_Spec sf)) (\<lambda>r'.
     bnd (MkSFController static r' sf) (\<lambda>sfCtrl.
       standalone_loop (maxAttempt - 1) r' (Step sfCtrl (impl sfCtrl))
         (record_success marshal (Some (smap_of [(''sf-operator-version'', version),
            (''last-reconcile'', Itoa (now div second))])) r' sf))))"

section \<open>Lemmas\<close>

lemma svc_get_upd [simp]: "svc_get (fmupd n b m) k = (if k = n then b else svc_get m k)"
  by (simp add: svc_get_def)

lemma isOperatorReady_iff: "isOperatorReady m \<longleftrightarrow> (\<forall>n \<in> fmdom' m. svc_get m n)"
  by (auto simp: isOperatorReady_def svc_get_def fmpred_iff fmlookup_dom'_iff split: option.splits)

lemma isOperatorReady_upd: "isOperatorReady (fmupd n b m) \<Longrightarrow> b"
  unfolding isOperatorReady_iff by (metis fmdom'_fmupd insertI1 svc_get_upd)

text \<open>
  The services that a complete deployment reports. A map that reports one of them as not ready is
  not ready, and the reports are made in an order in which the last one made implies the others.
\<close>

definition core_services :: "string list" where
  "core_services = [''GitServer'', ''MariaDB'', ''Logserver'', ''Gateway'', ''LogJuicer'', ''Zookeeper'',
     ''NodePoolLauncher'', ''NodePoolBuilder'', ''Zuul'', ''Config'']"

lemma ready_reported: "isOperatorReady m \<Longrightarrow> fmlookup m n \<noteq> None \<Longrightarrow> fmlookup m n = Some True"
  unfolding isOperatorReady_def by (cases "fmlookup m n") (auto dest: fmpredD)

text \<open>The only way to a ready Zuul goes through a ready ZooKeeper, git server and database.\<close>

definition zuul_map :: "bool \<Rightarrow> bool \<Rightarrow> services \<Rightarrow> services" where
  "zuul_map launcher builder m = fmupd ''Zuul'' True (fmupd ''NodePoolBuilder'' builder
     (fmupd ''NodePoolLauncher'' launcher (fmupd ''Zookeeper'' True m)))"

lemma deployZK_yields:
  assumes "fmlookup m ''Zuul'' = None"
  shows "yields (\<lambda>m'. svc_get m' ''Zuul'' \<longrightarrow> svc_get m ''GitServer'' \<and> svc_get m ''MariaDB'' \<and> (\<exists>l b. m' = zuul_map l b m))
    (deployZKAndZuulAndNodepool d m)"
  unfolding deployZKAndZuulAndNodepool_def Let_def
proof (rule yields_then, intro yields_if yields_ret yields_then impI, goal_cases)
  case (1 zk)
  then show ?case using assms by (simp add: svc_get_def)
next
  case (2 zk)
  then show ?case using assms by (simp add: svc_get_def)
next
  case (3 zk np zuul)
  then show ?case
    by (cases "svc_get zuul ''Zuul''") (auto simp: zuul_map_def svc_get_def split: option.splits if_splits)
qed

text \<open>The map after the backing services: they are reported, Zuul is not.\<close>

definition backing :: "services \<Rightarrow> bool" where
  "backing m \<longleftrightarrow> fmlookup m ''GitServer'' \<noteq> None \<and> fmlookup m ''MariaDB'' \<noteq> None \<and> fmlookup m ''Logserver'' \<noteq> None \<and>
     fmlookup m ''Gateway'' \<noteq> None \<and> fmlookup m ''Zuul'' = None"

lemma ready_complete:
  assumes "backing m" and "isOperatorReady (fmupd ''Config'' c (zuul_map l b (fmupd ''LogJuicer'' lj m)))"
  shows "\<forall>n \<in> set core_services. fmlookup (fmupd ''Config'' c (zuul_map l b (fmupd ''LogJuicer'' lj m))) n = Some True"
proof
  fix n assume "n \<in> set core_services"
  then have "fmlookup (fmupd ''Config'' c (zuul_map l b (fmupd ''LogJuicer'' lj m))) n \<noteq> None"
    using assms(1) unfolding core_services_def set_simps zuul_map_def backing_def
    by (elim insertE emptyE) simp_all
  with assms(2) show "fmlookup (fmupd ''Config'' c (zuul_map l b (fmupd ''LogJuicer'' lj m))) n = Some True"
    by (rule ready_reported)
qed

lemma deploySFStep_yields:
  "yields (\<lambda>services. isOperatorReady services \<longrightarrow> (\<forall>n \<in> set core_services. fmlookup services n = Some True))
     (deploySFStep r d fmempty)"
  unfolding deploySFStep_def Let_def
proof (rule yields_then, rule yields_then, rule yields_then, rule yields_then, rule yields_then, rule yields_then,
    rule yields_bnd [where Q = backing], goal_cases)
  case 1
  show ?case by (intro yields_if yields_then yields_ret) (simp_all add: backing_def)
next
  case (2 _ _ _ _ _ _ m)
  then have "fmlookup (fmupd ''LogJuicer'' lj m) ''Zuul'' = None" for lj
    by (simp add: backing_def)
  note zk = deployZK_yields [OF this, of _ d]
  show ?case
  proof (rule yields_then, rule yields_bnd [OF zk], intro yields_if yields_ret yields_then, goal_cases)
    case (2 lj services config)
    then obtain l b where "services = zuul_map l b (fmupd ''LogJuicer'' lj m)" by blast
    with ready_complete [OF \<open>backing m\<close>] show ?case by blast
  qed (use isOperatorReady_upd in blast)
qed

section \<open>The order of the deployment\<close>

lemma bnd_cong_both: "m = m' \<Longrightarrow> yields Q m' \<Longrightarrow> (\<And>x. Q x \<Longrightarrow> f x = g x) \<Longrightarrow> bnd m f = bnd m' g"
  by (rule ext) (fastforce simp: bnd_def yields_def split: prod.split outcome.split)

lemma bnd_cong_yields: "yields Q m \<Longrightarrow> (\<And>x. Q x \<Longrightarrow> f x = g x) \<Longrightarrow> bnd m f = bnd m g"
  by (rule ext) (fastforce simp: bnd_def yields_def split: prod.split outcome.split)

text \<open>Zuul and Nodepool are not touched before the git server and the database are ready.\<close>

lemma deployZK_waits:
  assumes "\<not> (svc_get m ''GitServer'' \<and> svc_get m ''MariaDB'')"
  shows "deployZKAndZuulAndNodepool (d\<lparr>d_DeployNodepool := np, d_DeployZuul := zuul\<rparr>) m = deployZKAndZuulAndNodepool d m"
  using assms unfolding deployZKAndZuulAndNodepool_def Let_def
  by (intro bnd_cong_both [OF _ yields_True]) auto

lemma deployZK_no_zk:
  assumes "yields (\<lambda>zk. \<not> zk) (d_DeployZookeeper d)"
  shows "deployZKAndZuulAndNodepool (d\<lparr>d_DeployNodepool := np, d_DeployZuul := zuul\<rparr>) m = deployZKAndZuulAndNodepool d m"
  unfolding deployZKAndZuulAndNodepool_def Let_def
  by (intro bnd_cong_both [OF _ assms]) simp_all

text \<open>The config jobs are not set up before Zuul and the log server are ready.\<close>

lemma deploySFStep_config_waits:
  assumes "yields (\<lambda>ls. \<not> ls) (d_DeployLogserver d)" and "fmlookup m ''Zuul'' = None"
  shows "deploySFStep r (d\<lparr>d_SetupConfigJob := job\<rparr>) m = deploySFStep r d m"
proof -
  have zk: "yields (\<lambda>m'. svc_get m' ''Zuul'' \<longrightarrow> svc_get m' ''Logserver'' = svc_get m1 ''Logserver'')
      (deployZKAndZuulAndNodepool d m1)" if "fmlookup m1 ''Zuul'' = None" for m1
    by (rule yields_mono [OF deployZK_yields [OF that]]) (auto simp: zuul_map_def)
  have same: "deployZKAndZuulAndNodepool (d\<lparr>d_SetupConfigJob := job\<rparr>) = deployZKAndZuulAndNodepool d"
    by (rule ext) (simp add: deployZKAndZuulAndNodepool_def Let_def cong: if_cong)
  have sel: "d_DeployZuulSecrets (d\<lparr>d_SetupConfigJob := job\<rparr>) = d_DeployZuulSecrets d"
      "d_DeployGitServer (d\<lparr>d_SetupConfigJob := job\<rparr>) = d_DeployGitServer d"
      "d_DeployMariadb (d\<lparr>d_SetupConfigJob := job\<rparr>) = d_DeployMariadb d"
      "d_DeployLogserver (d\<lparr>d_SetupConfigJob := job\<rparr>) = d_DeployLogserver d"
      "d_DeployHTTPDGateway (d\<lparr>d_SetupConfigJob := job\<rparr>) = d_DeployHTTPDGateway d"
      "d_DeployHoundSearch (d\<lparr>d_SetupConfigJob := job\<rparr>) = d_DeployHoundSearch d"
      "d_TerminateHoundSearch (d\<lparr>d_SetupConfigJob := job\<rparr>) = d_TerminateHoundSearch d"
      "d_EnsureLogJuicer (d\<lparr>d_SetupConfigJob := job\<rparr>) = d_EnsureLogJuicer d"
    by simp_all
  let ?Q = "\<lambda>m1. fmlookup m1 ''Zuul'' = None \<and> \<not> svc_get m1 ''Logserver''"
  have hound: "\<not> ls \<Longrightarrow> yields ?Q (if IsCodesearchEnabled r then bnd (d_DeployHoundSearch d) (\<lambda>hs. ret (fmupd ''HoundSearch'' hs
        (fmupd ''Gateway'' gw (fmupd ''Logserver'' ls (fmupd ''MariaDB'' db (fmupd ''GitServer'' gs m))))))
      else bnd (d_TerminateHoundSearch d) (\<lambda>_. ret (fmupd ''Gateway'' gw (fmupd ''Logserver'' ls (fmupd ''MariaDB'' db (fmupd ''GitServer'' gs m))))))"
    for gs db ls gw using assms(2) by (intro yields_if yields_then yields_ret) simp_all
  show ?thesis
    unfolding deploySFStep_def Let_def same sel
  proof (rule bnd_cong_yields [OF yields_True], rule bnd_cong_yields [OF yields_True],
      rule bnd_cong_yields [OF yields_True], rule bnd_cong_yields [OF yields_True], rule bnd_cong_yields [OF assms(1)], rule bnd_cong_yields [OF yields_True],
      rule bnd_cong_yields [OF hound], assumption, rule bnd_cong_yields [OF yields_True], goal_cases)
    case (1 _ _ gs db ls gw m1 lj)
    then have "yields (\<lambda>m'. svc_get m' ''Zuul'' \<longrightarrow> \<not> svc_get m' ''Logserver'')
        (deployZKAndZuulAndNodepool d (fmupd ''LogJuicer'' lj m1))"
      using zk [of "fmupd ''LogJuicer'' lj m1"] by (auto elim!: yields_mono)
    then show ?case by (rule bnd_cong_yields) auto
  qed
qed

section \<open>The steps of the standalone loop\<close>

text \<open>\<open>failing r step n s t\<close>: from \<open>s\<close>, \<open>n\<close> attempts that are not ready, each followed by the pause, lead to \<open>t\<close>.\<close>

inductive failing :: "'w kctx \<Rightarrow> ('w st, SoftwareFactoryStatus) prog \<Rightarrow> nat \<Rightarrow> 'w st \<Rightarrow> 'w st \<Rightarrow> bool"
  for r :: "'w kctx" and step :: "('w st, SoftwareFactoryStatus) prog" where
  failing_0: "failing r step 0 s s"
| failing_Suc: "step s = (Ok status, t) \<Longrightarrow> \<not> sfs_Ready status \<Longrightarrow>
    sysc (s_sleep (k_sys r) (5 * second)) t = (Ok u, t') \<Longrightarrow> failing r step n t' v \<Longrightarrow> failing r step (Suc n) s v"

declare standalone_loop.simps [simp del]

lemma failing_loop:
  assumes "failing r step n s t" and "\<not> k_dryRun r"
  shows "standalone_loop (n + left) r step success s = standalone_loop left r step success t"
  using assms(1)
proof (induction rule: failing.induct)
  case (failing_Suc s status t u t' n v)
  then show ?case
    by (subst standalone_loop.simps) (simp add: bnd_def assms(2))
qed simp

lemma standalone_loop_ready:
  "\<not> k_dryRun r \<Longrightarrow> step s = (Ok status, t) \<Longrightarrow> sfs_Ready status \<Longrightarrow>
     standalone_loop (Suc n) r step success s = success t"
  by (subst standalone_loop.simps) (simp add: bnd_def)

lemma standalone_loop_last:
  "\<not> k_dryRun r \<Longrightarrow> step s = (Ok status, t) \<Longrightarrow> standalone_loop 0 r step success s = (Ok (Some max_attempts_error), t)"
  by (subst standalone_loop.simps) (simp add: bnd_def)

lemma unstuck_standalone_loop: "unstuck step \<Longrightarrow> unstuck success \<Longrightarrow> unstuck (standalone_loop n r step success)"
proof (induction n)
  case 0
  then show ?case by (subst standalone_loop.simps) (intro unstuck_intros, simp_all)
next
  case (Suc n)
  then show ?case by (subst standalone_loop.simps) (auto intro!: unstuck_intros)
qed

end
