(* ===== verification/Zuul.thy ===== *)
theory Zuul
  imports Zuul_Conf Reconcile
begin

text \<open>
  The services of Zuul, \<open>controllers/zuul.go\<close>: the container, the volumes and the annotations they
  share, the scheduler, the executor, the merger and the web service, and \<open>DeployZuul\<close>. The pod
  specs point to the package variable \<open>base.DefaultPodSecurityContext\<close> (\<open>st_podSC\<close>): the two places
  that write through that pointer change it for every pod that is built later.
\<close>

definition zuulExecutorPortName :: string where "zuulExecutorPortName = ''finger''"
definition zuulExecutorPort :: int where "zuulExecutorPort = 7900"
definition ZuulPrometheusPortName :: string where "ZuulPrometheusPortName = ''zuul-metrics''"

definition commonIniConfigSections :: "string list" where
  "commonIniConfigSections = [''zookeeper'', ''keystore'', ''database'']"

definition zuulFluentBitLabels :: "FluentBitLabel list" where
  "zuulFluentBitLabels = [\<lparr>fl_Key = ''COMPONENT'', fl_Value = ''zuul''\<rparr>]"

section \<open>Parts of the pods\<close>

definition privileged :: "bool \<Rightarrow> container \<Rightarrow> container" where
  "privileged openshiftUser c = c\<lparr>ct_securityContext := Some (MkSecurityContext True openshiftUser)\<rparr>"

definition enableZuulLocalSource :: "string \<Rightarrow> bool \<Rightarrow> bool \<Rightarrow> pod_template \<Rightarrow> ('w st, pod_template) prog" where
  "enableZuulLocalSource zuulSourceHostPath withInitContainer openshiftUser template =
     bnd (modify (\<lambda>s. s\<lparr>st_podSC := (st_podSC s)\<lparr>psc_runAsNonRoot := Some False\<rparr>\<rparr>)) (\<lambda>_.
     bnd (reads st_podSC) (\<lambda>psc.
       let template = template_main (\<lambda>c. (privileged openshiftUser c)\<lparr>ct_volumeMounts := ct_volumeMounts c @
             [mk_mount ''host-mount'' ''/usr/local/lib/python3.11/site-packages/zuul'']\<rparr>)
           (template_spec (\<lambda>p. p\<lparr>ps_securityContext := Some psc, ps_volumes := ps_volumes p @
             [\<lparr>vo_name = ''host-mount'', vo_source = HostPathVolume zuulSourceHostPath\<rparr>]\<rparr>) template);
         template = (if withInitContainer
           then template_spec (\<lambda>p. p\<lparr>ps_initContainers := upd_head (privileged openshiftUser) (ps_initContainers p)\<rparr>) template
           else template)
       in ret (template_annotated (fmupd ''zuul-local-source'' ''true'' (gm_fm (om_annotations (pt_meta template)))) template)))"

definition local_source :: "'w SFController \<Rightarrow> bool \<Rightarrow> pod_template \<Rightarrow> ('w st, pod_template) prog" where
  "local_source r withInitContainer template =
     (let path = (case GetEnvVarValue (c_k r) ''ZUUL_LOCAL_SOURCE'' of Inl _ \<Rightarrow> [] | Inr p \<Rightarrow> p) in
      if path \<noteq> [] then enableZuulLocalSource path withInitContainer (k_isOpenShift (c_k r)) template else ret template)"

definition isStatefulset :: "string \<Rightarrow> bool" where
  "isStatefulset service \<longleftrightarrow> service = ''zuul-scheduler'' \<or> service = ''zuul-executor'' \<or> service = ''zuul-merger''"

definition getZuulImage :: "string \<Rightarrow> ('s, string) prog" where
  "getZuulImage service =
     (if service = ''zuul-scheduler'' then ZuulSchedulerImage
      else if service = ''zuul-executor'' then ZuulExecutorImage
      else if service = ''zuul-merger'' then ZuulMergerImage
      else if service = ''zuul-web'' then ZuulWebImage
      else panic ''unsupported zuul service'')"

definition mkZuulLoggingMount :: "string \<Rightarrow> volume_mount" where
  "mkZuulLoggingMount service = mount_sub ''zuul-logging-config'' (''/var/lib/zuul/'' @ service @ ''-logging.yaml'') (service @ ''-logging.yaml'')"

text \<open>
  The secrets of the connections: \<open>added\<close> holds the names that were taken already, for both kinds
  of connections.
\<close>

fun take_new :: "('c \<Rightarrow> bool) \<Rightarrow> ('c \<Rightarrow> string) \<Rightarrow> 'c list \<Rightarrow> string list \<Rightarrow> 'c list \<times> string list" where
  "take_new p key [] added = ([], added)"
| "take_new p key (c # cs) added = (if p c \<and> key c \<notin> set added
     then (let (cs', added') = take_new p key cs (added @ [key c]) in (c # cs', added'))
     else take_new p key cs added)"

definition mkZuulConnectionsSecretsMount :: "ZuulSpec \<Rightarrow> volume_mount list" where
  "mkZuulConnectionsSecretsMount zuul =
     (let (github, added) = take_new (\<lambda>c. 0 < gh_AppID c) gh_Secrets (zu_GitHubConns zuul) [];
          (gerrit, _) = take_new (\<lambda>c. ge_Sshkey c \<noteq> []) ge_Sshkey (zu_GerritConns zuul) added
      in map (\<lambda>c. mount_sub (gh_Secrets c) (''/var/lib/zuul/'' @ gh_Secrets c @ ''/app_key'') ''app_key'') github @
         map (\<lambda>c. mk_mount (''zuul-ssh-key-'' @ ge_Sshkey c) (''/var/lib/zuul-'' @ ge_Sshkey c @ ''/'')) gerrit)"

definition mkZuulConnectionSecretsVolumes :: "ZuulSpec \<Rightarrow> volume list" where
  "mkZuulConnectionSecretsVolumes zuul =
     (let (github, added) = take_new (\<lambda>c. gh_Secrets c \<noteq> []) gh_Secrets (zu_GitHubConns zuul) [];
          (gerrit, _) = take_new (\<lambda>c. ge_Sshkey c \<noteq> []) ge_Sshkey (zu_GerritConns zuul) added
      in map (\<lambda>c. MkVolumeSecret (gh_Secrets c) []) github @
         map (\<lambda>c. \<lparr>vo_name = ''zuul-ssh-key-'' @ ge_Sshkey c, vo_source = SecretVolume (ge_Sshkey c) [] (Some Readmod)\<rparr>) gerrit)"

definition getTenantsEnvs :: "'w SFController \<Rightarrow> env_var list" where
  "getTenantsEnvs r = (let loc = sf_ConfigRepositoryLocation (c_spec r) in
     if isConfigRepoSet r
     then [MkEnvVar ''CONFIG_REPO_SET'' ''TRUE'', MkEnvVar ''CONFIG_REPO_BASE_URL'' (TrimSuffix (c_configBaseURL r) ''/''),
           MkEnvVar ''CONFIG_REPO_NAME'' (crl_Name loc), MkEnvVar ''CONFIG_REPO_CONNECTION_NAME'' (crl_ZuulConnectionName loc),
           MkEnvVar ''CONFIG_REPO_BRANCH'' (if crl_Branch loc = [] then ''main'' else crl_Branch loc)]
     else [MkEnvVar ''CONFIG_REPO_SET'' ''FALSE''])"

definition tool_mount :: "string \<Rightarrow> volume_mount" where
  "tool_mount script = mount_ro_sub ''tooling-vol'' (''/usr/local/bin/'' @ script) script"

definition zuul_mounts :: "'w SFController \<Rightarrow> string \<Rightarrow> bool \<Rightarrow> volume_mount list" where
  "zuul_mounts r service corporateCMExists =
     [mount_ro ''zuul-config'' ''/etc/zuul'', mount_ro ''zookeeper-client-tls'' ''/tls/client'', mk_mount service ''/var/lib/zuul'',
      mount_ro ''zuul-ssh-key'' ''/var/lib/zuul-ssh'',
      mount_ro_sub ''extra-config'' ''/etc/ssh/ssh_config.d/99-sf-operator.conf'' ''ssh_config'',
      mk_mount ''zuul-ca'' TrustedCAExtractedMountPath] @
     (if service = ''zuul-scheduler''
      then map tool_mount [''generate-zuul-tenant-yaml.sh'', ''fetch-config-repo.sh'', ''zuul-change-dump.py'', ''reconnect-zk.py'']
      else []) @
     [mkZuulLoggingMount service] @ mkZuulConnectionsSecretsMount (sf_Zuul (c_spec r)) @
     (if corporateCMExists then [mk_mount (service @ ''-corporate-ca-certs'') UpdateCATrustAnchorsPath] else [])"

definition mkZuulContainer :: "'w SFController \<Rightarrow> string \<Rightarrow> bool \<Rightarrow> ('s, container) prog" where
  "mkZuulContainer r service corporateCMExists =
     bnd (getZuulImage service) (\<lambda>img.
       let c = SetContainerLimitsHighProfile (zero_container\<lparr>ct_name := service, ct_image := img,
           ct_command := [''/usr/local/bin/dumb-init'', ''-c'', ''--'', ''bash'', ''-c'',
             UpdateCATrustCommand @ '' && '' @ ''git config --global --add safe.directory '' @ [CHR 0x27] @ ''*'' @ [CHR 0x27] @ '' && '' @
             ''exec /usr/local/bin/'' @ service @ '' -f -d''],
           ct_env := [MkEnvVar ''REQUESTS_CA_BUNDLE'' ''/etc/ssl/certs/ca-bundle.crt'', MkEnvVar ''HOME'' ''/var/lib/zuul''] @
             (if service = ''zuul-scheduler'' then getTenantsEnvs r else []),
           ct_volumeMounts := zuul_mounts r service corporateCMExists,
           ct_securityContext := Some (MkSecurityContext False (k_isOpenShift (c_k r)))\<rparr>)
       in ret (if service = ''zuul-scheduler''
         then c\<lparr>ct_command := [''/usr/local/bin/dumb-init'', ''-c'', ''--'', ''/usr/local/bin/zuul-scheduler'', ''-f'', ''-d'']\<rparr> else c))"

definition zuul_logging :: "'w SFController \<Rightarrow> string \<Rightarrow> string \<Rightarrow> string \<Rightarrow> string" where
  "zuul_logging r service tag level = parsed (c_k r) (c_static r ''static/zuul/logging.yaml.tmpl'')
     (logging_data (CreateBaseLoggingExtraKeys service ''zuul'' service (k_ns (c_k r)))
       ((CreateForwarderConfigTemplateParams tag (sf_FluentBitLogForwarding (c_spec r)))\<lparr>tl_LogLevel := if level \<noteq> [] then level else ''INFO''\<rparr>))"

definition computeLoggingConfig :: "'w SFController \<Rightarrow> smap" where
  "computeLoggingConfig r = (let zuul = sf_Zuul (c_spec r) in smap_of
     [(''zuul-executor-logging.yaml'', zuul_logging r ''zuul-executor'' ''zuul.executor'' (zx_LogLevel (zu_Executor zuul))),
      (''zuul-scheduler-logging.yaml'', zuul_logging r ''zuul-scheduler'' ''zuul.scheduler'' (zs_LogLevel (zu_Scheduler zuul))),
      (''zuul-web-logging.yaml'', zuul_logging r ''zuul-web'' ''zuul.web'' (zw_LogLevel (zu_Web zuul))),
      (''zuul-merger-logging.yaml'', zuul_logging r ''zuul-merger'' ''zuul.merger'' (zm_LogLevel (zu_Merger zuul)))])"

definition getZuulLoggingString :: "'w SFController \<Rightarrow> string \<Rightarrow> string" where
  "getZuulLoggingString r service = gm_get (Some (computeLoggingConfig r)) (service @ ''-logging.yaml'')"

definition zuul_volumes :: "'w SFController \<Rightarrow> string \<Rightarrow> bool \<Rightarrow> volume list" where
  "zuul_volumes r service corporateCMExists =
     (let volumes = [MkVolumeSecret ''zuul-config'' [], MkVolumeSecret ''zookeeper-client-tls'' [],
            MkVolumeCM ''zuul-logging-config'' ''zuul-logging-config-map'',
            \<lparr>vo_name = ''zuul-ssh-key'', vo_source = SecretVolume ''zuul-ssh-key'' [] (Some Readmod)\<rparr>,
            MkVolumeCM ''statsd-config'' ''zuul-statsd-config-map'', MkVolumeCM ''extra-config'' ''zuul-extra-config-map'',
            MkVolumeCM ''extra-python-module'' ''extra-python-module-config-map'', MkEmptyDirVolume ''zuul-ca''] @
          (if isStatefulset service then [] else [MkEmptyDirVolume service]);
          volumes = (if service = ''zuul-scheduler'' then AppendToolingVolume volumes else volumes)
      in volumes @ mkZuulConnectionSecretsVolumes (sf_Zuul (c_spec r)) @
         (if corporateCMExists then [MkVolumeCM (service @ ''-corporate-ca-certs'') CorporateCACerts] else []))"

definition mkZuulVolumes :: "string \<Rightarrow> 'w SFController \<Rightarrow> bool \<Rightarrow> ('w st, volume list) prog" where
  "mkZuulVolumes service r corporateCMExists =
     bnd (EnsureConfigMap (c_k r) ''zuul-extra'' (Some (smap_of [(''ssh_config'', c_static r ''static/zuul/ssh_config'')]))) (\<lambda>_.
     bnd (EnsureConfigMap (c_k r) ''zuul-statsd'' (Some (smap_of [(StatsdExporterConfigFile, c_static r ''static/zuul/statsd_mapping.yaml'')]))) (\<lambda>_.
     bnd (EnsureConfigMap (c_k r) ''zuul-logging'' (Some (computeLoggingConfig r))) (\<lambda>_.
       ret (zuul_volumes r service corporateCMExists))))"

text \<open>The annotations that the four services share; \<open>sections\<close> are those the service reads.\<close>

definition zuul_annotations :: "'w SFController \<Rightarrow> ini \<Rightarrow> string \<Rightarrow> string list \<Rightarrow> string \<Rightarrow> configmap option \<Rightarrow> ('s, smap) prog" where
  "zuul_annotations r cfg service sections serial corporateCM = (let k = c_k r in
     bnd (IniSectionsChecksum k cfg commonIniConfigSections) (\<lambda>common.
     bnd (IniSectionsChecksum k cfg sections) (\<lambda>component.
     bnd (IniSectionsChecksum k cfg (IniGetSectionNamesByPrefix cfg ''connection'')) (\<lambda>connections.
       ret (smap_of [(''zuul-common-config'', common), (''zuul-component-config'', component), (''serial'', serial),
         (''zuul-logging'', Checksum k (getZuulLoggingString r service)), (''zuul-connections'', connections),
         (''corporate-ca-certs-version'', getCMVersion corporateCM)])))))"

definition zuul_forwarding :: "'w SFController \<Rightarrow> string \<Rightarrow> smap \<Rightarrow> smap \<times> env_var list" where
  "zuul_forwarding r service annotations = SetupLogForwarding service (sf_FluentBitLogForwarding (c_spec r))
     (zuulFluentBitLabels @ [\<lparr>fl_Key = ''CONTAINER'', fl_Value = service\<rparr>]) annotations"

definition run_as :: "int \<Rightarrow> container \<Rightarrow> container" where
  "run_as uid c = c\<lparr>ct_securityContext := map_option (\<lambda>s. s\<lparr>sc_runAsUser := Some uid\<rparr>) (ct_securityContext c)\<rparr>"

definition run_as_unless_openshift :: "'w SFController \<Rightarrow> container \<Rightarrow> container" where
  "run_as_unless_openshift r c = (if k_isOpenShift (c_k r) then c else run_as 1001 c)"

section \<open>Scheduler\<close>

definition scheduler_annotations :: "'w SFController \<Rightarrow> smap \<Rightarrow> smap" where
  "scheduler_annotations r a = (let k = c_k r; loc = sf_ConfigRepositoryLocation (c_spec r);
       a = fmupd ''zuul-extra'' (Checksum k (c_static r ''static/zuul/ssh_config''))
         (fmupd ''statsd_mapping'' (Checksum k (c_static r ''static/zuul/statsd_mapping.yaml'')) a);
       a = (if isConfigRepoSet r then fmupd ''config-repo-info-hash''
         (crl_ZuulConnectionName loc @ '':'' @ c_configBaseURL r @ crl_Name loc @ crl_Branch loc) a else a)
     in fmupd ''limits'' (limits_text (zs_Limits (zu_Scheduler (sf_Zuul (c_spec r))))) a)"

definition scheduler_init :: "'w SFController \<Rightarrow> string \<Rightarrow> bool \<Rightarrow> container" where
  "scheduler_init r img corporateCMExists =
     (let mounts = [mk_mount ''zuul-scheduler'' ''/var/lib/zuul'', tool_mount ''init-container.sh'', tool_mount ''fetch-config-repo.sh'',
            tool_mount ''generate-zuul-tenant-yaml.sh'', mk_mount ''zuul-ca'' TrustedCAExtractedMountPath]
      in SetContainerLimitsLowProfile ((MkContainer ''init-scheduler-config'' img (k_isOpenShift (c_k r)))\<lparr>
        ct_command := [''/usr/local/bin/init-container.sh''],
        ct_env := getTenantsEnvs r @ [MkEnvVar ''HOME'' ''/var/lib/zuul'', MkEnvVar ''INIT_CONTAINER'' ''1''],
        ct_volumeMounts := (if corporateCMExists then AppendCorporateCACertsVolumeMount mounts ''zuul-scheduler-corporate-ca-certs''
          else mounts)\<rparr>))"

definition scheduler_main :: "'w SFController \<Rightarrow> container \<Rightarrow> container" where
  "scheduler_main r c = (run_as_unless_openshift r c)\<lparr>
     ct_readinessProbe := Some (MkReadinessHTTPProbe ''/health/ready'' zuulPrometheusPort),
     ct_livenessProbe := Some (MkLiveHTTPProbe ''/health/live'' zuulPrometheusPort),
     ct_startupProbe := Some (SlowStartingProbe (MkStartupHTTPProbe ''/health/ready'' zuulPrometheusPort)),
     ct_ports := [MkContainerPort zuulPrometheusPort ZuulPrometheusPortName]\<rparr>"

definition scheduler_sts :: "'w SFController \<Rightarrow> pod_security_context \<Rightarrow> container list \<Rightarrow> container \<Rightarrow> volume list \<Rightarrow> smap \<Rightarrow> statefulset" where
  "scheduler_sts r psc containers initContainer volumes annotations = (let k = c_k r; spec = c_spec r in
     sts_template (\<lambda>t. template_annotated annotations (template_hosts spec (template_main (scheduler_main r)
       (template_spec (\<lambda>p. p\<lparr>ps_initContainers := [initContainer], ps_containers := containers, ps_volumes := volumes\<rparr>) t))))
     (mkStatefulSet k psc ''zuul-scheduler'' [] (getStorageConfOrDefault r (zs_Storage (zu_Scheduler (sf_Zuul spec))))
        ''ReadWriteOnce'' (sf_ExtraLabels spec) (k_isOpenShift k) []))"

definition EnsureZuulScheduler :: "'w SFController \<Rightarrow> ini \<Rightarrow> ('w st, bool) prog" where
  "EnsureZuulScheduler r cfg = (let k = c_k r; zs = zu_Scheduler (sf_Zuul (c_spec r)) in
     bnd (CorporateCAConfigMapExists k) (\<lambda>corporateCM.
     bnd (zuul_annotations r cfg ''zuul-scheduler'' (IniGetSectionNamesByPrefix cfg ''connection'' @
        IniGetSectionNamesByPrefix cfg ''auth'' @ [''scheduler'']) ''13'' corporateCM) (\<lambda>base.
     bnd (mkZuulContainer r ''zuul-scheduler'' (corporateCM \<noteq> None)) (\<lambda>c.
       let (annotations, extraEnv) = zuul_forwarding r ''zuul-scheduler'' (scheduler_annotations r base);
           zuulContainer = (limited (zs_Limits zs) c)\<lparr>ct_env := ct_env c @ extraEnv\<rparr> in
     bnd (MkStatsdExporterSideCarContainer ''zuul'' ''statsd-config''
        (if zs_StatsdTarget zs \<noteq> [] then Some (zs_StatsdTarget zs) else None) (k_isOpenShift k)) (\<lambda>statsdSidecar.
     bnd (MkNodeExporterSideCarContainer ''zuul-scheduler'' [mk_mount ''zuul-scheduler'' ''/var/lib/zuul''] (k_isOpenShift k)) (\<lambda>nodeExporter.
     bnd (getZuulImage ''zuul-scheduler'') (\<lambda>initImg.
     bnd (mkZuulVolumes ''zuul-scheduler'' r (corporateCM \<noteq> None)) (\<lambda>volumes.
     bnd (reads st_podSC) (\<lambda>psc.
       let zs = scheduler_sts r psc [zuulContainer, statsdSidecar, nodeExporter] (scheduler_init r initImg (corporateCM \<noteq> None)) volumes annotations in
     bnd (local_source r True (ss_template zs)) (\<lambda>template.
     bnd (ensureStatefulset k (zs\<lparr>ss_template := template\<rparr>) None) (\<lambda>(current, changed).
     if changed then ret False
     else
       bnd (waitStatefulset k current) (\<lambda>(ready, _).
       bnd (UpdateConditions k ''zuul-scheduler'' ready) (\<lambda>_.
         if ready then EnsureZuulWeeder r (gm_get (Some annotations) ''zuul-connections'') else ret ready)))))))))))))"

section \<open>Executor\<close>

definition IsExecutorEnabled :: "'w SFController \<Rightarrow> bool" where
  "IsExecutorEnabled r \<longleftrightarrow> zx_Enabled (zu_Executor (sf_Zuul (c_spec r))) \<noteq> Some False"

definition executor_main :: "'w SFController \<Rightarrow> env_var list \<Rightarrow> container \<Rightarrow> container" where
  "executor_main r extraEnv c = (let k = c_k r;
       sc = (MkSecurityContext (\<not> k_hasProcMount k) (k_isOpenShift k))\<lparr>sc_runAsUser := Some (if k_isOpenShift k then 1000 else 65534)\<rparr>
     in c\<lparr>ct_env := ct_env c @ extraEnv,
       ct_readinessProbe := Some (MkReadinessHTTPProbe ''/health/ready'' zuulPrometheusPort),
       ct_livenessProbe := Some (MkReadinessHTTPProbe ''/health/live'' zuulPrometheusPort),
       ct_ports := [MkContainerPort zuulPrometheusPort ZuulPrometheusPortName, MkContainerPort zuulExecutorPort zuulExecutorPortName],
       ct_securityContext := Some (if k_hasProcMount k then sc\<lparr>sc_procMount := Some ''Unmasked'', sc_seccompProfile := None\<rparr> else sc)\<rparr>)"

definition executor_sts :: "'w SFController \<Rightarrow> pod_security_context \<Rightarrow> container list \<Rightarrow> volume list \<Rightarrow> smap \<Rightarrow> statefulset" where
  "executor_sts r psc containers volumes annotations = (let k = c_k r; spec = c_spec r; ze = zu_Executor (sf_Zuul spec);
       annotations = (if k_hasProcMount k then fmupd ''io.kubernetes.cri-o.userns-mode'' ''auto'' annotations else annotations) in
     sts_template (\<lambda>t. template_hosts spec (template_annotated annotations
       (template_spec (\<lambda>p. p\<lparr>ps_containers := containers, ps_volumes := volumes,
          ps_hostUsers := (if k_hasProcMount k then Some False else ps_hostUsers p),
          ps_terminationGracePeriodSeconds :=
            Some (if zx_TerminationGracePeriodSeconds ze = 0 then 7200 else zx_TerminationGracePeriodSeconds ze)\<rparr>) t)))
     (mkHeadlessStatefulSet k psc ''zuul-executor'' [] (getStorageConfOrDefault r (zx_Storage ze))
        ''ReadWriteOnce'' (sf_ExtraLabels spec) (k_isOpenShift k)))"

text \<open>With a proc mount, the seccomp profile is removed through the pointer to the package variable.\<close>

definition drop_seccomp :: "'w SFController \<Rightarrow> ('w st, unit) prog" where
  "drop_seccomp r = (if k_hasProcMount (c_k r)
     then modify (\<lambda>s. s\<lparr>st_podSC := (st_podSC s)\<lparr>psc_seccompProfile := None\<rparr>\<rparr>) else ret ())"

definition EnsureZuulExecutor :: "'w SFController \<Rightarrow> ini \<Rightarrow> ('w st, bool) prog" where
  "EnsureZuulExecutor r cfg = (let k = c_k r; ze = zu_Executor (sf_Zuul (c_spec r)) in
     bnd (CorporateCAConfigMapExists k) (\<lambda>corporateCM.
     bnd (zuul_annotations r cfg ''zuul-executor'' (IniGetSectionNamesByPrefix cfg ''connection'' @ [''executor'']) ''11'' corporateCM) (\<lambda>base.
     bnd (mkZuulContainer r ''zuul-executor'' (corporateCM \<noteq> None)) (\<lambda>c.
     bnd (mkZuulVolumes ''zuul-executor'' r (corporateCM \<noteq> None)) (\<lambda>volumes.
       let (annotations, extraEnv) = zuul_forwarding r ''zuul-executor'' (fmupd ''limits'' (limits_text (zx_Limits ze)) base) in
     bnd (drop_seccomp r) (\<lambda>_.
     bnd (MkNodeExporterSideCarContainer ''zuul-executor'' [mk_mount ''zuul-executor'' ''/var/lib/zuul''] (k_isOpenShift k)) (\<lambda>nodeExporter.
     bnd (reads st_podSC) (\<lambda>psc.
       let sts = executor_sts r psc [executor_main r extraEnv (limited (zx_Limits ze) c),
           run_as 1000 (privileged (k_isOpenShift k) nodeExporter)] volumes annotations in
     bnd (local_source r False (ss_template sts)) (\<lambda>template.
     bnd (ensureStatefulset k (sts\<lparr>ss_template := template\<rparr>) None) (\<lambda>(current, changed).
     if changed then ret False
     else
       bnd (reconcileExpandPVCs k ''zuul-executor'' (zx_Storage ze)) (\<lambda>pvcReadiness.
       bnd (waitStatefulset k current) (\<lambda>(ok, _).
         let ready = (ok \<and> pvcReadiness) in
       bnd (UpdateConditions k ''zuul-executor'' ready) (\<lambda>_. ret ready)))))))))))))"

section \<open>Merger\<close>

definition merger_main :: "'w SFController \<Rightarrow> env_var list \<Rightarrow> container \<Rightarrow> container" where
  "merger_main r extraEnv c = (run_as_unless_openshift r c)\<lparr>ct_env := ct_env c @ extraEnv,
     ct_readinessProbe := Some (MkReadinessHTTPProbe ''/health/ready'' zuulPrometheusPort),
     ct_livenessProbe := Some (MkReadinessHTTPProbe ''/health/live'' zuulPrometheusPort),
     ct_ports := [MkContainerPort zuulPrometheusPort ZuulPrometheusPortName]\<rparr>"

definition merger_sts :: "'w SFController \<Rightarrow> pod_security_context \<Rightarrow> container list \<Rightarrow> volume list \<Rightarrow> smap \<Rightarrow> statefulset" where
  "merger_sts r psc containers volumes annotations = (let k = c_k r; spec = c_spec r in
     sts_template (\<lambda>t. template_hosts spec (template_annotated annotations
       (template_spec (\<lambda>p. p\<lparr>ps_containers := containers, ps_volumes := volumes\<rparr>) t)))
     (mkHeadlessStatefulSet k psc ''zuul-merger'' [] (getStorageConfOrDefault r (zm_Storage (zu_Merger (sf_Zuul spec))))
        ''ReadWriteOnce'' (sf_ExtraLabels spec) (k_isOpenShift k)))"

definition EnsureZuulMerger :: "'w SFController \<Rightarrow> ini \<Rightarrow> ('w st, bool) prog" where
  "EnsureZuulMerger r cfg = (let k = c_k r; zm = zu_Merger (sf_Zuul (c_spec r)) in
     bnd (CorporateCAConfigMapExists k) (\<lambda>corporateCM.
     bnd (zuul_annotations r cfg ''zuul-merger'' (IniGetSectionNamesByPrefix cfg ''connection'' @ [''merger'']) ''8'' corporateCM) (\<lambda>base.
     bnd (mkZuulContainer r ''zuul-merger'' (corporateCM \<noteq> None)) (\<lambda>c.
     bnd (mkZuulVolumes ''zuul-merger'' r (corporateCM \<noteq> None)) (\<lambda>volumes.
       let (annotations, extraEnv) = zuul_forwarding r ''zuul-merger'' (fmupd ''limits'' (limits_text (zm_Limits zm)) base) in
     bnd (MkNodeExporterSideCarContainer ''zuul-merger'' [mk_mount ''zuul-merger'' ''/var/lib/zuul''] (k_isOpenShift k)) (\<lambda>nodeExporter.
     bnd (reads st_podSC) (\<lambda>psc.
       let sts = merger_sts r psc [merger_main r extraEnv (limited (zm_Limits zm) c), nodeExporter] volumes annotations in
     bnd (local_source r False (ss_template sts)) (\<lambda>template.
     bnd (ensureStatefulset k (sts\<lparr>ss_template := template\<rparr>) None) (\<lambda>(current, changed).
     if changed then ret False
     else
       bnd (reconcileExpandPVCs k ''zuul-merger'' (zm_Storage zm)) (\<lambda>pvcReadiness.
       bnd (if pvcReadiness then bnd (waitStatefulset k current) (\<lambda>(ok, _). ret ok) else ret False) (\<lambda>ready.
       bnd (UpdateConditions k ''zuul-merger'' ready) (\<lambda>_. ret ready))))))))))))"

section \<open>Web\<close>

definition web_main :: "'w SFController \<Rightarrow> env_var list \<Rightarrow> container \<Rightarrow> container" where
  "web_main r extraEnv c = (run_as_unless_openshift r c)\<lparr>ct_env := ct_env c @ extraEnv,
     ct_readinessProbe := Some (MkReadinessHTTPProbe ''/api/info'' zuulWEBPort),
     ct_livenessProbe := Some (MkLiveHTTPProbe ''/api/info'' zuulWEBPort),
     ct_startupProbe := Some (SlowStartingProbe (MkStartupHTTPProbe ''/api/info'' zuulWEBPort)),
     ct_ports := [MkContainerPort zuulPrometheusPort ZuulPrometheusPortName]\<rparr>"

definition web_dep :: "'w SFController \<Rightarrow> pod_security_context \<Rightarrow> container \<Rightarrow> volume list \<Rightarrow> smap \<Rightarrow> deployment" where
  "web_dep r psc c volumes annotations = (let k = c_k r; spec = c_spec r in
     dep_template (\<lambda>t. template_hosts spec (template_annotated annotations
       (template_spec (\<lambda>p. p\<lparr>ps_containers := [c], ps_volumes := volumes\<rparr>) t)))
     (MkDeployment psc ''zuul-web'' (k_ns k) [] (sf_ExtraLabels spec) (k_isOpenShift k)))"

definition EnsureZuulWeb :: "'w SFController \<Rightarrow> ini \<Rightarrow> ('w st, bool) prog" where
  "EnsureZuulWeb r cfg = (let k = c_k r; zw = zu_Web (sf_Zuul (c_spec r)) in
     bnd (CorporateCAConfigMapExists k) (\<lambda>corporateCM.
     bnd (zuul_annotations r cfg ''zuul-web'' (IniGetSectionNamesByPrefix cfg ''connection'' @
        IniGetSectionNamesByPrefix cfg ''auth'' @ [''web'']) ''9'' corporateCM) (\<lambda>base.
     bnd (mkZuulContainer r ''zuul-web'' (corporateCM \<noteq> None)) (\<lambda>c.
     bnd (mkZuulVolumes ''zuul-web'' r (corporateCM \<noteq> None)) (\<lambda>volumes.
       let (annotations, extraEnv) = zuul_forwarding r ''zuul-web'' (fmupd ''limits'' (limits_text (zw_Limits zw)) base) in
     bnd (reads st_podSC) (\<lambda>psc.
       let dep = web_dep r psc (web_main r extraEnv (limited (zw_Limits zw) c)) volumes annotations in
     bnd (local_source r False (de_template dep)) (\<lambda>template.
     bnd (ensureDeployment k (dep\<lparr>de_template := template\<rparr>) None) (\<lambda>(current, changed).
     if changed then ret False
     else
       bnd (UpdateConditions k ''zuul-web'' (IsDeploymentReady k current)) (\<lambda>_. ret (IsDeploymentReady k current))))))))))"

section \<open>All of Zuul\<close>

definition EnsureZuulExecutorService :: "'w SFController \<Rightarrow> ('w st, unit) prog" where
  "EnsureZuulExecutorService r = bnd (GetOrCreate (c_k r) cService
     (MkHeadlessService ''zuul-executor'' (k_ns (c_k r)) ''zuul-executor'' [zuulExecutorPort] ''zuul-executor'' (sf_ExtraLabels (c_spec r)))) (\<lambda>_. ret ())"

definition EnsureZuulComponentsFrontServices :: "'w SFController \<Rightarrow> ('w st, unit) prog" where
  "EnsureZuulComponentsFrontServices r =
     bnd (GetOrCreate (c_k r) cService (MkService ''zuul-web'' (k_ns (c_k r)) ''zuul-web'' [zuulWEBPort] ''zuul-web'' (sf_ExtraLabels (c_spec r)))) (\<lambda>_.
       if IsExecutorEnabled r then EnsureZuulExecutorService r else ret ())"

text \<open>\<open>zuulServices\<close> is a map that is only read back at the end; the conjunction does not depend on the order.\<close>

definition EnsureZuulComponents :: "'w SFController \<Rightarrow> ('w st, services) prog" where
  "EnsureZuulComponents r = (let k = c_k r;
       status = fmap_of_list [(''Zuul'', False), (''|_ Config Secrets'', False)] in
     bnd (if \<not> IsExecutorEnabled r
          then bnd (GetOrDie k cStatefulSet ''zuul-executor'') (\<lambda>found. case found of
            None \<Rightarrow> ret () | Some zuulExecutor \<Rightarrow> DeleteR k cStatefulSet (ss_meta zuulExecutor))
          else ret ()) (\<lambda>_.
     bnd (EnsureZuulConfigSecret r False) (\<lambda>cfg. case cfg of
       None \<Rightarrow> ret status
     | Some cfg \<Rightarrow>
         (let status = fmupd ''|_ Merger'' False (fmupd ''|_ Web'' False (fmupd ''|_ Scheduler'' False (fmupd ''|_ Config Secrets'' True status))) in
          bnd (EnsureZuulComponentsFrontServices r) (\<lambda>_.
          bnd (EnsureZuulScheduler r cfg) (\<lambda>scheduler.
          bnd (if IsExecutorEnabled r then bnd (EnsureZuulExecutor r cfg) (\<lambda>b. ret (Some b)) else ret None) (\<lambda>executor.
          bnd (EnsureZuulWeb r cfg) (\<lambda>web.
          bnd (EnsureZuulMerger r cfg) (\<lambda>merger.
            let zuulServices = [(''Scheduler'', scheduler)] @ (case executor of None \<Rightarrow> [] | Some b \<Rightarrow> [(''Executor'', b)]) @
              [(''Web'', web), (''Merger'', merger)] in
            ret (fmupd ''Zuul'' (list_all snd zuulServices)
              (fold (\<lambda>(name, b). fmupd (''|_ '' @ name) b) zuulServices status)))))))))))"

definition DeployZuulSecrets :: "'w SFController \<Rightarrow> ('w st, unit) prog" where
  "DeployZuulSecrets r =
     bnd (EnsureSSHKeySecret (c_k r) ''zuul-ssh-key'') (\<lambda>_.
     bnd (EnsureSecretUUID (c_k r) ZuulKeystorePasswordName) (\<lambda>_.
     bnd (EnsureSecretUUID (c_k r) ''zuul-auth-secret'') (\<lambda>_. ret ())))"

definition DeployZuul :: "'w SFController \<Rightarrow> ('w st, services) prog" where
  "DeployZuul r = EnsureZuulComponents r"

definition runZuulInternalTenantReconfigure :: "'w kctx \<Rightarrow> ('w st, bool) prog" where
  "runZuulInternalTenantReconfigure k =
     bnd (GetOrDie k cConfigMap ''zuul-needs-full-reconfigure-config-map'') (\<lambda>found.
     bnd (case found of
            Some fullReconfigure \<Rightarrow> bnd (DeleteR k cConfigMap (cm_meta fullReconfigure)) (\<lambda>_. ret [''zuul-scheduler'', ''full-reconfigure''])
          | None \<Rightarrow> ret [''zuul-scheduler'', ''tenant-reconfigure'', ''internal'']) (\<lambda>args.
     bnd (PodExec k ''zuul-scheduler-0'' ''zuul-scheduler'' args) (\<lambda>err. ret (err = None))))"

end
