(* ===== verification/Nodepool.thy ===== *)
theory Nodepool
  imports Zuul
begin

text \<open>
  Nodepool, \<open>controllers/nodepool.go\<close>: the launcher (with the capacity exporter), the image builder, and
  the configuration they share. The identifiers of the two services are those of the reconciliation.
\<close>

definition nodepoolIdent :: string where "nodepoolIdent = ''nodepool''"
definition shortIdent :: string where "shortIdent = ''np''"
definition launcherPortName :: string where "launcherPortName = ''nlwebapp''"
definition launcherPort :: int where "launcherPort = 8006"
definition buildLogsHttpdPort :: int where "buildLogsHttpdPort = 8080"
definition BuildLogsHttpdPortName :: string where "BuildLogsHttpdPortName = ''buildlogs-http''"
definition NodepoolProvidersSecretsName :: string where "NodepoolProvidersSecretsName = ''nodepool-providers-secrets''"

section \<open>Shared configuration\<close>

definition np_tool_mount :: "string \<Rightarrow> string \<Rightarrow> volume_mount" where
  "np_tool_mount script path = mount_ro_sub ''nodepool-tooling-vol'' path script"

definition configScriptsVolumeMounts :: "volume_mount list" where
  "configScriptsVolumeMounts = [np_tool_mount ''generate-config.sh'' ''/usr/local/bin/generate-config.sh'',
     np_tool_mount ''fetch-config-repo.sh'' ''/usr/local/bin/fetch-config-repo.sh'']"

definition nodepoolFluentBitLabels :: "FluentBitLabel list" where
  "nodepoolFluentBitLabels = [\<lparr>fl_Key = ''COMPONENT'', fl_Value = ''nodepool''\<rparr>]"

definition generateConfigScript :: "'w SFController \<Rightarrow> string" where
  "generateConfigScript r = parsed (c_k r) (c_static r ''static/nodepool/generate-config.sh.tmpl'') (TStruct
     [(''Namespace'', TText (k_ns (c_k r))),
      (''ZookeeperReplicas'', TList (map (\<lambda>i. TText (ZookeeperIdent @ ''-'' @ Itoa (int i) @ ''.'' @ ZookeeperIdent @ ''-headless.'' @
         k_ns (c_k r) @ ''.svc.cluster.local'')) [0..<ZookeeperReplicas]))])"

definition nodepool_tooling :: "'w SFController \<Rightarrow> smap" where
  "nodepool_tooling r = smap_of
     [(''init-container.sh'', c_static r ''static/nodepool/init-container.sh''), (''generate-config.sh'', generateConfigScript r),
      (''fetch-config-repo.sh'', c_static r ''static/fetch-config-repo.sh''), (''dib-ansible.py'', c_static r ''static/nodepool/dib-ansible.py''),
      (''ssh_config'', c_static r ''static/nodepool/ssh_config''), (''timestamp.py'', c_static r ''static/nodepool/ansible/timestamp.py''),
      (''ansible.cfg'', c_static r ''static/nodepool/ansible/ansible.cfg'')]"

definition setNodepoolTooling :: "'w SFController \<Rightarrow> ('w st, unit) prog" where
  "setNodepoolTooling r = bnd (EnsureConfigMap (c_k r) ''nodepool-tooling'' (Some (nodepool_tooling r))) (\<lambda>_. ret ())"

definition commonToolingVolume :: volume where
  "commonToolingVolume = \<lparr>vo_name = ''nodepool-tooling-vol'',
     vo_source = ConfigMapVolume ''nodepool-tooling-config-map'' [] (Some Execmod)\<rparr>"

definition getNodepoolConfigEnvs :: "'w SFController \<Rightarrow> env_var list" where
  "getNodepoolConfigEnvs r =
     (if isConfigRepoSet r
      then [MkEnvVar ''CONFIG_REPO_SET'' ''TRUE'', MkEnvVar ''CONFIG_REPO_BASE_URL'' (c_configBaseURL r),
            MkEnvVar ''CONFIG_REPO_NAME'' (crl_Name (sf_ConfigRepositoryLocation (c_spec r)))]
      else [MkEnvVar ''CONFIG_REPO_SET'' ''FALSE'']) @
     [MkEnvVar ''HOME'' ''/var/lib/nodepool'', MkEnvVar ''STATSD_HOST'' ''localhost'',
      MkEnvVar ''STATSD_PORT'' (Itoa StatsdExporterPortListen)]"

definition mkLoggingTemplate :: "'w SFController \<Rightarrow> string \<Rightarrow> string + string" where
  "mkLoggingTemplate r serviceName = (let np = sf_Nodepool (c_spec r);
       logLevel = (if serviceName = ''builder'' then nb_LogLevel (np_Builder np) else nl_LogLevel (np_Launcher np)) in
     ParseString (c_k r) (c_static r ''static/nodepool/logging.yaml.tmpl'')
       (logging_data (CreateBaseLoggingExtraKeys (''nodepool-'' @ serviceName) ''nodepool'' serviceName (k_ns (c_k r)))
         ((CreateForwarderConfigTemplateParams (''nodepool.'' @ serviceName) (sf_FluentBitLogForwarding (c_spec r)))\<lparr>
           tl_LogLevel := if logLevel \<noteq> [] then logLevel else ''INFO''\<rparr>)))"

definition loggingConfig :: "'w SFController \<Rightarrow> string \<Rightarrow> string" where
  "loggingConfig r serviceName = (case mkLoggingTemplate r serviceName of Inl _ \<Rightarrow> [] | Inr t \<Rightarrow> t)"

text \<open>The data of the template of the statsd mappings.\<close>

definition mappings_data :: "StatsdMetricMapping list \<Rightarrow> tmpl_data" where
  "mappings_data ms = TList (map (\<lambda>m. TStruct
     [(''MetricName'', TText (sm_MetricName m)), (''ProviderName'', TText (sm_ProviderName m)), (''Match'', TText (sm_Match m)),
      (''Help'', TText (sm_Help m)), (''Labels'', TList (map (\<lambda>l. TStruct [(''LabelName'', TText (sl_LabelName l)),
         (''LabelValue'', TText (sl_LabelValue l))]) (sm_Labels m)))]) ms)"

definition mkStatsdMappingConfig :: "'w SFController \<Rightarrow> (string \<times> ydoc) list \<Rightarrow> ('s, string + string) prog" where
  "mkStatsdMappingConfig r cloudsYaml = bnd (MkStatsdMappingsFromCloudsYaml [] cloudsYaml) (\<lambda>extraMappings.
     ret (ParseString (c_k r) (c_static r ''static/nodepool/statsd_mapping.yaml.tmpl'') (mappings_data extraMappings)))"

definition provider_mount :: "smap \<Rightarrow> string \<Rightarrow> string \<Rightarrow> volume_mount list" where
  "provider_mount data key path = (case fmlookup data key of
       None \<Rightarrow> [] | Some v \<Rightarrow> if v \<noteq> [] then [mount_ro_sub ''nodepool-providers-secrets'' path key] else [])"

text \<open>The result is the mounts and the secret, when it exists.\<close>

definition setProviderSecretsVolumeMounts :: "'w kctx \<Rightarrow> ('w st, volume_mount list \<times> secret option) prog" where
  "setProviderSecretsVolumeMounts k = bnd (GetOrDie k cSecret NodepoolProvidersSecretsName) (\<lambda>found. ret (case found of
       None \<Rightarrow> ([], None)
     | Some s \<Rightarrow> (let data = gm_fm (se_data s) in
         (provider_mount data ''clouds.yaml'' ''/var/lib/nodepool/.config/openstack/clouds.yaml'' @
          provider_mount data ''kube.config'' ''/var/lib/nodepool/.kube/config'' @
          provider_mount data ''aws.config'' ''/var/lib/nodepool/.aws/config'', Some s))))"

definition getSecretsVersion :: "secret option \<Rightarrow> string" where
  "getSecretsVersion s = (case s of None \<Rightarrow> ''0'' | Some s \<Rightarrow> om_resourceVersion (se_meta s))"

definition with_config_repo :: "'w SFController \<Rightarrow> smap \<Rightarrow> smap" where
  "with_config_repo r a = (if isConfigRepoSet r
     then fmupd ''config-repo-info-hash'' (c_configBaseURL r @ crl_Name (sf_ConfigRepositoryLocation (c_spec r))) a else a)"

definition np_relay :: "'w SFController \<Rightarrow> string option" where
  "np_relay r = (let t = np_StatsdTarget (sf_Nodepool (c_spec r)) in if t \<noteq> [] then Some t else None)"

section \<open>Builder\<close>

definition createImageBuildLogForwarderSidecar :: "'w SFController \<Rightarrow> smap \<Rightarrow> ('w st, smap \<times> volume list \<times> container) prog" where
  "createImageBuildLogForwarderSidecar r annotations =
     (let conf = fluent_conf r ''diskimage-builder'' ''static/nodepool/fluentbit/fluent-bit.conf.tmpl'';
          parsers = c_static r ''static/nodepool/fluentbit/parsers.conf'' in
      bnd (EnsureConfigMap (c_k r) ''fluentbit-dib-cfg'' (Some (smap_of [(''fluent-bit.conf'', conf), (''parsers.conf'', parsers)]))) (\<lambda>_.
      bnd (CreateFluentBitSideCarContainer ''diskimage-builder''
         (nodepoolFluentBitLabels @ [\<lparr>fl_Key = ''CONTAINER'', fl_Value = BuilderIdent\<rparr>])
         [mount_sub BuilderIdent ''/watch/'' ''builds'', mk_mount ''dib-log-forwarder-config'' ''/fluent-bit/etc/''] (k_isOpenShift (c_k r)))
        (\<lambda>(sidecar, storageEmptyDir). ret
         (fmupd ''dib-fluent-bit-parser'' (Checksum (c_k r) parsers) (fmupd ''dib-fluent-bit.conf'' (Checksum (c_k r) conf) annotations),
          [MkVolumeCM ''dib-log-forwarder-config'' ''fluentbit-dib-cfg-config-map'', storageEmptyDir], sidecar))))"

definition pub_key_volume :: "string \<Rightarrow> volume" where
  "pub_key_volume name = \<lparr>vo_name = name,
     vo_source = SecretVolume name [\<lparr>kp_key = ''pub'', kp_path = ''pub'', kp_mode = None\<rparr>] (Some Readmod)\<rparr>"

definition builder_volumes :: "volume \<Rightarrow> bool \<Rightarrow> volume list" where
  "builder_volumes statsdExporterVolume corporateCMExists =
     [MkVolumeSecret ''zookeeper-client-tls'' [], MkVolumeSecret NodepoolProvidersSecretsName [], MkEmptyDirVolume ''nodepool-config'',
      MkEmptyDirVolume ''nodepool-ca'', commonToolingVolume,
      \<lparr>vo_name = ''nodepool-builder-ssh-key'', vo_source = SecretVolume ''nodepool-builder-ssh-key'' [] (Some Readmod)\<rparr>,
      pub_key_volume ''zuul-ssh-key'', pub_key_volume ''zuul-spare-ssh-key'',
      MkVolumeCM ''nodepool-builder-extra-config-vol'' ''nodepool-builder-extra-config-config-map'', statsdExporterVolume] @
     (if corporateCMExists then [MkVolumeCM ''nodepool-builder-corporate-ca-certs'' CorporateCACerts] else [])"

definition builder_data_mount :: "volume_mount list" where
  "builder_data_mount = [mk_mount BuilderIdent ''/var/lib/nodepool'']"

definition builder_mounts :: "volume_mount list \<Rightarrow> volume_mount list" where
  "builder_mounts initialVolumeMounts = initialVolumeMounts @
     [mount_ro ''zookeeper-client-tls'' ''/tls/client'', mk_mount ''nodepool-config'' ''/etc/nodepool'',
      mk_mount ''nodepool-ca'' TrustedCAExtractedMountPath, np_tool_mount ''dib-ansible.py'' ''/usr/local/bin/dib-ansible'',
      mount_ro ''nodepool-builder-ssh-key'' ''/var/lib/nodepool-ssh-key'', mount_ro ''zuul-ssh-key'' ''/var/lib/zuul-ssh-key'',
      mount_ro ''zuul-spare-ssh-key'' ''/var/lib/zuul-spare-ssh-key'', np_tool_mount ''ssh_config'' ''/var/lib/nodepool/.ssh/config'',
      mount_ro_sub ''nodepool-builder-extra-config-vol'' ''/etc/nodepool-logging/logging.yaml'' ''logging.yaml'',
      np_tool_mount ''ansible.cfg'' ''/etc/ansible/ansible.cfg'',
      np_tool_mount ''timestamp.py'' ''/usr/share/ansible/plugins/callback/timestamp.py''] @
     configScriptsVolumeMounts @ builder_data_mount"

definition builder_annotations :: "'w SFController \<Rightarrow> string \<Rightarrow> secret option \<Rightarrow> configmap option \<Rightarrow> smap" where
  "builder_annotations r statsdMapping providersSecrets corporateCM = (let k = c_k r in
     fmupd ''limits'' (limits_text (nb_Limits (np_Builder (sf_Nodepool (c_spec r))))) (with_config_repo r (smap_of
      [(''nodepool.yaml'', Checksum k (generateConfigScript r)), (''nodepool-logging.yaml'', Checksum k (loggingConfig r ''builder'')),
       (''dib-ansible.py'', Checksum k (c_static r ''static/nodepool/dib-ansible.py'')),
       (''ssh_config'', Checksum k (c_static r ''static/nodepool/ssh_config'')),
       (''buildlogs_httpd_config'', Checksum k (c_static r ''static/nodepool/httpd-build-logs-dir.conf'')),
       (''statsd_mapping'', Checksum k statsdMapping), (''nodepool-providers-secrets'', getSecretsVersion providersSecrets),
       (''serial'', ''18''), (''corporate-ca-certs-version'', getCMVersion corporateCM)])))"

definition builder_init :: "'w SFController \<Rightarrow> string \<Rightarrow> bool \<Rightarrow> container" where
  "builder_init r img corporateCMExists =
     (let mounts = [np_tool_mount ''init-container.sh'' ''/usr/local/bin/init-container.sh'', mk_mount ''nodepool-config'' ''/etc/nodepool/'',
            mk_mount ''nodepool-ca'' TrustedCAExtractedMountPath] @ configScriptsVolumeMounts @ builder_data_mount
      in (SetContainerLimitsLowProfile (MkContainer ''nodepool-builder-init'' img (k_isOpenShift (c_k r))))\<lparr>
        ct_command := [''/usr/local/bin/init-container.sh''],
        ct_env := getNodepoolConfigEnvs r @ [MkEnvVar ''NODEPOOL_CONFIG_FILE'' ''nodepool-builder.yaml''],
        ct_volumeMounts := (if corporateCMExists
          then AppendCorporateCACertsVolumeMount mounts ''nodepool-builder-corporate-ca-certs'' else mounts)\<rparr>)"

definition builder_main :: "'w SFController \<Rightarrow> volume_mount list \<Rightarrow> env_var list \<Rightarrow> container \<Rightarrow> container" where
  "builder_main r initialVolumeMounts extraEnv c = limited (nb_Limits (np_Builder (sf_Nodepool (c_spec r)))) (SetContainerLimitsHighProfile (c\<lparr>
     ct_command := [''/usr/local/bin/dumb-init'', ''-c'', ''--'', ''/usr/local/bin/nodepool-builder'', ''-f'', ''-l'',
       ''/etc/nodepool-logging/logging.yaml''],
     ct_volumeMounts := builder_mounts initialVolumeMounts, ct_env := getNodepoolConfigEnvs r @ extraEnv\<rparr>))"

definition build_logs_container :: "'w SFController \<Rightarrow> string \<Rightarrow> container" where
  "build_logs_container r img = (MkContainer ''build-logs-httpd'' img (k_isOpenShift (c_k r)))\<lparr>
     ct_volumeMounts := [mount_sub BuilderIdent ''/var/www/html/nodepool/builds'' ''builds'',
       mount_sub ''nodepool-builder-extra-config-vol'' ''/etc/httpd/conf.d/build-logs-dir.conf'' ''httpd-build-logs-dir.conf''],
     ct_ports := [MkContainerPort buildLogsHttpdPort BuildLogsHttpdPortName],
     ct_readinessProbe := Some (MkReadinessHTTPProbe ''/nodepool/builds'' buildLogsHttpdPort),
     ct_startupProbe := Some (MkStartupHTTPProbe ''/nodepool/builds'' buildLogsHttpdPort),
     ct_livenessProbe := Some (MkLiveHTTPProbe ''/nodepool/builds'' buildLogsHttpdPort)\<rparr>"

definition builder_sts :: "'w SFController \<Rightarrow> pod_security_context \<Rightarrow> string \<Rightarrow> volume_mount list \<Rightarrow> env_var list \<Rightarrow> container \<Rightarrow>
    volume list \<Rightarrow> container list \<Rightarrow> smap \<Rightarrow> statefulset" where
  "builder_sts r psc img initialVolumeMounts extraEnv initContainer volumes sidecars annotations = (let k = c_k r; spec = c_spec r in
     sts_template (\<lambda>t. template_hosts spec (template_append sidecars [] (template_annotated annotations
       (template_main (builder_main r initialVolumeMounts extraEnv)
         (template_spec (\<lambda>p. p\<lparr>ps_initContainers := [initContainer], ps_volumes := volumes\<rparr>) t)))))
     (mkStatefulSet k psc BuilderIdent img (getStorageConfOrDefault r (nb_Storage (np_Builder (sf_Nodepool spec))))
        ''ReadWriteOnce'' (sf_ExtraLabels spec) (k_isOpenShift k) []))"

definition DeployNodepoolBuilder :: "'w SFController \<Rightarrow> volume \<Rightarrow> string \<Rightarrow> volume_mount list \<Rightarrow> secret option \<Rightarrow> ('w st, bool) prog" where
  "DeployNodepoolBuilder r statsdExporterVolume statsdMapping initialVolumeMounts providersSecrets = (let k = c_k r; spec = c_spec r in
     bnd (EnsureSSHKeySecret k ''nodepool-builder-ssh-key'') (\<lambda>_.
     bnd (setNodepoolTooling r) (\<lambda>_.
     bnd (EnsureConfigMap k ''nodepool-builder-extra-config'' (Some (smap_of [(''logging.yaml'', loggingConfig r ''builder''),
        (''httpd-build-logs-dir.conf'', c_static r ''static/nodepool/httpd-build-logs-dir.conf'')]))) (\<lambda>_.
     bnd (CorporateCAConfigMapExists k) (\<lambda>corporateCM.
     bnd NodepoolBuilderImage (\<lambda>img.
       let (annotations, extraEnv) = SetupLogForwarding ''nodepool-builder'' (sf_FluentBitLogForwarding spec) nodepoolFluentBitLabels
             (builder_annotations r statsdMapping providersSecrets corporateCM);
           volumes = builder_volumes statsdExporterVolume (corporateCM \<noteq> None) in
     bnd (if sf_FluentBitLogForwarding spec \<noteq> None
          then bnd (createImageBuildLogForwarderSidecar r annotations) (\<lambda>(annotations, fbVolumes, fbSidecar).
            ret (annotations, fbVolumes, [fbSidecar]))
          else ret (annotations, [], [])) (\<lambda>(annotations, fbVolumes, fbSidecars).
     bnd (MkStatsdExporterSideCarContainer shortIdent ''statsd-config'' (np_relay r) (k_isOpenShift k)) (\<lambda>statsd.
     bnd (MkNodeExporterSideCarContainer BuilderIdent builder_data_mount (k_isOpenShift k)) (\<lambda>diskUsageExporter.
     bnd HTTPDImage (\<lambda>httpdImg.
     bnd (EnsureService k (MkServicePod BuilderIdent (k_ns k) (BuilderIdent @ ''-0'') [buildLogsHttpdPort] BuilderIdent (sf_ExtraLabels spec))) (\<lambda>_.
     bnd (reads st_podSC) (\<lambda>psc.
     bnd (ensureStatefulset k (builder_sts r psc img initialVolumeMounts extraEnv (builder_init r img (corporateCM \<noteq> None)) (volumes @ fbVolumes)
        (fbSidecars @ [statsd, diskUsageExporter, build_logs_container r httpdImg]) annotations) None) (\<lambda>(current, changed).
     if changed then ret False
     else
       bnd (reconcileExpandPVC k (BuilderIdent @ ''-'' @ BuilderIdent @ ''-0'') (nb_Storage (np_Builder (sf_Nodepool spec)))) (\<lambda>pvcReadiness.
       bnd (IsStatefulSetReady k current) (\<lambda>ready.
         let isReady = (ready \<and> pvcReadiness) in
       bnd (UpdateConditions k BuilderIdent isReady) (\<lambda>_. ret isReady))))))))))))))))"

section \<open>Launcher\<close>

definition hasProviderSecret :: "volume_mount list \<Rightarrow> bool" where
  "hasProviderSecret volumeMounts \<longleftrightarrow> list_ex (\<lambda>v. vm_name v = ''nodepool-providers-secrets'') volumeMounts"

definition launcher_volumes :: "volume \<Rightarrow> bool \<Rightarrow> volume list" where
  "launcher_volumes statsdExporterVolume corporateCMExists =
     [MkVolumeSecret ''zookeeper-client-tls'' [], MkVolumeSecret NodepoolProvidersSecretsName [], MkEmptyDirVolume ''nodepool-config'',
      MkEmptyDirVolume ''nodepool-home'', MkEmptyDirVolume ''nodepool-ca'', commonToolingVolume,
      MkVolumeCM ''nodepool-launcher-extra-config-vol'' ''nodepool-launcher-extra-config-config-map'', statsdExporterVolume] @
     (if corporateCMExists then [MkVolumeCM ''nodepool-launcher-corporate-ca-certs'' CorporateCACerts] else [])"

definition launcher_mounts :: "volume_mount list \<Rightarrow> volume_mount list" where
  "launcher_mounts initialVolumeMounts = initialVolumeMounts @
     [mount_ro ''zookeeper-client-tls'' ''/tls/client'', mk_mount ''nodepool-config'' ''/etc/nodepool/'',
      mk_mount ''nodepool-ca'' TrustedCAExtractedMountPath, mk_mount ''nodepool-home'' ''/var/lib/nodepool'',
      mount_sub ''nodepool-launcher-extra-config-vol'' ''/etc/nodepool-logging/logging.yaml'' ''logging.yaml''] @ configScriptsVolumeMounts"

definition launcher_annotations :: "'w SFController \<Rightarrow> string \<Rightarrow> secret option \<Rightarrow> configmap option \<Rightarrow> smap" where
  "launcher_annotations r statsdMapping providersSecrets corporateCM = (let k = c_k r in
     fmupd ''limits'' (limits_text (nl_Limits (np_Launcher (sf_Nodepool (c_spec r))))) (with_config_repo r (smap_of
      [(''nodepool.yaml'', Checksum k (generateConfigScript r)), (''nodepool-logging.yaml'', Checksum k (loggingConfig r ''launcher'')),
       (''statsd_mapping'', Checksum k statsdMapping), (''serial'', ''12''),
       (''nodepool-providers-secrets'', getSecretsVersion providersSecrets),
       (''corporate-ca-certs-version'', getCMVersion corporateCM)])))"

definition launcher_init :: "'w SFController \<Rightarrow> string \<Rightarrow> bool \<Rightarrow> container" where
  "launcher_init r img corporateCMExists =
     (let mounts = [np_tool_mount ''init-container.sh'' ''/usr/local/bin/init-container.sh'', mk_mount ''nodepool-config'' ''/etc/nodepool/'',
            mk_mount ''nodepool-home'' ''/var/lib/nodepool'', mk_mount ''nodepool-ca'' TrustedCAExtractedMountPath] @ configScriptsVolumeMounts
      in (SetContainerLimitsLowProfile (MkContainer ''nodepool-launcher-init'' img (k_isOpenShift (c_k r))))\<lparr>
        ct_command := [''/usr/local/bin/init-container.sh''], ct_env := getNodepoolConfigEnvs r,
        ct_volumeMounts := (if corporateCMExists
          then AppendCorporateCACertsVolumeMount mounts ''nodepool-launcher-corporate-ca-certs'' else mounts)\<rparr>)"

definition launcher_main :: "'w SFController \<Rightarrow> string \<Rightarrow> volume_mount list \<Rightarrow> env_var list \<Rightarrow> container" where
  "launcher_main r img initialVolumeMounts extraEnv = (limited (nl_Limits (np_Launcher (sf_Nodepool (c_spec r))))
     (SetContainerLimitsHighProfile ((MkContainer ''launcher'' img (k_isOpenShift (c_k r)))\<lparr>
       ct_volumeMounts := launcher_mounts initialVolumeMounts,
       ct_command := [''/usr/local/bin/dumb-init'', ''-c'', ''--'', ''/usr/local/bin/nodepool-launcher'', ''-f'', ''-l'',
         ''/etc/nodepool-logging/logging.yaml''],
       ct_env := getNodepoolConfigEnvs r @ extraEnv\<rparr>)))\<lparr>
     ct_readinessProbe := Some (MkReadinessHTTPProbe ''/ready'' launcherPort),
     ct_livenessProbe := Some (MkLiveHTTPProbe ''/ready'' launcherPort),
     ct_startupProbe := Some (MkStartupHTTPProbe ''/ready'' launcherPort),
     ct_ports := [MkContainerPort launcherPort launcherPortName]\<rparr>"

definition launcher_dep :: "'w SFController \<Rightarrow> pod_security_context \<Rightarrow> volume list \<Rightarrow> container \<Rightarrow> container list \<Rightarrow> smap \<Rightarrow> deployment" where
  "launcher_dep r psc volumes initContainer containers annotations = (let k = c_k r; spec = c_spec r in
     dep_template (\<lambda>t. template_hosts spec (template_annotated annotations
       (template_spec (\<lambda>p. p\<lparr>ps_volumes := volumes, ps_initContainers := [initContainer], ps_containers := containers\<rparr>) t)))
     (MkDeployment psc ''nodepool-launcher'' (k_ns k) [] (sf_ExtraLabels spec) (k_isOpenShift k)))"

text \<open>The capacity exporter and its service, when some provider secret is mounted.\<close>

definition capacity_sidecar :: "'w SFController \<Rightarrow> volume_mount list \<Rightarrow> bool \<Rightarrow> ('w st, container list) prog" where
  "capacity_sidecar r initialVolumeMounts corporateCMExists = (let k = c_k r in
     if hasProviderSecret initialVolumeMounts
     then bnd (MkZuulCapacityContainer (k_isOpenShift k) corporateCMExists) (\<lambda>c.
       bnd (GetOrCreate k cService (MkService ''zuul-capacity'' (k_ns k) ''nodepool-launcher'' [9100] ''zuul-capacity'' (sf_ExtraLabels (c_spec r)))) (\<lambda>_.
         ret [c]))
     else ret [])"

definition DeployNodepoolLauncher :: "'w SFController \<Rightarrow> volume \<Rightarrow> string \<Rightarrow> volume_mount list \<Rightarrow> secret option \<Rightarrow> ('w st, bool) prog" where
  "DeployNodepoolLauncher r statsdExporterVolume statsdMapping initialVolumeMounts providersSecrets = (let k = c_k r; spec = c_spec r in
     bnd (setNodepoolTooling r) (\<lambda>_.
     bnd (EnsureConfigMap k ''nodepool-launcher-extra-config'' (Some (smap_of [(''logging.yaml'', loggingConfig r ''launcher'')]))) (\<lambda>_.
     bnd (CorporateCAConfigMapExists k) (\<lambda>corporateCM.
     bnd NodepoolLauncherImage (\<lambda>img.
       let (annotations, extraEnv) = SetupLogForwarding ''nodepool-launcher'' (sf_FluentBitLogForwarding spec)
             (nodepoolFluentBitLabels @ [\<lparr>fl_Key = ''CONTAINER'', fl_Value = LauncherIdent\<rparr>])
             (launcher_annotations r statsdMapping providersSecrets corporateCM) in
     bnd (MkStatsdExporterSideCarContainer shortIdent ''statsd-config'' (np_relay r) (k_isOpenShift k)) (\<lambda>statsd.
     bnd (capacity_sidecar r initialVolumeMounts (corporateCM \<noteq> None)) (\<lambda>capacity.
     bnd (reads st_podSC) (\<lambda>psc.
     bnd (ensureDeployment k (launcher_dep r psc (launcher_volumes statsdExporterVolume (corporateCM \<noteq> None))
        (launcher_init r img (corporateCM \<noteq> None)) ([launcher_main r img initialVolumeMounts extraEnv, statsd] @ capacity) annotations) None)
       (\<lambda>(current, changed).
     if changed then ret False
     else
       bnd (GetOrCreate k cService (MkService LauncherIdent (k_ns k) LauncherIdent [launcherPort] LauncherIdent (sf_ExtraLabels spec))) (\<lambda>_.
       bnd (UpdateConditions k LauncherIdent (IsDeploymentReady k current)) (\<lambda>_. ret (IsDeploymentReady k current))))))))))))"

section \<open>Nodepool\<close>

text \<open>A \<open>clouds.yaml\<close> that is not a mapping is ignored.\<close>

definition clouds_yaml :: "'w kctx \<Rightarrow> secret option \<Rightarrow> (string \<times> ydoc) list" where
  "clouds_yaml k providersSecrets = (case providersSecrets of
       None \<Rightarrow> []
     | Some s \<Rightarrow> (let data = gm_get (se_data s) ''clouds.yaml'' in
         if data = [] then [] else case s_unyaml (k_sys k) data of Some (YMap kvs) \<Rightarrow> kvs | _ \<Rightarrow> []))"

definition DeployNodepool :: "'w SFController \<Rightarrow> ('w st, services) prog" where
  "DeployNodepool r = (let k = c_k r in
     bnd (EnsureSSHKeySecret k ''zuul-spare-ssh-key'') (\<lambda>_.
     bnd (setProviderSecretsVolumeMounts k) (\<lambda>(volumeMounts, providersSecrets).
     bnd (mkStatsdMappingConfig r (clouds_yaml k providersSecrets)) (\<lambda>res.
       let statsdMapping = (case res of Inl _ \<Rightarrow> [] | Inr t \<Rightarrow> t); statsdVolume = MkVolumeCM ''statsd-config'' ''np-statsd-config-map'' in
     bnd (EnsureConfigMap k ''np-statsd'' (Some (smap_of [(StatsdExporterConfigFile, statsdMapping)]))) (\<lambda>_.
     bnd (DeployNodepoolLauncher r statsdVolume statsdMapping volumeMounts providersSecrets) (\<lambda>launcher.
     bnd (DeployNodepoolBuilder r statsdVolume statsdMapping volumeMounts providersSecrets) (\<lambda>builder.
       ret (fmap_of_list [(LauncherIdent, launcher), (BuilderIdent, builder)]))))))))"

end
