(* ===== verification/ConfigJobs.thy ===== *)
theory ConfigJobs
  imports Nodepool
begin

text \<open>
  The provisioning of the internal tenant, \<open>controllers/config.go\<close>: the account and the job that write the
  secrets of the config jobs into the \<open>system-config\<close> repository, and the reconfiguration of the tenant
  when its configuration or its secrets change.
\<close>

section \<open>The base secrets\<close>

definition config_role_annotations :: gomap where
  "config_role_annotations = Some (smap_of [(''serial'', ''3'')])"

definition config_role_rules :: "policy_rule list" where
  "config_role_rules =
     [\<lparr>ru_apiGroups = [[]], ru_resources = [''pods''], ru_verbs = [''get'', ''list'', ''delete'']\<rparr>,
      \<lparr>ru_apiGroups = [[]], ru_resources = [''pods/exec''], ru_verbs = [''create'']\<rparr>,
      \<lparr>ru_apiGroups = [''apps''], ru_resources = [''deployments'', ''statefulsets''], ru_verbs = [''get'', ''list'']\<rparr>]"

text \<open>The account, the role (\<open>False\<close> when its update failed), the binding and the token of the account.\<close>

definition ensure_config_account :: "'w kctx \<Rightarrow> ('w st, unit) prog" where
  "ensure_config_account k = bnd (GetOrDie k cServiceAccount ''config-updater'') (\<lambda>found. case found of
       Some _ \<Rightarrow> ret ()
     | None \<Rightarrow> bnd (CreateR k cServiceAccount \<lparr>sa_meta = mk_meta ''config-updater'' (k_ns k)\<rparr>) (\<lambda>_. ret ()))"

definition ensure_config_role :: "'w kctx \<Rightarrow> ('w st, bool) prog" where
  "ensure_config_role k = bnd (GetOrDie k cRole ''config-updater-role'') (\<lambda>found. case found of
       None \<Rightarrow> bnd (CreateR k cRole \<lparr>ro_meta = (mk_meta ''config-updater-role'' (k_ns k))\<lparr>om_annotations := config_role_annotations\<rparr>,
           ro_rules = config_role_rules\<rparr>) (\<lambda>_. ret True)
     | Some currentRole \<Rightarrow> if MapEquals (om_annotations (ro_meta currentRole)) config_role_annotations then ret True
         else bnd (UpdateR k cRole (currentRole\<lparr>ro_rules := config_role_rules,
             ro_meta := (ro_meta currentRole)\<lparr>om_annotations := config_role_annotations\<rparr>\<rparr>)) (\<lambda>(ok, _). ret ok))"

definition ensure_config_binding :: "'w kctx \<Rightarrow> ('w st, unit) prog" where
  "ensure_config_binding k = bnd (GetOrDie k cRoleBinding ''config-updater'') (\<lambda>found. case found of
       Some _ \<Rightarrow> ret ()
     | None \<Rightarrow> bnd (CreateR k cRoleBinding \<lparr>rb_meta = mk_meta ''config-updater'' (k_ns k),
           rb_subjects = [(''ServiceAccount'', ''config-updater'')],
           rb_roleRef = (''Role'', ''config-updater-role'', ''rbac.authorization.k8s.io'')\<rparr>) (\<lambda>_. ret ()))"

definition ensure_config_token :: "'w kctx \<Rightarrow> ('w st, unit) prog" where
  "ensure_config_token k = bnd (GetOrDie k cSecret ''config-update-secrets'') (\<lambda>found. case found of
       Some _ \<Rightarrow> ret ()
     | None \<Rightarrow> bnd (CreateR k cSecret \<lparr>se_meta = (mk_meta ''config-update-secrets'' (k_ns k))\<lparr>om_annotations :=
             Some (smap_of [(''kubernetes.io/service-account.name'', ''config-updater'')])\<rparr>,
           se_data = None, se_type = ''kubernetes.io/service-account-token''\<rparr>) (\<lambda>_. ret ()))"

definition RunCommand :: "'w SFController \<Rightarrow> string \<Rightarrow> string list \<Rightarrow> env_var list \<Rightarrow> ('w st, job) prog" where
  "RunCommand r name args extraVars = (let k = c_k r in
     bnd BusyboxImage (\<lambda>img.
     bnd (reads st_podSC) (\<lambda>psc.
       let c = (MkContainer ''sf-operator'' img (k_isOpenShift k))\<lparr>
             ct_command := [''python3'', ''/sf_operator/main.py''] @ args,
             ct_env := [MkEnvVar ''PYTHONPATH'' ''/'', MkEnvVar ''FQDN'' (sf_FQDN (c_spec r))] @ extraVars,
             ct_volumeMounts := [mk_mount ''pymod-sf-operator'' ''/sf_operator'']\<rparr>;
           job = MkJob psc name (k_ns k) c (sf_ExtraLabels (c_spec r))
       in ret (job\<lparr>jo_template := template_spec (\<lambda>p. p\<lparr>ps_volumes :=
            [MkVolumeCM ''pymod-sf-operator'' ''pymod-sf-operator-config-map'']\<rparr>) (jo_template job)\<rparr>))))"

definition base_secret_envs :: "'w SFController \<Rightarrow> env_var list" where
  "base_secret_envs r = (let loc = sf_ConfigRepositoryLocation (c_spec r) in
     [MkEnvVar ''HOME'' ''/tmp'', MkSecretEnvVar ''SERVICE_ACCOUNT_TOKEN'' ''config-update-secrets'' ''token'',
      MkSecretEnvVar ''ZUUL_LOGSERVER_PRIVATE_KEY'' ''zuul-ssh-key'' ''priv''] @
     (if crl_ClusterAPIURL loc \<noteq> [] then [MkEnvVar ''KUBERNETES_PUBLIC_API_URL'' (crl_ClusterAPIURL loc)] else []) @
     (if crl_LogserverHost loc \<noteq> [] then [MkEnvVar ''ZUUL_LOGSERVER_HOST'' (crl_LogserverHost loc)] else []))"

definition SetupBaseSecrets :: "'w SFController \<Rightarrow> string \<Rightarrow> ('w st, bool) prog" where
  "SetupBaseSecrets r internalTenantSecretsVersion = (let k = c_k r; jobName = ''config-base-secret-'' @ internalTenantSecretsVersion in
     bnd (ensure_config_account k) (\<lambda>_.
     bnd (ensure_config_role k) (\<lambda>ok.
     if \<not> ok then ret False
     else
       bnd (ensure_config_binding k) (\<lambda>_.
       bnd (ensure_config_token k) (\<lambda>_.
       bnd (GetOrDie k cJob jobName) (\<lambda>found. case found of
         None \<Rightarrow> bnd (RunCommand r jobName [''config-create-zuul-secrets''] (base_secret_envs r)) (\<lambda>job.
           bnd (CreateR k cJob job) (\<lambda>_. ret False))
       | Some job \<Rightarrow> ret (1 \<le> jo_succeeded job)))))))"

definition InstallTooling :: "'w SFController \<Rightarrow> ('w st, unit) prog" where
  "InstallTooling r = bnd (EnsureConfigMap (c_k r) ''pymod-sf-operator'' (Some (smap_of
     [(''secret.py'', c_static r ''static/sf_operator/secret.py''), (''main.py'', c_static r ''static/sf_operator/main.py'')]))) (\<lambda>_. ret ())"

section \<open>The config job\<close>

text \<open>A digest of fewer than five characters would make the slice panic.\<close>

definition extra_settings_checksum :: "'w SFController \<Rightarrow> ('s, string) prog" where
  "extra_settings_checksum r = (let loc = sf_ConfigRepositoryLocation (c_spec r);
       d = Checksum (c_k r) (crl_ClusterAPIURL loc @ crl_LogserverHost loc) in
     if crl_ClusterAPIURL loc \<noteq> [] \<or> crl_LogserverHost loc \<noteq> []
     then (if length d < 5 then panic ''slice bounds out of range'' else ret (take 5 d))
     else ret ''ns'')"

definition tenant_cm :: "'w kctx \<Rightarrow> string \<Rightarrow> string \<Rightarrow> configmap" where
  "tenant_cm k configHash secretsVersion = \<lparr>cm_meta = mk_meta ''zs-internal-tenant-reconfigure'' (k_ns k),
     cm_data = Some (smap_of [(''internal-tenant-config-hash'', configHash), (''internal-tenant-secrets-version'', secretsVersion)])\<rparr>"

definition SetupConfigJob :: "'w SFController \<Rightarrow> ('w st, bool) prog" where
  "SetupConfigJob r = (let k = c_k r in
     bnd (GetOrDie k cSecret ''zuul-keystore-password'') (\<lambda>zkp.
     bnd (extra_settings_checksum r) (\<lambda>extra.
       let configHash = Checksum k (MkPreInitScript r);
           secretsVersion = ''1'' @ ''-'' @ (case zkp of None \<Rightarrow> [] | Some s \<Rightarrow> om_resourceVersion (se_meta s)) @ ''-'' @ extra in
     bnd (InstallTooling r) (\<lambda>_.
     bnd (GetOrDie k cConfigMap ''zs-internal-tenant-reconfigure'') (\<lambda>found.
       let needCMUpdate = (case found of None \<Rightarrow> False
             | Some cm \<Rightarrow> configHash \<noteq> gm_get (cm_data cm) ''internal-tenant-config-hash'' \<or>
                 secretsVersion \<noteq> gm_get (cm_data cm) ''internal-tenant-secrets-version'');
           needReconfigureTenant = (found = None \<or> needCMUpdate) in
     bnd (SetupBaseSecrets r secretsVersion) (\<lambda>baseSecretsInstalled.
     if \<not> baseSecretsInstalled then ret False
     else if \<not> needReconfigureTenant then ret True
     else
       bnd (runZuulInternalTenantReconfigure k) (\<lambda>done.
       bnd (if done
            then bnd (DeleteR k cDeployment (MkMeta k ''zuul-web'')) (\<lambda>_.
              if needCMUpdate then bnd (UpdateR k cConfigMap (tenant_cm k configHash secretsVersion)) (\<lambda>_. ret ())
              else bnd (CreateR k cConfigMap (tenant_cm k configHash secretsVersion)) (\<lambda>_. ret ()))
            else ret ()) (\<lambda>_. ret False))))))))"

end
