(* ===== verification/SF_Step.thy ===== *)
theory SF_Step
  imports ConfigJobs
begin

text \<open>
  The whole deployment: the interface \<open>deploys\<close> of the reconciliation, filled with the operations of the
  service components, and the methods of the controller that result.
\<close>

definition sf_deploys :: "'w SFController \<Rightarrow> ('w, ini) deploys" where
  "sf_deploys r = \<lparr>
     d_DeployZuulSecrets = DeployZuulSecrets r,
     d_DeployGitServer = DeployGitServer r,
     d_DeployMariadb = DeployMariadb r,
     d_DeployLogserver = DeployLogserver r,
     d_DeployHTTPDGateway = DeployHTTPDGateway r,
     d_DeployHoundSearch = DeployHoundSearch r,
     d_TerminateHoundSearch = TerminateHoundSearch (c_k r),
     d_EnsureLogJuicer = EnsureLogJuicer r,
     d_DeployZookeeper = DeployZookeeper r,
     d_DeployNodepool = DeployNodepool r,
     d_DeployZuul = DeployZuul r,
     d_SetupConfigJob = SetupConfigJob r,
     d_EnsureZuulConfigSecret = EnsureZuulConfigSecret r,
     d_EnsureZuulExecutorService = EnsureZuulExecutorService r,
     d_EnsureZuulExecutor = EnsureZuulExecutor r\<rparr>"

definition sf_step :: "'w SFController \<Rightarrow> ('w st, SoftwareFactoryStatus) prog" where
  "sf_step r = Step r (sf_deploys r)"

end
