(* ===== verification/Maintenance.thy ===== *)
theory Maintenance
  imports SF_Step
begin

text \<open>
  The maintenance operations: cleaning an instance (\<open>controllers/clean.go\<close>), rotating the secrets
  (\<open>controllers/secrets.go\<close>) and the backup and restoration (\<open>controllers/backup.go\<close>), with the
  helper pod they use (\<open>controllers/zuul.go\<close>) and \<open>ClearConfigJob\<close> of \<open>controllers/config.go\<close>. The
  locale \<open>file_laws\<close> states what the restoration relies on: a file reads back as it was written, and
  the YAML of a secret reads back with its name, annotations and data.
\<close>

section \<open>Cleaning\<close>

text \<open>The objects of an instance, less the ones of the Gerrit used for development.\<close>

definition sf_labelled :: "gomap \<Rightarrow> bool" where
  "sf_labelled m \<longleftrightarrow> gm_get m ''app'' = ''sf'' \<and> gm_get m ''run'' \<noteq> ''gerrit''"

text \<open>One round over the listed objects; it tells whether there was nothing to delete.\<close>

definition clean_round :: "'w kctx \<Rightarrow> 'o codec \<Rightarrow> ('w st, bool) prog" where
  "clean_round r C = bnd (ListOrDie r C) (\<lambda>items.
     bnd (for_each (\<lambda>x. if sf_labelled (om_labels (c_meta C x)) then DeleteR r C (c_meta C x) else ret ()) items) (\<lambda>_.
       ret (list_all (\<lambda>x. \<not> sf_labelled (om_labels (c_meta C x))) items)))"

definition clean_rounds :: "'w kctx \<Rightarrow> 'o codec \<Rightarrow> ('w st, unit) prog" where
  "clean_rounds r C = bnd (for_range 60 (bnd (clean_round r C) (\<lambda>cleaned.
     if cleaned then ret (Some ()) else bnd (sysc (s_sleep (k_sys r) (second * 2))) (\<lambda>_. ret None)))) (\<lambda>_. ret ())"

definition CleanPVCs :: "'w kctx \<Rightarrow> ('w st, unit) prog" where
  "CleanPVCs r = clean_rounds r cPVC"

text \<open>A nil selector of a deployment or of a stateful set is dereferenced.\<close>

definition selector_labelled :: "gomap option \<Rightarrow> ('s, bool) prog" where
  "selector_labelled sel = (case sel of None \<Rightarrow> panic nil_deref | Some m \<Rightarrow> ret (sf_labelled m))"

definition CleanSFInstance :: "'w kctx \<Rightarrow> ('w st, unit) prog" where
  "CleanSFInstance r =
     bnd (nukeZK r) (\<lambda>_.
     bnd (GetOrDie r cConfigMap ''sf-standalone-owner'') (\<lambda>found.
     bnd (case found of Some cm \<Rightarrow> DeleteR r cConfigMap (cm_meta cm) | None \<Rightarrow> ret ()) (\<lambda>_.
     bnd (ListOrDie r cService) (\<lambda>svcs.
     bnd (for_each (\<lambda>svc. if sf_labelled (sv_selector (sv_spec svc)) then DeleteR r cService (sv_meta svc) else ret ()) svcs) (\<lambda>_.
     bnd (ListOrDie r cDeployment) (\<lambda>deps.
     bnd (for_each (\<lambda>dep. bnd (selector_labelled (de_selector dep)) (\<lambda>b.
        if b then DeleteR r cDeployment (de_meta dep) else ret ())) deps) (\<lambda>_.
     bnd (ListOrDie r cStatefulSet) (\<lambda>stss.
     bnd (for_each (\<lambda>sts. bnd (selector_labelled (ss_selector sts)) (\<lambda>b.
        if b then DeleteR r cStatefulSet (ss_meta sts) else ret ())) stss) (\<lambda>_.
       clean_rounds r cPod)))))))))"

section \<open>The helper pod\<close>

definition ro_mount :: "string \<Rightarrow> string \<Rightarrow> volume_mount" where
  "ro_mount name path = (mk_mount name path)\<lparr>vm_readOnly := True\<rparr>"

definition mkKazooPod :: "'w kctx \<Rightarrow> ('s, pod) prog" where
  "mkKazooPod r = bnd (getZuulImage ''zuul-scheduler'') (\<lambda>img. ret
     \<lparr>po_meta = mk_meta ''zuul-kazoo'' (k_ns r),
      po_spec = zero_pod_spec\<lparr>
        ps_volumes := [MkVolumeSecret ''zuul-config'' [], MkVolumeSecret ''zookeeper-client-tls'' [],
          mkToolingVolume, MkEmptyDirVolume ''zuul-tmp''],
        ps_containers := [zero_container\<lparr>ct_name := ''zuul-kazoo'', ct_image := img,
          ct_command := [''sleep'', ''inf''],
          ct_volumeMounts := [ro_mount ''zuul-config'' ''/etc/zuul'', ro_mount ''zookeeper-client-tls'' ''/tls/client'',
            (ro_mount ''tooling-vol'' ''/usr/local/bin/rotate-keystore.py'')\<lparr>vm_subPath := ''rotate-keystore.py''\<rparr>,
            mk_mount ''zuul-tmp'' ''/var/lib/zuul''],
          ct_env := [MkEnvVar ''HOME'' ''/var/lib/zuul''],
          ct_securityContext := Some (MkSecurityContext False (k_isOpenShift r))\<rparr>]\<rparr>,
      po_phase = [], po_containerStatuses = [], po_initContainerStatuses = []\<rparr>)"

definition EnsureKazooPod :: "'w kctx \<Rightarrow> ('w st, bool) prog" where
  "EnsureKazooPod r = bnd (GetOrDie r cPod ''zuul-kazoo'') (\<lambda>found. case found of
       Some current \<Rightarrow> ret (po_phase current = ''Running'')
     | None \<Rightarrow> bnd (mkKazooPod r) (\<lambda>p. bnd (CreateR r cPod p) (\<lambda>_. ret False)))"

definition DeleteKazooPod :: "'w kctx \<Rightarrow> ('w st, unit) prog" where
  "DeleteKazooPod r = bnd (GetOrDie r cPod ''zuul-kazoo'') (\<lambda>found. case found of
       Some current \<Rightarrow> DeleteR r cPod (po_meta current) | None \<Rightarrow> ret ())"

text \<open>\<open>defer\<close>: the deferred call runs when the function returns and when it panics, not when the process exits.\<close>

definition with_defer :: "('s, 'a) prog \<Rightarrow> ('s, unit) prog \<Rightarrow> ('s, 'a) prog" where
  "with_defer m d = (\<lambda>s. case m s of
       (Exit n, t) \<Rightarrow> (Exit n, t)
     | (Stuck, t) \<Rightarrow> (Stuck, t)
     | (out, t) \<Rightarrow> bnd d (\<lambda>_ u. (out, u)) t)"

section \<open>Rotating the secrets\<close>

definition ClearConfigJob :: "'w kctx \<Rightarrow> ('w st, unit) prog" where
  "ClearConfigJob r = bnd (ListAll r cJob) (\<lambda>res.
     for_each (\<lambda>job. if HasPrefix (om_name (jo_meta job)) ''config-base-secret-''
        then DeleteR r cJob (jo_meta job) else ret ())
       (case res of Inl _ \<Rightarrow> [] | Inr jobs \<Rightarrow> jobs))"

definition kazoo :: string where "kazoo = ''zuul-kazoo''"

text \<open>\<open>script\<close> is the embedded rotation script; the results are the error.\<close>

definition RotateProjectPrivateKey :: "string \<Rightarrow> 'w kctx \<Rightarrow> string \<Rightarrow> int \<Rightarrow> string \<Rightarrow> string \<Rightarrow> ('w st, string option) prog" where
  "RotateProjectPrivateKey script r sshKey unixAge authorName authorMail =
     bnd (WaitFor r (EnsureKazooPod r)) (\<lambda>_.
     bnd (ClearConfigJob r) (\<lambda>_.
     bnd (DeleteR r cConfigMap (MkMeta r ''zs-internal-tenant-reconfigure'')) (\<lambda>_.
     bnd (EnsureConfigMap r ''zk-clients-need-refresh'' (Some fmempty)) (\<lambda>_.
     bnd (EnsureConfigMap r ''zuul-needs-full-reconfigure'' (Some fmempty)) (\<lambda>_.
     bnd (PodExecIn r kazoo kazoo [''bash'', ''-c'',
        ''cat > /tmp/rotate-projects-private-keys.py && chmod 755 /tmp/*.py''] script) (\<lambda>err.
     if err \<noteq> None then ret err else
     bnd (sysc (s_readFile (k_sys r) sshKey)) (\<lambda>res. case res of
       Inl e \<Rightarrow> ret (Some e)
     | Inr data \<Rightarrow>
       bnd (PodExecIn r kazoo kazoo [''bash'', ''-c'',
          ''cat > /var/lib/zuul/.ssh_push_key && chmod 0600 /var/lib/zuul/.ssh_push_key''] data) (\<lambda>err.
       if err \<noteq> None then ret err else
       bnd (PodExecBytes r ''zuul-scheduler-0'' ''zuul-scheduler'' [''cat'', ''/var/lib/zuul/main.yaml'']) (\<lambda>(tenants, err).
       if err \<noteq> None then ret err else
       bnd (PodExecIn r kazoo kazoo [''bash'', ''-c'', ''cat > /var/lib/zuul/main.yaml''] tenants) (\<lambda>err.
       if err \<noteq> None then ret err else
       bnd (ReadSecretValue r ''zuul-ssh-key'' ''priv'') (\<lambda>key.
         let logserverKey = s_base64 (k_sys r) key;
             age = (if unixAge = 0 then 9223372036854775807 else unixAge) in
         PodExec r kazoo kazoo [''env'', ''PYTHONUNBUFFERED=1'', ''/tmp/rotate-projects-private-keys.py'',
           ''--age'', Itoa age, ''--author'', authorName, ''--email'', authorMail, ''--logserver-key'', logserverKey])))))))))))"

definition DeleteSecretOrError :: "'w kctx \<Rightarrow> string \<Rightarrow> ('w st, string option) prog" where
  "DeleteSecretOrError r name = bnd (GetOrDie r cSecret name) (\<lambda>found. case found of
       None \<Rightarrow> ret (Some (''missing secret: '' @ name))
     | Some secret \<Rightarrow> bnd (DeleteR r cSecret (se_meta secret)) (\<lambda>_. ret None))"

definition rotateZookeeperTLSSecrets :: "'w kctx \<Rightarrow> ('w st, string option) prog" where
  "rotateZookeeperTLSSecrets r =
     bnd (GetOrDie r cSecret ''zookeeper-server-tls'') (\<lambda>server. case server of
       None \<Rightarrow> ret (Some ''missing zookeeper server secret'')
     | Some secretServer \<Rightarrow> bnd (GetOrDie r cSecret ''zookeeper-client-tls'') (\<lambda>client. case client of
         None \<Rightarrow> ret (Some ''missing zookeeper client secret'')
       | Some secretClient \<Rightarrow>
           bnd (DeleteR r cSecret (se_meta secretClient)) (\<lambda>_.
           bnd (DeleteR r cSecret (se_meta secretServer)) (\<lambda>_. ret None))))"

definition rotateZuulDBConnectionSecret :: "'w kctx \<Rightarrow> ('w st, string option) prog" where
  "rotateZuulDBConnectionSecret r = DeleteSecretOrError r ''zuul-db-connection''"

definition rotateZuulAuthenticatorSecret :: "'w kctx \<Rightarrow> ('w st, string option) prog" where
  "rotateZuulAuthenticatorSecret r = bnd (DeleteSecretOrError r ''zuul-auth-secret'') (\<lambda>err. case err of
       Some e \<Rightarrow> ret (Some e)
     | None \<Rightarrow> bnd (EnsureSecretUUID r ''zuul-auth-secret'') (\<lambda>_. ret None))"

text \<open>The password is replaced in the secret; writing to a nil map panics.\<close>

definition save_new_password :: "'w kctx \<Rightarrow> secret \<Rightarrow> string \<Rightarrow> ('w st, string option) prog" where
  "save_new_password r secret newPassword = (case se_data secret of
       None \<Rightarrow> panic ''assignment to entry in nil map''
     | Some m \<Rightarrow>
         bnd (UpdateR r cSecret (secret\<lparr>se_data := Some (fmupd ''zuul-keystore-password'' newPassword
            (fmupd ''zuul-keystore-password-old'' (gm_get (se_data secret) ''zuul-keystore-password'') m))\<rparr>)) (\<lambda>(ok, _).
           ret (if ok then None else Some (''couldn'' @ [CHR 0x27] @ ''t save the new secret''))))"

definition rotateKeystorePassword :: "'w kctx \<Rightarrow> ('w st, string option) prog" where
  "rotateKeystorePassword r =
     bnd (GetOrDie r cSecret ''zuul-keystore-password-new'') (\<lambda>new. case new of
       Some _ \<Rightarrow> ret (Some ''existing zuul-keystore-password-new found'')
     | None \<Rightarrow> bnd (GetOrDie r cSecret ''zuul-keystore-password'') (\<lambda>old. case old of
         None \<Rightarrow> ret (Some ''missing zuul-keystore-password secret'')
       | Some secret \<Rightarrow>
           bnd (EnsureSecretUUID r ''zuul-keystore-password-new'') (\<lambda>tmpSecret.
             let oldPassword = gm_get (se_data secret) ''zuul-keystore-password'';
                 newPassword = gm_get (se_data tmpSecret) ''zuul-keystore-password-new'' in
             bnd (WaitFor r (EnsureKazooPod r)) (\<lambda>_.
             with_defer
               (bnd (RunPodCmd r kazoo kazoo [''python3'', ''/usr/local/bin/rotate-keystore.py'', oldPassword, newPassword]) (\<lambda>res. case res of
                  Inl e \<Rightarrow> ret (Some e)
                | Inr _ \<Rightarrow>
                    bnd (PodExecBytes r kazoo kazoo [''cat'', ''/var/lib/zuul/keys-backup.json'']) (\<lambda>(keys, err).
                    bnd (if err \<noteq> None then ret ()
                         else bnd (sysc (s_writeFile (k_sys r) ''zuul-keys.backup'' keys)) (\<lambda>_.
                              bnd (sysc (s_writeFile (k_sys r) ''zuul-keys.password'' oldPassword)) (\<lambda>_. ret ()))) (\<lambda>_.
                    bnd (save_new_password r secret newPassword) (\<lambda>err. case err of
                        Some e \<Rightarrow> ret (Some e)
                      | None \<Rightarrow> bnd (DeleteR r cSecret (se_meta tmpSecret)) (\<lambda>_. ret None))))))
               (DeleteKazooPod r)))))"

definition DoRotateSecrets :: "'w kctx \<Rightarrow> ('w st, string option) prog" where
  "DoRotateSecrets r = bnd (ListAll r cPod) (\<lambda>pods. case pods of
       Inl e \<Rightarrow> ret (Some (err_Error e))
     | Inr podList \<Rightarrow>
         bnd (rotateKeystorePassword r) (\<lambda>err. if err \<noteq> None then ret err else
         bnd (nukeZK r) (\<lambda>_.
         bnd (rotateZuulAuthenticatorSecret r) (\<lambda>err. if err \<noteq> None then ret err else
         bnd (rotateZuulDBConnectionSecret r) (\<lambda>err. if err \<noteq> None then ret err else
         bnd (rotateZookeeperTLSSecrets r) (\<lambda>err. if err \<noteq> None then ret err else
         bnd (for_each (\<lambda>pod.
             if HasPrefix (om_name (po_meta pod)) ''zuul-scheduler'' \<or> HasPrefix (om_name (po_meta pod)) ''zuul-web-''
             then DeleteR r cPod (po_meta pod) else ret ()) podList) (\<lambda>_. ret None)))))))"

section \<open>Backup and restoration\<close>

definition SecretsToBackup :: "string list" where
  "SecretsToBackup = [''zookeeper-client-tls'', ''zookeeper-server-tls'', ''nodepool-builder-ssh-key'', ''zuul-ssh-key'',
     ''zuul-spare-ssh-key'', ''zuul-keystore-password'', ''zuul-auth-secret'', ''logserver-keys'',
     ''logserver-uploader-keys'', ''logserver-uploader-spare-keys'']"

definition DBBackupPath :: string where "DBBackupPath = ''mariadb/db-zuul.sql''"
definition ZuulBackupPath :: string where "ZuulBackupPath = ''zuul/zuul.keys''"
definition SecretsBackupPath :: string where "SecretsBackupPath = ''secrets/''"
definition dbBackupPod :: string where "dbBackupPod = ''mariadb-0''"

definition secret_file :: "string \<Rightarrow> string \<Rightarrow> string" where
  "secret_file backupDir name = backupDir @ ''/'' @ SecretsBackupPath @ ''/'' @ name @ ''.yaml''"

text \<open>What is kept of a secret: the name, the namespace, the annotations and the data.\<close>

definition cleanSecret :: "secret \<Rightarrow> secret" where
  "cleanSecret s = \<lparr>se_meta = (mk_meta (om_name (se_meta s)) (om_namespace (se_meta s)))\<lparr>om_annotations := om_annotations (se_meta s)\<rparr>,
     se_data = se_data s, se_type = []\<rparr>"

definition backup_one :: "'w kctx \<Rightarrow> string \<Rightarrow> string \<Rightarrow> ('w st, string option) prog" where
  "backup_one r backupDir secName = bnd (Get r cSecret secName) (\<lambda>(exist, err, obj). case err of
       Some e \<Rightarrow> ret (Some (err_Error e))
     | None \<Rightarrow> (case (exist, obj) of
         (True, Some secret) \<Rightarrow> sysc (s_writeFile (k_sys r) (secret_file backupDir (om_name (se_meta secret)))
            (s_yamlSecret (k_sys r) (cleanSecret secret)))
       | _ \<Rightarrow> ret (Some (secName @ '': missing secret''))))"

definition createSecretBackup :: "'w kctx \<Rightarrow> string \<Rightarrow> SoftwareFactory \<Rightarrow> ('w st, string option) prog" where
  "createSecretBackup r backupDir cr =
     bnd (sysc (s_mkdirAll (k_sys r) (backupDir @ ''/'' @ SecretsBackupPath))) (\<lambda>err. case err of
       Some e \<Rightarrow> ret (Some e)
     | None \<Rightarrow> for_return (backup_one r backupDir) (SecretsToBackup @ CRSecrets cr))"

definition createZuulKeypairBackup :: "'w kctx \<Rightarrow> string \<Rightarrow> ('w st, string option) prog" where
  "createZuulKeypairBackup r backupDir =
     (let zuulBackupPath = backupDir @ ''/'' @ ZuulBackupPath in
      bnd (sysc (s_mkdirAll (k_sys r) (path_Dir zuulBackupPath))) (\<lambda>err. if err \<noteq> None then ret err else
      bnd (WaitFor r (EnsureKazooPod r)) (\<lambda>_.
      with_defer
        (bnd (PodExecM r kazoo kazoo [''zuul-admin'', ''export-keys'', ''/tmp/zuul-backup'']) (\<lambda>_.
         bnd (PodExecBytes r kazoo kazoo [''cat'', ''/tmp/zuul-backup'']) (\<lambda>(out, err). if err \<noteq> None then ret err else
         bnd (sysc (s_writeFile (k_sys r) zuulBackupPath out)) (\<lambda>err. if err \<noteq> None then ret err else
         bnd (PodExecM r kazoo kazoo [''rm'', ''/tmp/zuul-backup'']) (\<lambda>_. ret None)))))
        (DeleteKazooPod r))))"

definition createMySQLBackup :: "'w kctx \<Rightarrow> string \<Rightarrow> ('w st, string option) prog" where
  "createMySQLBackup r backupDir =
     (let mariadbBackupPath = backupDir @ ''/'' @ DBBackupPath in
      bnd (sysc (s_mkdirAll (k_sys r) (path_Dir mariadbBackupPath))) (\<lambda>err. if err \<noteq> None then ret err else
      bnd (Get r cPod dbBackupPod) (\<lambda>(exist, err, obj). case err of
        Some e \<Rightarrow> ret (Some (err_Error e))
      | None \<Rightarrow> (case (exist, obj) of
          (True, Some p) \<Rightarrow>
            bnd (PodExecBytes r (om_name (po_meta p)) MariaDBIdent [''mysqldump'', ''--databases'', ''zuul'', ''--single-transaction'']) (\<lambda>(out, err).
              if err \<noteq> None then ret err else sysc (s_writeFile (k_sys r) mariadbBackupPath out))
        | _ \<Rightarrow> ret (Some (dbBackupPod @ '': missing backup pod''))))))"

definition DoBackup :: "'w kctx \<Rightarrow> string \<Rightarrow> SoftwareFactory \<Rightarrow> ('w st, string option) prog" where
  "DoBackup r backupDir cr =
     bnd (createSecretBackup r backupDir cr) (\<lambda>err. if err \<noteq> None then ret err else
     bnd (createZuulKeypairBackup r backupDir) (\<lambda>err. if err \<noteq> None then ret err else
       createMySQLBackup r backupDir))"

definition restore_one :: "'w kctx \<Rightarrow> string \<Rightarrow> string \<Rightarrow> ('w st, string option) prog" where
  "restore_one r backupDir sec = bnd (sysc (s_readFile (k_sys r) (secret_file backupDir sec))) (\<lambda>res. case res of
       Inl e \<Rightarrow> ret (Some e)
     | Inr data \<Rightarrow> (case s_unyamlSecret (k_sys r) data of
         None \<Rightarrow> ret (Some ''error unmarshaling JSON'')
       | Some secret \<Rightarrow>
           bnd (CreateR r cSecret (secret\<lparr>se_meta := (se_meta secret)\<lparr>om_namespace := k_ns r\<rparr>\<rparr>)) (\<lambda>_. ret None)))"

definition restoreSecret :: "'w kctx \<Rightarrow> string \<Rightarrow> SoftwareFactory \<Rightarrow> ('w st, string option) prog" where
  "restoreSecret r backupDir cr = for_return (restore_one r backupDir) (SecretsToBackup @ CRSecrets cr)"

definition restoreDB :: "'w kctx \<Rightarrow> string \<Rightarrow> ('w st, string option) prog" where
  "restoreDB r backupDir = bnd (Get r cPod dbBackupPod) (\<lambda>(exist, err, obj). case err of
       Some e \<Rightarrow> ret (Some (err_Error e))
     | None \<Rightarrow> (case (exist, obj) of
         (True, Some p) \<Rightarrow>
           bnd (PodExecM r (om_name (po_meta p)) MariaDBIdent [''mysql'', ''-e DROP DATABASE zuul;'']) (\<lambda>_.
           bnd (sysc (s_readFile (k_sys r) (backupDir @ ''/'' @ DBBackupPath))) (\<lambda>res. case res of
             Inl e \<Rightarrow> ret (Some e)
           | Inr data \<Rightarrow> PodExecIn r ''mariadb-0'' ''mariadb'' [''mysql'', ''-h0''] data))
       | _ \<Rightarrow> ret (Some (dbBackupPod @ '': missing backup pod''))))"

definition restoreZuul :: "'w kctx \<Rightarrow> string \<Rightarrow> ('w st, string option) prog" where
  "restoreZuul r backupDir =
     bnd (PodExecM r kazoo kazoo [''bash'', ''-c'', ''rm -rf /tmp/zuul-import && mkdir -p /tmp/zuul-import'']) (\<lambda>_.
     bnd (sysc (s_readFile (k_sys r) (backupDir @ ''/'' @ ZuulBackupPath))) (\<lambda>res. case res of
       Inl e \<Rightarrow> ret (Some e)
     | Inr data \<Rightarrow> PodExecIn r kazoo kazoo [''bash'', ''-c'',
         ''cat > /tmp/zuul.keys && zuul-admin import-keys --force /tmp/zuul.keys''] data))"

definition DoRestore :: "(SoftwareFactorySpec \<Rightarrow> string) \<Rightarrow> string \<Rightarrow> (string \<Rightarrow> string) \<Rightarrow>
    ('w SFController \<Rightarrow> ('w, 'c) deploys) \<Rightarrow> 'w kctx \<Rightarrow> string \<Rightarrow> SoftwareFactory \<Rightarrow> ('w st, string option) prog" where
  "DoRestore marshal version static impl r backupDir cr =
     bnd (restoreSecret r backupDir cr) (\<lambda>err. if err \<noteq> None then ret err else
     bnd (MkSFController static r cr) (\<lambda>sfCtrl. let d = impl sfCtrl in
     bnd (d_DeployMariadb d) (\<lambda>_.
     bnd (d_DeployZookeeper d) (\<lambda>_.
     bnd (WaitFor r (d_DeployMariadb d)) (\<lambda>_.
     bnd (WaitFor r (d_DeployZookeeper d)) (\<lambda>_.
     bnd (d_DeployZuulSecrets d) (\<lambda>_.
     bnd (d_EnsureZuulConfigSecret d False) (\<lambda>_.
     bnd (EnsureToolingVolume sfCtrl) (\<lambda>_.
     bnd (WaitFor r (EnsureKazooPod r)) (\<lambda>_.
     bnd (restoreZuul r backupDir) (\<lambda>err. if err \<noteq> None then ret err else
     bnd (restoreDB r backupDir) (\<lambda>err. if err \<noteq> None then ret err else
     bnd (DeleteKazooPod r) (\<lambda>_.
       StandaloneReconcile marshal version static impl r cr)))))))))))))"

section \<open>Cleaning removes the objects of the instance and nothing else\<close>

definition doomed :: "'o codec \<Rightarrow> string \<Rightarrow> kobj \<Rightarrow> bool" where
  "doomed C ns ob \<longleftrightarrow> kind_of ob = c_kind C \<and> (ns = [] \<or> om_namespace (meta_of ob) = ns) \<and>
     sf_labelled (om_labels (meta_of ob))"

text \<open>Between the two states some objects that satisfy \<open>P\<close> were removed, and nothing else happened.\<close>

definition shrinks :: "('w \<Rightarrow> kref \<Rightarrow> kobj option) \<Rightarrow> (kobj \<Rightarrow> bool) \<Rightarrow> 'w st \<Rightarrow> 'w st \<Rightarrow> bool" where
  "shrinks store P s t \<longleftrightarrow> (\<forall>x. store (st_world t) x = store (st_world s) x \<or>
     store (st_world t) x = None \<and> (\<exists>ob. store (st_world s) x = Some ob \<and> P ob))"

interpretation shrink: effect_bound "shrinks store P" for store P
proof
  show "shrinks store P s s" for s by (simp add: shrinks_def)
  show "shrinks store P s u" if "shrinks store P s t" "shrinks store P t u" for s t u
    using that unfolding shrinks_def by metis
qed

lemma shrinks_same: "store (st_world t) = store (st_world s) \<Longrightarrow> shrinks store P s t"
  by (simp add: shrinks_def)

lemma shrinks_within: "within (touches store {}) m \<Longrightarrow> within (shrinks store P) m"
  by (erule within_mono) (simp add: touches_empty shrinks_def)

lemma those_Some: "those (map f ks) = Some xs \<Longrightarrow> x \<in> set xs \<Longrightarrow> \<exists>k \<in> set ks. f k = Some x"
  by (induction ks arbitrary: xs) (auto split: option.splits)

context kube_client
begin

lemma listOrDie_items:
  assumes C: "codec_laws C" and run: "ListOrDie r C s = (Ok items, t)" and x: "x \<in> set items"
  shows "store (st_world s) (oref (c_enc C x)) = Some (c_enc C x) \<and>
    (k_ns r = [] \<or> om_namespace (c_meta C x) = k_ns r)"
proof -
  obtain ks w where l: "s_list (k_sys r) (c_kind C) (k_ns r) None (st_world s) = (Inr ks, w)"
      "those (map (c_dec C) ks) = Some items"
    using run by (auto simp: ListOrDie_def ListAll_def ListSel_def decode_all_def bnd_eq_Ok sysc_def
        split: prod.splits sum.splits option.splits)
  then have "c_enc C x \<in> set ks"
    using those_Some [OF l(2) x] by (auto simp: codec_laws.dec_iff [OF C])
  from list_sound [OF l(1) this] show ?thesis
    by (simp add: codec_laws.enc_meta [OF C])
qed

lemma deleteR_shrinks:
  assumes C: "codec_laws C" and x: "P (c_enc C x)" "store (st_world s0) (oref (c_enc C x)) = Some (c_enc C x)"
    and s: "shrinks store P s0 s" and run: "DeleteR r C (c_meta C x) s = (out, t)"
  shows "shrinks store P s0 t"
proof -
  have a: "oref (c_enc C x) = kref_of (c_kind C) (om_namespace (c_meta C x)) (om_name (c_meta C x))"
    by (rule codec_laws.oref_enc [OF C])
  obtain d w where d: "s_delete (k_sys r) (k_dryRun r) (c_kind C) (om_namespace (c_meta C x)) (om_name (c_meta C x)) (st_world s) = (d, w)"
    by fastforce
  then have "st_world t = w"
    using run by (auto simp: DeleteR_def client_Delete_def bnd_def sysc_def split: option.splits if_splits)
  with delete_local [OF d] delete_fewer [OF d] s x a show ?thesis
    unfolding shrinks_def by metis
qed

end

locale quiet_client = kube_client r store + kube_quiet "k_sys r" store
  for r :: "'w kctx" and store :: "'w \<Rightarrow> kref \<Rightarrow> kobj option"
begin

lemma sysc_sleep: "within (touches store X) (sysc (s_sleep (k_sys r) d))"
  and sysc_exec: "within (touches store X) (sysc (s_exec (k_sys r) ns pd ctn cmd inp))"
  by (rule within_sysc; auto dest: sleep_frame exec_frame)+

lemma clean_round_shrinks:
  assumes C: "codec_laws C"
  shows "within (shrinks store (doomed C (k_ns r))) (clean_round r C)"
proof (rule withinI)
  let ?P = "doomed C (k_ns r)"
  let ?del = "\<lambda>x. if sf_labelled (om_labels (c_meta C x)) then DeleteR r C (c_meta C x) else ret ()"
  fix s out t assume run: "clean_round r C s = (out, t)"
  obtain o1 s1 where l: "ListOrDie r C s = (o1, s1)" by fastforce
  have s1: "shrinks store ?P s s1"
    using withinD [OF listOrDie_touches l, of "{}"] by (auto simp: touches_empty intro: shrinks_same)
  have loop: "shrinks store ?P s u"
    if "set xs \<subseteq> set items" "o1 = Ok items" "shrinks store ?P s v" "for_each ?del xs v = (out, u)" for xs items out u v
    using that
  proof (induction xs arbitrary: v)
    case (Cons x xs)
    have x: "store (st_world s) (oref (c_enc C x)) = Some (c_enc C x)"
        "k_ns r = [] \<or> om_namespace (c_meta C x) = k_ns r"
      using listOrDie_items [OF C, of s items s1 x] l Cons.prems by auto
    obtain o2 v' where d: "?del x v = (o2, v')" by fastforce
    have "shrinks store ?P s v'"
    proof (cases "sf_labelled (om_labels (c_meta C x))")
      case True
      then have "?P (c_enc C x)"
        using x(2) by (simp add: doomed_def codec_laws.enc_kind [OF C] codec_laws.enc_meta [OF C])
      from deleteR_shrinks [OF C this x(1) Cons.prems(3)] d True show ?thesis by simp
    next
      case False
      with d Cons.prems(3) show ?thesis by simp
    qed
    with Cons d show ?case by (cases o2) (auto simp: bnd_def)
  qed simp
  show "shrinks store ?P s t"
  proof (cases o1)
    case (Ok items)
    obtain o2 u where f: "for_each ?del items s1 = (o2, u)" by fastforce
    with run l Ok have "t = u" by (cases o2) (auto simp: clean_round_def bnd_def)
    with loop [OF subset_refl Ok s1 f] show ?thesis by simp
  qed (use run l s1 in \<open>auto simp: clean_round_def bnd_def\<close>)
qed

lemma clean_rounds_shrinks:
  assumes "codec_laws C"
  shows "within (shrinks store (doomed C (k_ns r))) (clean_rounds r C)"
  unfolding clean_rounds_def
  by (intro shrink.within_rules clean_round_shrinks assms shrinks_within sysc_sleep)

end

context live_client
begin

lemma deleteR_gone:
  "\<exists>t. DeleteR r C m s = (Ok (), t) \<and> store (st_world t) (kref_of (c_kind C) (om_namespace m) (om_name m)) = None \<and>
    (\<forall>x. store (st_world t) x = store (st_world s) x \<or> store (st_world t) x = None)"
proof -
  let ?a = "kref_of (c_kind C) (om_namespace m) (om_name m)"
  obtain d w where d: "s_delete (k_sys r) False (c_kind C) (om_namespace m) (om_name m) (st_world s) = (d, w)"
    by fastforce
  have e: "store w ?a = None \<and> (case d of None \<Rightarrow> True | Some e \<Rightarrow> IsNotFound e)"
    using d delete_present [of "st_world s" "c_kind C" "om_namespace m" "om_name m"]
      delete_missing [of "st_world s" "c_kind C" "om_namespace m" "om_name m" False] delete_fewer [OF d]
    by (cases "store (st_world s) ?a") auto
  then have "DeleteR r C m s = (Ok (), s\<lparr>st_world := w\<rparr>)"
    using d live by (auto simp: DeleteR_def client_Delete_def bnd_def sysc_def split: option.splits)
  with e delete_local [OF d] show ?thesis
    by (intro exI [of _ "s\<lparr>st_world := w\<rparr>"]) (metis (no_types, lifting) st.select_convs(1) st.surjective st.update_convs(1))
qed

lemma delete_loop_gone:
  assumes C: "codec_laws C"
  shows "\<exists>t. for_each (\<lambda>x. if P x then DeleteR r C (c_meta C x) else ret ()) xs s = (Ok (), t) \<and>
    (\<forall>x \<in> set xs. P x \<longrightarrow> store (st_world t) (oref (c_enc C x)) = None) \<and>
    (\<forall>a. store (st_world t) a = store (st_world s) a \<or> store (st_world t) a = None)"
proof (induction xs arbitrary: s)
  case (Cons x xs)
  obtain u where u: "(if P x then DeleteR r C (c_meta C x) else ret ()) s = (Ok (), u)"
      "P x \<longrightarrow> store (st_world u) (oref (c_enc C x)) = None"
      "\<And>a. store (st_world u) a = store (st_world s) a \<or> store (st_world u) a = None"
    using deleteR_gone [of C "c_meta C x" s] codec_laws.oref_enc [OF C, of x] by (cases "P x") auto
  obtain t where t: "for_each (\<lambda>x. if P x then DeleteR r C (c_meta C x) else ret ()) xs u = (Ok (), t)"
      "\<forall>x \<in> set xs. P x \<longrightarrow> store (st_world t) (oref (c_enc C x)) = None"
      "\<And>a. store (st_world t) a = store (st_world u) a \<or> store (st_world t) a = None"
    using Cons.IH [of u] by blast
  have "for_each (\<lambda>x. if P x then DeleteR r C (c_meta C x) else ret ()) (x # xs) s = (Ok (), t)"
    using u(1) t(1) by (simp add: bnd_def)
  moreover have "store (st_world t) (oref (c_enc C x)) = None" if "P x"
    using u(2) that t(3) [of "oref (c_enc C x)"] by auto
  moreover have "store (st_world t) a = store (st_world s) a \<or> store (st_world t) a = None" for a
    using t(3) [of a] u(3) [of a] by auto
  ultimately show ?case using t(2) by auto
qed simp

lemma listOrDie_all:
  assumes C: "codec_laws C"
  shows "\<exists>items t. ListOrDie r C s = (Ok items, t) \<and> store (st_world t) = store (st_world s) \<and>
    (\<forall>x. store (st_world s) (oref (c_enc C x)) = Some (c_enc C x) \<and> (k_ns r = [] \<or> om_namespace (c_meta C x) = k_ns r) \<longrightarrow>
       x \<in> set items)"
proof -
  obtain ks w where l: "s_list (k_sys r) (c_kind C) (k_ns r) None (st_world s) = (Inr ks, w)"
    and all: "\<And>ob. store (st_world s) (oref ob) = Some ob \<Longrightarrow> kind_of ob = c_kind C \<Longrightarrow>
      k_ns r = [] \<or> om_namespace (meta_of ob) = k_ns r \<Longrightarrow> labels_match None (om_labels (meta_of ob)) \<Longrightarrow> ob \<in> set ks"
    using list_complete [of "c_kind C" "k_ns r" None "st_world s"] by (metis prod.collapse)
  have "\<exists>xs. those (map (c_dec C) ks) = Some xs \<and> ks = map (c_enc C) xs"
    using list_sound [OF l]
  proof (induction ks)
    case (Cons k ks)
    obtain x where "c_dec C k = Some x"
      using codec_laws.dec_kind [OF C, of k] Cons.prems [of k] by auto
    moreover from this have "k = c_enc C x" by (simp add: codec_laws.dec_iff [OF C])
    ultimately show ?case using Cons by auto
  qed simp
  then obtain xs where xs: "those (map (c_dec C) ks) = Some xs" "ks = map (c_enc C) xs" by blast
  have "x \<in> set xs" if "store (st_world s) (oref (c_enc C x)) = Some (c_enc C x)"
      "k_ns r = [] \<or> om_namespace (c_meta C x) = k_ns r" for x
  proof -
    have "c_enc C x \<in> set ks"
      using all that by (simp add: codec_laws.enc_kind [OF C] codec_laws.enc_meta [OF C] labels_match_def)
    then obtain y where "y \<in> set xs" "c_enc C x = c_enc C y" using xs(2) by auto
    with codec_laws.dec_iff [OF C] show ?thesis by (metis option.inject)
  qed
  moreover have "ListOrDie r C s = (Ok xs, s\<lparr>st_world := w\<rparr>)"
    using l xs(1) by (simp add: ListOrDie_def ListAll_def ListSel_def decode_all_def bnd_def sysc_def)
  ultimately show ?thesis using list_frame [OF l] by auto
qed

lemma clean_round_empties:
  assumes C: "codec_laws C"
  shows "\<exists>b t. clean_round r C s = (Ok b, t) \<and> (\<forall>a ob. store (st_world t) a = Some ob \<longrightarrow> \<not> doomed C (k_ns r) ob)"
proof -
  let ?P = "\<lambda>x. sf_labelled (om_labels (c_meta C x))"
  obtain items u where l: "ListOrDie r C s = (Ok items, u)" "store (st_world u) = store (st_world s)"
    and all: "\<And>x. store (st_world s) (oref (c_enc C x)) = Some (c_enc C x) \<Longrightarrow>
      k_ns r = [] \<or> om_namespace (c_meta C x) = k_ns r \<Longrightarrow> x \<in> set items"
    using listOrDie_all [OF C] by blast
  obtain t where t: "for_each (\<lambda>x. if ?P x then DeleteR r C (c_meta C x) else ret ()) items u = (Ok (), t)"
      "\<And>x. x \<in> set items \<Longrightarrow> ?P x \<Longrightarrow> store (st_world t) (oref (c_enc C x)) = None"
      "\<And>a. store (st_world t) a = store (st_world u) a \<or> store (st_world t) a = None"
    using delete_loop_gone [OF C, of ?P items u] by blast
  have "\<not> doomed C (k_ns r) ob" if a: "store (st_world t) a = Some ob" for a ob
  proof
    assume d: "doomed C (k_ns r) ob"
    then obtain x where x: "ob = c_enc C x"
      using codec_laws.dec_kind [OF C, of ob] codec_laws.dec_iff [OF C] by (auto simp: doomed_def)
    have "oref ob = a" using store_typed a by (metis prod_cases3)
    then have "store (st_world t) (oref (c_enc C x)) = Some (c_enc C x)" using a x by simp
    moreover from this have "store (st_world s) (oref (c_enc C x)) = Some (c_enc C x)"
      using t(3) [of "oref (c_enc C x)"] l(2) by simp
    ultimately have "store (st_world s) (oref (c_enc C x)) = Some (c_enc C x)" "store (st_world t) (oref (c_enc C x)) \<noteq> None"
      by simp_all
    with all [of x] t(2) [of x] d x show False
      by (simp add: doomed_def codec_laws.enc_meta [OF C])
  qed
  with l(1) t(1) show ?thesis by (auto simp: clean_round_def bnd_def)
qed

end

locale quiet_live_client = quiet_client r store + live_client r store
  for r :: "'w kctx" and store :: "'w \<Rightarrow> kref \<Rightarrow> kobj option"
begin

lemma clean_rounds_empty:
  assumes C: "codec_laws C"
  shows "\<exists>t. clean_rounds r C s = (Ok (), t) \<and> (\<forall>a ob. store (st_world t) a = Some ob \<longrightarrow> \<not> doomed C (k_ns r) ob)"
proof -
  let ?body = "bnd (clean_round r C) (\<lambda>cleaned. if cleaned then ret (Some ())
    else bnd (sysc (s_sleep (k_sys r) (second * 2))) (\<lambda>_. ret None))"
  have body: "\<exists>b t. ?body s = (Ok b, t) \<and> (\<forall>a ob. store (st_world t) a = Some ob \<longrightarrow> \<not> doomed C (k_ns r) ob)" for s
  proof -
    obtain b u where u: "clean_round r C s = (Ok b, u)" "\<And>a ob. store (st_world u) a = Some ob \<Longrightarrow> \<not> doomed C (k_ns r) ob"
      using clean_round_empties [OF C] by blast
    obtain v w where w: "s_sleep (k_sys r) (second * 2) (st_world u) = (v, w)" by (cases "s_sleep (k_sys r) (second * 2) (st_world u)")
    from u sleep_frame [OF w] w show ?thesis by (cases b) (auto simp: bnd_def sysc_def)
  qed
  have "\<exists>b t. for_range (Suc n) ?body s = (Ok b, t) \<and> (\<forall>a ob. store (st_world t) a = Some ob \<longrightarrow> \<not> doomed C (k_ns r) ob)"
    for n
  proof (induction n arbitrary: s)
    case (Suc n)
    obtain b u where "?body s = (Ok b, u)" "\<forall>a ob. store (st_world u) a = Some ob \<longrightarrow> \<not> doomed C (k_ns r) ob"
      using body by blast
    with Suc.IH [of u] show ?case by (cases b) (auto simp: bnd_def [of ?body] simp del: for_range.simps(2) simp: for_range.simps(2) [of "Suc n"])
  next
    case 0
    then show ?case using body [of s] by (auto simp: bnd_def [of ?body] split: option.splits)
  qed
  from this [of 59] show ?thesis by (auto simp: clean_rounds_def bnd_def [of "for_range 60 ?body"])
qed

lemma deleteKazooPod_gone:
  assumes "DeleteKazooPod r s = (Ok (), t)"
  shows "store (st_world t) (kref_of KPod (k_ns r) ''zuul-kazoo'') = None"
proof -
  obtain found u where u: "GetOrDie r cPod ''zuul-kazoo'' s = (Ok found, u)"
      "(case found of Some current \<Rightarrow> DeleteR r cPod (po_meta current) | None \<Rightarrow> ret ()) u = (Ok (), t)"
    using assms by (auto simp: DeleteKazooPod_def bnd_eq_Ok)
  show ?thesis
  proof (cases found)
    case (Some p)
    with deleteR_gone [of cPod "po_meta p" u] u getOrDie_Some [OF codec_axioms(6), of "''zuul-kazoo''" s p u] show ?thesis
      by (auto simp: oref_def kref_of_def cPod_def split: if_splits)
  next
    case None
    have "typed cPod (store (st_world s) (kref_of KPod (k_ns r) ''zuul-kazoo'')) = None"
      using getOrDie_looks [OF codec_axioms(6), of "''zuul-kazoo''", unfolded looks_def, rule_format, of s] u None by auto
    with stored_typed [OF codec_axioms(6), of "st_world s" "k_ns r" "''zuul-kazoo''"] withinD [OF getOrDie_touches u(1), of "{}"]
      None u(2) show ?thesis
      by (cases "store (st_world s) (kref_of KPod (k_ns r) ''zuul-kazoo'')") (auto simp: typed_def touches_empty codec_laws.dec_enc [OF codec_axioms(6)])
  qed
qed

end

interpretation mem_quiet_live: quiet_live_client "r\<lparr>k_sys := mem_sys, k_dryRun := False\<rparr>" mem_store for r
  by (simp add: quiet_live_client_def quiet_client_def kube_client_def mem_live.live_client_axioms
      mem.kube_observed_axioms mem_q.kube_quiet_axioms)

end
