(* ===== verification/Backup.thy ===== *)
theory Backup
  imports Maintenance
begin

text \<open>
  What a backup is good for: the secrets that \<open>createSecretBackup\<close> writes are the ones that
  \<open>restoreSecret\<close> creates in another namespace, and the helper pod does not outlive the operations
  that use it. The locale \<open>file_laws\<close> states what this relies on outside the sources: a file reads
  back as it was written, requests to the API server leave the files alone, and the YAML of a
  secret reads back with its name, annotations and data.
\<close>

section \<open>Files\<close>

locale file_laws =
  fixes S :: "'w sys" and files :: "'w \<Rightarrow> string \<Rightarrow> string option"
  assumes read_file: "files w p = Some d \<Longrightarrow> fst (s_readFile S p w) = Inr d"
    and read_files: "s_readFile S p w = (fr, w') \<Longrightarrow> files w' = files w"
    and write_file: "s_writeFile S p d w = (None, w') \<Longrightarrow> files w' = (files w)(p \<mapsto> d)"
    and mkdir_files: "s_mkdirAll S p w = (fe, w') \<Longrightarrow> files w' = files w"
    and get_files: "s_get S k ns n w = (g, w') \<Longrightarrow> files w' = files w"
    and create_files: "s_create S dry ob w = (c, w') \<Longrightarrow> files w' = files w"
    and yaml_back: "\<exists>y. s_unyamlSecret S (s_yamlSecret S x) = Some y \<and>
      kept_meta ((se_meta x)\<lparr>om_labels := None\<rparr>) (se_meta y) \<and> gm_fm (se_data y) = gm_fm (se_data x)"

interpretation mem_fs: file_laws mem_sys "\<lambda>w. fmlookup (mw_files w)"
proof (unfold_locales, goal_cases)
  case 7
  show ?case using mem_yaml_roundtrip by (simp add: mem_sys_def)
qed (auto simp: mem_sys_def mem_defs mem_put_def Let_def split: option.splits if_splits)

section \<open>Secrets read back\<close>

text \<open>The backup holds the secret \<open>n\<close> as it is in the cluster \<open>sto\<close>.\<close>

definition backed_up :: "'w sys \<Rightarrow> (string \<Rightarrow> string option) \<Rightarrow> (kref \<Rightarrow> kobj option) \<Rightarrow> string \<Rightarrow> string \<Rightarrow> string \<Rightarrow> bool" where
  "backed_up S fs sto ns dir n \<longleftrightarrow> (\<exists>se. sto (kref_of KSecret ns n) = Some (OSecret se) \<and> om_name (se_meta se) = n \<and>
     fs (secret_file dir n) = Some (s_yamlSecret S (cleanSecret se)))"

text \<open>The stored object is a secret with the annotations and the data of \<open>se\<close>.\<close>

definition same_secret :: "secret \<Rightarrow> kobj option \<Rightarrow> bool" where
  "same_secret se k \<longleftrightarrow> (\<exists>x. k = Some (OSecret x) \<and> gm_fm (se_data x) = gm_fm (se_data se) \<and>
     gm_fm (om_annotations (se_meta x)) = gm_fm (om_annotations (se_meta se)))"

text \<open>
  What became of one secret: a secret of that name that was already there stays, a missing one is
  back with the annotations and the data of the original.
\<close>

definition restored :: "kobj option \<Rightarrow> kobj option \<Rightarrow> kobj option \<Rightarrow> bool" where
  "restored orig before after \<longleftrightarrow> (case before of
       Some k \<Rightarrow> after = Some k
     | None \<Rightarrow> (\<exists>se. orig = Some (OSecret se) \<and> same_secret se after))"

lemma secret_file_inj: "secret_file dir n = secret_file dir m \<longleftrightarrow> n = m"
  by (simp add: secret_file_def)

locale backup_client = kube_client r store + file_laws "k_sys r" files
  for r :: "'w kctx" and store :: "'w \<Rightarrow> kref \<Rightarrow> kobj option" and files :: "'w \<Rightarrow> string \<Rightarrow> string option"
begin

lemma backup_one_step:
  assumes "backup_one r dir n s = (Ok None, t)"
  shows "store (st_world t) = store (st_world s) \<and>
    (\<exists>se. store (st_world s) (kref_of KSecret (k_ns r) n) = Some (OSecret se) \<and> om_name (se_meta se) = n \<and>
      files (st_world t) = (files (st_world s))(secret_file dir n \<mapsto> s_yamlSecret (k_sys r) (cleanSecret se)))"
proof -
  obtain ob w se where g: "s_get (k_sys r) KSecret (k_ns r) n (st_world s) = (Inr ob, w)" and ob: "c_dec cSecret ob = Some se"
    and wr: "s_writeFile (k_sys r) (secret_file dir (om_name (se_meta se))) (s_yamlSecret (k_sys r) (cleanSecret se)) w = (None, st_world t)"
    using assms by (auto simp: backup_one_def Get_def bnd_def sysc_def
        split: prod.splits sum.splits option.splits if_splits)
  have se: "ob = OSecret se" using ob codec_laws.dec_iff [OF codec_axioms(2)] by (simp add: cSecret_def)
  have "oref ob = kref_of KSecret (k_ns r) n"
    using get_sound [OF g] store_typed unfolding kref_of_def by metis
  then have "om_name (se_meta se) = n" using se by (simp add: oref_def kref_of_def)
  with get_sound [OF g] get_frame [OF g] get_files [OF g] write_file [OF wr] writeFile_frame [OF wr] se
  show ?thesis by simp
qed

text \<open>A later file of the loop may be the file of an earlier name, but then it has the same content.\<close>

lemma backup_loop:
  assumes "for_return (backup_one r dir) ns s = (Ok None, t)"
  shows "store (st_world t) = store (st_world s) \<and>
    (\<forall>n \<in> set ns. backed_up (k_sys r) (files (st_world t)) (store (st_world s)) (k_ns r) dir n) \<and>
    (\<forall>n. backed_up (k_sys r) (files (st_world s)) (store (st_world s)) (k_ns r) dir n \<longrightarrow>
       backed_up (k_sys r) (files (st_world t)) (store (st_world s)) (k_ns r) dir n)"
  using assms
proof (induction ns arbitrary: s)
  case (Cons n ns)
  obtain u where u: "backup_one r dir n s = (Ok None, u)" "for_return (backup_one r dir) ns u = (Ok None, t)"
    using Cons.prems by (auto simp: bnd_eq_Ok split: option.splits)
  note n = backup_one_step [OF u(1)]
  have now: "backed_up (k_sys r) (files (st_world u)) (store (st_world s)) (k_ns r) dir n"
    using n by (auto simp: backed_up_def)
  have kept: "backed_up (k_sys r) (files (st_world u)) (store (st_world s)) (k_ns r) dir m"
    if "backed_up (k_sys r) (files (st_world s)) (store (st_world s)) (k_ns r) dir m" for m
    using that n now by (cases "m = n") (auto simp: backed_up_def secret_file_inj)
  from Cons.IH [OF u(2)] n now kept show ?case by simp
qed simp

lemma createSecretBackup_saves:
  assumes "createSecretBackup r dir cr s = (Ok None, t)" and "n \<in> set (SecretsToBackup @ CRSecrets cr)"
  shows "store (st_world t) = store (st_world s) \<and>
    backed_up (k_sys r) (files (st_world t)) (store (st_world s)) (k_ns r) dir n"
proof -
  obtain u where u: "sysc (s_mkdirAll (k_sys r) (dir @ ''/'' @ SecretsBackupPath)) s = (Ok None, u)"
      "for_return (backup_one r dir) (SecretsToBackup @ CRSecrets cr) u = (Ok None, t)"
    using assms(1) by (auto simp: createSecretBackup_def bnd_eq_Ok split: option.splits)
  from u(1) have "store (st_world u) = store (st_world s)"
    by (auto simp: sysc_def split: prod.splits dest: mkdirAll_frame)
  with backup_loop [OF u(2)] assms(2) show ?thesis by simp
qed

end

locale restore_client = live_client r store + backup_client r store files
  for r :: "'w kctx" and store :: "'w \<Rightarrow> kref \<Rightarrow> kobj option" and files :: "'w \<Rightarrow> string \<Rightarrow> string option"
begin

lemma createR_existing:
  assumes C: "codec_laws C" and "store (st_world s) (oref (c_enc C x)) = Some k"
  shows "\<exists>y w. CreateR r C x s = (Ok y, s\<lparr>st_world := w\<rparr>) \<and> store w = store (st_world s)"
proof -
  let ?x = "c_enc C (owned r C x)"
  have a: "store (st_world s) (oref ?x) = Some k" using assms by (simp add: owned_keeps)
  obtain e w where e: "s_create (k_sys r) (k_dryRun r) ?x (st_world s) = (Inl e, w)" "IsAlreadyExists e"
    using create_exists [OF a, of "k_dryRun r"] by (metis prod.collapse)
  have "store w z = store (st_world s) z" for z
    using create_local [OF e(1)] create_keeps [OF e(1) a] a by (cases "z = oref ?x") auto
  then have "store w = store (st_world s)" by blast
  moreover have "CreateR r C x s = (Ok (owned r C x), s\<lparr>st_world := w\<rparr>)"
    using e by (simp add: CreateR_def Let_def client_Create_def bnd_def sysc_def)
  ultimately show ?thesis by blast
qed

lemma createR_files: "within (\<lambda>s t. files (st_world t) = files (st_world s)) (CreateR r C x)"
  by (rule withinI) (auto simp: CreateR_def Let_def client_Create_def bnd_def sysc_def panic_def
      split: prod.splits sum.splits option.splits if_splits elim!: create_files)

text \<open>One file is restored: the secret is created unless there is one of that name.\<close>

lemma restore_one_step:
  assumes f: "files (st_world s) (secret_file dir n) = Some (s_yamlSecret (k_sys r) (cleanSecret se))"
    and n: "om_name (se_meta se) = n"
  shows "\<exists>t. restore_one r dir n s = (Ok None, t) \<and> files (st_world t) = files (st_world s) \<and>
    (\<forall>x. x \<noteq> kref_of KSecret (k_ns r) n \<longrightarrow> store (st_world t) x = store (st_world s) x) \<and>
    (case store (st_world s) (kref_of KSecret (k_ns r) n) of
       None \<Rightarrow> same_secret se (store (st_world t) (kref_of KSecret (k_ns r) n))
     | Some k \<Rightarrow> store (st_world t) (kref_of KSecret (k_ns r) n) = Some k)"
proof -
  let ?a = "kref_of KSecret (k_ns r) n"
  obtain w where rd: "s_readFile (k_sys r) (secret_file dir n) (st_world s) = (Inr (s_yamlSecret (k_sys r) (cleanSecret se)), w)"
    using read_file [OF f] by (metis prod.collapse)
  obtain y where y: "s_unyamlSecret (k_sys r) (s_yamlSecret (k_sys r) (cleanSecret se)) = Some y"
      "kept_meta ((se_meta (cleanSecret se))\<lparr>om_labels := None\<rparr>) (se_meta y)" "gm_fm (se_data y) = gm_fm (se_data (cleanSecret se))"
    using yaml_back by blast
  define z where "z = y\<lparr>se_meta := (se_meta y)\<lparr>om_namespace := k_ns r\<rparr>\<rparr>"
  let ?s = "s\<lparr>st_world := w\<rparr>"
  have z: "oref (c_enc cSecret z) = ?a" "om_annotations (se_meta z) = om_annotations (se_meta y)" "se_data z = se_data y"
    using y(2) n by (simp_all add: z_def cSecret_def oref_def kref_of_def kept_meta_def cleanSecret_def mk_meta_def)
  have w: "store w = store (st_world s)" "files w = files (st_world s)"
    using readFile_frame [OF rd] read_files [OF rd] by simp_all
  have run: "restore_one r dir n s = (Ok None, t)" if "CreateR r cSecret z ?s = (Ok v, t)" for v t
    using that rd y(1) by (simp add: restore_one_def bnd_def sysc_def z_def)
  have other: "store (st_world t) x = store (st_world s) x" if "CreateR r cSecret z ?s = (v, t)" "x \<noteq> ?a" for v t x
    using withinD [OF createR_touches that(1), of "{?a}"] that z w codec_axioms(2) by (cases x) (simp add: touches_def)
  show ?thesis
  proof (cases "store (st_world s) ?a")
    case None
    then obtain v u where c: "CreateR r cSecret z ?s = (Ok v, ?s\<lparr>st_world := u\<rparr>)" "admitted (c_enc cSecret z) (c_enc cSecret v)"
        "store u ?a = Some (c_enc cSecret v)"
      using createR_absent [OF codec_axioms(2), of ?s z] z w by auto
    have "same_secret se (store u ?a)"
      using c(2,3) z(2,3) y(2,3)
      by (simp add: same_secret_def admitted_def kept_spec_def kept_meta_def cSecret_def cleanSecret_def)
    with None run [OF c(1)] other [OF c(1)] withinD [OF createR_files c(1)] w show ?thesis by auto
  next
    case (Some k)
    then obtain v u where c: "CreateR r cSecret z ?s = (Ok v, ?s\<lparr>st_world := u\<rparr>)" "store u = store (st_world s)"
      using createR_existing [OF codec_axioms(2), of ?s z k] z w by auto
    with Some run [OF c(1)] withinD [OF createR_files c(1)] w show ?thesis by auto
  qed
qed

lemma restore_loop:
  assumes "\<forall>n \<in> set ns. backed_up (k_sys r) (files (st_world s)) sto0 ns0 dir n"
  shows "\<exists>t. for_return (restore_one r dir) ns s = (Ok None, t) \<and>
    (\<forall>x. x \<notin> (\<lambda>n. kref_of KSecret (k_ns r) n) ` set ns \<longrightarrow> store (st_world t) x = store (st_world s) x) \<and>
    (\<forall>n \<in> set ns. restored (sto0 (kref_of KSecret ns0 n)) (store (st_world s) (kref_of KSecret (k_ns r) n))
       (store (st_world t) (kref_of KSecret (k_ns r) n)))"
  using assms
proof (induction ns arbitrary: s)
  case (Cons n ns)
  let ?a = "\<lambda>n. kref_of KSecret (k_ns r) n"
  obtain se where se: "sto0 (kref_of KSecret ns0 n) = Some (OSecret se)" "om_name (se_meta se) = n"
      "files (st_world s) (secret_file dir n) = Some (s_yamlSecret (k_sys r) (cleanSecret se))"
    using Cons.prems by (auto simp: backed_up_def)
  obtain u where u: "restore_one r dir n s = (Ok None, u)" "files (st_world u) = files (st_world s)"
      "\<And>x. x \<noteq> ?a n \<Longrightarrow> store (st_world u) x = store (st_world s) x"
      "case store (st_world s) (?a n) of None \<Rightarrow> same_secret se (store (st_world u) (?a n))
        | Some k \<Rightarrow> store (st_world u) (?a n) = Some k"
    using restore_one_step [OF se(3,2)] by blast
  obtain t where t: "for_return (restore_one r dir) ns u = (Ok None, t)"
      "\<And>x. x \<notin> ?a ` set ns \<Longrightarrow> store (st_world t) x = store (st_world u) x"
      "\<And>m. m \<in> set ns \<Longrightarrow> restored (sto0 (kref_of KSecret ns0 m)) (store (st_world u) (?a m)) (store (st_world t) (?a m))"
    using Cons.IH [of u] Cons.prems u(2) by auto
  have run: "for_return (restore_one r dir) (n # ns) s = (Ok None, t)" using u(1) t(1) by (simp add: bnd_def)
  have first: "restored (sto0 (kref_of KSecret ns0 n)) (store (st_world s) (?a n)) (store (st_world t) (?a n))"
  proof (cases "n \<in> set ns")
    case True
    with t(3) [OF True] u(4) se(1) show ?thesis
      by (auto simp: restored_def same_secret_def split: option.splits)
  next
    case False
    then have "?a n \<notin> ?a ` set ns" by (auto simp: kref_of_def)
    with t(2) u(4) se(1) show ?thesis by (auto simp: restored_def split: option.splits)
  qed
  have "restored (sto0 (kref_of KSecret ns0 m)) (store (st_world s) (?a m)) (store (st_world t) (?a m))"
    if "m \<in> set (n # ns)" for m
    using first t(3) [of m] u(3) [of "?a m"] that by (cases "m = n") (auto simp: kref_of_def)
  moreover have "store (st_world t) x = store (st_world s) x" if "x \<notin> ?a ` set (n # ns)" for x
    using t(2) u(3) that by auto
  ultimately show ?case using run by blast
qed simp

end

text \<open>The two operations together, in two namespaces of one server.\<close>

lemma backup_restores:
  assumes "backup_client r0 store files" and "restore_client r store files" and same: "k_sys r = k_sys r0"
    and b: "createSecretBackup r0 dir cr s0 = (Ok None, s1)"
    and f: "\<And>p. files (st_world s) p = files (st_world s1) p"
  shows "\<exists>t. restoreSecret r dir cr s = (Ok None, t) \<and>
    (\<forall>n \<in> set (SecretsToBackup @ CRSecrets cr). restored (store (st_world s0) (kref_of KSecret (k_ns r0) n))
       (store (st_world s) (kref_of KSecret (k_ns r) n)) (store (st_world t) (kref_of KSecret (k_ns r) n)))"
proof -
  have "files (st_world s) = files (st_world s1)" using f by blast
  then have "\<forall>n \<in> set (SecretsToBackup @ CRSecrets cr).
      backed_up (k_sys r) (files (st_world s)) (store (st_world s0)) (k_ns r0) dir n"
    using backup_client.createSecretBackup_saves [OF assms(1) b] same by simp
  from restore_client.restore_loop [OF assms(2) this] show ?thesis by (auto simp: restoreSecret_def)
qed

interpretation mem_backup: backup_client "r\<lparr>k_sys := mem_sys\<rparr>" mem_store "\<lambda>w. fmlookup (mw_files w)" for r
  by (simp add: backup_client_def mem_client.kube_client_axioms mem_fs.file_laws_axioms)

interpretation mem_restore: restore_client "r\<lparr>k_sys := mem_sys, k_dryRun := False\<rparr>" mem_store "\<lambda>w. fmlookup (mw_files w)" for r
  by (simp add: restore_client_def backup_client_def kube_client_def mem_live.live_client_axioms
      mem.kube_observed_axioms mem_fs.file_laws_axioms)

end
