(* ===== verification/Conf_Facts.thy ===== *)
theory Conf_Facts
  imports Zuul "HOL-Library.Multiset"
begin

text \<open>
  Facts on \<open>zuul.conf\<close>: every operation on the file keeps it well formed and never drops a section;
  \<open>DumpConfigINI\<close> is equal to sorting the keys of each section, so that the text does not depend on the
  order in which the loops over Go maps visit their entries; the sections that the services read exist.
\<close>

section \<open>Keys of a section\<close>

lemma map_of_upsert: "map_of (upsert k v kvs) = (map_of kvs)(k \<mapsto> v)"
  by (induction kvs) auto

lemma keys_upsert: "fst ` set (upsert k v kvs) = insert k (fst ` set kvs)"
  by (simp add: map_of_upsert flip: dom_map_of_conv_image_fst)

lemma distinct_upsert: "distinct (map fst kvs) \<Longrightarrow> distinct (map fst (upsert k v kvs))"
  by (induction kvs) (auto simp: keys_upsert)

lemma upsert_new: "k \<notin> fst ` set kvs \<Longrightarrow> upsert k v kvs = kvs @ [(k, v)]"
  by (induction kvs) auto

lemma upsert_all_new:
  "distinct (map fst kvs) \<Longrightarrow> fst ` set kvs \<inter> fst ` set xs = {} \<Longrightarrow> foldl (\<lambda>c (k, v). upsert k v c) xs kvs = xs @ kvs"
  by (induction kvs arbitrary: xs) (auto simp: upsert_new)

lemma delete_all: "fst ` set xs \<subseteq> set ks \<Longrightarrow> foldl (\<lambda>c k. filter (\<lambda>kv. fst kv \<noteq> k) c) xs ks = []"
proof (induction ks arbitrary: xs)
  case (Cons k ks)
  then have "fst ` set (filter (\<lambda>kv. fst kv \<noteq> k) xs) \<subseteq> set ks" by force
  then show ?case using Cons.IH by simp
qed auto

lemma foldl_inv: "(\<And>c x. x \<in> set xs \<Longrightarrow> P c \<Longrightarrow> P (g c x)) \<Longrightarrow> P c \<Longrightarrow> P (foldl g c xs)"
  by (induction xs arbitrary: c) auto

section \<open>Sections\<close>

definition sections :: "ini \<Rightarrow> string set" where
  "sections f = fst ` set f"

lemma map_fst_section: "map fst (ini_section sec f) = (if sec \<in> sections f then map fst f else map fst f @ [sec])"
  by (simp add: ini_section_def sections_def)

lemma map_fst_update: "map fst (ini_update sec g f) = map fst (ini_section sec f)"
  by (simp add: ini_update_def comp_def case_prod_beta if_distrib cong: if_cong)

lemma sections_ops [simp]:
  "sections (ini_section sec f) = insert sec (sections f)" "sections (ini_update sec g f) = insert sec (sections f)"
  using map_fst_section [of sec f] map_fst_update [of sec g f] unfolding sections_def set_map [symmetric] by auto

lemma wf_named: "ini_wf f \<Longrightarrow> sec \<in> sections f \<Longrightarrow> sec \<noteq> []"
  unfolding ini_wf_def sections_def by metis

lemma wf_section: "ini_wf f \<Longrightarrow> sec \<noteq> [] \<Longrightarrow> ini_wf (ini_section sec f)"
  by (auto simp: ini_wf_def ini_section_def)

lemma wf_update:
  assumes "ini_wf f" "sec \<noteq> []"
    and "\<And>kvs. distinct (map fst kvs) \<Longrightarrow> [] \<notin> fst ` set kvs \<Longrightarrow> distinct (map fst (g kvs)) \<and> [] \<notin> fst ` set (g kvs)"
  shows "ini_wf (ini_update sec g f)"
proof -
  note w = wf_section [OF assms(1,2)]
  have "distinct (map fst (ini_update sec g f))"
    using w by (simp add: map_fst_update ini_wf_def)
  moreover have "[] \<notin> sections (ini_update sec g f)"
    using assms(1,2) unfolding sections_ops by (simp add: ini_wf_def sections_def)
  moreover have "list_all (\<lambda>(_, kvs). distinct (map fst kvs) \<and> [] \<notin> fst ` set kvs) (ini_update sec g f)"
  proof -
    have "list_all (\<lambda>(_, kvs). distinct (map fst kvs) \<and> [] \<notin> fst ` set kvs) (ini_section sec f)"
      using w by (simp add: ini_wf_def)
    then show ?thesis unfolding ini_update_def list.pred_map
      by (rule list.pred_mono_strong) (clarsimp simp: assms(3) simp del: set_map split: if_splits)
  qed
  ultimately show ?thesis by (simp add: ini_wf_def sections_def)
qed

lemma wf_upsert: "ini_wf f \<Longrightarrow> sec \<noteq> [] \<Longrightarrow> k \<noteq> [] \<Longrightarrow> ini_wf (ini_update sec (upsert k v) f)"
  by (rule wf_update) (auto simp: distinct_upsert keys_upsert)

lemma wf_delete: "ini_wf f \<Longrightarrow> sec \<noteq> [] \<Longrightarrow> ini_wf (ini_update sec (filter P) f)"
  by (rule wf_update) (auto simp: distinct_map_filter)

lemma update_update: "ini_update sec h (ini_update sec g f) = ini_update sec (h \<circ> g) f"
proof -
  have "ini_section sec (ini_update sec g f) = ini_update sec g f"
    using sections_ops(2) [of sec g f] by (simp add: ini_section_def sections_def)
  then show ?thesis by (auto simp: ini_update_def comp_def)
qed

lemma update_present: "sec \<in> sections f \<Longrightarrow> ini_update sec g f = map (\<lambda>(n, kvs). (n, if n = sec then g kvs else kvs)) f"
  by (auto simp: ini_update_def ini_section_def sections_def)

text \<open>The file with the keys of each section in order: what \<open>DumpConfigINI\<close> writes.\<close>

definition ini_sorted :: "ini \<Rightarrow> ini" where
  "ini_sorted f = map (\<lambda>(n, kvs). (n, sort_key fst kvs)) f"

lemma sections_sorted [simp]: "sections (ini_sorted f) = sections f"
  by (force simp: sections_def ini_sorted_def)

lemma wf_sorted: "ini_wf f \<Longrightarrow> ini_wf (ini_sorted f)"
proof -
  assume wf: "ini_wf f"
  have "map fst (ini_sorted f) = map fst f" by (simp add: ini_sorted_def comp_def case_prod_beta)
  moreover have "list_all (\<lambda>(_, kvs). distinct (map fst kvs) \<and> [] \<notin> fst ` set kvs) (ini_sorted f)"
  proof -
    have "list_all (\<lambda>(_, kvs). distinct (map fst kvs) \<and> [] \<notin> fst ` set kvs) f"
      using wf by (simp add: ini_wf_def)
    then show ?thesis unfolding ini_sorted_def list.pred_map
      by (rule list.pred_mono_strong) (clarsimp simp: distinct_map)
  qed
  ultimately show ?thesis using wf sections_sorted [of f] by (simp add: ini_wf_def sections_def)
qed

lemma sorted_unique:
  assumes "distinct (map fst xs)" "distinct (map fst ys)" "map_of xs = map_of ys"
  shows "sort_key fst xs = sort_key fst ys"
proof (rule sort_key_inj_key_eq)
  have "set xs = set ys" using assms map_of_inject_set by blast
  then show "mset xs = mset (sort_key fst ys)"
    using assms by (simp add: set_eq_iff_mset_eq_distinct distinct_map)
  show "inj_on fst (set xs)" using assms(1) by (simp add: distinct_map)
qed simp

text \<open>\<open>has_sections N f\<close>: the file is well formed and has the sections \<open>N\<close>.\<close>

definition has_sections :: "string set \<Rightarrow> ini \<Rightarrow> bool" where
  "has_sections N f \<longleftrightarrow> ini_wf f \<and> N \<subseteq> sections f"

text \<open>The section of each connection.\<close>

definition conn_section :: "string \<Rightarrow> string" where
  "conn_section n = ''connection '' @ n"

lemma conn_section_ne [simp]: "conn_section n \<noteq> []"
  by (simp add: conn_section_def)

definition in_part :: "string set \<Rightarrow> ini option \<Rightarrow> bool" where
  "in_part N res \<longleftrightarrow> (\<forall>f. res = Some f \<longrightarrow> has_sections N f)"

section \<open>The operations of the library\<close>

locale conf_file = ini_library "k_sys k" + go_map "k_sys k" for k :: "'w kctx"
begin

lemma set_keys_update:
  "sec \<in> sections f \<Longrightarrow> sec \<noteq> [] \<Longrightarrow> [] \<notin> fst ` set kvs \<Longrightarrow>
   set_keys k sec kvs f = ini_update sec (\<lambda>c. foldl (\<lambda>c (key, v). upsert key v c) c kvs) f"
proof (induction kvs arbitrary: f)
  case Nil
  then show ?case by (simp add: set_keys_def update_present)
next
  case (Cons kv kvs)
  then have "set_keys k sec (kv # kvs) f = set_keys k sec kvs (ini_update sec (upsert (fst kv) (snd kv)) f)"
    by (auto simp: set_keys_def newKey case_prod_beta)
  with Cons show ?case by (simp add: update_update comp_def case_prod_beta)
qed

lemma delete_keys_update:
  "sec \<in> sections f \<Longrightarrow> sec \<noteq> [] \<Longrightarrow>
   foldl (\<lambda>c (key, _). s_iniDeleteKey (k_sys k) sec key c) f kvs =
     ini_update sec (\<lambda>c. foldl (\<lambda>c key. filter (\<lambda>kv. fst kv \<noteq> key) c) c (map fst kvs)) f"
proof (induction kvs arbitrary: f)
  case Nil
  then show ?case by (simp add: update_present)
next
  case (Cons kv kvs)
  then show ?case by (simp add: deleteKey update_update comp_def case_prod_beta)
qed

lemma sort_section_eq:
  assumes "distinct (map fst f)" "(sec, kvs) \<in> set f" "sec \<noteq> []" "distinct (map fst kvs)" "[] \<notin> fst ` set kvs"
  shows "sort_section k (sec, kvs) f = map (\<lambda>(n, l). (n, if n = sec then sort_key fst kvs else l)) f"
proof -
  have sec: "sec \<in> sections f" using assms(2) by (force simp: sections_def)
  let ?sorted = "sort_key fst kvs"
  have keys: "distinct (map fst ?sorted)" "fst ` set ?sorted = fst ` set kvs" "[] \<notin> fst ` set ?sorted"
    using assms(4,5) by (simp_all add: distinct_map)
  have rebuilt: "foldl (\<lambda>c (key, v). upsert key v c) [] ?sorted = ?sorted"
    using upsert_all_new [OF keys(1), of "[]"] by simp
  have same: "l = kvs" if "(sec, l) \<in> set f" for l
    using that assms(1,2) by (metis eq_key_imp_eq_value)
  have "sort_section k (sec, kvs) f = ini_update sec ((\<lambda>c. foldl (\<lambda>c (key, v). upsert key v c) c ?sorted) \<circ>
      (\<lambda>c. foldl (\<lambda>c key. filter (\<lambda>kv. fst kv \<noteq> key) c) c (map fst ?sorted))) f"
    using sec assms(3) keys(3)
    by (simp add: sort_section_def Let_def delete_keys_update set_keys_update update_update)
  also have "\<dots> = map (\<lambda>(n, l). (n, if n = sec then ?sorted else l)) f"
    unfolding update_present [OF sec] by (intro map_cong) (auto dest!: same simp: delete_all rebuilt)
  finally show ?thesis .
qed

lemma sort_sections:
  assumes "distinct (map fst f)" "distinct (map fst todo)" "set todo \<subseteq> set f"
    and "list_all (\<lambda>(n, kvs). n \<noteq> [] \<and> distinct (map fst kvs) \<and> [] \<notin> fst ` set kvs) todo"
  shows "fold (sort_section k) todo f = map (\<lambda>(n, l). (n, if n \<in> fst ` set todo then sort_key fst l else l)) f"
  using assms
proof (induction todo arbitrary: f)
  case (Cons x todo)
  obtain sec kvs where x: "x = (sec, kvs)" by fastforce
  let ?f = "map (\<lambda>(n, l). (n, if n = sec then sort_key fst kvs else l)) f"
  have f: "sort_section k x f = ?f"
    using Cons.prems unfolding x by (intro sort_section_eq) auto
  have same: "l = kvs" if "(sec, l) \<in> set f" for l
    using that Cons.prems(1,3) x by (metis eq_key_imp_eq_value list.set_intros(1) subsetD)
  have "set todo \<subseteq> set ?f"
  proof
    fix y assume "y \<in> set todo"
    moreover obtain n l where y: "y = (n, l)" by fastforce
    ultimately have "n \<noteq> sec" "(n, l) \<in> set f" using Cons.prems(2,3) x by force+
    then show "y \<in> set ?f" unfolding y by (auto simp: image_iff intro!: bexI [of _ "(n, l)"])
  qed
  moreover have "map fst ?f = map fst f" by (simp add: comp_def case_prod_beta)
  then have "distinct (map fst ?f)" using Cons.prems(1) by (simp only:)
  ultimately have "fold (sort_section k) todo ?f = map (\<lambda>(n, l). (n, if n \<in> fst ` set todo then sort_key fst l else l)) ?f"
    using Cons.prems by (intro Cons.IH) simp_all
  then show ?case unfolding fold_simps f using same x Cons.prems(2)
    by (auto simp: comp_def)
qed (simp add: case_prod_beta)

lemma dump_sorted: "ini_wf f \<Longrightarrow> DumpConfigINI k f = (s_iniDump (k_sys k) (ini_sorted f), ini_sorted f)"
proof -
  assume wf: "ini_wf f"
  then have "fold (sort_section k) f f = map (\<lambda>(n, l). (n, if n \<in> fst ` set f then sort_key fst l else l)) f"
    by (intro sort_sections) (force simp: ini_wf_def list_all_iff)+
  also have "\<dots> = ini_sorted f" unfolding ini_sorted_def by (rule map_cong) force+
  finally show ?thesis by (simp add: DumpConfigINI_def Let_def)
qed

lemma good_mono: "has_sections N f \<Longrightarrow> M \<subseteq> N \<Longrightarrow> has_sections M f"
  by (auto simp: has_sections_def)

lemma good_newKey: "sec \<noteq> [] \<Longrightarrow> key \<noteq> [] \<Longrightarrow> has_sections N f \<Longrightarrow> has_sections (insert sec N) (s_iniNewKey (k_sys k) sec key v f)"
  by (auto simp: has_sections_def newKey wf_upsert)

lemma good_newKey': "sec \<noteq> [] \<Longrightarrow> key \<noteq> [] \<Longrightarrow> has_sections N f \<Longrightarrow> has_sections N (s_iniNewKey (k_sys k) sec key v f)"
  using good_newKey good_mono by blast

lemma good_keys: "sec \<noteq> [] \<Longrightarrow> [] \<notin> fst ` set kvs \<Longrightarrow> has_sections N f \<Longrightarrow> has_sections N (set_keys k sec kvs f)"
  unfolding set_keys_def by (rule foldl_inv) (force intro: good_newKey')+

lemma good_keys_insert: "sec \<noteq> [] \<Longrightarrow> [] \<notin> fst ` set kvs \<Longrightarrow> kvs \<noteq> [] \<Longrightarrow> has_sections N f \<Longrightarrow> has_sections (insert sec N) (set_keys k sec kvs f)"
  using good_keys [of sec "tl kvs" "insert sec N" "s_iniNewKey (k_sys k) sec (fst (hd kvs)) (snd (hd kvs)) f"]
  by (cases kvs) (auto simp: set_keys_def good_newKey)

lemma good_section: "sec \<noteq> [] \<Longrightarrow> has_sections N f \<Longrightarrow> has_sections (insert sec N) (s_iniNewSection (k_sys k) sec f)"
  by (auto simp: has_sections_def newSection wf_section)

lemma good_new_section: "sec \<noteq> [] \<Longrightarrow> [] \<notin> fst ` set kvs \<Longrightarrow> has_sections N f \<Longrightarrow> has_sections (insert sec N) (new_section k sec kvs f)"
  unfolding new_section_def by (intro good_keys good_section)

lemma good_fields: "sec \<noteq> [] \<Longrightarrow> [] \<notin> fst ` set kvs \<Longrightarrow> has_sections N f \<Longrightarrow> has_sections N (add_fields k sec kvs f)"
  unfolding add_fields_def addKeyToSection_def by (rule foldl_inv) (force intro: good_newKey')+

lemma good_map:
  assumes "sec \<noteq> []" "[] |\<notin>| fmdom m" "has_sections N f"
  shows "yields (has_sections N) (add_map k sec m f)"
  unfolding add_map_def
proof (rule yields_bnd [where Q = "\<lambda>kvs. map_of kvs = fmlookup m"])
  show "yields (\<lambda>kvs. map_of kvs = fmlookup m) (sysc (s_mapOrder (k_sys k) m))"
    by (auto simp: yields_def sysc_def dest: mapOrder_entries split: prod.splits)
  show "yields (has_sections N) (ret (add_fields k sec kvs f))" if "map_of kvs = fmlookup m" for kvs
  proof (rule yields_ret, rule good_fields [OF assms(1) _ assms(3)])
    show "[] \<notin> fst ` set kvs" using assms(2) that
      by (metis domIff dom_map_of_conv_image_fst fmdom_notD)
  qed
qed

lemma key_if_keys [simp]: "fst ` set (key_if b key v) = (if b then {key} else {})"
  by (simp add: key_if_def)

lemmas good_rules = yields_ret good_new_section good_keys good_section good_map

lemma good_connections:
  assumes "has_sections N f"
  shows "yields (has_sections (insert (conn_section (ge_Name ge)) N)) (AddGerritConnection k ge f)"
    and "yields (has_sections (insert (conn_section (gh_Name gh)) N)) (AddGitHubConnection k gh f)"
    and "yields (has_sections (insert (conn_section (gl_Name gl)) N)) (AddGitLabConnection k gl f)"
    and "yields (has_sections (insert (conn_section (pg_Name pg)) N)) (AddPagureConnection k pg f)"
    and "yields (has_sections (insert (conn_section (es_Name es)) N)) (AddElasticSearchConnection k es f)"
    and "yields (has_sections (insert (conn_section (sm_Name sm)) N)) (AddSMTPConnection k sm f)"
    and "has_sections (insert (conn_section n) N) (AddGitConnection k n url d f)"
proof -
  show "yields (has_sections (insert (conn_section (ge_Name ge)) N)) (AddGerritConnection k ge f)"
    unfolding AddGerritConnection_def conn_section_def [symmetric]
    by (rule yields_then, rule yields_ret, rule good_new_section) (use assms in \<open>auto simp: image_Un\<close>)
  show "yields (has_sections (insert (conn_section (gh_Name gh)) N)) (AddGitHubConnection k gh f)"
    unfolding AddGitHubConnection_def conn_section_def [symmetric] Let_def
    by (intro yields_then good_map good_section assms) simp_all
  show "yields (has_sections (insert (conn_section (gl_Name gl)) N)) (AddGitLabConnection k gl f)"
    unfolding AddGitLabConnection_def conn_section_def [symmetric] Let_def
    by (rule yields_then, rule yields_then, rule yields_bnd, rule good_map [OF _ _ good_section [OF _ assms]])
      (auto intro!: yields_ret good_keys)
  show "yields (has_sections (insert (conn_section (pg_Name pg)) N)) (AddPagureConnection k pg f)"
    unfolding AddPagureConnection_def conn_section_def [symmetric] Let_def
    by (intro yields_then good_map good_section assms) simp_all
  show "yields (has_sections (insert (conn_section (es_Name es)) N)) (AddElasticSearchConnection k es f)"
    unfolding AddElasticSearchConnection_def conn_section_def [symmetric] Let_def case_prod_beta
    by (intro yields_then yields_ret good_new_section) (use assms in \<open>auto simp: image_Un\<close>)
  show "yields (has_sections (insert (conn_section (sm_Name sm)) N)) (AddSMTPConnection k sm f)"
    unfolding AddSMTPConnection_def conn_section_def [symmetric]
    by (rule yields_bnd [where Q = "\<lambda>kvs. [] \<notin> fst ` set kvs"])
      (simp_all add: image_Un assms yields_ret yields_then good_new_section split: option.split)
  show "has_sections (insert (conn_section n) N) (AddGitConnection k n url d f)"
    unfolding AddGitConnection_def conn_section_def [symmetric]
    by (rule good_new_section) (use assms in \<open>auto simp: image_Un\<close>)
qed

lemma good_fold_prog:
  assumes "\<And>c N f. has_sections N f \<Longrightarrow> yields (has_sections (insert (conn_section (name c)) N)) (add c f)" "has_sections N f"
  shows "yields (has_sections (conn_section ` name ` set cs \<union> N)) (fold_prog add cs f)"
  using assms(2)
proof (induction cs arbitrary: N f)
  case (Cons c cs)
  have "yields (has_sections (conn_section ` name ` set cs \<union> insert (conn_section (name c)) N)) (fold_prog add cs f')"
    if "has_sections (insert (conn_section (name c)) N) f'" for f'
    using Cons.IH [OF that] .
  then show ?case unfolding fold_prog.simps
    by (intro yields_bnd [OF assms(1) [OF Cons.prems]]) simp
qed (simp add: yields_ret)

lemma good_fold:
  assumes "\<And>c N f. has_sections N f \<Longrightarrow> has_sections (insert (sec c) N) (add c f)" "has_sections N f"
  shows "has_sections (sec ` set cs \<union> N) (fold add cs f)"
  using assms(2)
proof (induction cs arbitrary: N f)
  case (Cons c cs)
  show ?case using Cons.IH [OF assms(1) [OF Cons.prems]] by (simp add: insert_commute)
qed simp

end

interpretation mem_conf: conf_file "k\<lparr>k_sys := mem_sys\<rparr>" for k
  by (simp add: conf_file_def mem_i.ini_library_axioms mem_m.go_map_axioms)

section \<open>The whole file\<close>

definition service_sections :: "bool \<Rightarrow> string set" where
  "service_sections remote = {''zookeeper'', ''keystore'', ''web'', ''executor'', ''scheduler'', ''merger''} \<union>
     (if remote then {} else {''database''})"

locale zuul_conf = conf_file "c_k r" for r :: "'w SFController"
begin

abbreviation zuul :: ZuulSpec where "zuul \<equiv> sf_Zuul (c_spec r)"

lemma connections_good:
  "has_sections N f \<Longrightarrow> yields (has_sections (conn_section ` set (connection_names zuul) \<union> N)) (add_connections r f)"
  unfolding add_connections_def Let_def
  apply (rule yields_bnd, rule good_fold_prog [where name = ge_Name], erule good_connections, assumption)
  apply (rule yields_bnd, rule good_fold_prog [where name = gh_Name], erule good_connections, assumption)
  apply (rule yields_bnd, rule good_fold_prog [where name = gl_Name], erule good_connections, assumption)
  apply (rule yields_bnd, rule good_fold_prog [where name = pg_Name], erule good_connections, assumption)
  apply (rule yields_bnd, rule good_fold_prog [where name = es_Name], erule good_connections)
   apply (rule good_fold [where sec = "\<lambda>c. conn_section (gi_Name c)"], erule good_connections, assumption)
  apply (rule yields_mono, rule good_fold_prog [where name = sm_Name], erule good_connections, assumption)
  apply (erule good_mono, auto simp: connection_names_def)
  done

lemma settings_good: "has_sections N f \<Longrightarrow> has_sections ({''web'', ''executor'', ''scheduler'', ''merger''} \<union> N) (add_settings r f)"
proof -
  assume f: "has_sections N f"
  have ports: "has_sections (set srvs \<union> M) (fold (\<lambda>srv. set_keys (c_k r) srv [(''prometheus_port'', Itoa zuulPrometheusPort)]) srvs g)"
    if "has_sections M g" "[] \<notin> set srvs" for M g srvs
    using that
  proof (induction srvs arbitrary: M g)
    case (Cons a srvs)
    then have "has_sections (insert a M) (set_keys (c_k r) a [(''prometheus_port'', Itoa zuulPrometheusPort)] g)"
      by (intro good_keys_insert) auto
    with Cons show ?case using Cons.IH [of "insert a M"] by simp
  qed simp
  show ?thesis
    unfolding add_settings_def Let_def
    by (rule good_keys, simp, simp add: image_Un, rule good_keys, simp, simp, rule good_mono, rule ports [where M = N])
      (simp_all add: image_Un f good_keys split: option.split)
qed

lemma hosts_good: "has_sections N f \<Longrightarrow> has_sections (insert ''zookeeper'' N) (add_hosts r f)"
  unfolding add_hosts_def Let_def by (simp add: good_keys good_keys_insert split: option.split)

lemma part_bnd:
  assumes "yields (in_part N) m" "\<And>f. has_sections N f \<Longrightarrow> yields (in_part M) (g f)"
  shows "yields (in_part M) (bnd m (\<lambda>res. case res of None \<Rightarrow> ret None | Some f \<Rightarrow> g f))"
  using assms by (intro yields_bnd [OF assms(1)]) (auto simp: in_part_def intro: yields_ret split: option.split)

lemma parts_good:
  assumes "has_sections N f"
  shows "yields (in_part (if remote then N else insert ''database'' N)) (add_database r remote f)"
    and "yields (in_part (insert ''keystore'' N)) (add_keystore r f)"
    and "yields (in_part N) (add_client_auth r remote f)"
  unfolding add_database_def add_keystore_def add_client_auth_def
  by (simp_all add: in_part_def assms yields_ret yields_then good_keys good_keys_insert split: option.splits sum.splits)

lemma dump_good: "has_sections N f \<Longrightarrow> has_sections N (snd (DumpConfigINI (c_k r) f))"
  by (simp add: has_sections_def dump_sorted wf_sorted)

lemma conf_good:
  assumes "\<And>f. s_iniParse (k_sys (c_k r)) (c_static r ''static/zuul/zuul.conf'') = Some f \<Longrightarrow> B \<subseteq> sections f"
  shows "yields (in_part (conn_section ` set (connection_names zuul) \<union> service_sections remote \<union> B)) (EnsureZuulConfigSecret r remote)"
proof -
  let ?C = "conn_section ` set (connection_names zuul)"
  have load: "yields (has_sections B) (LoadConfigINI (c_k r) (c_static r ''static/zuul/zuul.conf''))"
    unfolding LoadConfigINI_def using assms parsed_wf by (auto simp: has_sections_def yields_def split: option.split)
  have pre: "has_sections (?C \<union> B) (fold (AddOIDCAuthenticator (c_k r)) (zu_OIDCAuthenticators zuul)
      (AddWebClientSection (c_k r) (AddDefaultConnections r url f)))" if "has_sections (?C \<union> B) f" for f url
  proof -
    have "has_sections (?C \<union> B) (AddWebClientSection (c_k r) (AddDefaultConnections r url f))"
      unfolding AddWebClientSection_def AddDefaultConnections_def Let_def using that
      by (auto intro!: good_mono [OF good_new_section] good_mono [OF good_connections(7)])
    moreover have "has_sections (insert (''auth '' @ oi_Name a) N) (AddOIDCAuthenticator (c_k r) a f)" if "has_sections N f" for a N f
      using that by (simp add: AddOIDCAuthenticator_def image_Un good_new_section)
    ultimately show ?thesis by (intro good_mono [OF good_fold]) auto
  qed
  show ?thesis
    unfolding EnsureZuulConfigSecret_def Let_def case_prod_beta
  proof (rule yields_bnd [OF load], rule yields_bnd [OF connections_good], assumption, goal_cases)
    case (1 f0 f)
    note g = settings_good [OF pre [OF 1(2), of "git_server_url r"]]
    have written: "in_part (?C \<union> service_sections remote \<union> B) (Some (snd (DumpConfigINI (c_k r) (set_keys (c_k r) ''statsd'' [(key, v)] f))))"
      if "has_sections M f" "?C \<union> service_sections remote \<union> B \<subseteq> M" "key \<noteq> []" for f M key v
      using good_mono [OF dump_good [OF good_keys [OF _ _ that(1)]] that(2)] that(3) by (simp add: in_part_def)
    show ?case
      by (rule part_bnd [OF parts_good(1) [OF g]], rule part_bnd [OF parts_good(2) [OF hosts_good]], assumption,
          rule part_bnd [OF parts_good(3)], assumption, rule yields_then, rule yields_ret, rule written, assumption)
        (auto simp: service_sections_def)
  qed
qed

end

interpretation mem_zuul_conf: zuul_conf "r\<lparr>c_k := k\<lparr>k_sys := mem_sys\<rparr>\<rparr>" for r k
  by (simp add: zuul_conf_def mem_conf.conf_file_axioms)

lemma checksum_ends: "set names \<subseteq> sections cfg \<Longrightarrow> \<exists>d. IniSectionsChecksum k cfg names s = (Ok d, s)"
proof (induction names)
  case (Cons n names)
  then obtain d where "ini_sections_data k cfg names s = (Ok d, s)"
    by (auto simp: IniSectionsChecksum_def bnd_def split: prod.splits outcome.splits)
  moreover obtain kvs where "map_of cfg n = Some kvs"
    using Cons.prems by (auto simp: sections_def dest: weak_map_of_SomeI)
  ultimately show ?case by (simp add: IniSectionsChecksum_def bnd_def)
qed (simp add: IniSectionsChecksum_def)

lemma prefix_sections: "set (IniGetSectionNamesByPrefix cfg p) \<subseteq> sections cfg"
  by (auto simp: IniGetSectionNamesByPrefix_def sections_def)

section \<open>The order of the loops over maps\<close>

definition kept_fields :: "(string \<times> string) list \<Rightarrow> (string \<times> string) list" where
  "kept_fields kvs = map (\<lambda>(key, v). (key, if v = [] then ''localhost'' else v)) (filter (\<lambda>(key, v). key = ''server'' \<or> v \<noteq> []) kvs)"

lemma add_fields_set_keys: "add_fields k sec kvs f = set_keys k sec (kept_fields kvs) f"
  unfolding add_fields_def set_keys_def kept_fields_def
  by (induction kvs arbitrary: f) (auto simp: addKeyToSection_def)

lemma kept_fields_fst: "map fst (kept_fields kvs) = map fst (filter (\<lambda>(key, v). key = ''server'' \<or> v \<noteq> []) kvs)"
  by (simp add: kept_fields_def comp_def case_prod_beta)

lemma kept_fields_keys: "distinct (map fst kvs) \<Longrightarrow> distinct (map fst (kept_fields kvs))" "fst ` set (kept_fields kvs) \<subseteq> fst ` set kvs"
  unfolding set_map [symmetric] kept_fields_fst by (auto simp: distinct_map_filter)

lemma map_of_upserts:
  "distinct (map fst kvs) \<Longrightarrow> map_of (foldl (\<lambda>c (key, v). upsert key v c) c kvs) = map_of c ++ map_of kvs"
  by (induction kvs arbitrary: c) (auto simp: map_of_upsert map_add_upd_left dom_map_of_conv_image_fst)

lemma distinct_upserts: "distinct (map fst c) \<Longrightarrow> distinct (map fst (foldl (\<lambda>c (key, v). upsert key v c) c kvs))"
  by (rule foldl_inv) (auto simp: distinct_upsert)

lemma kept_fields_perm: "mset kvs = mset kvs' \<Longrightarrow> mset (kept_fields kvs) = mset (kept_fields kvs')"
  by (simp add: kept_fields_def)

context conf_file
begin

lemma sorted_any_order:
  assumes "ini_wf f" "sec \<in> sections f" "mset kvs = mset kvs'" "distinct (map fst kvs)" "[] \<notin> fst ` set kvs"
  shows "ini_sorted (set_keys k sec kvs f) = ini_sorted (set_keys k sec kvs' f)"
proof -
  have sec: "sec \<noteq> []" by (rule wf_named [OF assms(1,2)])
  have set: "set kvs' = set kvs" and d: "distinct (map fst kvs')"
    using assms(3,4) by (metis mset_eq_setD, metis mset_map mset_eq_imp_distinct_iff)
  then have m: "map_of kvs' = map_of kvs" using assms(4) map_of_inject_set by blast
  have "sort_key fst (foldl (\<lambda>c (key, v). upsert key v c) c kvs) = sort_key fst (foldl (\<lambda>c (key, v). upsert key v c) c kvs')"
    if "(n, c) \<in> set f" for n c
  proof -
    have "distinct (map fst c)" using that assms(1) by (auto simp: ini_wf_def list_all_iff)
    then show ?thesis using assms(4) d m by (intro sorted_unique) (simp_all add: distinct_upserts map_of_upserts)
  qed
  then show ?thesis using assms(2,5) set sec
    by (auto simp: set_keys_update update_present ini_sorted_def)
qed

lemma dump_any_order:
  assumes "ini_wf f" "sec \<in> sections f" "mset kvs = mset kvs'" "distinct (map fst kvs)" "[] \<notin> fst ` set kvs"
  shows "DumpConfigINI k (add_fields k sec kvs f) = DumpConfigINI k (add_fields k sec kvs' f)"
proof -
  have sec: "sec \<noteq> []" by (rule wf_named [OF assms(1,2)])
  have set: "set kvs' = set kvs" using assms(3) by (metis mset_eq_setD)
  have wf: "ini_wf (add_fields k sec kvs f)" "ini_wf (add_fields k sec kvs' f)"
    using good_fields [OF sec, of kvs "{}" f] good_fields [OF sec, of kvs' "{}" f] assms(1,5) set by (simp_all add: has_sections_def)
  have "ini_sorted (add_fields k sec kvs f) = ini_sorted (add_fields k sec kvs' f)"
    unfolding add_fields_set_keys using assms kept_fields_keys [of kvs]
    by (intro sorted_any_order kept_fields_perm) auto
  with wf show ?thesis by (simp add: dump_sorted)
qed

lemma fields_wf: "ini_wf f \<Longrightarrow> sec \<noteq> [] \<Longrightarrow> [] \<notin> fst ` set kvs \<Longrightarrow> ini_wf (add_fields k sec kvs f)"
  using good_fields [of sec kvs "{}" f] by (simp add: has_sections_def)

end

section \<open>Waiting for the secrets\<close>

context kube_client
begin

lemma sysc_mapOrder: "within (touches store X) (sysc (s_mapOrder (k_sys r) m))"
  by (rule within_sysc) (auto dest: mapOrder_frame)

lemma connections_look: "within (touches store X) (add_connections c f)" if "c_k c = r"
  unfolding add_connections_def AddGerritConnection_def AddGitHubConnection_def AddGitLabConnection_def AddPagureConnection_def
    AddElasticSearchConnection_def AddSMTPConnection_def add_map_def readSecretContent_def Let_def that
  by (intro touch.within_rules getOrDie_touches getSecretDataFromKey_touches sysc_mapOrder)

lemma conf_waits:
  assumes "c_k c = r" "EnsureZuulConfigSecret c False s = (Ok x, t)"
    and "store (st_world s) (kref_of KSecret (k_ns r) zuulDBConfigSecret) = None"
  shows "x = None \<and> store (st_world t) = store (st_world s)"
proof -
  obtain cfg0 u0 cfg u found v where l: "LoadConfigINI r (c_static c ''static/zuul/zuul.conf'') s = (Ok cfg0, u0)"
      "add_connections c cfg0 u0 = (Ok cfg, u)" "GetOrDie r cSecret zuulDBConfigSecret u = (Ok found, v)"
      and rest: "found = None \<Longrightarrow> (Ok x, t) = (Ok None, v)"
    using assms(1,2) unfolding EnsureZuulConfigSecret_def add_database_def Let_def bnd_eq_Ok
    by (fastforce simp: bnd_eq_Ok)
  have "u0 = s" using l(1) by (auto simp: LoadConfigINI_def split: option.splits)
  then have u: "store (st_world u) = store (st_world s)"
    using withinD [OF connections_look [OF assms(1), where X = "{}"] l(2)] by (simp add: touches_empty)
  have "store (st_world v) = store (st_world u)"
    using withinD [OF getOrDie_touches [where X = "{}"] l(3)] by (simp add: touches_empty)
  moreover have "found = None"
  proof (cases found)
    case (Some a)
    then have "store (st_world u) (kref_of (c_kind cSecret) (k_ns r) zuulDBConfigSecret) \<noteq> None"
      using getOrDie_Some [OF codec_axioms(2)] l(3) by blast
    then show ?thesis using assms(3) u by (simp add: codec_defs)
  qed
  ultimately show ?thesis using u rest by simp
qed

end

end
