(* ===== verification/Footprint.thy ===== *)
theory Footprint
  imports Backup Conf_Facts
begin

text \<open>
  What the whole reconciliation may change on the cluster. The locale \<open>footprint\<close> fixes a set \<open>X\<close> of addresses
  that holds the volume claims of the namespace and, unless the context is in dry-run mode, every
  object of the namespace; each operation of each component changes objects of \<open>X\<close> only. Its two
  instances bound a dry run (the volume claims) and a real run (the namespace).
\<close>

section \<open>Names and namespaces of the objects that are built\<close>

lemma meta_simps [simp]:
  "ss_meta (sts_template f sts) = ss_meta sts" "de_meta (dep_template f dep) = de_meta dep"
  "om_namespace (mk_meta n ns) = ns" "om_name (mk_meta n ns) = n"
  "om_namespace (ss_meta (MkStatefulset psc n ns i sn c pvc l)) = ns"
  "om_namespace (ss_meta (mkStatefulSet k psc n img scf am l os suf)) = k_ns k"
  "om_namespace (ss_meta (mkHeadlessStatefulSet k psc n img scf am l os)) = k_ns k"
  "om_namespace (de_meta (MkDeployment psc n ns img l os)) = ns"
  "om_namespace (sv_meta (MkService n ns sel ps pn l)) = ns"
  "om_namespace (sv_meta (MkServicePod n ns sel ps pn l)) = ns"
  "om_namespace (sv_meta (MkHeadlessService n ns sel ps pn l)) = ns"
  "om_namespace (pv_meta (MkPVC n ns scf am)) = ns"
  "om_namespace (jo_meta (MkJob psc n ns c l)) = ns"
  "om_namespace (se_meta (one_secret k n key v)) = k_ns k"
  by (simp_all add: sts_template_def dep_template_def mk_meta_def MkStatefulset_def mkStatefulSet_def mkHeadlessStatefulSet_def
      MkDeployment_def MkService_def MkServicePod_def MkHeadlessService_def headless_def mk_service_def MkPVC_def MkJob_def one_secret_def Let_def)

lemma built_namespace [simp]:
  "om_namespace (ss_meta (mariadb_sts r psc img a vs cs)) = k_ns (c_k r)"
  "om_namespace (ss_meta (zk_sts r psc img a vs cs)) = k_ns (c_k r)"
  "om_namespace (ss_meta (git_sts r psc img)) = k_ns (c_k r)"
  "om_namespace (ss_meta (logserver_sts r psc img cs)) = k_ns (c_k r)"
  "om_namespace (ss_meta (hound_sts r psc cm)) = k_ns (c_k r)"
  "om_namespace (ss_meta (scheduler_sts r psc cs c vs a)) = k_ns (c_k r)"
  "om_namespace (ss_meta (executor_sts r psc cs vs a)) = k_ns (c_k r)"
  "om_namespace (ss_meta (merger_sts r psc cs vs a)) = k_ns (c_k r)"
  "om_namespace (ss_meta (builder_sts r psc img ms env ic vs cs a)) = k_ns (c_k r)"
  "om_namespace (de_meta (gateway_dep r psc img vs ms h)) = k_ns (c_k r)"
  "om_namespace (de_meta (logjuicer_dep r psc img certs f)) = k_ns (c_k r)"
  "om_namespace (de_meta (weeder_dep r psc img h)) = k_ns (c_k r)"
  "om_namespace (de_meta (web_dep r psc c vs a)) = k_ns (c_k r)"
  "om_namespace (de_meta (launcher_dep r psc vs c cs a)) = k_ns (c_k r)"
  "om_namespace (sv_meta (zk_headless r)) = k_ns (c_k r)"
  by (simp_all add: mariadb_sts_def zk_sts_def git_sts_def logserver_sts_def hound_sts_def scheduler_sts_def executor_sts_def
      merger_sts_def builder_sts_def gateway_dep_def logjuicer_dep_def weeder_dep_def web_dep_def launcher_dep_def zk_headless_def Let_def)

section \<open>The footprint\<close>

locale footprint = quiet_client "c_k r" store
  for r :: "'w SFController" and store :: "'w \<Rightarrow> kref \<Rightarrow> kobj option" +
  fixes X :: "kref set"
  assumes writes: "k_dryRun (c_k r) \<or> (\<forall>k n. \<not> cluster_scoped k \<longrightarrow> (k, k_ns (c_k r), n) \<in> X)"
    and claims: "(KPVC, k_ns (c_k r), n) \<in> X"
begin

abbreviation bounded :: "('w st, 'a) prog \<Rightarrow> bool" where
  "bounded m \<equiv> within (touches store X) m"

lemma here: "\<not> cluster_scoped k \<Longrightarrow> ns = k_ns (c_k r) \<Longrightarrow> k_dryRun (c_k r) \<or> kref_of k ns n \<in> X"
  using writes by (auto simp: kref_of_def)

lemma bounded_codec:
  assumes "codec_laws C" "\<not> cluster_scoped (c_kind C)" "om_namespace (c_meta C x) = k_ns (c_k r)"
  shows "bounded (CreateR (c_k r) C x)" "bounded (UpdateR (c_k r) C x)" "bounded (GetOrCreate (c_k r) C x)"
proof -
  have "k_dryRun (c_k r) \<or> oref (c_enc C x) \<in> X"
    unfolding codec_laws.oref_enc [OF assms(1)] by (rule here [OF assms(2,3)])
  with assms(1) show "bounded (CreateR (c_k r) C x)" "bounded (UpdateR (c_k r) C x)" "bounded (GetOrCreate (c_k r) C x)"
    by (auto intro!: createR_touches updateR_touches getOrCreate_touches)
qed

lemma bounded_delete:
  "\<not> cluster_scoped (c_kind C) \<Longrightarrow> om_namespace m = k_ns (c_k r) \<Longrightarrow> bounded (DeleteR (c_k r) C m)"
  by (rule deleteR_touches) (rule here)

lemma bounded_ensure:
  "bounded (EnsureConfigMap (c_k r) cb cd)"
  "om_namespace (se_meta se) = k_ns (c_k r) \<Longrightarrow> bounded (EnsureSecret (c_k r) se)"
  "om_namespace (sv_meta sv) = k_ns (c_k r) \<Longrightarrow> bounded (EnsureService (c_k r) sv)"
  "bounded (EnsureSecretUUID (c_k r) n)" "bounded (EnsureSSHKeySecret (c_k r) n)"
  "om_namespace (ss_meta ss) = k_ns (c_k r) \<Longrightarrow> bounded (ensureStatefulset (c_k r) ss ri)"
  "om_namespace (de_meta de) = k_ns (c_k r) \<Longrightarrow> bounded (ensureDeployment (c_k r) de ri)"
  "bounded (reconcileExpandPVC (c_k r) n sp)"
  using writes claims
  by (auto intro!: ensure_touches ensureStatefulset_touches ensureDeployment_touches reconcileExpandPVC_touches simp: kref_of_def)

lemma bounded_calls:
  "bounded (sysc (s_mapOrder (k_sys (c_k r)) m))" "bounded (X509CA (c_k r))" "bounded (X509Cert (c_k r) ca key names)"
  by (rule within_sysc cert_touches; auto dest: mapOrder_frame)+

lemma bounded_fields: "bounded (modify (\<lambda>s. s\<lparr>st_podSC := f s\<rparr>))" "bounded (modify (\<lambda>s. s\<lparr>st_logserverKeys := ks\<rparr>))"
  by (simp_all add: within_def touches_def)

text \<open>Programs that only look, wait, or run a command in a pod.\<close>

lemma bounded_exec:
  "bounded (PodExecOut (c_k r) p c cmd)" "bounded (PodExecIn (c_k r) p c cmd inp)" "bounded (PodExec (c_k r) p c cmd)"
  unfolding PodExec_def PodExecOut_def PodExecIn_def by (intro touch.within_rules sysc_exec)+

lemma waitLoop_bounded: "bounded (waitLoop n (c_k r) name deadline seen sts)"
  by (induction n arbitrary: seen sts)
    (auto simp: Let_def crash_check_def intro!: touch.within_rules sysc_now sysc_sleep getOrDie_touches
      isStatefulSetReady_touches hasCrashLoopBackOff_touches)

lemma bounded_looks:
  "bounded (waitStatefulset (c_k r) sts)" "bounded (IsStatefulSetReady (c_k r) sts)"
  "bounded (GetOrDie (c_k r) C n)" "bounded (GetSecret (c_k r) n)"
  "bounded (GetSecretDataFromKey (c_k r) n key)" "bounded (getSecretData (c_k r) n)" "bounded (CorporateCAConfigMapExists (c_k r))"
  "bounded (ReadSecretValue (c_k r) n key)" "bounded (UpdateConditions (c_k r) ty b)" "bounded (NewUUIDString (c_k r))"
  "bounded (RefreshCondition (c_k r) ty st re ms)" "bounded (ListAll (c_k r) C)" "bounded (zk_secretReady (c_k r) n)"
  "bounded (readSecretContent (c_k r) n)"
  unfolding waitStatefulset_def getSecretData_def CorporateCAConfigMapExists_def GetConfigMap_def ReadSecretValue_def ReadSecret_def
    NewUUIDString_def zk_secretReady_def readSecretContent_def Let_def
  by (intro touch.within_rules sysc_now sysc_uuid waitLoop_bounded isStatefulSetReady_touches getOrDie_touches getSecret_touches
      getSecretDataFromKey_touches updateConditions_touches within_RefreshCondition listAll_touches)+

lemma ini_sections_bounded: "bounded (ini_sections_data (c_k r) cfg names)"
  unfolding ret_def [symmetric] by (induction names) (auto simp del: run_simps intro!: touch.within_rules split: option.split)

lemma bounded_pure:
  "bounded (MkNodeExporterSideCarContainer n ms os)" "bounded (MkStatsdExporterSideCarContainer n v a os)"
  "bounded (CreateFluentBitSideCarContainer n ls ms os)" "bounded (MkZuulCapacityContainer os b)"
  "bounded (mkZuulContainer r srv b)" "bounded (getZuulImage srv)" "bounded (LoadConfigINI (c_k r) t)"
  "bounded (IniSectionsChecksum (c_k r) cfg names)" "bounded (extra_settings_checksum r)"
  unfolding MkNodeExporterSideCarContainer_def MkStatsdExporterSideCarContainer_def CreateFluentBitSideCarContainer_def
    MkZuulCapacityContainer_def mkZuulContainer_def getZuulImage_def LoadConfigINI_def IniSectionsChecksum_def
    extra_settings_checksum_def GetStatsdExporterPort_def GetTruncatedPortName_def Let_def image_simps
  by (intro touch.within_rules ini_sections_bounded)+

lemmas bounded_rules = touch.within_rules bounded_codec bounded_delete bounded_ensure bounded_calls bounded_fields bounded_exec
  bounded_looks bounded_pure

section \<open>The services\<close>

lemma certificates_bounded: "bounded (EnsureZookeeperCertificates r ident n)"
  unfolding EnsureZookeeperCertificates_def DeleteSecret_def Let_def
  by (intro bounded_rules) (simp_all add: codec_axioms zk_secret_def MkMeta_def)

lemma forwarders_bounded: "bounded (createLogForwarderSidecar r a)" "bounded (createZKLogForwarderSidecar r a)"
  "bounded (createImageBuildLogForwarderSidecar r a)"
  unfolding createLogForwarderSidecar_def createZKLogForwarderSidecar_def createImageBuildLogForwarderSidecar_def forwarder_def Let_def
  by (intro bounded_rules)+

text \<open>What was found in the namespace is in the namespace: for the code that deletes what it has found.\<close>

lemma found_bounded:
  assumes "codec_laws C" "\<not> cluster_scoped (c_kind C)" "bounded (f None)"
    and "\<And>x. om_namespace (c_meta C x) = k_ns (c_k r) \<Longrightarrow> bounded (f (Some x))"
  shows "bounded (bnd (GetOrDie (c_k r) C n) f)"
  using assms(2-4)
  by (intro lookup_touches [OF assms(1)]) (auto simp: codec_laws.oref_enc [OF assms(1)])

lemma created_bounded:
  assumes "codec_laws C" "\<not> cluster_scoped (c_kind C)" "om_namespace (c_meta C x) = k_ns (c_k r)" "\<And>y. bounded (f (False, y))"
    and "\<And>y. om_namespace (c_meta C y) = k_ns (c_k r) \<Longrightarrow> bounded (f (True, y))"
  shows "bounded (bnd (GetOrCreate (c_k r) C x) f)"
  unfolding GetOrCreate_def bnd_assoc using assms
  by (intro found_bounded) (auto simp: bnd_assoc intro!: touch.within_bnd bounded_codec)

lemma ensured_bounded:
  assumes "om_namespace (ss_meta sts) = k_ns (c_k r)" "\<And>c. bounded (f (c, True))"
    and "\<And>c. om_namespace (ss_meta c) = k_ns (c_k r) \<Longrightarrow> bounded (f (c, False))"
  shows "bounded (bnd (ensureStatefulset (c_k r) sts n) f)"
  unfolding ensureStatefulset_def bnd_assoc using assms
  by (intro found_bounded) (auto simp: bnd_assoc codec_axioms case_prod_beta intro!: touch.within_bnd bounded_codec)

lemma provisionDBJob_bounded: "bounded (EnsureProvisionDBJob r db pw)"
  unfolding EnsureProvisionDBJob_def CreateDBInitContainer_def Let_def image_simps bnd_simps
  by (rule created_bounded) (auto simp: codec_axioms db_job_def intro!: bounded_rules)

lemma zk_expand_bounded: "bounded (zk_expand r is)"
  unfolding ret_def [symmetric] by (induction "is") (auto simp del: run_simps intro!: bounded_rules)

lemma mariadb_bounded: "bounded (DeployMariadb r)"
  unfolding DeployMariadb_def provision_zuul_db_def Let_def image_simps bnd_simps
  by (intro bounded_rules forwarders_bounded provisionDBJob_bounded) (simp_all add: codec_axioms zuul_db_secret_def)

lemma zookeeper_bounded: "bounded (DeployZookeeper r)"
  unfolding DeployZookeeper_def Let_def image_simps bnd_simps
  by (intro certificates_bounded ensured_bounded bounded_rules forwarders_bounded zk_expand_bounded) simp_all

lemma gitserver_bounded: "bounded (DeployGitServer r)"
  unfolding DeployGitServer_def Let_def image_simps bnd_simps by (intro bounded_rules) simp_all

lemma deployment_ready_bounded: "om_namespace (de_meta dep) = k_ns (c_k r) \<Longrightarrow> bounded (deployment_ready (c_k r) dep)"
  unfolding deployment_ready_def by (intro bounded_rules)

lemma gateway_bounded: "bounded (DeployHTTPDGateway r)"
  unfolding DeployHTTPDGateway_def gateway_extra_def Let_def image_simps bnd_simps prod.case
  by (intro bounded_rules deployment_ready_bounded) (simp_all add: codec_axioms)

lemma logserver_bounded: "bounded (DeployLogserver r)"
  unfolding DeployLogserver_def install_logserver_keys_def reconcileLogserverKeys_def Let_def image_simps bnd_simps
  by (intro bounded_rules) simp_all

lemma hound_bounded: "bounded (DeployHoundSearch r)" "bounded (TerminateHoundSearch (c_k r))"
  unfolding DeployHoundSearch_def TerminateHoundSearch_def Let_def by (intro bounded_rules; simp add: codec_axioms)+

lemma logjuicer_bounded: "bounded (EnsureLogJuicer r)"
  unfolding EnsureLogJuicer_def AddCorporateCA_def Let_def image_simps bnd_simps
  by (intro bounded_rules deployment_ready_bounded) (simp_all add: codec_axioms)

lemma weeder_bounded: "bounded (EnsureZuulWeeder r h)"
  unfolding EnsureZuulWeeder_def Let_def image_simps bnd_simps
  by (intro bounded_rules deployment_ready_bounded) (simp_all add: codec_axioms)

section \<open>Zuul\<close>

lemma zuulConf_bounded: "bounded (EnsureZuulConfigSecret r remote)"
  unfolding EnsureZuulConfigSecret_def add_database_def add_keystore_def add_client_auth_def Let_def
  by (intro bounded_rules connections_look) (simp_all add: zuul_config_secret_def)

lemma zuul_parts_bounded:
  "bounded (zuul_annotations r cfg srv secs n cm)" "bounded (mkZuulVolumes srv r b)" "bounded (local_source r b t)"
  "bounded (drop_seccomp r)" "bounded (reconcileExpandPVCs (c_k r) n sp)"
  unfolding zuul_annotations_def mkZuulVolumes_def local_source_def enableZuulLocalSource_def drop_seccomp_def reconcileExpandPVCs_def Let_def
  by (intro bounded_rules listSel_touches)+

lemma scheduler_bounded: "bounded (EnsureZuulScheduler r cfg)"
  unfolding EnsureZuulScheduler_def Let_def case_prod_beta
  by (intro bounded_rules zuul_parts_bounded weeder_bounded) simp_all

lemma executor_bounded: "bounded (EnsureZuulExecutor r cfg)"
  unfolding EnsureZuulExecutor_def Let_def case_prod_beta by (intro bounded_rules zuul_parts_bounded) simp_all

lemma merger_bounded: "bounded (EnsureZuulMerger r cfg)"
  unfolding EnsureZuulMerger_def Let_def case_prod_beta by (intro bounded_rules zuul_parts_bounded) simp_all

lemma web_bounded: "bounded (EnsureZuulWeb r cfg)"
  unfolding EnsureZuulWeb_def Let_def case_prod_beta by (intro bounded_rules zuul_parts_bounded) simp_all

lemma executor_service_bounded: "bounded (EnsureZuulExecutorService r)"
  unfolding EnsureZuulExecutorService_def by (intro bounded_rules) (simp_all add: codec_axioms)

lemma zuul_bounded: "bounded (DeployZuul r)" "bounded (DeployZuulSecrets r)"
  unfolding DeployZuul_def DeployZuulSecrets_def EnsureZuulComponents_def EnsureZuulComponentsFrontServices_def Let_def
  by (intro found_bounded executor_service_bounded scheduler_bounded executor_bounded web_bounded merger_bounded zuulConf_bounded bounded_rules;
      simp add: codec_axioms bounded_delete)+

section \<open>Nodepool and the config jobs\<close>

lemma asserted_bounded: "bounded (as_map y)" "bounded (as_string y)"
  by (cases y; simp add: as_map_def as_string_def touch.within_rules)+

lemma mappings_bounded: "bounded (mkStatsdMappingConfig r clouds)"
  unfolding mkStatsdMappingConfig_def MkStatsdMappingsFromCloudsYaml_def statsd_prefix_def Let_def
  by (intro bounded_rules asserted_bounded)

lemma nodepool_bounded: "bounded (DeployNodepool r)"
  unfolding DeployNodepool_def DeployNodepoolLauncher_def DeployNodepoolBuilder_def setNodepoolTooling_def setProviderSecretsVolumeMounts_def
    capacity_sidecar_def Let_def image_simps bnd_simps case_prod_beta
  by (intro bounded_rules mappings_bounded forwarders_bounded) (simp_all add: codec_axioms)

lemma config_access_bounded:
  "bounded (ensure_config_account (c_k r))" "bounded (ensure_config_role (c_k r))" "bounded (ensure_config_binding (c_k r))"
  "bounded (ensure_config_token (c_k r))"
  unfolding ensure_config_account_def ensure_config_role_def ensure_config_binding_def ensure_config_token_def
  by (rule found_bounded; auto simp: codec_axioms intro!: bounded_rules)+

lemma RunCommand_bounded:
  assumes "\<And>job. om_namespace (jo_meta job) = k_ns (c_k r) \<Longrightarrow> bounded (f job)"
  shows "bounded (bnd (RunCommand r name args vars) f)"
  unfolding RunCommand_def Let_def image_simps bnd_assoc bnd_simps by (intro touch.within_rules assms) simp

lemma base_secrets_bounded: "bounded (SetupBaseSecrets r version)"
  unfolding SetupBaseSecrets_def Let_def by (intro config_access_bounded RunCommand_bounded bounded_rules) (simp_all add: codec_axioms)

lemma reconfigure_bounded: "bounded (runZuulInternalTenantReconfigure (c_k r))"
  unfolding runZuulInternalTenantReconfigure_def by (rule found_bounded) (auto simp: codec_axioms intro!: bounded_rules)

lemma config_jobs_bounded: "bounded (SetupConfigJob r)"
  unfolding SetupConfigJob_def InstallTooling_def Let_def
  by (intro base_secrets_bounded reconfigure_bounded bounded_rules) (simp_all add: codec_axioms tenant_cm_def MkMeta_def)

section \<open>The step\<close>

lemma nukeZKClients_bounded: "bounded (nukeZKClients (c_k r))"
  unfolding nukeZKClients_def
  by (intro touch.within_bnd bounded_looks touch.within_for_each) (auto simp: Let_def codec_axioms intro!: bounded_rules split: list.split)

lemma nukeZK_bounded: "bounded (nukeZK (c_k r))"
  unfolding nukeZK_def by (intro nukeZKClients_bounded bounded_rules) (simp_all add: codec_axioms)

lemmas nuke_bounded = nukeZKClients_bounded nukeZK_bounded

lemma cleanup_bounded: "bounded (cleanup r)"
  unfolding cleanup_def DeleteSecret_def
  by (intro touch.within_bnd found_bounded nuke_bounded bounded_rules) (auto simp: codec_axioms MkMeta_def intro!: bounded_rules nuke_bounded)

lemma validate_bounded: "bounded (validateZuulConnectionsSecrets r)"
  unfolding validateZuulConnectionsSecrets_def by (intro bounded_rules)

lemmas services_bounded = zuul_bounded gitserver_bounded mariadb_bounded logserver_bounded gateway_bounded hound_bounded
  logjuicer_bounded zookeeper_bounded nodepool_bounded config_jobs_bounded zuulConf_bounded executor_service_bounded executor_bounded

lemma step_bounded: "bounded (sf_step r)"
  unfolding sf_step_def Step_def deploySFStep_def deployStandaloneExectorStep_def deployZKAndZuulAndNodepool_def EnsureToolingVolume_def
    sf_deploys_def deploys.simps Let_def
  by (intro cleanup_bounded validate_bounded services_bounded bounded_rules)

end

section \<open>The two bounds\<close>

lemma dry_footprint:
  "quiet_client (c_k r) store \<Longrightarrow> k_dryRun (c_k r) \<Longrightarrow> footprint r store {a. fst a = KPVC \<and> fst (snd a) = k_ns (c_k r)}"
  by (simp add: footprint_def footprint_axioms_def)

lemma namespace_footprint:
  "quiet_client (c_k r) store \<Longrightarrow> footprint r store {a. \<not> cluster_scoped (fst a) \<and> fst (snd a) = k_ns (c_k r)}"
  by (simp add: footprint_def footprint_axioms_def cluster_scoped_def)

lemma mem_quiet: "quiet_client (k\<lparr>k_sys := mem_sys\<rparr>) mem_store"
  by (simp add: quiet_client_def mem_client.kube_client_axioms mem_q.kube_quiet_axioms)

interpretation mem_dry: footprint "r\<lparr>c_k := k\<lparr>k_dryRun := True, k_sys := mem_sys\<rparr>\<rparr>" mem_store
    "{a. fst a = KPVC \<and> fst (snd a) = k_ns k}" for r k
  using dry_footprint [of "r\<lparr>c_k := k\<lparr>k_dryRun := True, k_sys := mem_sys\<rparr>\<rparr>"] mem_quiet [of "k\<lparr>k_dryRun := True\<rparr>"] by simp

interpretation mem_run: footprint "r\<lparr>c_k := k\<lparr>k_sys := mem_sys\<rparr>\<rparr>" mem_store
    "{a. \<not> cluster_scoped (fst a) \<and> fst (snd a) = k_ns k}" for r k
  using namespace_footprint [of "r\<lparr>c_k := k\<lparr>k_sys := mem_sys\<rparr>\<rparr>"] mem_quiet by simp

end
