(* ===== verification/Totality.thy ===== *)
theory Totality
  imports SF_Step
begin

text \<open>
  One reconciliation step ends: the only loops that are not bounded by their input are the waits for
  a stateful set, which end when the clock passes the grace period.
\<close>

lemma unstuck_fold_prog: "(\<And>x c. unstuck (f x c)) \<Longrightarrow> unstuck (fold_prog f xs c)"
  by (induction xs arbitrary: c) (simp_all add: unstuck_bnd)

lemma unstuck_list: "unstuck m \<Longrightarrow> (\<And>x xs. unstuck (f x xs)) \<Longrightarrow> unstuck (case l of [] \<Rightarrow> m | x # xs \<Rightarrow> f x xs)"
  by (simp split: list.split)

lemmas unstuck_rules = unstuck_intros unstuck_fold_prog unstuck_list unstuck_sysc unstuck_lookup unstuck_ready unstuck_Ensure

section \<open>The primitives\<close>

lemma unstuck_calls [simp]:
  "unstuck (GetOrCreate r C x)" "unstuck (EnsureConfigMap r n d)" "unstuck (EnsureService r sv)" "unstuck (EnsureSecretUUID r n)"
  "unstuck (EnsureSSHKeySecret r n)" "unstuck (ensureStatefulset r sts cnt)" "unstuck (ensureDeployment r dep cnt)" "unstuck (GetSecret r n)"
  "unstuck (GetSecretDataFromKey r n key)" "unstuck (getSecretData r n)" "unstuck (CorporateCAConfigMapExists r)" "unstuck (ReadSecretValue r n key)"
  "unstuck (UpdateConditions r ty b)" "unstuck (RefreshCondition r ty st re ms)" "unstuck (ListAll r C)" "unstuck (DeleteSecret r n)"
  "unstuck (PodExecOut r p c cmd)" "unstuck (PodExecIn r p c cmd inp)" "unstuck (PodExec r p c cmd)" "unstuck (NewUUIDString r)"
  "unstuck (reconcileExpandPVC r n sp)" "unstuck (reconcileExpandPVCs r n sp)" "unstuck (readSecretContent r n)"
  unfolding GetOrCreate_def EnsureConfigMap_def EnsureService_def EnsureSecretUUID_def EnsureSSHKeySecret_def ensureSecretFromFunc_def
    ensureStatefulset_def ensureDeployment_def GetSecret_def GetSecretDataFromKey_def getSecretData_def CorporateCAConfigMapExists_def
    GetConfigMap_def ReadSecretValue_def ReadSecret_def UpdateConditions_def RefreshCondition_def ListAll_def DeleteSecret_def PodExecOut_def
    PodExecIn_def PodExec_def NewUUIDString_def reconcileExpandPVC_def reconcileExpandPVCs_def canStorageResize_def readSecretContent_def
    MkSecretFromFunc_def MkSSHKeySecret_def MkSSHKey_def refresh_one_def client_Update_def Let_def
  by (intro unstuck_rules)+

lemma unstuck_ini: "unstuck (ini_sections_data k cfg names)"
  unfolding ret_def [symmetric] by (induction names) (auto simp del: run_simps intro!: unstuck_rules split: option.split)

lemma unstuck_zk_expand: "unstuck (zk_expand r is)"
  unfolding ret_def [symmetric] by (induction "is") (auto simp del: run_simps intro!: unstuck_rules unstuck_calls)

lemma unstuck_asserted: "unstuck (as_map y)" "unstuck (as_string y)"
  by (cases y; simp add: as_map_def as_string_def)+

lemma unstuck_builders:
  "unstuck (MkNodeExporterSideCarContainer n ms os)" "unstuck (MkStatsdExporterSideCarContainer n v a os)"
  "unstuck (CreateFluentBitSideCarContainer n ls ms os)" "unstuck (MkZuulCapacityContainer os b)"
  "unstuck (mkZuulContainer r srv b)" "unstuck (getZuulImage srv)" "unstuck (LoadConfigINI k t)"
  "unstuck (IniSectionsChecksum k cfg names)" "unstuck (extra_settings_checksum r)"
  unfolding MkNodeExporterSideCarContainer_def MkStatsdExporterSideCarContainer_def CreateFluentBitSideCarContainer_def
    MkZuulCapacityContainer_def mkZuulContainer_def getZuulImage_def LoadConfigINI_def IniSectionsChecksum_def
    extra_settings_checksum_def GetStatsdExporterPort_def GetTruncatedPortName_def Let_def image_simps
  by (intro unstuck_rules unstuck_ini)+

lemmas unstuck_parts = unstuck_rules unstuck_calls unstuck_builders unstuck_zk_expand unstuck_asserted

section \<open>The services\<close>

context clock_client
begin

lemma wait_unstuck: "unstuck (waitStatefulset r sts)"
  by (simp add: unstuck_def waitStatefulset_ends)

end

locale step_clock = clock_client "c_k r" time for r :: "'w SFController" and time :: "'w \<Rightarrow> int"
begin

lemma forwarder_unstuck: "unstuck (forwarder r a b c d e f)"
  unfolding forwarder_def Let_def by (intro unstuck_parts)

lemma certificates_unstuck: "unstuck (EnsureZookeeperCertificates r ident n)"
  unfolding EnsureZookeeperCertificates_def zk_secretReady_def Let_def by (intro unstuck_parts cert_unstuck)

lemma mariadb_unstuck: "unstuck (DeployMariadb r)"
  unfolding DeployMariadb_def provision_zuul_db_def EnsureProvisionDBJob_def CreateDBInitContainer_def createLogForwarderSidecar_def
    Let_def image_simps bnd_simps
  by (intro unstuck_parts forwarder_unstuck wait_unstuck)

lemma zookeeper_unstuck: "unstuck (DeployZookeeper r)"
  unfolding DeployZookeeper_def createZKLogForwarderSidecar_def Let_def image_simps bnd_simps
  by (intro unstuck_parts forwarder_unstuck wait_unstuck certificates_unstuck)

lemma around_unstuck:
  "unstuck (DeployGitServer r)" "unstuck (DeployHTTPDGateway r)" "unstuck (DeployLogserver r)" "unstuck (DeployHoundSearch r)"
  "unstuck (TerminateHoundSearch (c_k r))" "unstuck (EnsureLogJuicer r)" "unstuck (EnsureZuulWeeder r h)"
  unfolding DeployGitServer_def DeployHTTPDGateway_def gateway_extra_def deployment_ready_def DeployLogserver_def install_logserver_keys_def
    reconcileLogserverKeys_def DeployHoundSearch_def TerminateHoundSearch_def EnsureLogJuicer_def AddCorporateCA_def EnsureZuulWeeder_def
    Let_def image_simps bnd_simps
  by (intro unstuck_parts wait_unstuck)+

lemma zuul_conf_unstuck: "unstuck (EnsureZuulConfigSecret r remote)"
  unfolding EnsureZuulConfigSecret_def add_connections_def add_database_def add_keystore_def add_client_auth_def AddGerritConnection_def
    AddGitHubConnection_def AddGitLabConnection_def AddPagureConnection_def AddElasticSearchConnection_def AddSMTPConnection_def add_map_def Let_def
  by (intro unstuck_parts)

lemma zuul_parts_unstuck:
  "unstuck (zuul_annotations r cfg srv secs n cm)" "unstuck (mkZuulVolumes srv r b)" "unstuck (local_source r b t)" "unstuck (drop_seccomp r)"
  unfolding zuul_annotations_def mkZuulVolumes_def local_source_def enableZuulLocalSource_def drop_seccomp_def Let_def
  by (intro unstuck_parts)+

lemma zuul_services_unstuck:
  "unstuck (EnsureZuulScheduler r cfg)" "unstuck (EnsureZuulExecutor r cfg)" "unstuck (EnsureZuulMerger r cfg)" "unstuck (EnsureZuulWeb r cfg)"
  "unstuck (EnsureZuulExecutorService r)"
  unfolding EnsureZuulScheduler_def EnsureZuulExecutor_def EnsureZuulMerger_def EnsureZuulWeb_def EnsureZuulExecutorService_def Let_def case_prod_beta
  by (intro unstuck_parts zuul_parts_unstuck wait_unstuck around_unstuck)+

lemma zuul_unstuck: "unstuck (DeployZuul r)" "unstuck (DeployZuulSecrets r)"
  unfolding DeployZuul_def DeployZuulSecrets_def EnsureZuulComponents_def EnsureZuulComponentsFrontServices_def Let_def
  by (intro unstuck_parts zuul_services_unstuck zuul_conf_unstuck)+

lemma mappings_unstuck: "unstuck (mkStatsdMappingConfig r clouds)"
  unfolding mkStatsdMappingConfig_def MkStatsdMappingsFromCloudsYaml_def statsd_prefix_def Let_def by (intro unstuck_parts)

lemma nodepool_unstuck: "unstuck (DeployNodepool r)"
  unfolding DeployNodepool_def DeployNodepoolLauncher_def DeployNodepoolBuilder_def setNodepoolTooling_def setProviderSecretsVolumeMounts_def
    capacity_sidecar_def createImageBuildLogForwarderSidecar_def Let_def image_simps bnd_simps case_prod_beta
  by (intro unstuck_parts forwarder_unstuck mappings_unstuck)

lemma config_unstuck: "unstuck (SetupConfigJob r)"
  unfolding SetupConfigJob_def InstallTooling_def SetupBaseSecrets_def ensure_config_account_def ensure_config_role_def
    ensure_config_binding_def ensure_config_token_def RunCommand_def runZuulInternalTenantReconfigure_def Let_def image_simps bnd_simps
  by (intro unstuck_parts)

lemma before_unstuck: "unstuck (cleanup r)" "unstuck (validateZuulConnectionsSecrets r)"
  unfolding cleanup_def nukeZK_def nukeZKClients_def validateZuulConnectionsSecrets_def Let_def by (intro unstuck_parts)+

lemma sf_step_unstuck: "unstuck (sf_step r)"
  unfolding sf_step_def Step_def deploySFStep_def deployStandaloneExectorStep_def deployZKAndZuulAndNodepool_def EnsureToolingVolume_def
    sf_deploys_def deploys.simps Let_def
  by (intro unstuck_parts before_unstuck mariadb_unstuck zookeeper_unstuck around_unstuck zuul_conf_unstuck zuul_services_unstuck zuul_unstuck
      nodepool_unstuck config_unstuck)

end

interpretation mem_step: step_clock "r\<lparr>c_k := k\<lparr>k_sys := mem_sys\<rparr>\<rparr>" mw_clock for r k
  by (simp add: step_clock_def mem_wait.clock_client_axioms)

end
