(* ===== verification/Pod_Facts.thy ===== *)
theory Pod_Facts
  imports Nodepool
begin

text \<open>
  Well-formed pods: the API server refuses a pod with a mount that names no volume, with two volumes
  or two containers of the same name, or with a port name of more than 15 characters.
\<close>

definition pod_ok :: "string list \<Rightarrow> pod_template \<Rightarrow> bool" where
  "pod_ok claims t \<longleftrightarrow> (let p = pt_spec t; cs = ps_initContainers p @ ps_containers p; vols = claims @ map vo_name (ps_volumes p) in
     distinct vols \<and> distinct (map ct_name cs) \<and>
     list_all (\<lambda>c. list_all (\<lambda>m. vm_name m \<in> set vols) (ct_volumeMounts c) \<and> list_all (\<lambda>p. length (cp_name p) \<le> 15) (ct_ports c)) cs)"

text \<open>The claims of a stateful set are volumes of its pods.\<close>

definition sts_ok :: "statefulset \<Rightarrow> bool" where
  "sts_ok sts \<longleftrightarrow> pod_ok (map (om_name \<circ> pv_meta) (ss_volumeClaimTemplates sts)) (ss_template sts)"

definition dep_ok :: "deployment \<Rightarrow> bool" where
  "dep_ok dep \<longleftrightarrow> pod_ok [] (de_template dep)"

section \<open>Parts of the containers\<close>

lemma limits_parts [simp]:
  "ct_name (SetContainerLimits a b d e c) = ct_name c" "ct_volumeMounts (SetContainerLimits a b d e c) = ct_volumeMounts c"
  "ct_ports (SetContainerLimits a b d e c) = ct_ports c"
  "ct_name (limited l c) = ct_name c" "ct_volumeMounts (limited l c) = ct_volumeMounts c" "ct_ports (limited l c) = ct_ports c"
  by (simp_all add: SetContainerLimits_def limited_def UpdateContainerLimit_def split: option.split)

lemma profile_parts [simp]:
  "ct_name (SetContainerLimitsLowProfile c) = ct_name c" "ct_volumeMounts (SetContainerLimitsLowProfile c) = ct_volumeMounts c"
  "ct_ports (SetContainerLimitsLowProfile c) = ct_ports c" "ct_name (SetContainerLimitsHighProfile c) = ct_name c"
  "ct_volumeMounts (SetContainerLimitsHighProfile c) = ct_volumeMounts c" "ct_ports (SetContainerLimitsHighProfile c) = ct_ports c"
  by (simp_all add: SetContainerLimitsLowProfile_def SetContainerLimitsHighProfile_def)

lemma MkContainer_parts [simp]:
  "ct_name (MkContainer n img os) = n" "ct_volumeMounts (MkContainer n img os) = []" "ct_ports (MkContainer n img os) = []"
  by (simp_all add: MkContainer_def setContainerLimitsDefaultProfile_def zero_container_def)

lemma mk_parts [simp]:
  "vm_name (mk_mount n p) = n" "vo_name (MkVolumeSecret n l) = n" "vo_name (MkVolumeCM n cm) = n" "vo_name (MkEmptyDirVolume n) = n"
  "vo_name (MkVolumePVC n cl) = n" "cp_name (MkContainerPort i n) = n" "om_name (pv_meta (MkPVC n ns scf am)) = n" "vo_name mkToolingVolume = ''tooling-vol''"
  by (simp_all add: mk_mount_def MkVolumeSecret_def MkVolumeCM_def MkEmptyDirVolume_def MkVolumePVC_def MkContainerPort_def MkPVC_def mk_meta_def
      mkToolingVolume_def)

lemmas pod_defs = pod_ok_def sts_ok_def dep_ok_def sts_template_def dep_template_def template_spec_def template_main_def template_annotated_def
  template_append_def template_hosts_def upd_head_def mkHeadlessStatefulSet_def mkStatefulSet_def MkStatefulset_def MkDeployment_def
  zero_pod_spec_def AppendToolingVolume_def AppendCorporateCACertsVolumeMount_def Let_def

section \<open>Sidecars\<close>

text \<open>The name, the mounts and the names of the ports of a sidecar.\<close>

definition sidecar :: "string \<Rightarrow> string list \<Rightarrow> container \<Rightarrow> bool" where
  "sidecar name mounts c \<longleftrightarrow> ct_name c = name \<and> map vm_name (ct_volumeMounts c) = mounts \<and> list_all (\<lambda>p. length (cp_name p) \<le> 15) (ct_ports c)"

lemma port_name_bound:
  "GetTruncatedPortName service suffix s = (Ok n, t) \<Longrightarrow> length n \<le> 15 \<and> drop (length n - length suffix) n = suffix"
  by (auto simp: GetTruncatedPortName_def split: if_splits)

lemma node_exporter: "yields (sidecar (n @ ''-nodeexporter'') (map vm_name ms)) (MkNodeExporterSideCarContainer n ms os)"
  unfolding MkNodeExporterSideCarContainer_def image_simps bnd_simps
  by (rule yields_bnd [where Q = "\<lambda>n. length n \<le> 15"])
    (auto simp: sidecar_def yields_def dest: port_name_bound)

lemma statsd_exporter: "yields (sidecar (n @ ''-statsd'') [v]) (MkStatsdExporterSideCarContainer n v a os)"
  unfolding MkStatsdExporterSideCarContainer_def GetStatsdExporterPort_def Let_def image_simps bnd_simps
  by (rule yields_bnd [where Q = "\<lambda>n. length n \<le> 15"], simp add: yields_def port_name_bound,
      rule yields_bnd [where Q = "\<lambda>n. length n \<le> 15"])
    (auto simp: sidecar_def yields_def dest: port_name_bound)

lemma sidecar_mounts: "sidecar n (map vm_name ms) c \<Longrightarrow> list_all (\<lambda>m. P (vm_name m)) (ct_volumeMounts c) \<longleftrightarrow> list_all (\<lambda>m. P (vm_name m)) ms"
  unfolding sidecar_def by (metis (mono_tags, lifting) comp_apply list.pred_map list.pred_cong)

lemma forwarder_parts:
  "yields (\<lambda>(a, vs, c). map vo_name vs = [short @ ''-log-forwarder-config'', service @ ''-fb-buf''] \<and>
     sidecar ''fluentbit'' [logs, short @ ''-log-forwarder-config'', service @ ''-fb-buf''] c) (forwarder r service short conf cm logs a0)"
  unfolding forwarder_def CreateFluentBitSideCarContainer_def image_simps bnd_simps
  by (rule yields_then) (simp add: yields_ret sidecar_def)

section \<open>The pods\<close>

lemma git_ok: "sts_ok (git_sts r psc img)"
  by (simp add: git_sts_def git_main_def git_rw_def git_init_def pod_defs GitServerIdent_def GitServerIdentRW_def gsGitPortName_def)

lemmas parts_simps = pod_defs sidecar_def map_eq_Cons_conv append_eq_Cons_conv

lemma mariadb_ok:
  assumes "sidecar ''mariadb-nodeexporter'' [''mariadb'', ''mariadb-logs''] ne"
  shows "sts_ok (mariadb_sts r psc img a [] [ne])"
    and "map vo_name vs = [''mariadb-log-forwarder-config'', ''mariadb-fb-buf''] \<Longrightarrow>
      sidecar ''fluentbit'' [''mariadb-logs'', ''mariadb-log-forwarder-config'', ''mariadb-fb-buf''] fb \<Longrightarrow>
      sts_ok (mariadb_sts r psc img a vs [fb, ne])"
  using assms
  by (auto simp: mariadb_sts_def mariadb_main_def mariadb_data_mounts_def MariaDBIdent_def mariaDBPortName_def parts_simps)

lemma zookeeper_ok:
  assumes "sidecar ''zookeeper-nodeexporter'' [''zookeeper-data'', ''zookeeper-logs''] ne"
  shows "sts_ok (zk_sts r psc img a [] [ne])"
    and "map vo_name vs = [''zk-log-forwarder-config'', ''zookeeper-fb-buf''] \<Longrightarrow>
      sidecar ''fluentbit'' [''zookeeper-logs'', ''zk-log-forwarder-config'', ''zookeeper-fb-buf''] fb \<Longrightarrow>
      sts_ok (zk_sts r psc img a vs [fb, ne])"
  using assms
  by (auto simp: zk_sts_def zk_main_def zk_data_mounts_def zk_volumes_def ZookeeperIdent_def parts_simps)

lemma logserver_ok:
  assumes "sidecar ''logserver-nodeexporter'' [''logserver''] ne"
  shows "sts_ok (logserver_sts r psc img [logserver_sshd r img1 keys, logserver_purge r img2, ne])"
  using assms
  by (auto simp: logserver_sts_def logserver_main_def logserver_volumes_def logserver_sshd_def logserver_purge_def logserverIdent_def
      httpdPortName_def sshdPortName_def purgelogIdent_def parts_simps)

lemma hound_ok: "sts_ok (hound_sts r psc cm)"
  by (cases cm) (simp_all add: hound_sts_def MkHoundSearchContainer_def houndSearchIdent_def houndSearchData_def pod_defs)

lemma weeder_ok: "dep_ok (weeder_dep r psc img h)"
  by (simp add: weeder_dep_def pod_defs)

lemma capacity: "yields (sidecar ''zuul-capacity'' ([''nodepool-config'', ''zookeeper-client-tls'', ''nodepool-providers-secrets''] @
    (if b then [''nodepool-ca''] else []))) (MkZuulCapacityContainer os b)"
  unfolding MkZuulCapacityContainer_def image_simps bnd_simps by (rule yields_ret) (simp add: sidecar_def)

definition provider_mounts :: "volume_mount list \<Rightarrow> bool" where
  "provider_mounts ms \<longleftrightarrow> list_all (\<lambda>m. vm_name m = ''nodepool-providers-secrets'') ms"

lemma provider_mounts_found: "yields (\<lambda>(ms, _). provider_mounts ms) (setProviderSecretsVolumeMounts k)"
  unfolding setProviderSecretsVolumeMounts_def
  by (rule yields_then) (auto simp: provider_mounts_def provider_mount_def yields_def Let_def split: option.splits if_splits)

lemma launcher_ok:
  assumes "sidecar ''np-statsd'' [''statsd-config''] statsd" "provider_mounts ms"
  shows "dep_ok (launcher_dep r psc (launcher_volumes (MkVolumeCM ''statsd-config'' cm) ca) (launcher_init r img ca)
      [launcher_main r img ms env, statsd] a)"
    and "sidecar ''zuul-capacity'' ([''nodepool-config'', ''zookeeper-client-tls'', ''nodepool-providers-secrets''] @
        (if ca then [''nodepool-ca''] else [])) capacity \<Longrightarrow>
      dep_ok (launcher_dep r psc (launcher_volumes (MkVolumeCM ''statsd-config'' cm) ca) (launcher_init r img ca)
      [launcher_main r img ms env, statsd, capacity] a)"
  using assms
  by (auto simp: launcher_dep_def launcher_volumes_def launcher_init_def launcher_main_def launcher_mounts_def np_tool_mount_def
      configScriptsVolumeMounts_def commonToolingVolume_def NodepoolProvidersSecretsName_def launcherPortName_def provider_mounts_def
      list_all_iff parts_simps split: if_splits)

lemma builder_ok:
  assumes "sidecar ''np-statsd'' [''statsd-config''] statsd" "provider_mounts ms" "sidecar ''nodepool-builder-nodeexporter'' [''nodepool-builder''] ne"
  shows "sts_ok (builder_sts r psc img ms env (builder_init r img ca) (builder_volumes (MkVolumeCM ''statsd-config'' cm) ca)
      [statsd, ne, build_logs_container r img2] a)"
  using assms
  by (auto simp: builder_sts_def builder_volumes_def builder_init_def builder_main_def builder_mounts_def builder_data_mount_def np_tool_mount_def
      pub_key_volume_def BuilderIdent_def build_logs_container_def BuildLogsHttpdPortName_def
      configScriptsVolumeMounts_def commonToolingVolume_def NodepoolProvidersSecretsName_def provider_mounts_def
      list_all_iff parts_simps split: if_splits)

section \<open>The secrets of the connections\<close>

lemma take_new_keys:
  "key ` set (fst (take_new p key cs added)) = {key c | c. c \<in> set cs \<and> p c} - set added"
  "set (snd (take_new p key cs added)) = set added \<union> {key c | c. c \<in> set cs \<and> p c}"
  by (induction p key cs added rule: take_new.induct) (auto simp: case_prod_beta Let_def)

lemma take_new_parts:
  "take_new p key cs added = (new, added') \<Longrightarrow> key ` set new = {key c | c. c \<in> set cs \<and> p c} - set added"
  "take_new p key cs added = (new, added') \<Longrightarrow> set added' = set added \<union> {key c | c. c \<in> set cs \<and> p c}"
  using take_new_keys(1) [of key p cs added] take_new_keys(2) [of p key cs added] by simp_all

text \<open>
  No GitHub secret is also the key of a Gerrit connection, and an application has a secret. The lists
  \<open>added\<close> of the two loops then leave out the same secrets.
\<close>

definition secrets_apart :: "ZuulSpec \<Rightarrow> bool" where
  "secrets_apart zuul \<longleftrightarrow>
     list_all (\<lambda>g. 0 < gh_AppID g \<longrightarrow> gh_Secrets g \<noteq> []) (zu_GitHubConns zuul) \<and>
     list_all (\<lambda>c. ge_Sshkey c \<noteq> [] \<longrightarrow> ge_Sshkey c \<notin> gh_Secrets ` set (zu_GitHubConns zuul)) (zu_GerritConns zuul)"

lemma image_through: "key ` A \<subseteq> key ` B \<Longrightarrow> (\<lambda>c. f (key c)) ` A \<subseteq> (\<lambda>c. f (key c)) ` B"
  by (auto simp: image_subset_iff)

lemma connection_mounts:
  assumes "secrets_apart zuul"
  shows "vm_name ` set (mkZuulConnectionsSecretsMount zuul) \<subseteq> vo_name ` set (mkZuulConnectionSecretsVolumes zuul)"
proof -
  obtain gm am where m1: "take_new (\<lambda>c. 0 < gh_AppID c) gh_Secrets (zu_GitHubConns zuul) [] = (gm, am)" by fastforce
  obtain gv av where v1: "take_new (\<lambda>c. gh_Secrets c \<noteq> []) gh_Secrets (zu_GitHubConns zuul) [] = (gv, av)" by fastforce
  obtain km bm where m2: "take_new (\<lambda>c. ge_Sshkey c \<noteq> []) ge_Sshkey (zu_GerritConns zuul) am = (km, bm)" by fastforce
  obtain kv bv where v2: "take_new (\<lambda>c. ge_Sshkey c \<noteq> []) ge_Sshkey (zu_GerritConns zuul) av = (kv, bv)" by fastforce
  have keys: "gh_Secrets ` set gm = {gh_Secrets c | c. c \<in> set (zu_GitHubConns zuul) \<and> 0 < gh_AppID c}"
      "gh_Secrets ` set gv = {gh_Secrets c | c. c \<in> set (zu_GitHubConns zuul) \<and> gh_Secrets c \<noteq> []}"
      "set av = {gh_Secrets c | c. c \<in> set (zu_GitHubConns zuul) \<and> gh_Secrets c \<noteq> []}"
      "ge_Sshkey ` set km = {ge_Sshkey c | c. c \<in> set (zu_GerritConns zuul) \<and> ge_Sshkey c \<noteq> []} - set am"
      "ge_Sshkey ` set kv = {ge_Sshkey c | c. c \<in> set (zu_GerritConns zuul) \<and> ge_Sshkey c \<noteq> []} - set av"
    using take_new_parts [OF m1] take_new_parts [OF v1] take_new_parts(1) [OF m2] take_new_parts(1) [OF v2] by simp_all
  have "gh_Secrets ` set gm \<subseteq> gh_Secrets ` set gv"
    unfolding keys using assms by (auto simp: secrets_apart_def list_all_iff)
  moreover have "ge_Sshkey ` set km \<subseteq> ge_Sshkey ` set kv"
    unfolding keys using assms by (auto simp: secrets_apart_def list_all_iff)
  ultimately show ?thesis
    using image_through [of ge_Sshkey "set km" "set kv" "(@) ''zuul-ssh-key-''"]
    by (auto simp: mkZuulConnectionsSecretsMount_def mkZuulConnectionSecretsVolumes_def Let_def m1 v1 m2 v2 image_Un image_image
        simp del: append.simps)
qed

lemma zuul_mounts_named:
  assumes "secrets_apart (sf_Zuul (c_spec r))"
  shows "vm_name ` set (zuul_mounts r service ca) \<subseteq>
    vo_name ` set (zuul_volumes r service ca) \<union> (if isStatefulset service then {service} else {})"
proof -
  note connection_mounts [OF assms]
  then show ?thesis unfolding zuul_mounts_def zuul_volumes_def Let_def tool_mount_def mkZuulLoggingMount_def AppendToolingVolume_def
    by (simp add: image_Un image_subset_iff)
qed

end
