(* ===== verification/Service_Facts.thy ===== *)
theory Service_Facts
  imports Maintenance Conf_Facts
begin

text \<open>
  Facts on the services that keep records on the cluster: the tenant configuration that was loaded, the job
  that provisioned the database, and the certificates of ZooKeeper.
\<close>

section \<open>What a program leaves\<close>

text \<open>\<open>leaves P m\<close>: whenever \<open>m\<close> returns, its value and the state it leaves satisfy \<open>P\<close>.\<close>

definition leaves :: "('a \<Rightarrow> 's \<Rightarrow> bool) \<Rightarrow> ('s, 'a) prog \<Rightarrow> bool" where
  "leaves P m \<longleftrightarrow> (\<forall>s x t. m s = (Ok x, t) \<longrightarrow> P x t)"

lemma leavesD: "leaves P m \<Longrightarrow> m s = (Ok x, t) \<Longrightarrow> P x t"
  by (auto simp: leaves_def)

lemma leaves_bnd: "(\<And>x. leaves P (f x)) \<Longrightarrow> leaves P (bnd m f)"
  unfolding leaves_def bnd_eq_Ok by blast

lemma leaves_ret: "(\<And>s. P x s) \<Longrightarrow> leaves P (ret x)"
  by (simp add: leaves_def)

lemma leaves_if: "(b \<Longrightarrow> leaves P m) \<Longrightarrow> (\<not> b \<Longrightarrow> leaves P n) \<Longrightarrow> leaves P (if b then m else n)"
  by simp

section \<open>The tenant configuration\<close>

definition tenant_ref :: "'w kctx \<Rightarrow> kref" where
  "tenant_ref k = kref_of KConfigMap (k_ns k) ''zs-internal-tenant-reconfigure''"

text \<open>
  The config map records the hash of the current configuration and a version of the secrets, and the
  job that wrote this version of the secrets succeeded.
\<close>

definition tenant_recorded :: "'w SFController \<Rightarrow> (kref \<Rightarrow> kobj option) \<Rightarrow> bool" where
  "tenant_recorded r sto \<longleftrightarrow> (\<exists>cm job. sto (tenant_ref (c_k r)) = Some (OConfigMap cm) \<and>
     gm_get (cm_data cm) ''internal-tenant-config-hash'' = Checksum (c_k r) (MkPreInitScript r) \<and>
     sto (kref_of KJob (k_ns (c_k r)) (''config-base-secret-'' @ gm_get (cm_data cm) ''internal-tenant-secrets-version'')) = Some (OJob job) \<and>
     1 \<le> jo_succeeded job)"

context kube_client
begin

lemma access_touches:
  "within (touches store (- {tenant_ref r})) (ensure_config_account r)"
  "within (touches store (- {tenant_ref r})) (ensure_config_role r)"
  "within (touches store (- {tenant_ref r})) (ensure_config_binding r)"
  "within (touches store (- {tenant_ref r})) (ensure_config_token r)"
  unfolding ensure_config_account_def ensure_config_role_def ensure_config_binding_def ensure_config_token_def
  by (intro touch.within_rules getOrDie_touches createR_touches updateR_touches codec_axioms;
      simp add: tenant_ref_def oref_def kref_of_def codec_defs)+

lemma secrets_installed:
  assumes "c_k c = r" "SetupBaseSecrets c v s = (Ok True, t)"
  shows "store (st_world t) (tenant_ref r) = store (st_world s) (tenant_ref r)"
    and "\<exists>job. store (st_world t) (kref_of KJob (k_ns r) (''config-base-secret-'' @ v)) = Some (OJob job) \<and> 1 \<le> jo_succeeded job"
proof -
  obtain s1 s2 s3 s4 found where p: "ensure_config_account r s = (Ok (), s1)" "ensure_config_role r s1 = (Ok True, s2)"
      "ensure_config_binding r s2 = (Ok (), s3)" "ensure_config_token r s3 = (Ok (), s4)"
      "GetOrDie r cJob (''config-base-secret-'' @ v) s4 = (Ok found, t)" "\<exists>job. found = Some job \<and> 1 \<le> jo_succeeded job"
    using assms(2) unfolding SetupBaseSecrets_def Let_def assms(1)
    by (auto simp: bnd_eq_Ok split: if_splits option.splits)
  have "touches store (- {tenant_ref r}) s t"
    using touch.bound_trans withinD [OF access_touches(1) p(1)] withinD [OF access_touches(2) p(2)] withinD [OF access_touches(3) p(3)]
      withinD [OF access_touches(4) p(4)] withinD [OF getOrDie_touches p(5)] by metis
  then show "store (st_world t) (tenant_ref r) = store (st_world s) (tenant_ref r)"
    by (simp add: touches_def)
  have "store (st_world t) = store (st_world s4)"
    using withinD [OF getOrDie_touches [where X = "{}"] p(5)] by (simp add: touches_empty)
  with p(5,6) getOrDie_Some [OF codec_axioms(9)]
  show "\<exists>job. store (st_world t) (kref_of KJob (k_ns r) (''config-base-secret-'' @ v)) = Some (OJob job) \<and> 1 \<le> jo_succeeded job"
    by (fastforce simp: codec_defs)
qed

lemma config_recorded:
  assumes "c_k c = r" "SetupConfigJob c s = (Ok True, t)"
  shows "tenant_recorded c (store (st_world t))"
proof -
  obtain s1 cm v s2 where p: "GetOrDie r cConfigMap ''zs-internal-tenant-reconfigure'' s1 = (Ok (Some cm), s2)"
      "SetupBaseSecrets c v s2 = (Ok True, t)"
      "Checksum r (MkPreInitScript c) = gm_get (cm_data cm) ''internal-tenant-config-hash''"
      "v = gm_get (cm_data cm) ''internal-tenant-secrets-version''"
    using assms(2) unfolding SetupConfigJob_def Let_def assms(1)
    by (fastforce simp: bnd_eq_Ok split: if_splits option.splits)
  have "store (st_world s2) = store (st_world s1)"
    using withinD [OF getOrDie_touches [where X = "{}"] p(1)] by (simp add: touches_empty)
  then have "store (st_world t) (tenant_ref r) = Some (OConfigMap cm)"
    using secrets_installed(1) [OF assms(1) p(2)] getOrDie_Some [OF codec_axioms(1) p(1)]
    by (simp add: tenant_ref_def codec_defs)
  with secrets_installed(2) [OF assms(1) p(2)] p(3,4) assms(1) show ?thesis
    by (auto simp: tenant_recorded_def)
qed

lemma refresh_keeps: "RefreshCondition r ty st re ms s = (Ok x, t) \<Longrightarrow> store (st_world t) = store (st_world s)"
  using withinD [OF within_RefreshCondition [OF sysc_now, where X = "{}"]] by (fastforce simp: touches_empty)

lemma deploy_recorded:
  assumes "c_k c = r" "d_SetupConfigJob d = SetupConfigJob c"
  shows "leaves (\<lambda>services t. svc_get services ''Config'' \<longrightarrow> tenant_recorded c (store (st_world t))) (deploySFStep c d fmempty)"
  unfolding deploySFStep_def Let_def
proof ((rule leaves_bnd)+, rule leaves_if, goal_cases)
  case (2 _ _ _ _ _ _ _ _ services)
  have "leaves (\<lambda>config t. config \<longrightarrow> tenant_recorded c (store (st_world t))) (SetupConfigJob c)"
    using config_recorded [OF assms(1)] by (auto simp: leaves_def)
  then show ?case
    by (auto simp: leaves_def bnd_eq_Ok assms dest: refresh_keeps split: if_splits)
qed (simp add: leaves_ret)

lemma step_recorded:
  assumes "c_k c = r" "d_SetupConfigJob d = SetupConfigJob c" "zx_Standalone (zu_Executor (sf_Zuul (c_spec c))) = None"
    and "Step c d s = (Ok status, t)" "sfs_Ready status"
  shows "tenant_recorded c (store (st_world t))"
proof -
  obtain s1 services where p: "deploySFStep c d fmempty s1 = (Ok services, t)" "isOperatorReady services"
    using assms(3-5) unfolding Step_def by (auto simp: bnd_eq_Ok split: if_splits)
  have "fmlookup services ''Config'' = Some True"
    using yieldsD [OF deploySFStep_yields p(1)] p(2) by (simp add: core_services_def)
  with leavesD [OF deploy_recorded [OF assms(1,2)] p(1)] show ?thesis by (simp add: svc_get_def)
qed

end

section \<open>Total runs\<close>

text \<open>From objects that satisfy \<open>P\<close>, \<open>m\<close> returns a value and leaves objects that satisfy \<open>Q\<close> together.\<close>

definition turns :: "('w \<Rightarrow> kref \<Rightarrow> kobj option) \<Rightarrow> ((kref \<Rightarrow> kobj option) \<Rightarrow> bool) \<Rightarrow> ('w st, 'a) prog \<Rightarrow>
    ('a \<Rightarrow> (kref \<Rightarrow> kobj option) \<Rightarrow> bool) \<Rightarrow> bool" where
  "turns store P m Q \<longleftrightarrow> (\<forall>s. P (store (st_world s)) \<longrightarrow> (\<exists>x t. m s = (Ok x, t) \<and> Q x (store (st_world t))))"

lemma turnsD: "turns store P m Q \<Longrightarrow> P (store (st_world s)) \<Longrightarrow> \<exists>x t. m s = (Ok x, t) \<and> Q x (store (st_world t))"
  by (simp add: turns_def)

lemma turns_ret: "(\<And>sto. P sto \<Longrightarrow> Q x sto) \<Longrightarrow> turns store P (ret x) Q"
  by (simp add: turns_def)

lemma turns_bnd: "turns store P m R \<Longrightarrow> (\<And>x. turns store (R x) (f x) Q) \<Longrightarrow> turns store P (bnd m f) Q"
  unfolding turns_def by (metis bnd_Ok)

lemma turns_if: "(b \<Longrightarrow> turns store P m Q) \<Longrightarrow> (\<not> b \<Longrightarrow> turns store P n Q) \<Longrightarrow> turns store P (if b then m else n) Q"
  by simp

lemma turns_void: "(\<And>sto. \<not> P sto) \<Longrightarrow> turns store P m Q"
  by (simp add: turns_def)

lemma turns_mono: "turns store P m Q \<Longrightarrow> (\<And>sto. P' sto \<Longrightarrow> P sto) \<Longrightarrow> (\<And>x sto. Q x sto \<Longrightarrow> Q' x sto) \<Longrightarrow> turns store P' m Q'"
  unfolding turns_def by meson

lemma turns_sysc: "(\<And>w x w'. f w = (x, w') \<Longrightarrow> store w' = store w) \<Longrightarrow> turns store P (sysc f) (\<lambda>_. P)"
  by (auto simp: turns_def sysc_def split: prod.split)

lemma turns_map: "(\<And>x. turns store P (f x) (\<lambda>_. P)) \<Longrightarrow> turns store P (map_prog f xs) (\<lambda>_. P)"
proof (induction xs)
  case (Cons x xs)
  show ?case unfolding map_prog.simps by (rule turns_bnd [OF Cons.prems turns_bnd [OF Cons.IH [OF Cons.prems] turns_ret]]) simp
qed (simp add: turns_ret)

lemma turns_looks: "looks store m h \<Longrightarrow> turns store P m (\<lambda>x sto. P sto \<and> x = h sto)"
  unfolding turns_def looks_def by (metis st.select_convs(1) st.surjective st.update_convs(1))

context live_client
begin

lemma turns_delete:
  "turns store P (DeleteR r C m) (\<lambda>_ sto. \<exists>sto'. P sto' \<and> sto = sto' (kref_of (c_kind C) (om_namespace m) (om_name m) := None))"
  unfolding turns_def
proof safe
  fix s :: "'w st" assume s: "P (store (st_world s))"
  let ?a = "kref_of (c_kind C) (om_namespace m) (om_name m)"
  obtain t where t: "DeleteR r C m s = (Ok (), t)" "store (st_world t) ?a = None" using deleteR_gone by blast
  have "store (st_world t) = (store (st_world s))(?a := None)"
    using withinD [OF deleteR_touches [where X = "{?a}"] t(1)] t(2) by (auto simp: touches_def)
  with s t(1) show "\<exists>x t. DeleteR r C m s = (Ok x, t) \<and> (\<exists>sto'. P sto' \<and> store (st_world t) = sto'(?a := None))" by blast
qed

lemma turns_get:
  assumes "codec_laws C"
  defines "ref \<equiv> kref_of (c_kind C) (k_ns r)"
  shows "turns store P (GetOrDie r C n) (\<lambda>x sto. P sto \<and> sto (ref n) = map_option (c_enc C) x \<and> (\<forall>y. x = Some y \<longrightarrow> oref (c_enc C y) = ref n))"
  unfolding turns_def
proof safe
  fix s :: "'w st" assume s: "P (store (st_world s))"
  obtain x where x: "store (st_world s) (ref n) = map_option (c_enc C) x" "\<forall>y. x = Some y \<longrightarrow> oref (c_enc C y) = ref n"
  proof (cases "store (st_world s) (ref n)")
    case (Some k)
    then obtain x where "k = c_enc C x" "oref (c_enc C x) = ref n"
      using stored_typed [OF assms(1), of "st_world s" "k_ns r" n k] by (auto simp: ref_def)
    with Some show ?thesis using that [of "Some x"] by simp
  qed (simp add: that)
  then obtain w where "GetOrDie r C n s = (Ok x, s\<lparr>st_world := w\<rparr>)" "store w = store (st_world s)"
    using getOrDie_present [OF assms(1), of s n "the x"] getOrDie_absent [of s C n] by (cases x) (auto simp: ref_def)
  with s x show "\<exists>x t. GetOrDie r C n s = (Ok x, t) \<and> P (store (st_world t)) \<and>
      store (st_world t) (ref n) = map_option (c_enc C) x \<and> (\<forall>y. x = Some y \<longrightarrow> oref (c_enc C y) = ref n)" by auto
qed

lemma turns_create:
  assumes "codec_laws C" "\<And>sto. P sto \<Longrightarrow> sto (oref (c_enc C x)) = None"
  shows "turns store P (CreateR r C x) (\<lambda>y sto. admitted (c_enc C x) (c_enc C y) \<and>
    (\<exists>sto'. P sto' \<and> sto = sto'(oref (c_enc C x) \<mapsto> c_enc C y)))"
  unfolding turns_def
proof safe
  fix s :: "'w st" assume s: "P (store (st_world s))"
  obtain y w where y: "CreateR r C x s = (Ok y, s\<lparr>st_world := w\<rparr>)" "admitted (c_enc C x) (c_enc C y)"
      "store w (oref (c_enc C x)) = Some (c_enc C y)"
    using createR_absent [OF assms(1) assms(2) [OF s]] by blast
  have "store w = (store (st_world s))(oref (c_enc C x) \<mapsto> c_enc C y)"
    using withinD [OF createR_touches [OF assms(1), where X = "{oref (c_enc C x)}"] y(1)] y(3) by (auto simp: touches_def)
  with s y(1,2) show "\<exists>y t. CreateR r C x s = (Ok y, t) \<and> admitted (c_enc C x) (c_enc C y) \<and>
      (\<exists>sto'. P sto' \<and> store (st_world t) = sto'(oref (c_enc C x) \<mapsto> c_enc C y))" by auto
qed

end

section \<open>A configuration that is loaded stays loaded\<close>

text \<open>\<open>free a P\<close>: the object at \<open>a\<close> does not matter for \<open>P\<close>.\<close>

definition free :: "kref \<Rightarrow> ((kref \<Rightarrow> kobj option) \<Rightarrow> bool) \<Rightarrow> bool" where
  "free a P \<longleftrightarrow> (\<forall>sto v. P sto \<longrightarrow> P (sto(a := v)))"

lemma turns_ensured: "ensured run store a good \<Longrightarrow> free a P \<Longrightarrow> turns store P run (\<lambda>_. P)"
  unfolding turns_def
proof safe
  fix s :: "'a st" assume e: "ensured run store a good" "free a P" "P (store (st_world s))"
  obtain x t where t: "run s = (Ok x, t)" using ensured.settles [OF e(1), of s] by blast
  have "store (st_world t) = (store (st_world s))(a := store (st_world t) a)"
    using withinD [OF ensured.touches_only [OF e(1)] t] by (auto simp: touches_def)
  with e(2,3) t show "\<exists>x t. run s = (Ok x, t) \<and> P (store (st_world t))" unfolding free_def by metis
qed

context live_client
begin

lemma turns_update:
  assumes "codec_laws C" "\<And>sto. P sto \<Longrightarrow> sto (oref (c_enc C x)) \<noteq> None" "free (oref (c_enc C x)) Q" "\<And>sto. P sto \<Longrightarrow> Q sto"
  shows "turns store P (UpdateR r C x) (\<lambda>(ok, _) sto. ok \<and> Q sto)"
  unfolding turns_def
proof safe
  fix s :: "'w st" assume s: "P (store (st_world s))"
  obtain y w where y: "UpdateR r C x s = (Ok (True, y), s\<lparr>st_world := w\<rparr>)"
    using updateR_present [OF assms(1) assms(2) [OF s]] by blast
  have "store w = (store (st_world s))(oref (c_enc C x) := store w (oref (c_enc C x)))"
    using withinD [OF updateR_touches [OF assms(1), where X = "{oref (c_enc C x)}"] y(1)] by (auto simp: touches_def)
  moreover have "Q ((store (st_world s))(oref (c_enc C x) := store w (oref (c_enc C x))))"
    using assms(3) assms(4) [OF s] by (simp add: free_def)
  ultimately have "Q (store w)" by (simp only:)
  with y show "\<exists>z t. UpdateR r C x s = (Ok z, t) \<and> (case z of (ok, _) \<Rightarrow> \<lambda>sto. ok \<and> Q sto) (store (st_world t))" by simp
qed

lemma turns_present:
  assumes "codec_laws C" "oref (c_enc C x) = kref_of (c_kind C) (k_ns r) n" "free (oref (c_enc C x)) P"
  shows "turns store P (bnd (GetOrDie r C n) (\<lambda>found. case found of Some _ \<Rightarrow> ret () | None \<Rightarrow> bnd (CreateR r C x) (\<lambda>_. ret ()))) (\<lambda>_. P)"
proof (rule turns_bnd [OF turns_get [OF assms(1), of P]], goal_cases)
  case (1 found)
  show ?case
  proof (cases found)
    case None
    then show ?thesis
      by (auto intro!: turns_bnd [OF turns_create [OF assms(1)] turns_ret] simp: assms(2))
        (use assms(2,3) in \<open>auto simp: free_def\<close>)
  qed (auto intro: turns_ret)
qed

end

text \<open>The record is that of the current configuration and of the current version of the secrets.\<close>

definition secrets_version :: "secret option \<Rightarrow> string \<Rightarrow> string" where
  "secrets_version ks extra = ''1'' @ ''-'' @ (case ks of None \<Rightarrow> [] | Some s \<Rightarrow> om_resourceVersion (se_meta s)) @ ''-'' @ extra"

definition tenant_current :: "'w SFController \<Rightarrow> string \<Rightarrow> secret option \<Rightarrow> (kref \<Rightarrow> kobj option) \<Rightarrow> bool" where
  "tenant_current c extra ks sto \<longleftrightarrow> (let k = c_k c; v = secrets_version ks extra in
     sto (kref_of KSecret (k_ns k) ''zuul-keystore-password'') = map_option OSecret ks \<and>
     (\<exists>cm. sto (tenant_ref k) = Some (OConfigMap cm) \<and>
       gm_get (cm_data cm) ''internal-tenant-config-hash'' = Checksum k (MkPreInitScript c) \<and>
       gm_get (cm_data cm) ''internal-tenant-secrets-version'' = v) \<and>
     (\<exists>job. sto (kref_of KJob (k_ns k) (''config-base-secret-'' @ v)) = Some (OJob job) \<and> 1 \<le> jo_succeeded job))"

lemma free_current:
  assumes "fst a \<noteq> KJob" "fst a = KSecret \<longrightarrow> snd (snd a) \<noteq> ''zuul-keystore-password''"
    "fst a = KConfigMap \<longrightarrow> snd (snd a) \<noteq> ''zs-internal-tenant-reconfigure''"
  shows "free a (tenant_current c extra ks)"
  using assms by (cases a) (auto simp: free_def tenant_current_def tenant_ref_def kref_of_def Let_def)

context live_client
begin

lemma turns_access:
  assumes "c_k c = r"
  shows "turns store (tenant_current c e ks) (ensure_config_account r) (\<lambda>_. tenant_current c e ks)"
    and "turns store (tenant_current c e ks) (ensure_config_binding r) (\<lambda>_. tenant_current c e ks)"
    and "turns store (tenant_current c e ks) (ensure_config_token r) (\<lambda>_. tenant_current c e ks)"
  unfolding ensure_config_account_def ensure_config_binding_def ensure_config_token_def
  by (rule turns_present, rule codec_axioms, simp add: codec_defs oref_def kref_of_def mk_meta_def,
      rule free_current; simp add: codec_defs oref_def mk_meta_def kref_of_def)+

lemma turns_role:
  assumes "c_k c = r"
  shows "turns store (tenant_current c e ks) (ensure_config_role r) (\<lambda>ok sto. ok \<and> tenant_current c e ks sto)"
  unfolding ensure_config_role_def
proof (rule turns_bnd [OF turns_get [OF codec_axioms(11)]], split option.split, intro conjI impI allI turns_if, goal_cases)
  case (1 found)
  have "free (kref_of KRole (k_ns r) ''config-updater-role'') (tenant_current c e ks)"
    by (rule free_current) (simp_all add: kref_of_def)
  with 1 show ?case
    by (intro turns_bnd [OF turns_create [OF codec_axioms(11)] turns_ret]) (auto simp: codec_defs oref_def mk_meta_def free_def kref_of_def)
next
  case (3 found role)
  show ?case
    by (rule turns_bnd [OF turns_update [OF codec_axioms(11), where Q = "tenant_current c e ks"]])
      (use 3 in \<open>auto simp: codec_defs oref_def kref_of_def intro!: free_current turns_ret\<close>)
qed (auto intro: turns_ret)

lemma turns_secrets:
  assumes "c_k c = r"
  shows "turns store (tenant_current c e ks) (SetupBaseSecrets c (secrets_version ks e)) (\<lambda>ok sto. ok \<and> tenant_current c e ks sto)"
  unfolding SetupBaseSecrets_def Let_def assms
proof (rule turns_bnd [OF turns_access(1) [OF assms]], rule turns_bnd [OF turns_role [OF assms]], rule turns_if, goal_cases)
  case (2 _ ok)
  show ?case
  proof (rule turns_bnd [OF turns_mono [OF turns_access(2) [OF assms], where Q' = "\<lambda>_. tenant_current c e ks"]], goal_cases)
    case 3
    have job: "turns store (\<lambda>sto. tenant_current c e ks sto \<and> sto (kref_of KJob (k_ns r) (''config-base-secret-'' @ secrets_version ks e)) = map_option OJob found)
        (case found of None \<Rightarrow> m | Some job \<Rightarrow> ret (1 \<le> jo_succeeded job)) (\<lambda>ok sto. ok \<and> tenant_current c e ks sto)" for found m
      by (cases found) (auto simp: tenant_current_def Let_def assms intro!: turns_void turns_ret)
    show ?case
      by (rule turns_bnd [OF turns_access(3) [OF assms]], rule turns_bnd [OF turns_get [OF codec_axioms(9)]], rule turns_mono [OF job])
        (auto simp: codec_defs)
  qed simp_all
qed (simp add: turns_void)

lemma tooling_current:
  assumes "c_k c = r"
  shows "turns store (tenant_current c e ks) (InstallTooling c) (\<lambda>_. tenant_current c e ks)"
  unfolding InstallTooling_def assms
  by (rule turns_bnd [OF turns_ensured [OF configmap_ensured free_current] turns_ret]) (simp_all add: kref_of_def)

lemma config_quiet:
  assumes "c_k c = r" "extra_settings_checksum c = (ret extra :: ('w st, string) prog)"
  shows "turns store (tenant_current c extra ks) (SetupConfigJob c) (\<lambda>ok sto. ok \<and> tenant_current c extra ks sto)"
  unfolding SetupConfigJob_def Let_def assms bnd_simps secrets_version_def [symmetric]
proof (rule turns_bnd [OF turns_get [OF codec_axioms(2)]], goal_cases)
  case (1 zkp)
  show ?case
  proof (cases "zkp = ks")
    case False
    then show ?thesis by (intro turns_void, cases zkp; cases ks) (auto simp: tenant_current_def Let_def assms codec_defs)
  next
    case True
    have after: "turns store (\<lambda>sto. tenant_current c extra ks sto \<and> sto (tenant_ref r) = map_option OConfigMap found)
      (bnd (SetupBaseSecrets c (secrets_version ks extra)) (\<lambda>ok. if \<not> ok then ret False
         else if \<not> (found = None \<or> (case found of None \<Rightarrow> False | Some cm \<Rightarrow> Checksum r (MkPreInitScript c) \<noteq> gm_get (cm_data cm) ''internal-tenant-config-hash'' \<or>
           secrets_version ks extra \<noteq> gm_get (cm_data cm) ''internal-tenant-secrets-version'')) then ret True else m))
      (\<lambda>ok sto. ok \<and> tenant_current c extra ks sto)" for found m
    proof (cases "\<exists>cm. found = Some cm \<and> Checksum r (MkPreInitScript c) = gm_get (cm_data cm) ''internal-tenant-config-hash'' \<and>
        secrets_version ks extra = gm_get (cm_data cm) ''internal-tenant-secrets-version''")
      case True
      then show ?thesis
        by (intro turns_bnd [OF turns_mono [OF turns_secrets [OF assms(1)], where Q' = "\<lambda>ok sto. ok \<and> tenant_current c extra ks sto"]])
          (auto simp del: run_simps intro!: turns_ret)
    qed (intro turns_void, auto simp: tenant_current_def Let_def assms)
    show ?thesis unfolding True
      by (rule turns_bnd [OF turns_mono [OF tooling_current [OF assms(1)]]], blast, assumption,
          rule turns_bnd [OF turns_get [OF codec_axioms(1)]], rule turns_mono [OF after])
        (auto simp: codec_defs tenant_ref_def)
  qed
qed

end

section \<open>The certificates of ZooKeeper\<close>

lemma gm_get_upd: "gm_get (Some (fmupd k v m)) k' = (if k' = k then v else gm_get (Some m) k')"
  by (simp add: gm_get_def)

text \<open>
  A secret with the current annotations, and the two secrets holding certificates of the same authority.
\<close>

definition zk_current :: "'w kctx \<Rightarrow> string \<Rightarrow> secret \<Rightarrow> (kref \<Rightarrow> kobj option) \<Rightarrow> bool" where
  "zk_current k name se sto \<longleftrightarrow> sto (kref_of KSecret (k_ns k) name) = Some (OSecret se) \<and> om_annotations (se_meta se) = zk_annotations"

definition zk_pair :: "'w kctx \<Rightarrow> (kref \<Rightarrow> kobj option) \<Rightarrow> bool" where
  "zk_pair k sto \<longleftrightarrow> (\<exists>cl sv. zk_current k ''zookeeper-client-tls'' cl sto \<and> zk_current k ''zookeeper-server-tls'' sv sto \<and>
     gm_get (se_data cl) ''ca.crt'' = gm_get (se_data sv) ''ca.crt'')"

text \<open>When both secrets are current, they agree on the authority.\<close>

definition zk_agree :: "'w kctx \<Rightarrow> (kref \<Rightarrow> kobj option) \<Rightarrow> bool" where
  "zk_agree k sto \<longleftrightarrow> (\<forall>cl sv. zk_current k ''zookeeper-client-tls'' cl sto \<longrightarrow> zk_current k ''zookeeper-server-tls'' sv sto \<longrightarrow>
     gm_get (se_data cl) ''ca.crt'' = gm_get (se_data sv) ''ca.crt'')"

lemma zk_current_admitted:
  assumes "admitted (OSecret (zk_secret k name d)) (OSecret se)"
  shows "om_annotations (se_meta se) = zk_annotations \<and> gm_get (se_data se) = gm_get (Some d)"
proof -
  have "gm_fm (om_annotations (se_meta se)) = gm_fm zk_annotations" "gm_fm (se_data se) = d"
    using assms by (auto simp: admitted_def kept_meta_def kept_spec_def zk_secret_def)
  then show ?thesis
    by (cases "om_annotations (se_meta se)") (auto simp: zk_annotations_def gm_get_def fun_eq_iff)
qed

definition zk_refs :: "'w kctx \<Rightarrow> kref set" where
  "zk_refs k = kref_of KSecret (k_ns k) ` {''zookeeper-client-tls'', ''zookeeper-server-tls''}"

context live_client
begin

lemma zk_secretReady_looks:
  "looks store (zk_secretReady r name) (\<lambda>sto. \<exists>se. zk_current r name se sto)"
proof -
  have "looks store (zk_secretReady r name) (\<lambda>sto. case typed cSecret (sto (kref_of KSecret (k_ns r) name)) of
      None \<Rightarrow> False | Some current \<Rightarrow> MapEquals (om_annotations (se_meta current)) zk_annotations)"
    unfolding zk_secretReady_def by (rule looks_cong [OF looks_bnd [OF getOrDie_looks [OF codec_axioms(2)] looks_ret]]) simp
  then show ?thesis
    by (rule looks_cong) (auto simp: typed_def zk_current_def MapEquals_def codec_defs split: option.splits kobj.splits)
qed

lemma zk_ready_looks:
  "looks store (bnd (zk_secretReady r ''zookeeper-client-tls'') (\<lambda>b. if b then zk_secretReady r ''zookeeper-server-tls'' else ret False))
    (\<lambda>sto. (\<exists>se. zk_current r ''zookeeper-client-tls'' se sto) \<and> (\<exists>se. zk_current r ''zookeeper-server-tls'' se sto))"
  by (rule looks_cong [OF looks_bnd [OF zk_secretReady_looks looks_if [OF zk_secretReady_looks looks_ret]]]) simp

text \<open>The certificates that are made anew.\<close>

lemma turns_rsaKey: "turns store P (sysc (s_rsaKey (k_sys r) bits)) (\<lambda>x sto. P sto \<and> (\<exists>key. x = Inr key))"
  unfolding turns_def
proof safe
  fix s :: "'w st" assume "P (store (st_world s))"
  moreover obtain key w where "s_rsaKey (k_sys r) bits (st_world s) = (Inr key, w)" using rsaKey_works by blast
  ultimately show "\<exists>x t. sysc (s_rsaKey (k_sys r) bits) s = (Ok x, t) \<and> P (store (st_world t)) \<and> (\<exists>key. x = Inr key)"
    using rsaKey_frame [of bits "st_world s" "Inr key" w] by (auto simp: sysc_run)
qed

lemma turns_crypto: "turns store P (sysc (s_now (k_sys r))) (\<lambda>_. P)" "turns store P (sysc (s_serial (k_sys r))) (\<lambda>_. P)"
  "turns store P (sysc (s_certificate (k_sys r) xt pt pub priv)) (\<lambda>_. P)"
  by (rule turns_sysc, auto dest: now_frame serial_frame certificate_frame)+

lemma turns_key:
  assumes "\<And>key. turns store P (f key) Q"
  shows "turns store P (bnd (sysc (s_rsaKey (k_sys r) bits)) (\<lambda>x. case x of Inl e \<Rightarrow> panic nil_deref | Inr key \<Rightarrow> f key)) Q"
proof (rule turns_bnd [OF turns_rsaKey])
  fix x show "turns store (\<lambda>sto. P sto \<and> (\<exists>key. x = Inr key)) (case x of Inl e \<Rightarrow> panic nil_deref | Inr key \<Rightarrow> f key) Q"
    using assms by (cases x) (auto intro: turns_void)
qed

lemma turns_cert: "turns store P (X509CA r) (\<lambda>_. P)" "turns store P (X509Cert r ca key names) (\<lambda>_. P)"
  unfolding X509CA_def X509Cert_def generateSerialNumber_def Let_def
  by (intro turns_bnd [OF turns_crypto(1)] turns_bnd [OF turns_crypto(2)] turns_key turns_bnd [OF turns_crypto(3)] turns_ret, assumption)+

definition apart :: "(kref \<Rightarrow> kobj option) \<Rightarrow> (kref \<Rightarrow> kobj option) \<Rightarrow> bool" where
  "apart old sto \<longleftrightarrow> (\<forall>x. x \<notin> zk_refs r \<longrightarrow> sto x = old x)"

definition absent :: "string \<Rightarrow> (kref \<Rightarrow> kobj option) \<Rightarrow> bool" where
  "absent name sto \<longleftrightarrow> sto (kref_of KSecret (k_ns r) name) = None"

lemma zk_delete:
  assumes "name \<in> {''zookeeper-client-tls'', ''zookeeper-server-tls''}"
  shows "turns store (\<lambda>sto. apart old sto \<and> list_all (\<lambda>n. absent n sto) gone) (DeleteSecret r name)
    (\<lambda>_ sto. apart old sto \<and> list_all (\<lambda>n. absent n sto) (name # gone))"
  unfolding DeleteSecret_def
  by (rule turns_mono [OF turns_delete [of "\<lambda>sto. apart old sto \<and> list_all (\<lambda>n. absent n sto) gone"]]) (use assms in \<open>auto simp: apart_def zk_refs_def absent_def mk_meta_def list_all_iff\<close>)

lemma zk_create:
  assumes "name \<in> {''zookeeper-client-tls'', ''zookeeper-server-tls''}"
    and "\<And>sto. P sto \<Longrightarrow> apart old sto \<and> absent name sto"
  shows "turns store P (CreateR r cSecret (zk_secret r name d)) (\<lambda>_ sto. apart old sto \<and>
    (\<exists>sto' se. P sto' \<and> sto = sto'(kref_of KSecret (k_ns r) name \<mapsto> OSecret se) \<and> om_annotations (se_meta se) = zk_annotations \<and>
      gm_get (se_data se) = gm_get (Some d)))"
proof -
  let ?ref = "kref_of KSecret (k_ns r) name"
  have a: "oref (OSecret (zk_secret r name d)) = ?ref"
    by (simp add: oref_def kref_of_def zk_secret_def mk_meta_def)
  have b: "apart old (sto(?ref := v))" if "P sto" for sto v
    using assms(2) [OF that] assms(1) by (auto simp: apart_def zk_refs_def)
  show ?thesis
    by (rule turns_mono [OF turns_create [OF codec_axioms(2), of P]])
      (use assms(2) zk_current_admitted [of r name d] b in \<open>simp_all add: a absent_def, blast\<close>)
qed

text \<open>Writing the two secrets of an authority once both are gone.\<close>

lemma certificates_written:
  "turns store (\<lambda>sto. apart old sto \<and> list_all (\<lambda>n. absent n sto) [''zookeeper-server-tls'', ''zookeeper-client-tls''])
    (bnd (CreateR r cSecret (zk_secret r ''zookeeper-client-tls'' (smap_of [(''ca.crt'', ca), (''tls.crt'', cert), (''tls.key'', certkey)]))) (\<lambda>_.
     bnd (map_prog (\<lambda>i. bnd (X509Cert r authority key (names i)) (\<lambda>(c, key). ret (entries i c key))) is) (\<lambda>servers.
     bnd (CreateR r cSecret (zk_secret r ''zookeeper-server-tls'' (smap_of ((''ca.crt'', ca) # concat servers)))) (\<lambda>_. ret ()))))
    (\<lambda>_ sto. zk_pair r sto \<and> apart old sto)"
proof -
  let ?cl = "''zookeeper-client-tls''" and ?sv = "''zookeeper-server-tls''"
  let ?P = "\<lambda>sto. apart old sto \<and> list_all (\<lambda>n. absent n sto) [?sv, ?cl]"
  let ?Q = "\<lambda>sto. apart old sto \<and> absent ?sv sto \<and> (\<exists>se. zk_current r ?cl se sto \<and> gm_get (se_data se) ''ca.crt'' = ca)"
  note client = zk_create [of ?cl ?P old "smap_of [(''ca.crt'', ca), (''tls.crt'', cert), (''tls.key'', certkey)]"]
  note server = zk_create [of ?sv ?Q old]
  show ?thesis
  proof (rule turns_bnd [OF turns_mono [OF client, where Q' = "\<lambda>_. ?Q"]], goal_cases)
    case 5
    show ?case
    proof (rule turns_bnd [OF turns_map], rule turns_bnd [OF turns_cert(2)], goal_cases)
      case (2 servers)
      show ?case
        by (rule turns_bnd [OF turns_mono [OF server, where Q' = "\<lambda>_ sto. zk_pair r sto \<and> apart old sto"] turns_ret])
          (auto simp: zk_pair_def zk_current_def gm_get_upd kref_of_def)
    qed (auto intro: turns_ret split: prod.split)
  qed (auto simp: zk_current_def absent_def gm_get_upd kref_of_def)
qed

lemma certificates_made:
  assumes "c_k c = r"
  shows "turns store (\<lambda>sto. zk_agree r sto \<and> sto = old) (EnsureZookeeperCertificates c ident n) (\<lambda>_ sto. zk_pair r sto \<and> apart old sto)"
  unfolding EnsureZookeeperCertificates_def Let_def assms
proof (rule turns_bnd [OF turns_looks [OF zk_ready_looks]], rule turns_if, goal_cases)
  case (1 ready)
  then show ?case by (intro turns_ret) (auto simp: zk_pair_def zk_agree_def apart_def)
next
  case (2 ready)
  show ?case
  proof (rule turns_bnd [OF turns_mono [OF zk_delete [where gone = "[]" and old = old],
      where Q' = "\<lambda>_ sto. apart old sto \<and> list_all (\<lambda>n. absent n sto) [''zookeeper-client-tls'']"]], goal_cases)
    case 4
    show ?case
      by (rule turns_bnd [OF zk_delete], simp, rule turns_bnd [OF turns_cert(1)], split prod.split, safe,
        rule turns_bnd [OF turns_cert(2)], split prod.split, safe, rule certificates_written)
  qed (auto simp: apart_def)
qed

lemma certificates_kept:
  assumes "c_k c = r"
  shows "turns store (\<lambda>sto. zk_pair r sto \<and> sto = old) (EnsureZookeeperCertificates c ident n) (\<lambda>_ sto. sto = old)"
  unfolding EnsureZookeeperCertificates_def Let_def assms
proof (rule turns_bnd [OF turns_looks [OF zk_ready_looks]], rule turns_if, goal_cases)
  case (2 ready)
  then show ?case by (auto simp: turns_def zk_pair_def)
qed (auto intro: turns_ret)

end

section \<open>The job that provisions the database\<close>

definition db_ref :: "'w kctx \<Rightarrow> string \<Rightarrow> kref" where
  "db_ref k database = kref_of KJob (k_ns k) (database @ ''-db-provision'')"

text \<open>The job on the cluster is the one for the given password; \<open>ok\<close> tells that it succeeded.\<close>

definition provisioned :: "'w kctx \<Rightarrow> string \<Rightarrow> string \<Rightarrow> bool \<Rightarrow> (kref \<Rightarrow> kobj option) \<Rightarrow> bool" where
  "provisioned k database password ok sto \<longleftrightarrow> (\<exists>job. sto (db_ref k database) = Some (OJob job) \<and>
     gm_get (om_annotations (jo_meta job)) ''cfg'' = Checksum k password \<and> (ok \<longrightarrow> 0 < jo_succeeded job))"

lemma job_enc: "c_enc cJob job = OJob job"
  by (simp add: codec_defs)

lemma job_admitted:
  "admitted (OJob (db_job c database password ctn)) (OJob job) \<Longrightarrow>
    gm_get (om_annotations (jo_meta job)) ''cfg'' = Checksum (c_k c) password"
  by (auto simp: admitted_def kept_meta_def db_job_def gm_get_def)

lemma db_job_parts:
  "om_name (jo_meta (db_job c database password ctn)) = database @ ''-db-provision''"
  "gm_get (om_annotations (jo_meta (db_job c database password ctn))) ''cfg'' = Checksum (c_k c) password"
  "oref (OJob (db_job c database password ctn)) = db_ref (c_k c) database"
  by (simp_all add: db_job_def gm_get_def mk_meta_def oref_def kref_of_def db_ref_def)

lemma getOrCreate_shape:
  "bnd (GetOrCreate k C x) (\<lambda>(found, cur). if found \<and> P cur then f cur else g cur) =
     bnd (GetOrDie k C (om_name (c_meta C x))) (\<lambda>found. case found of None \<Rightarrow> bnd (CreateR k C x) g | Some y \<Rightarrow> if P y then f y else g y)"
  unfolding GetOrCreate_def bnd_assoc
  by (rule arg_cong [where f = "bnd _"], rule ext) (simp add: bnd_assoc split: option.split)

lemma provision_shape:
  "\<exists>ctn. EnsureProvisionDBJob c database password = bnd (GetOrDie (c_k c) cJob (database @ ''-db-provision'')) (\<lambda>found. case found of
       None \<Rightarrow> bnd (CreateR (c_k c) cJob (db_job c database password ctn)) (\<lambda>job. ret (0 < jo_succeeded job))
     | Some job \<Rightarrow> if Checksum (c_k c) password \<noteq> gm_get (om_annotations (jo_meta job)) ''cfg''
         then bnd (DeleteR (c_k c) cJob (jo_meta job)) (\<lambda>_. bnd (CreateR (c_k c) cJob (db_job c database password ctn)) (\<lambda>_. ret False))
         else ret (0 < jo_succeeded job))"
proof -
  have m: "c_meta cJob = jo_meta" by (simp add: codec_defs)
  show ?thesis
    unfolding EnsureProvisionDBJob_def CreateDBInitContainer_def Let_def image_simps bnd_simps getOrCreate_shape m db_job_parts
    by (rule exI, rule refl)
qed

context live_client
begin

lemma create_job:
  assumes "c_k c = r" "\<And>sto. P sto \<Longrightarrow> sto (db_ref r database) = None"
  shows "turns store P (CreateR r cJob (db_job c database password ctn))
    (\<lambda>job sto. \<exists>sto'. P sto' \<and> sto = sto'(db_ref r database \<mapsto> OJob job) \<and> gm_get (om_annotations (jo_meta job)) ''cfg'' = Checksum r password)"
  by (rule turns_mono [OF turns_create [OF codec_axioms(9), of P]])
    (use assms job_admitted [of c database password ctn] in \<open>auto simp: db_job_parts(3) codec_defs\<close>)

lemma provision_job:
  assumes "c_k c = r"
  shows "turns store (\<lambda>sto. sto = old) (EnsureProvisionDBJob c database password)
    (\<lambda>ok sto. provisioned r database password ok sto \<and> (\<forall>x. x \<noteq> db_ref r database \<longrightarrow> sto x = old x) \<and>
      (provisioned r database password False old \<longrightarrow> sto = old))"
proof -
  obtain ctn where run: "EnsureProvisionDBJob c database password = bnd (GetOrDie r cJob (database @ ''-db-provision'')) (\<lambda>found. case found of
       None \<Rightarrow> bnd (CreateR r cJob (db_job c database password ctn)) (\<lambda>job. ret (0 < jo_succeeded job))
     | Some job \<Rightarrow> if Checksum r password \<noteq> gm_get (om_annotations (jo_meta job)) ''cfg''
         then bnd (DeleteR r cJob (jo_meta job)) (\<lambda>_. bnd (CreateR r cJob (db_job c database password ctn)) (\<lambda>_. ret False))
         else ret (0 < jo_succeeded job))"
    using provision_shape [of c database password] assms by auto
  let ?ref = "db_ref r database"
  show ?thesis unfolding run
  proof (rule turns_bnd [OF turns_get [OF codec_axioms(9)]], split option.split, intro conjI impI allI turns_if, goal_cases)
    case (1 found)
    then show ?case
      by (intro turns_bnd [OF create_job [OF assms]] turns_ret) (auto simp: provisioned_def db_ref_def)
  next
    case (2 found job)
    have here: "kref_of KJob (om_namespace (jo_meta job)) (om_name (jo_meta job)) = ?ref" if "oref (OJob job) = ?ref"
      using that by (simp add: oref_def kref_of_def)
    note gone = turns_delete [of "\<lambda>sto. sto = old \<and> sto ?ref = Some (OJob job) \<and> oref (OJob job) = ?ref" cJob "jo_meta job"]
    show ?case
    proof (rule turns_bnd [where R = "\<lambda>_ sto. old ?ref = Some (OJob job) \<and> sto = old (?ref := None)"], goal_cases)
      case 1
      show ?case by (rule turns_mono [OF gone]) (use 2(1) here in \<open>auto simp: db_ref_def job_enc\<close>)
    next
      case del: 2
      show ?case by (rule turns_bnd [OF create_job [OF assms] turns_ret]) (use 2(2) in \<open>auto simp: provisioned_def\<close>)
    qed
  next
    case (3 found job)
    then show ?case by (intro turns_ret) (auto simp: provisioned_def db_ref_def codec_defs)
  qed
qed

end

section \<open>The security context of the pods\<close>

text \<open>
  Every pod template takes the context from one package variable. Once the executor removed the
  seccomp profile from it, nothing puts it back.
\<close>

definition unconfined :: "'w st \<Rightarrow> bool" where
  "unconfined s \<longleftrightarrow> psc_seccompProfile (st_podSC s) = None"

definition stays :: "'w st \<Rightarrow> 'w st \<Rightarrow> bool" where
  "stays s t \<longleftrightarrow> unconfined s \<longrightarrow> unconfined t"

interpretation sec: effect_bound stays
  by unfold_locales (auto simp: stays_def)

lemma stays_base:
  "within stays (sysc f)" "within stays (modify (\<lambda>s. s\<lparr>st_conditions := g s\<rparr>))"
  "within stays (modify (\<lambda>s. s\<lparr>st_podSC := (st_podSC s)\<lparr>psc_runAsNonRoot := v\<rparr>\<rparr>))"
  by (auto simp: within_def stays_def unconfined_def sysc_def split: prod.split)

lemma stays_reads:
  "within stays (GetOrDie r C n)" "within stays (IsStatefulSetReady r sts)" "within stays (hasCrashLoopBackOff r sts)" "within stays (crash_check r b i)"
  unfolding GetOrDie_def Get_def IsStatefulSetReady_def IsStatefulSetRolloutDone_def getPods_def hasCrashLoopBackOff_def crash_check_def ListSel_def Let_def
  by (intro sec.within_rules stays_base)+

lemma stays_wait: "within stays (waitLoop n r name deadline seen sts)"
  by (induction n arbitrary: seen sts) (auto simp: Let_def intro!: sec.within_rules stays_base stays_reads)

lemma stays_calls:
  "within stays (ensureStatefulset r sts cnt)" "within stays (UpdateConditions r ty b)" "within stays (reconcileExpandPVCs r n sp)"
  "within stays (local_source c b t)" "within stays (MkNodeExporterSideCarContainer n ms os)" "within stays (waitStatefulset r sts)"
  unfolding ensureStatefulset_def UpdateConditions_def RefreshCondition_def refresh_one_def reconcileExpandPVCs_def reconcileExpandPVC_def
    canStorageResize_def local_source_def enableZuulLocalSource_def MkNodeExporterSideCarContainer_def GetTruncatedPortName_def waitStatefulset_def
    ListSel_def CreateR_def UpdateR_def DeleteR_def client_Create_def client_Update_def client_Delete_def Let_def image_simps bnd_simps
  by (intro sec.within_rules stays_base stays_reads stays_wait)+

lemma leaves_seq: "leaves P m \<Longrightarrow> (\<And>x s y t. f x s = (Ok y, t) \<Longrightarrow> P x s \<Longrightarrow> Q y t) \<Longrightarrow> leaves Q (bnd m f)"
  unfolding leaves_def bnd_eq_Ok by blast

lemma executor_unconfined:
  assumes "k_hasProcMount (c_k r)"
  shows "leaves (\<lambda>_. unconfined) (EnsureZuulExecutor r cfg)"
proof -
  have drop: "leaves (\<lambda>_. unconfined) (drop_seccomp r)"
    using assms by (simp add: drop_seccomp_def leaves_def unconfined_def)
  have rest: "unconfined t" if "m s = (Ok y, t)" "unconfined s" "within stays m" for m :: "('a st, bool) prog" and s y t
    using withinD [OF that(3,1)] that(2) by (simp add: stays_def)
  show ?thesis unfolding EnsureZuulExecutor_def Let_def case_prod_beta
    by (rule leaves_bnd, rule leaves_bnd, rule leaves_bnd, rule leaves_bnd, rule leaves_seq [OF drop], erule rest, assumption)
      (intro sec.within_rules stays_calls)
qed

section \<open>The first deployment of the executor\<close>

lemma turns_pure: "(\<And>s. \<exists>x. m s = (Ok x, s)) \<Longrightarrow> turns store P m (\<lambda>_. P)"
  unfolding turns_def by metis

lemma turns_modify: "(\<And>s. st_world (f s) = st_world s) \<Longrightarrow> turns store P (modify f) (\<lambda>_. P)"
  by (simp add: turns_def)

lemma turns_reads: "turns store P (reads g) (\<lambda>_. P)"
  by (simp add: turns_def)

lemma annotations_end:
  "set commonIniConfigSections \<subseteq> sections cfg \<Longrightarrow> set names \<subseteq> sections cfg \<Longrightarrow> \<exists>a. zuul_annotations r cfg srv names serial cm s = (Ok a, s)"
  using checksum_ends [of commonIniConfigSections cfg "c_k r" s] checksum_ends [of names cfg "c_k r" s]
    checksum_ends [OF prefix_sections, of "c_k r" cfg "''connection''" s]
  by (auto simp: zuul_annotations_def Let_def bnd_def)

context live_client
begin

lemma turns_ensure_cm: "gm_fm data \<noteq> fmempty \<Longrightarrow> free (kref_of KConfigMap (k_ns r) (n @ ''-config-map'')) P \<Longrightarrow>
    turns store P (EnsureConfigMap r n data) (\<lambda>_. P)"
  by (rule turns_ensured [OF configmap_ensured])

lemma turns_volumes:
  assumes "c_k c = r" "\<And>n. free (kref_of KConfigMap (k_ns r) n) P"
  shows "turns store P (mkZuulVolumes srv c b) (\<lambda>_. P)"
  unfolding mkZuulVolumes_def assms(1)
  by (rule turns_bnd [OF turns_ensure_cm], simp, rule assms, rule turns_bnd [OF turns_ensure_cm], simp, rule assms,
      rule turns_bnd [OF turns_ensure_cm]) (simp_all add: computeLoggingConfig_def Let_def turns_ret assms(2))

lemma executor_first:
  assumes c: "c_k c = r" and secs: "set commonIniConfigSections \<subseteq> sections cfg" "''executor'' \<in> sections cfg"
    and env: "GetEnvVarValue r ''ZUUL_LOCAL_SOURCE'' = Inl e"
  shows "turns store (\<lambda>sto. sto (kref_of KStatefulSet (k_ns r) ''zuul-executor'') = None) (EnsureZuulExecutor c cfg)
    (\<lambda>ok sto. \<not> ok \<and> sto (kref_of KStatefulSet (k_ns r) ''zuul-executor'') \<noteq> None)"
proof -
  let ?ref = "kref_of KStatefulSet (k_ns r) ''zuul-executor''" and ?P = "\<lambda>sto. sto (kref_of KStatefulSet (k_ns r) ''zuul-executor'') = None"
  have ca: "turns store ?P (CorporateCAConfigMapExists r) (\<lambda>_. ?P)"
    unfolding CorporateCAConfigMapExists_def GetConfigMap_def Let_def
    by (intro turns_bnd [OF turns_if] turns_bnd [OF turns_get [OF codec_axioms(1)]] turns_ret) (auto intro: turns_ret)
  have created: "turns store ?P (bnd (ensureStatefulset r sts None) (\<lambda>x. if snd x then ret False else m x)) (\<lambda>ok sto. \<not> ok \<and> sto ?ref \<noteq> None)"
    if sts: "om_name (ss_meta sts) = ''zuul-executor''" "om_namespace (ss_meta sts) = k_ns r" for sts m
    unfolding ensureStatefulset_def bnd_assoc sts(1)
  proof (rule turns_bnd [OF turns_get [OF codec_axioms(4)]], goal_cases)
    case (1 found)
    have "turns store ?P (CreateR r cStatefulSet sts) (\<lambda>_ sto. sto ?ref \<noteq> None)"
      by (rule turns_mono [OF turns_create [OF codec_axioms(4), of ?P]]) (use sts in \<open>auto simp: codec_defs oref_def kref_of_def\<close>)
    then have new: "turns store ?P (bnd (CreateR r cStatefulSet sts) (\<lambda>_. ret False)) (\<lambda>ok sto. \<not> ok \<and> sto ?ref \<noteq> None)"
      by (rule turns_bnd) (simp add: turns_ret)
    show ?case
    proof (cases found)
      case None
      then show ?thesis by (simp only: option.case bnd_assoc bnd_simps snd_conv if_True) (rule turns_mono [OF new]; simp)
    next
      case (Some current)
      then show ?thesis by (intro turns_void) (simp add: codec_defs)
    qed
  qed
  have free: "free (kref_of KConfigMap (k_ns r) n) ?P" for n
    by (simp add: free_def kref_of_def)
  have env': "local_source c b t = ret t" for b t
    using env c by (simp add: local_source_def)
  show ?thesis
    unfolding EnsureZuulExecutor_def Let_def case_prod_beta c env' bnd_simps
    by (rule turns_bnd [OF ca], rule turns_bnd [OF turns_pure], rule annotations_end [OF secs(1)],
        use secs(2) prefix_sections [of cfg] in simp, rule turns_bnd [OF turns_pure], simp add: mkZuulContainer_def getZuulImage_def,
        rule turns_bnd [OF turns_volumes [OF c free]], rule turns_bnd [where R = "\<lambda>_. ?P"], simp add: drop_seccomp_def turns_modify turns_ret,
        rule turns_bnd [OF turns_pure], simp add: MkNodeExporterSideCarContainer_def GetTruncatedPortName_def, rule turns_bnd [OF turns_reads],
        rule created)
      (simp_all add: executor_sts_def Let_def mkHeadlessStatefulSet_def mkStatefulSet_def MkStatefulset_def sts_template_def mk_meta_def c)
qed

end

end
