(* ===== verification/Demo.thy ===== *)
theory Demo
  imports Footprint Totality Pod_Facts Service_Facts
begin

text \<open>
  Concrete contexts, resources and states over the in-memory cluster, on which the properties are applied.
\<close>

section \<open>A concrete cluster for the witnesses\<close>

definition demo_ctx :: "bool \<Rightarrow> mem_world kctx" where
  "demo_ctx dry = \<lparr>k_sys = mem_sys, k_ns = ''sf'', k_owner = mk_meta ''sf-owner'' ''sf'', k_isOpenShift = False,
     k_standalone = True, k_dryRun = dry, k_hasProcMount = False,
     k_rest = \<lparr>rc_Host = ''https://api.example.org'', rc_APIPath = [], rc_CAData = []\<rparr>\<rparr>"

definition demo_st :: "kobj list \<Rightarrow> mem_world st" where
  "demo_st objs = \<lparr>st_world = \<lparr>mw_objs = objs, mw_clock = 0, mw_serial = 0, mw_execs = [], mw_files = fmempty\<rparr>,
     st_conditions = [], st_podSC = initial_DefaultPodSecurityContext, st_logserverKeys = []\<rparr>"

lemma demo_live: "live_client (demo_ctx False) mem_store"
  using mem_live.live_client_axioms [of "demo_ctx False"] by (simp add: demo_ctx_def)

lemma demo_client: "kube_client (demo_ctx dry) mem_store"
  using mem_client.kube_client_axioms [of "demo_ctx dry"] by (simp add: demo_ctx_def)

definition demo_data :: gomap where
  "demo_data = Some (smap_of [(''a'', ''b'')])"

lemma demo_data_full [simp]: "gm_fm demo_data \<noteq> fmempty"
  by (simp add: demo_data_def)

definition annotated :: "pod_template \<Rightarrow> pod_template" where
  "annotated t = t\<lparr>pt_meta := (pt_meta t)\<lparr>om_annotations := demo_data\<rparr>\<rparr>"

definition demo_sts :: statefulset where
  "demo_sts = (let x = mkHeadlessStatefulSet (demo_ctx False) initial_DefaultPodSecurityContext ''zuul'' ''zuul:11''
       \<lparr>scf_StorageClassName = None, scf_Size = Qty1Gi, scf_ExtraAnnotations = None\<rparr> ''ReadWriteOnce'' None False in
     x\<lparr>ss_template := annotated (ss_template x)\<rparr>)"

definition demo_dep :: deployment where
  "demo_dep = (let x = MkDeployment initial_DefaultPodSecurityContext ''web'' ''sf'' ''web:11'' None False in
     x\<lparr>de_template := annotated (de_template x)\<rparr>)"

lemma demo_workloads [simp]:
  "gm_fm (template_annotations (ss_template demo_sts)) \<noteq> fmempty" "om_namespace (ss_meta demo_sts) = ''sf''"
  "om_name (ss_meta demo_sts) = ''zuul''" "ss_replicas demo_sts = Some 1"
  "gm_fm (template_annotations (de_template demo_dep)) \<noteq> fmempty" "om_namespace (de_meta demo_dep) = ''sf''"
  "om_name (de_meta demo_dep) = ''web''" "de_replicas demo_dep = Some 1" "de_strategy demo_dep = no_strategy"
  by (simp_all add: demo_sts_def demo_dep_def mkHeadlessStatefulSet_def mkStatefulSet_def MkStatefulset_def
      MkDeployment_def Let_def template_annotations_def annotated_def mk_meta_def Int32Ptr_def no_strategy_def demo_ctx_def)

lemma demo_ctx_simps [simp]: "k_ns (demo_ctx dry) = ''sf''" "k_dryRun (demo_ctx dry) = dry" "k_sys (demo_ctx dry) = mem_sys"
  by (simp_all add: demo_ctx_def)

text \<open>A resource with a GitHub connection, and a controller for it.\<close>

definition demo_cr :: SoftwareFactory where
  "demo_cr = zero_SoftwareFactory\<lparr>cr_Spec := zero_SoftwareFactorySpec\<lparr>sf_Zuul := zero_ZuulSpec\<lparr>zu_GitHubConns :=
     [zero_GitHubConnection\<lparr>gh_Name := ''github.com'', gh_Secrets := ''github-secret''\<rparr>]\<rparr>\<rparr>\<rparr>"

definition demo_ctrl :: "mem_world SFController" where
  "demo_ctrl = \<lparr>c_k = demo_ctx False, c_cr = demo_cr, c_configBaseURL = [], c_needOpendev = True, c_static = (\<lambda>_. [])\<rparr>"

lemma demo_ctrl_k [simp]: "c_k demo_ctrl = demo_ctx False"
  by (simp add: demo_ctrl_def)

lemma demo_healthy: "healthy_client (demo_ctx False) mem_store"
  using demo_live by (simp add: live_client_def)

text \<open>Services that are all ready at once, and a step that becomes ready when the clock reaches \<open>at\<close>.\<close>

definition demo_deploys :: "bool \<Rightarrow> (mem_world, unit) deploys" where
  "demo_deploys b = \<lparr>d_DeployZuulSecrets = ret (), d_DeployGitServer = ret b, d_DeployMariadb = ret True,
     d_DeployLogserver = ret True, d_DeployHTTPDGateway = ret True, d_DeployHoundSearch = ret True,
     d_TerminateHoundSearch = ret (), d_EnsureLogJuicer = ret True, d_DeployZookeeper = ret True,
     d_DeployNodepool = ret (fmap_of_list [(LauncherIdent, True), (BuilderIdent, True)]),
     d_DeployZuul = ret (fmap_of_list [(''Zuul'', True)]), d_SetupConfigJob = ret True,
     d_EnsureZuulConfigSecret = (\<lambda>_. ret None), d_EnsureZuulExecutorService = ret (), d_EnsureZuulExecutor = (\<lambda>_. ret True)\<rparr>"

definition demo_step :: "int \<Rightarrow> (mem_world st, SoftwareFactoryStatus) prog" where
  "demo_step at = (\<lambda>s. (Ok (zero_SoftwareFactoryStatus\<lparr>sfs_Ready := (at \<le> mw_clock (st_world s))\<rparr>), s))"

definition demo_late :: "nat \<Rightarrow> mem_world st \<Rightarrow> mem_world st" where
  "demo_late n s = s\<lparr>st_world := (st_world s)\<lparr>mw_clock := mw_clock (st_world s) + int n * (5 * second)\<rparr>\<rparr>"

lemma demo_failing:
  "mw_clock (st_world s) + int n * (5 * second) \<le> at \<Longrightarrow> failing (demo_ctx False) (demo_step at) n s (demo_late n s)"
proof (induction n arbitrary: s)
  case 0
  show ?case by (simp add: demo_late_def failing_0)
next
  case (Suc n)
  have "failing (demo_ctx False) (demo_step at) n (demo_late 1 s) (demo_late n (demo_late 1 s))"
    by (rule Suc.IH) (use Suc.prems in \<open>simp add: demo_late_def algebra_simps\<close>)
  moreover have "demo_late n (demo_late 1 s) = demo_late (Suc n) s"
    by (simp add: demo_late_def algebra_simps)
  moreover have "demo_step at s = (Ok (zero_SoftwareFactoryStatus\<lparr>sfs_Ready := False\<rparr>), s)"
    using Suc.prems by (auto simp: demo_step_def second_def)
  moreover have "sysc (s_sleep (k_sys (demo_ctx False)) (5 * second)) s = (Ok (), demo_late 1 s)"
    by (simp add: demo_late_def sysc_def mem_sys_def)
  ultimately show ?case
    using failing_Suc [of "demo_step at" s "zero_SoftwareFactoryStatus\<lparr>sfs_Ready := False\<rparr>" s "demo_ctx False" "()" "demo_late 1 s" n]
    by simp
qed

end
