(* ===== verification/Tools.thy ===== *)
theory Tools
  imports Maintenance
begin

text \<open>
  What the command line uses of the workstation it runs on: its flags (cobra), files, external programs,
  HTTP requests and kubeconfigs, as the record \<open>tools\<close>; and the way from a kubeconfig to a context:
  \<open>controllers/libs/client/client.go\<close>, \<open>controllers/libs/client/discover.go\<close>, \<open>MkSFKubeContext\<close> of
  \<open>controllers/context.go\<close>, \<open>ReadSFYAML\<close> of \<open>controllers/main.go\<close> and \<open>controllers/libs/utils/version.go\<close>.
  The locale \<open>workstation\<close> states that nothing on the workstation but the requests of a context reaches
  the cluster.
\<close>

section \<open>Flags\<close>

text \<open>
  A command declares its flags with their types and defaults. Reading a flag that is not declared, or that has another
  type, gives an error, which the sources drop, and the zero value.
\<close>

datatype flag_value = FString string | FBool bool | FInt int | FSlice "string list"

type_synonym flags = "(string \<times> flag_value) list"

definition GetString :: "flags \<Rightarrow> string \<Rightarrow> string" where
  "GetString fl name = (case map_of fl name of Some (FString s) \<Rightarrow> s | _ \<Rightarrow> [])"

definition GetBool :: "flags \<Rightarrow> string \<Rightarrow> bool" where
  "GetBool fl name = (case map_of fl name of Some (FBool b) \<Rightarrow> b | _ \<Rightarrow> False)"

definition GetInt :: "flags \<Rightarrow> string \<Rightarrow> int" where
  "GetInt fl name = (case map_of fl name of Some (FInt i) \<Rightarrow> i | _ \<Rightarrow> 0)"

definition GetStringSlice :: "flags \<Rightarrow> string \<Rightarrow> string list" where
  "GetStringSlice fl name = (case map_of fl name of Some (FSlice xs) \<Rightarrow> xs | _ \<Rightarrow> [])"

text \<open>The declared flags with the values given on the command line.\<close>

definition flags_set :: "flags \<Rightarrow> flags \<Rightarrow> flags" where
  "flags_set declared given = map (\<lambda>(n, d). (n, case map_of given n of None \<Rightarrow> d | Some v \<Rightarrow> v)) declared"

lemma flags_set_lookup: "map_of (flags_set declared given) n = (case map_of declared n of
    None \<Rightarrow> None | Some d \<Rightarrow> Some (case map_of given n of None \<Rightarrow> d | Some v \<Rightarrow> v))"
  by (induction declared) (auto simp: flags_set_def split: option.split)

section \<open>The workstation\<close>

datatype file_error = Missing string | Unreadable string

text \<open>A kubeconfig: its current context, and the namespace of each context.\<close>

record raw_config =
  rw_CurrentContext :: string
  rw_Contexts :: "(string, string) fmap"

record http_response =
  hr_StatusCode :: int
  hr_Status :: string
  hr_Body :: "string + string"

text \<open>A kubeconfig to be written: its clusters, contexts and the tokens of its users.\<close>

record kube_cluster =
  kcl_Server :: string
  kcl_CertificateAuthorityData :: string

record kube_context =
  kco_Cluster :: string
  kco_Namespace :: string
  kco_AuthInfo :: string

record kube_config =
  kcf_Kind :: string
  kcf_APIVersion :: string
  kcf_Clusters :: "(string, kube_cluster) fmap"
  kcf_Contexts :: "(string, kube_context) fmap"
  kcf_CurrentContext :: string
  kcf_AuthInfos :: "(string, string) fmap"

text \<open>A vulnerability as quay.io reports it.\<close>

record Vuln =
  vu_Severity :: string
  vu_Link :: string
  vu_Name :: string
  vu_FixedBy :: string

text \<open>
  \<open>t_run\<close> runs a program with an environment to add and its arguments, and gives the error, if any, and the combined
  output; \<open>t_output\<close> gives its standard output. The Boolean argument of \<open>t_httpGet\<close> tells whether to verify the
  certificate of the server. \<open>t_rawConfig\<close> and \<open>t_restConfig\<close> read the kubeconfig at a path, empty for the usual places,
  for a context, empty for the current one. \<open>t_connect\<close> gives the operations of a cluster. \<open>t_unmarshalSF\<close> reads a
  custom resource from YAML, \<open>t_mapOrder\<close> gives the order in which a loop visits a map, and \<open>t_parseDate\<close> the seconds of a day since 1970.
  \<open>t_writeConfig\<close> serializes a kubeconfig; \<open>t_zuulTenants\<close> reads the names of the tenants from the answer of Zuul, and
  \<open>t_quayImage\<close> and \<open>t_quayScan\<close> read the digests of the tags of an image and the vulnerabilities of each feature from the
  answer of quay.io, with what the decoder has filled in when the answer is not well formed. \<open>t_installCRDs\<close> installs
  the resource definitions of a file.
\<close>

record 'w tools =
  t_getenv :: "string \<Rightarrow> string option"
  t_stat :: "string \<Rightarrow> 'w \<Rightarrow> file_error option \<times> 'w"
  t_readFile :: "string \<Rightarrow> 'w \<Rightarrow> (string + string) \<times> 'w"
  t_writeFile :: "string \<Rightarrow> string \<Rightarrow> 'w \<Rightarrow> string option \<times> 'w"
  t_mkdirAll :: "string \<Rightarrow> 'w \<Rightarrow> string option \<times> 'w"
  t_run :: "string list \<Rightarrow> string \<Rightarrow> string list \<Rightarrow> 'w \<Rightarrow> (string option \<times> string) \<times> 'w"
  t_output :: "string \<Rightarrow> string list \<Rightarrow> 'w \<Rightarrow> (string option \<times> string) \<times> 'w"
  t_print :: "string \<Rightarrow> 'w \<Rightarrow> unit \<times> 'w"
  t_httpGet :: "bool \<Rightarrow> string \<Rightarrow> 'w \<Rightarrow> (string + http_response) \<times> 'w"
  t_sleep :: "int \<Rightarrow> 'w \<Rightarrow> unit \<times> 'w"
  t_rawConfig :: "string \<Rightarrow> 'w \<Rightarrow> (string + raw_config) \<times> 'w"
  t_restConfig :: "string \<Rightarrow> string \<Rightarrow> 'w \<Rightarrow> (string + rest_config) \<times> 'w"
  t_connect :: "rest_config \<Rightarrow> 'w \<Rightarrow> (string + 'w sys) \<times> 'w"
  t_serverGroups :: "rest_config \<Rightarrow> 'w \<Rightarrow> (string + string list) \<times> 'w"
  t_unmarshalSF :: "string \<Rightarrow> string + SoftwareFactory"
  t_mapOrder :: "smap \<Rightarrow> 'w \<Rightarrow> (string \<times> string) list \<times> 'w"
  t_yaml :: "ydoc \<Rightarrow> string"
  t_parseDate :: "string \<Rightarrow> string + int"
  t_writeConfig :: "kube_config \<Rightarrow> string + string"
  t_zuulTenants :: "string \<Rightarrow> string + string list"
  t_quayImage :: "string + string \<Rightarrow> smap"
  t_quayScan :: "string + string \<Rightarrow> Vuln list list"
  t_installCRDs :: "rest_config \<Rightarrow> string list \<Rightarrow> 'w \<Rightarrow> string option \<times> 'w"

text \<open>A call whose error is returned to the caller at once.\<close>

definition try_then :: "('s, 'e + 'a) prog \<Rightarrow> ('a \<Rightarrow> ('s, 'e + 'b) prog) \<Rightarrow> ('s, 'e + 'b) prog" where
  "try_then m f = bnd m (\<lambda>res. case res of Inl e \<Rightarrow> ret (Inl e) | Inr y \<Rightarrow> f y)"

lemma try_then_simps [simp]: "try_then (ret (Inl e)) f = ret (Inl e)" "try_then (ret (Inr y)) f = f y"
  "try_then (panic p) f = panic p" "try_then (exit_with n) f = exit_with n"
  by (simp_all add: try_then_def fun_eq_iff)

definition print_line :: "'w tools \<Rightarrow> string \<Rightarrow> ('w st, unit) prog" where
  "print_line x s = sysc (t_print x (s @ newline))"

definition Getenv :: "'w tools \<Rightarrow> string \<Rightarrow> string" where
  "Getenv x name = (case t_getenv x name of None \<Rightarrow> [] | Some v \<Rightarrow> v)"

text \<open>\<open>strings.TrimSpace\<close>, for ASCII spaces, and \<open>strings.TrimPrefix\<close>.\<close>

definition is_space :: "char \<Rightarrow> bool" where
  "is_space c \<longleftrightarrow> c = CHR '' '' \<or> (9 \<le> (of_char c :: nat) \<and> (of_char c :: nat) \<le> 13)"

definition TrimSpace :: "string \<Rightarrow> string" where
  "TrimSpace s = rev (dropWhile is_space (rev (dropWhile is_space s)))"

definition TrimPrefix :: "string \<Rightarrow> string \<Rightarrow> string" where
  "TrimPrefix s p = (if HasPrefix s p then drop (length p) s else s)"

section \<open>Discovering the kind of cluster\<close>

datatype K8sDist = Kubernetes | Openshift

definition kubernetesDistribution :: "'w tools \<Rightarrow> rest_config \<Rightarrow> ('w st, K8sDist) prog" where
  "kubernetesDistribution x rest = bnd (sysc (t_serverGroups x rest)) (\<lambda>res. case res of
       Inl e \<Rightarrow> exit_with 1
     | Inr apiGroups \<Rightarrow> ret (if ''route.openshift.io'' \<in> set apiGroups then Openshift else Kubernetes))"

text \<open>\<open>strconv.ParseBool\<close>.\<close>

definition ParseBool :: "string \<Rightarrow> bool option" where
  "ParseBool s = (if s \<in> set [''1'', ''t'', ''T'', ''TRUE'', ''true'', ''True''] then Some True
     else if s \<in> set [''0'', ''f'', ''F'', ''FALSE'', ''false'', ''False''] then Some False else None)"

definition checkOpenShift :: "'w tools \<Rightarrow> rest_config \<Rightarrow> ('w st, bool) prog" where
  "checkOpenShift x rest =
     (let env = Getenv x ''OPENSHIFT_USER'' in
      if env \<noteq> [] then (case ParseBool env of None \<Rightarrow> exit_with 1 | Some b \<Rightarrow> ret b)
      else bnd (kubernetesDistribution x rest) (\<lambda>flavour. ret (flavour = Openshift)))"

section \<open>Contexts\<close>

definition kubeconfig_path :: "'w tools \<Rightarrow> string \<Rightarrow> ('w st, string + string) prog" where
  "kubeconfig_path x kubeconfig =
     (if kubeconfig \<noteq> [] then bnd (sysc (t_stat x kubeconfig)) (\<lambda>err. ret (case err of
           Some _ \<Rightarrow> Inl (kubeconfig @ '': missing kubeconfig'') | None \<Rightarrow> Inr kubeconfig))
      else ret (Inr (Getenv x ''KUBECONFIG'')))"

text \<open>The contexts of a kubeconfig are pointers in a map: the namespace of a missing context is read through a nil pointer.\<close>

definition discover_namespace :: "'w tools \<Rightarrow> string \<Rightarrow> string \<Rightarrow> string \<Rightarrow> ('w st, string + string) prog" where
  "discover_namespace x path kubecontext namespace =
     (if namespace = [] then try_then (sysc (t_rawConfig x path)) (\<lambda>rawConfig.
          case fmlookup (rw_Contexts rawConfig) (if kubecontext = [] then rw_CurrentContext rawConfig else kubecontext) of
            None \<Rightarrow> panic nil_deref | Some ns \<Rightarrow> ret (Inr ns))
      else ret (Inr namespace))"

definition MkKubeClient :: "'w tools \<Rightarrow> string \<Rightarrow> string \<Rightarrow> string \<Rightarrow> bool \<Rightarrow> ('w st, string + 'w kctx) prog" where
  "MkKubeClient x kubeconfig kubecontext namespace dryRun =
     try_then (kubeconfig_path x kubeconfig) (\<lambda>path.
     try_then (discover_namespace x path kubecontext namespace) (\<lambda>ns.
     try_then (sysc (t_restConfig x path kubecontext)) (\<lambda>rest.
     try_then (sysc (t_connect x rest)) (\<lambda>S.
     bnd (checkOpenShift x rest) (\<lambda>openshift.
       ret (Inr \<lparr>k_sys = S, k_ns = ns, k_owner = mk_meta [] [], k_isOpenShift = openshift, k_standalone = True,
         k_dryRun = dryRun, k_hasProcMount = False, k_rest = rest\<rparr>))))))"

definition MkSFKubeContext :: "'w tools \<Rightarrow> string \<Rightarrow> string \<Rightarrow> string \<Rightarrow> bool \<Rightarrow> ('w st, string + 'w kctx) prog" where
  "MkSFKubeContext x kubeconfig namespace kubecontext dryRun =
     try_then (MkKubeClient x kubeconfig kubecontext namespace dryRun) (\<lambda>client.
       ret (Inr (client\<lparr>k_hasProcMount := (Getenv x ''HAS_PROC_MOUNT'' = ''true'')\<rparr>)))"

definition ReadSFYAML :: "'w tools \<Rightarrow> string \<Rightarrow> ('w st, string + SoftwareFactory) prog" where
  "ReadSFYAML x fp = try_then (sysc (t_readFile x fp)) (\<lambda>dat. ret (t_unmarshalSF x dat))"

text \<open>\<open>version\<close> is set when the program is built.\<close>

definition GetVersion :: "'w tools \<Rightarrow> string \<Rightarrow> ('w st, string) prog" where
  "GetVersion x version =
     (if version \<noteq> [] then ret version
      else bnd (sysc (t_output x ''git'' [''describe'', ''--tags''])) (\<lambda>(err, out).
        if err = None then ret (TrimSpace out)
        else bnd (sysc (t_output x ''git'' [''rev-parse'', ''--short'', ''HEAD''])) (\<lambda>(err, out).
          if err = None then ret (TrimSpace out) else ret ''development'')))"

section \<open>What the workstation may not do\<close>

text \<open>
  The contexts that a tool makes come with a cluster each; \<open>store S\<close> is the cluster that the operations \<open>S\<close> reach. Files,
  programs, HTTP requests, waiting, the discovery of a cluster and the installation of resource definitions change no object
  of any cluster that is modelled.
\<close>

locale workstation =
  fixes x :: "'w tools" and store :: "'w \<Rightarrow> kref \<Rightarrow> kobj option"
  assumes stat_frame: "t_stat x p w = (fe, w') \<Longrightarrow> store w' = store w"
    and read_frame: "t_readFile x p w = (fr, w') \<Longrightarrow> store w' = store w"
    and write_frame: "t_writeFile x p d w = (we, w') \<Longrightarrow> store w' = store w"
    and mkdir_frame: "t_mkdirAll x p w = (we, w') \<Longrightarrow> store w' = store w"
    and run_frame: "t_run x env cmd args w = (out, w') \<Longrightarrow> store w' = store w"
    and output_frame: "t_output x cmd args w = (out, w') \<Longrightarrow> store w' = store w"
    and print_frame: "t_print x line w = (u, w') \<Longrightarrow> store w' = store w"
    and http_frame: "t_httpGet x v url w = (resp, w') \<Longrightarrow> store w' = store w"
    and sleep_frame: "t_sleep x dur w = (u, w') \<Longrightarrow> store w' = store w"
    and raw_frame: "t_rawConfig x p w = (raw, w') \<Longrightarrow> store w' = store w"
    and rest_frame: "t_restConfig x p kc w = (rc, w') \<Longrightarrow> store w' = store w"
    and connect_frame: "t_connect x rest w = (cl, w') \<Longrightarrow> store w' = store w"
    and order_frame: "t_mapOrder x gm w = (mo, w') \<Longrightarrow> store w' = store w"
    and groups_frame: "t_serverGroups x rest w = (gs, w') \<Longrightarrow> store w' = store w"
    and crds_frame: "t_installCRDs x rest ps w = (we, w') \<Longrightarrow> store w' = store w"
begin

lemma tool_touches:
  "within (touches store X) (sysc (t_stat x p))" "within (touches store X) (sysc (t_readFile x p))"
  "within (touches store X) (sysc (t_writeFile x p d))" "within (touches store X) (sysc (t_mkdirAll x p))"
  "within (touches store X) (sysc (t_run x env cmd args))" "within (touches store X) (sysc (t_output x cmd args))"
  "within (touches store X) (sysc (t_print x line))" "within (touches store X) (sysc (t_httpGet x v url))"
  "within (touches store X) (sysc (t_sleep x dur))" "within (touches store X) (sysc (t_rawConfig x p))"
  "within (touches store X) (sysc (t_restConfig x p kc))" "within (touches store X) (sysc (t_connect x rest))"
  "within (touches store X) (sysc (t_serverGroups x rest))"
  "within (touches store X) (sysc (t_mapOrder x gm))" "within (touches store X) (sysc (t_installCRDs x rest ps))"
  by (rule within_sysc; auto dest: stat_frame read_frame write_frame mkdir_frame run_frame output_frame print_frame
      http_frame sleep_frame raw_frame rest_frame connect_frame groups_frame order_frame crds_frame)+

lemma try_touches:
  "within (touches store X) m \<Longrightarrow> (\<And>y. within (touches store X) (f y)) \<Longrightarrow> within (touches store X) (try_then m f)"
  unfolding try_then_def by (intro touch.within_rules)

lemma context_touches:
  "within (touches store X) (MkSFKubeContext x kubeconfig namespace kubecontext dryRun)"
  "within (touches store X) (ReadSFYAML x fp)" "within (touches store X) (GetVersion x version)"
  "within (touches store X) (print_line x line)"
  unfolding MkSFKubeContext_def MkKubeClient_def kubeconfig_path_def discover_namespace_def checkOpenShift_def
    kubernetesDistribution_def ReadSFYAML_def GetVersion_def print_line_def Let_def
  by (intro touch.within_rules tool_touches try_touches)+

end

section \<open>An in-memory workstation\<close>

text \<open>
  Its files are those of the in-memory world; what is run or printed is recorded; HTTP requests are answered with an empty
  list; its kubeconfig has one context, for the in-memory cluster.
\<close>

definition mem_record :: "string \<Rightarrow> string \<Rightarrow> string list \<Rightarrow> mem_world \<Rightarrow> mem_world" where
  "mem_record a b cs w = w\<lparr>mw_execs := mw_execs w @ [(a, b, cs)]\<rparr>"

definition mem_tools :: "mem_world tools" where
  "mem_tools = \<lparr>t_getenv = (\<lambda>_. None),
     t_stat = (\<lambda>p w. (if p |\<in>| fmdom (mw_files w) then None else Some (Missing p), w)),
     t_readFile = (\<lambda>p w. (case fmlookup (mw_files w) p of None \<Rightarrow> Inl ''no such file'' | Some d \<Rightarrow> Inr d, w)),
     t_writeFile = (\<lambda>p d w. (None, w\<lparr>mw_files := fmupd p d (mw_files w)\<rparr>)), t_mkdirAll = (\<lambda>_ w. (None, w)),
     t_run = (\<lambda>env cmd args w. ((None, []), mem_record ''run'' cmd args w)),
     t_output = (\<lambda>cmd args w. ((None, []), mem_record ''output'' cmd args w)),
     t_print = (\<lambda>s w. ((), mem_record ''print'' s [] w)),
     t_httpGet = (\<lambda>_ _ w. (Inr \<lparr>hr_StatusCode = 200, hr_Status = ''200 OK'', hr_Body = Inr ''[]''\<rparr>, w)),
     t_sleep = (\<lambda>d w. ((), w\<lparr>mw_clock := mw_clock w + d\<rparr>)),
     t_rawConfig = (\<lambda>_ w. (Inr \<lparr>rw_CurrentContext = ''default'', rw_Contexts = smap_of [(''default'', ''sf'')]\<rparr>, w)),
     t_restConfig = (\<lambda>_ _ w. (Inr \<lparr>rc_Host = ''https://api.example.org'', rc_APIPath = [], rc_CAData = []\<rparr>, w)),
     t_connect = (\<lambda>_ w. (Inr mem_sys, w)), t_serverGroups = (\<lambda>_ w. (Inr [''apps''], w)),
     t_unmarshalSF = (\<lambda>_. Inr zero_SoftwareFactory), t_mapOrder = (\<lambda>m w. (fm_items m, w)), t_yaml = mem_ydoc, t_parseDate = (\<lambda>_. Inr 0),
     t_writeConfig = (\<lambda>c. Inr (kcf_CurrentContext c)), t_zuulTenants = (\<lambda>_. Inr []), t_quayImage = (\<lambda>_. fmempty),
     t_quayScan = (\<lambda>_. []), t_installCRDs = (\<lambda>_ _ w. (None, w))\<rparr>"

interpretation mem_w: workstation mem_tools mem_store
  by unfold_locales (auto simp: mem_tools_def mem_record_def)

section \<open>Facts\<close>

text \<open>The variable \<open>OPENSHIFT_USER\<close> decides alone when it is set; otherwise the API groups of the cluster do.\<close>

lemma checkOpenShift_env:
  "Getenv x ''OPENSHIFT_USER'' = v \<Longrightarrow> v \<noteq> [] \<Longrightarrow>
     checkOpenShift x rest = (case ParseBool v of None \<Rightarrow> exit_with 1 | Some b \<Rightarrow> ret b)"
  by (simp add: checkOpenShift_def Let_def)

lemma checkOpenShift_discovers:
  assumes "Getenv x ''OPENSHIFT_USER'' = []" and "t_serverGroups x rest (st_world s) = (Inr gs, w)"
  shows "checkOpenShift x rest s = (Ok (''route.openshift.io'' \<in> set gs), s\<lparr>st_world := w\<rparr>)"
  using assms by (simp add: checkOpenShift_def kubernetesDistribution_def bnd_def sysc_def)

lemma try_then_Ok:
  assumes "try_then m f s = (Ok (Inr y), t)"
  shows "\<exists>a u. m s = (Ok (Inr a), u) \<and> f a u = (Ok (Inr y), t)"
proof -
  obtain r u where "m s = (Ok r, u)" "(case r of Inl e \<Rightarrow> ret (Inl e) | Inr y \<Rightarrow> f y) u = (Ok (Inr y), t)"
    using assms unfolding try_then_def bnd_eq_Ok by blast
  then show ?thesis by (cases r) auto
qed

lemma TrimPrefix_append [simp]: "TrimPrefix (p @ s) p = s"
  by (simp add: TrimPrefix_def)

end
