(* ===== verification/Standalone.thy ===== *)
theory Standalone
  imports Tools
begin

text \<open>
  The operations that the command line starts with a resource from a file: \<open>controllers/main.go\<close>
  (\<open>Standalone\<close>, \<open>RotateSecrets\<close>) and \<open>setupRemoteExecutorConfig\<close> of \<open>controllers/zuul_external.go\<close>. The locale
  \<open>station\<close> adds to the workstation that the clusters it connects to are observed as \<open>store\<close>.
\<close>

section \<open>Remote executors\<close>

text \<open>The kubeconfig next to the resource of the control plane has to be there.\<close>

definition setupRemoteExecutorConfig :: "'w tools \<Rightarrow> 'w kctx \<Rightarrow> string \<Rightarrow> SoftwareFactory \<Rightarrow> ('w st, string option) prog" where
  "setupRemoteExecutorConfig x r crPath eCR = bnd (sysc (t_stat x crPath)) (\<lambda>err.
     if err \<noteq> None then ret (Some (''missing control plane resource '' @ crPath)) else
     bnd (ReadSFYAML x crPath) (\<lambda>res. case res of
       Inl e \<Rightarrow> ret (Some (''couldn't load sfv1.SoftwareFactory from '' @ crPath))
     | Inr controlCR \<Rightarrow>
         if sf_FQDN (cr_Spec controlCR) \<noteq> sf_FQDN (cr_Spec eCR)
         then ret (Some (''control plane '' @ crPath @ '' fqdn '' @ [CHR 0x27] @ sf_FQDN (cr_Spec controlCR) @ [CHR 0x27] @
           '' doesn't match remote executor '' @ [CHR 0x27] @ sf_FQDN (cr_Spec eCR) @ [CHR 0x27]))
         else bnd (MkSFKubeContext x (path_Dir crPath @ ''/kubeconfig'') [] [] False) (\<lambda>res. case res of
           Inl e \<Rightarrow> ret (Some e)
         | Inr controlEnv \<Rightarrow> bnd (copySecrets r eCR controlEnv) (\<lambda>err.
             if err \<noteq> None then ret err else bnd (setupFingerLB r) (\<lambda>_. ret None)))))"

section \<open>Deployment and rotation\<close>

text \<open>The kubeconfig next to the resource, when there is one.\<close>

definition beside_kubeconfig :: "'w tools \<Rightarrow> string \<Rightarrow> ('w st, string) prog" where
  "beside_kubeconfig x crPath = (let kubeConfig = path_Dir crPath @ ''/kubeconfig'' in
     bnd (sysc (t_stat x kubeConfig)) (\<lambda>err. ret (if err = None then kubeConfig else [])))"

definition file_context :: "'w tools \<Rightarrow> string \<Rightarrow> string \<Rightarrow> bool \<Rightarrow> string \<Rightarrow> ('w st, SoftwareFactory \<times> 'w kctx) prog" where
  "file_context x cliNS kubeContext dryRun crPath = bnd (ReadSFYAML x crPath) (\<lambda>res. case res of
       Inl e \<Rightarrow> exit_with 1
     | Inr sf \<Rightarrow> bnd (beside_kubeconfig x crPath) (\<lambda>kubeConfig.
         bnd (MkSFKubeContext x kubeConfig cliNS kubeContext dryRun) (\<lambda>res. case res of
           Inl e \<Rightarrow> exit_with 1
         | Inr env \<Rightarrow> ret (sf, env))))"

text \<open>What a remote executor needs first; the context comes back with its owner.\<close>

definition setup_remote :: "'w tools \<Rightarrow> (SoftwareFactorySpec \<Rightarrow> string) \<Rightarrow> string \<Rightarrow> SoftwareFactory \<Rightarrow> 'w kctx \<Rightarrow>
    ('w st, 'w kctx) prog" where
  "setup_remote x marshal copyFrom sf env =
     (if zx_Standalone (zu_Executor (sf_Zuul (cr_Spec sf))) = None then exit_with 1
      else bnd (EnsureStandaloneOwner marshal env (cr_Spec sf)) (\<lambda>env.
        bnd (setupRemoteExecutorConfig x env copyFrom sf) (\<lambda>err. if err \<noteq> None then exit_with 1 else ret env)))"

definition Standalone :: "'w tools \<Rightarrow> (SoftwareFactorySpec \<Rightarrow> string) \<Rightarrow> string \<Rightarrow> (string \<Rightarrow> string) \<Rightarrow>
    ('w SFController \<Rightarrow> ('w, 'c) deploys) \<Rightarrow> string \<Rightarrow> string \<Rightarrow> bool \<Rightarrow> string \<Rightarrow> string \<Rightarrow> ('w st, string option) prog" where
  "Standalone x marshal version static impl cliNS kubeContext dryRun crPath remotePath =
     (let copyFrom = (if remotePath \<noteq> [] then crPath else []);
          crPath = (if remotePath \<noteq> [] then remotePath else crPath) in
      bnd (file_context x cliNS kubeContext dryRun crPath) (\<lambda>(sf, env).
      bnd (if copyFrom \<noteq> [] then setup_remote x marshal copyFrom sf env else ret env) (\<lambda>env.
        StandaloneReconcile marshal version static impl env sf)))"

definition RotateSecrets :: "'w tools \<Rightarrow> (SoftwareFactorySpec \<Rightarrow> string) \<Rightarrow> string \<Rightarrow> (string \<Rightarrow> string) \<Rightarrow>
    ('w SFController \<Rightarrow> ('w, 'c) deploys) \<Rightarrow> string \<Rightarrow> string \<Rightarrow> bool \<Rightarrow> string \<Rightarrow> ('w st, string option) prog" where
  "RotateSecrets x marshal version static impl cliNS kubeContext dryRun crPath =
     bnd (file_context x cliNS kubeContext dryRun crPath) (\<lambda>(sf, env).
     bnd (EnsureStandaloneOwner marshal env (cr_Spec sf)) (\<lambda>env.
     bnd (MkSFController static env sf) (\<lambda>sfCtrl.
     bnd (EnsureToolingVolume sfCtrl) (\<lambda>_.
     bnd (DoRotateSecrets env) (\<lambda>err. if err \<noteq> None then ret err
       else StandaloneReconcile marshal version static impl env sf)))))"

section \<open>The clusters of a workstation\<close>

lemma try_then_OkE:
  assumes "try_then m f s = (Ok (Inr y), t)"
  obtains a u where "m s = (Ok (Inr a), u)" and "f a u = (Ok (Inr y), t)"
  using try_then_Ok [OF assms] by blast

locale station = workstation x store for x :: "'w tools" and store :: "'w \<Rightarrow> kref \<Rightarrow> kobj option" +
  assumes connected: "t_connect x rest w = (Inr S, w') \<Longrightarrow> kube_observed S store"
begin

text \<open>A context that was made is one of an observed cluster, with the flag for dry runs that was asked for.\<close>

lemma context_client:
  assumes "MkSFKubeContext x kubeconfig namespace kubecontext dryRun s = (Ok (Inr ctx), t)"
  shows "kube_client ctx store \<and> k_dryRun ctx = dryRun \<and> k_standalone ctx \<and> (namespace \<noteq> [] \<longrightarrow> k_ns ctx = namespace)"
  using assms unfolding MkSFKubeContext_def MkKubeClient_def
  by (elim try_then_OkE)
    (auto simp: bnd_eq_Ok ret_def kube_client_def sysc_def discover_namespace_def split: prod.splits dest: connected)

lemma file_context_touches: "within (touches store X) (file_context x cliNS kubeContext dryRun crPath)"
  unfolding file_context_def beside_kubeconfig_def Let_def
  by (intro touch.within_rules tool_touches context_touches)

lemma file_context_reads:
  assumes "file_context x cliNS kubeContext dryRun crPath s = (Ok (sf, env), t)"
  shows "\<exists>v. ReadSFYAML x crPath s = (Ok (Inr sf), v)"
proof -
  obtain res v where res: "ReadSFYAML x crPath s = (Ok res, v)"
    and "(case res of Inl e \<Rightarrow> exit_with 1
       | Inr sf \<Rightarrow> bnd (beside_kubeconfig x crPath) (\<lambda>kubeConfig.
           bnd (MkSFKubeContext x kubeConfig cliNS kubeContext dryRun) (\<lambda>res. case res of
             Inl e \<Rightarrow> exit_with 1
           | Inr env \<Rightarrow> ret (sf, env)))) v = (Ok (sf, env), t)"
    using assms unfolding file_context_def bnd_eq_Ok [where m = "ReadSFYAML x crPath"] by blast
  then show ?thesis by (cases res) (auto simp: bnd_eq_Ok split: sum.splits, metis sum.exhaust)
qed

text \<open>A resource that is not one of a remote executor is refused before anything is changed.\<close>

lemma remote_refused:
  assumes "remotePath \<noteq> []" and "crPath \<noteq> []"
    and "\<And>sf t. ReadSFYAML x remotePath s = (Ok (Inr sf), t) \<Longrightarrow> zx_Standalone (zu_Executor (sf_Zuul (cr_Spec sf))) = None"
    and "Standalone x marshal version static impl cliNS kubeContext dryRun crPath remotePath s = (out, t)"
  shows "(\<nexists>v. out = Ok v) \<and> store (st_world t) = store (st_world s)"
proof -
  obtain a u where a: "file_context x cliNS kubeContext dryRun remotePath s = (a, u)" by fastforce
  have same: "store (st_world u) = store (st_world s)"
    using withinD [OF file_context_touches [of "{}"] a] by (simp add: touches_empty)
  show ?thesis
  proof (cases a)
    case (Ok p)
    obtain sf env where p: "p = (sf, env)" by fastforce
    obtain v where "ReadSFYAML x remotePath s = (Ok (Inr sf), v)"
      using file_context_reads [OF a [unfolded Ok p]] by blast
    then have "zx_Standalone (zu_Executor (sf_Zuul (cr_Spec sf))) = None" by (rule assms(3))
    then show ?thesis
      using assms(1,2,4) a same by (simp add: Standalone_def Ok p bnd_Ok setup_remote_def exit_with_def) (auto simp: bnd_def)
  qed (use assms(1,2,4) a same in \<open>auto simp: Standalone_def bnd_def\<close>)
qed

end

interpretation mem_station: station mem_tools mem_store
  by (rule station.intro [OF mem_w.workstation_axioms], rule station_axioms.intro)
    (auto simp: mem_tools_def intro: mem.kube_observed_axioms)

end
