(* ===== verification/Cli_Utils.thy ===== *)
theory Cli_Utils
  imports Tools "HOL-Library.Sublist"
begin

text \<open>
  \<open>cli/cmd/utils/utils.go\<close>: the contexts of the commands, the helpers that end the process on an error, the routes and
  ingresses of the development services, and the entries of \<open>/etc/hosts\<close>. What the operations that only create
  objects may change is the relation \<open>adds\<close>; \<open>hosts_resolve\<close> says how a host name is looked up in a hosts file. The
  modes of files and the log level are left out.
\<close>

section \<open>Contexts of the commands\<close>

definition GetCLIContext :: "'w tools \<Rightarrow> flags \<Rightarrow> ('w st, 'w kctx) prog" where
  "GetCLIContext x fl = bnd (MkSFKubeContext x [] (GetString fl ''namespace'') (GetString fl ''kube-context'') False) (\<lambda>res.
     case res of Inl e \<Rightarrow> exit_with 1 | Inr ctx \<Rightarrow> ret ctx)"

text \<open>The kubeconfig next to the custom resource, when there is one.\<close>

definition default_kubeconfig :: "'w tools \<Rightarrow> string \<Rightarrow> ('w st, string) prog" where
  "default_kubeconfig x crPath =
     (let kubeConfig = path_Dir crPath @ ''/kubeconfig'' in
      bnd (sysc (t_stat x kubeConfig)) (\<lambda>err. ret (if err = None then kubeConfig else [])))"

definition GetCLICRContext :: "'w tools \<Rightarrow> flags \<Rightarrow> string list \<Rightarrow> ('w st, 'w kctx \<times> SoftwareFactory) prog" where
  "GetCLICRContext x fl args = (case args of
       [] \<Rightarrow> exit_with 1
     | crPath # _ \<Rightarrow> bnd (ReadSFYAML x crPath) (\<lambda>res. case res of
         Inl e \<Rightarrow> exit_with 1
       | Inr sf \<Rightarrow> bnd (default_kubeconfig x crPath) (\<lambda>kubeConfig.
           bnd (MkSFKubeContext x kubeConfig (GetString fl ''namespace'') (GetString fl ''kube-context'') False) (\<lambda>res. case res of
             Inl e \<Rightarrow> exit_with 1
           | Inr env \<Rightarrow> bnd (GetStandaloneOwner env) (\<lambda>(_, env'). ret (env', sf))))))"

text \<open>\<open>args[0]\<close>.\<close>

definition first_arg :: "string list \<Rightarrow> ('s, string) prog" where
  "first_arg args = (case args of [] \<Rightarrow> panic ''index out of range'' | a # _ \<Rightarrow> ret a)"

section \<open>Files and programs\<close>

fun file_message :: "file_error \<Rightarrow> string" where
  "file_message (Missing m) = m"
| "file_message (Unreadable m) = m"

definition GetFileContent :: "'w tools \<Rightarrow> string \<Rightarrow> ('w st, string + string) prog" where
  "GetFileContent x filePath =
     (if filePath = [] then ret (Inr [])
      else bnd (sysc (t_stat x filePath)) (\<lambda>err. case err of
        None \<Rightarrow> sysc (t_readFile x filePath) | Some e \<Rightarrow> ret (Inl (file_message e))))"

definition RunCmdWithEnvOrDie :: "'w tools \<Rightarrow> string list \<Rightarrow> string \<Rightarrow> string list \<Rightarrow> ('w st, string) prog" where
  "RunCmdWithEnvOrDie x environ cmd args = bnd (sysc (t_run x environ cmd args)) (\<lambda>(err, out).
     if err \<noteq> None then exit_with 1 else ret out)"

definition RunCmdOrDie :: "'w tools \<Rightarrow> string \<Rightarrow> string list \<Rightarrow> ('w st, string) prog" where
  "RunCmdOrDie x cmd args = RunCmdWithEnvOrDie x [] cmd args"

definition WriteContentToFile :: "'w tools \<Rightarrow> string \<Rightarrow> string \<Rightarrow> ('w st, unit) prog" where
  "WriteContentToFile x filePath content = bnd (sysc (t_writeFile x filePath content)) (\<lambda>err.
     if err \<noteq> None then exit_with 1 else ret ())"

definition CreateDirectory :: "'w tools \<Rightarrow> string \<Rightarrow> ('w st, unit) prog" where
  "CreateDirectory x dirPath = bnd (sysc (t_mkdirAll x dirPath)) (\<lambda>err. if err \<noteq> None then exit_with 1 else ret ())"

definition VarListToMap :: "string list \<Rightarrow> ('s, smap) prog" where
  "VarListToMap varsList = fold_prog (\<lambda>v vars. case SplitChar CHR ''='' v of
       [name, val] \<Rightarrow> ret (fmupd name val vars) | _ \<Rightarrow> exit_with 1) varsList fmempty"

definition ConvertMapOfBytesToMapOfStrings :: "gomap \<Rightarrow> smap" where
  "ConvertMapOfBytesToMapOfStrings contentMap = gm_fm contentMap"

definition GetKubeConfig :: "'w tools \<Rightarrow> ('w st, raw_config) prog" where
  "GetKubeConfig x = bnd (sysc (t_rawConfig x [])) (\<lambda>res. case res of Inl e \<Rightarrow> exit_with 1 | Inr cfg \<Rightarrow> ret cfg)"

text \<open>The namespace of the context, if there is one, and its name; without a current context, the first that the loop visits.\<close>

definition GetKubeConfigContextByName :: "'w tools \<Rightarrow> string \<Rightarrow> ('w st, string option \<times> string) prog" where
  "GetKubeConfigContextByName x contextName = bnd (GetKubeConfig x) (\<lambda>clientCfg.
     bnd (if contextName \<noteq> [] then ret contextName
          else if rw_CurrentContext clientCfg = []
          then bnd (sysc (t_mapOrder x (rw_Contexts clientCfg))) (\<lambda>kvs. ret (case kvs of [] \<Rightarrow> [] | (k, _) # _ \<Rightarrow> k))
          else ret (rw_CurrentContext clientCfg)) (\<lambda>name.
       ret (fmlookup (rw_Contexts clientCfg) name, name)))"

section \<open>Routes and ingresses\<close>

definition MkHTTPSRoute :: "string \<Rightarrow> string \<Rightarrow> string \<Rightarrow> string \<Rightarrow> string \<Rightarrow> int \<Rightarrow> gomap \<Rightarrow> route" where
  "MkHTTPSRoute name ns host serviceName path port extraLabels =
     \<lparr>rt_meta = (mk_meta name ns)\<lparr>om_labels := extraLabels\<rparr>, rt_insecureEdgeTerminationPolicy = ''Redirect'',
      rt_termination = ''edge'', rt_host = host, rt_toKind = ''Service'', rt_toName = serviceName, rt_toWeight = Some 100,
      rt_targetPort = FromInt port, rt_path = path, rt_wildcardPolicy = ''None''\<rparr>"

definition MkHTTPSIngress :: "string \<Rightarrow> string \<Rightarrow> string \<Rightarrow> string \<Rightarrow> int \<Rightarrow> gomap \<Rightarrow> ingress" where
  "MkHTTPSIngress ns name host service port extraLabels =
     \<lparr>ig_meta = (mk_meta name ns)\<lparr>om_labels := extraLabels\<rparr>, ig_className = Some ''nginx'',
      ig_tls = [([host], ''self-signed-cert'')],
      ig_rules = [\<lparr>ir_host = host, ir_paths = [\<lparr>ip_path = ''/'', ip_pathType = Some ''Prefix'', ip_serviceName = service,
        ip_servicePort = port\<rparr>]\<rparr>], ig_statusIPs = []\<rparr>"

definition self_signed_template :: "'w kctx \<Rightarrow> int \<Rightarrow> int \<Rightarrow> x509_template" where
  "self_signed_template env now now' = \<lparr>xt_SerialNumber = Some (2 ^ 128), xt_CommonName = [], xt_Organization = [''Acme Co''],
     xt_DNSNames = [''gerrit.sfop.me'', ''sfop.me''], xt_NotBefore = now, xt_NotAfter = s_addYears (k_sys env) 100 now',
     xt_IsCA = False, xt_ExtKeyUsage = [], xt_KeyUsage = [], xt_BasicConstraintsValid = True\<rparr>"

definition self_signed_secret :: "'w kctx \<Rightarrow> string \<Rightarrow> string \<Rightarrow> secret" where
  "self_signed_secret env derBytes privBytes = \<lparr>se_meta = mk_meta ''self-signed-cert'' (k_ns env),
     se_data = Some (smap_of [(''tls.crt'', s_pem (k_sys env) ''CERTIFICATE'' derBytes),
       (''tls.key'', s_pem (k_sys env) ''PRIVATE KEY'' privBytes)]), se_type = ''kubernetes.io/tls''\<rparr>"

definition EnsureSelfSignCert :: "'w kctx \<Rightarrow> ('w st, unit) prog" where
  "EnsureSelfSignCert env = bnd (GetOrDie env cSecret ''self-signed-cert'') (\<lambda>found. case found of
       Some _ \<Rightarrow> ret ()
     | None \<Rightarrow> bnd (sysc (s_rsaKey (k_sys env) 2048)) (\<lambda>key. case key of
         Inl e \<Rightarrow> exit_with 1
       | Inr priv \<Rightarrow>
           bnd (sysc (s_now (k_sys env))) (\<lambda>now. bnd (sysc (s_now (k_sys env))) (\<lambda>now'.
           let template = self_signed_template env now now' in
           bnd (sysc (s_certificate (k_sys env) template template priv priv)) (\<lambda>cert. case cert of
             Inl e \<Rightarrow> exit_with 1
           | Inr derBytes \<Rightarrow> (case s_pkcs8 (k_sys env) priv of
               Inl e \<Rightarrow> exit_with 1
             | Inr privBytes \<Rightarrow> bnd (CreateROrDie env cSecret (self_signed_secret env derBytes privBytes)) (\<lambda>_. ret ())))))))"

text \<open>
  The wait for the address of an ingress: \<open>left\<close> is how many attempts may follow the current one, 25 for the first.
\<close>

definition ingress_ip :: "ingress option \<Rightarrow> string option" where
  "ingress_ip found = (case found of
       Some ingress \<Rightarrow> (case ig_statusIPs ingress of ip # _ \<Rightarrow> Some ip | [] \<Rightarrow> None) | None \<Rightarrow> None)"

fun ingress_attempts :: "nat \<Rightarrow> 'w kctx \<Rightarrow> string \<Rightarrow> ('w st, string) prog" where
  "ingress_attempts left env name = bnd (GetOrDie env cIngress name) (\<lambda>found. case ingress_ip found of
       Some ip \<Rightarrow> ret ip
     | None \<Rightarrow> (case left of
         0 \<Rightarrow> exit_with 1
       | Suc n \<Rightarrow> bnd (sysc (s_sleep (k_sys env) (7 * second))) (\<lambda>_. ingress_attempts n env name)))"

declare ingress_attempts.simps [simp del]

definition ReadIngressIP :: "'w kctx \<Rightarrow> string \<Rightarrow> ('w st, string) prog" where
  "ReadIngressIP env name = ingress_attempts 25 env name"

text \<open>\<open>GetOrDie\<close> of the name of an object, which is created when it is missing.\<close>

definition ensure_created :: "'w kctx \<Rightarrow> 'o codec \<Rightarrow> 'o \<Rightarrow> ('w st, unit) prog" where
  "ensure_created env C ob = bnd (GetOrDie env C (om_name (c_meta C ob))) (\<lambda>found. case found of
       Some _ \<Rightarrow> ret () | None \<Rightarrow> bnd (CreateROrDie env C ob) (\<lambda>_. ret ()))"

definition EnsureGatewayIngress :: "'w kctx \<Rightarrow> string \<Rightarrow> ('w st, unit) prog" where
  "EnsureGatewayIngress env fqdn = bnd (EnsureSelfSignCert env) (\<lambda>_.
     ensure_created env cIngress (MkHTTPSIngress (k_ns env) ''sf-ingress'' fqdn ''gateway'' 8080 (Some fmempty)))"

section \<open>The hosts file\<close>

definition hosts_entries :: "string \<Rightarrow> string \<Rightarrow> string \<Rightarrow> string list" where
  "hosts_entries gerritIP gatewayIP fqdn =
     (if gerritIP = gatewayIP then [gatewayIP @ '' gerrit.'' @ fqdn @ '' '' @ fqdn]
      else [gerritIP @ '' gerrit.'' @ fqdn, gatewayIP @ '' '' @ fqdn])"

definition etc_hosts :: "string \<Rightarrow> string \<Rightarrow> string \<Rightarrow> string \<Rightarrow> string" where
  "etc_hosts gerritIP gatewayIP fqdn hosts =
     (let newLines = filter (\<lambda>l. \<not> Contains l fqdn) (SplitChar (CHR 0x0A) hosts) in
      Join (newLines @ hosts_entries gerritIP gatewayIP fqdn) newline @ newline)"

definition WriteIngressToEtcHosts :: "'w tools \<Rightarrow> 'w kctx \<Rightarrow> string \<Rightarrow> ('w st, unit) prog" where
  "WriteIngressToEtcHosts x env fqdn =
     bnd (ReadIngressIP env ''gerrit-ingress'') (\<lambda>gerritIP.
     bnd (ReadIngressIP env ''sf-ingress'') (\<lambda>gatewayIP.
     bnd (GetFileContent x ''/etc/hosts'') (\<lambda>res. case res of
       Inl e \<Rightarrow> exit_with 1
     | Inr hosts \<Rightarrow> WriteContentToFile x ''/etc/hosts'' (etc_hosts gerritIP gatewayIP fqdn hosts))))"

section \<open>Looking up a host name\<close>

text \<open>
  A line of the hosts file, up to a comment, is an address and the names it has, with blanks between them; the first line
  with the name gives the address.
\<close>

definition is_blank :: "char \<Rightarrow> bool" where
  "is_blank c \<longleftrightarrow> c = CHR '' '' \<or> c = CHR 0x09"

fun split_blank :: "string \<Rightarrow> string list" where
  "split_blank [] = [[]]"
| "split_blank (c # s) = (if is_blank c then [] # split_blank s
     else case split_blank s of [] \<Rightarrow> [[c]] | t # ts \<Rightarrow> (c # t) # ts)"

definition host_fields :: "string \<Rightarrow> string list" where
  "host_fields l = filter (\<lambda>w. w \<noteq> []) (split_blank (takeWhile (\<lambda>c. c \<noteq> CHR ''#'') l))"

definition names_host :: "string \<Rightarrow> string \<Rightarrow> bool" where
  "names_host h l \<longleftrightarrow> h \<in> set (tl (host_fields l))"

definition first_address :: "string \<Rightarrow> string list \<Rightarrow> string option" where
  "first_address h ls = map_option (\<lambda>l. hd (host_fields l)) (find (names_host h) ls)"

definition hosts_resolve :: "string \<Rightarrow> string \<Rightarrow> string option" where
  "hosts_resolve hosts h = first_address h (SplitChar (CHR 0x0A) hosts)"

text \<open>A word that can be an address or a name.\<close>

definition host_word :: "string \<Rightarrow> bool" where
  "host_word w \<longleftrightarrow> w \<noteq> [] \<and> list_all (\<lambda>c. \<not> is_blank c \<and> c \<noteq> CHR ''#'' \<and> c \<noteq> CHR 0x0A) w"

lemma HasPrefix_prefix: "HasPrefix s p \<longleftrightarrow> prefix p s"
  by (auto simp: HasPrefix_iff prefix_def)

lemma Contains_sublist: "Contains s sub \<longleftrightarrow> sublist sub s"
  by (induction s) (auto simp: HasPrefix_prefix sublist_Cons_right)

lemma Contains_part: "Contains s (a @ sub) \<Longrightarrow> Contains s sub"
  unfolding Contains_sublist by (rule sublist_order.order_trans [OF sublist_append_leftI])

lemma SplitChar_Nil [simp]: "SplitChar d s \<noteq> []"
  by (induction s) (auto split: list.splits)

lemma SplitChar_whole: "d \<notin> set a \<Longrightarrow> SplitChar d a = [a]"
  by (induction a) auto

lemma SplitChar_append: "d \<notin> set a \<Longrightarrow> SplitChar d (a @ d # b) = a # SplitChar d b"
  by (induction a) auto

lemma SplitChar_free: "l \<in> set (SplitChar d s) \<Longrightarrow> d \<notin> set l"
  by (induction s arbitrary: l) (auto split: if_splits list.splits)

lemma SplitChar_Join: "ls \<noteq> [] \<Longrightarrow> \<forall>l\<in>set ls. d \<notin> set l \<Longrightarrow> SplitChar d (Join ls [d]) = ls"
  by (induction ls "[d]" rule: Join.induct) (auto simp: SplitChar_whole SplitChar_append)

lemma Join_Cons: "ls \<noteq> [] \<Longrightarrow> Join (l # ls) sep = l @ sep @ Join ls sep"
  by (cases ls) auto

lemma Join_SplitChar: "Join (SplitChar d s) [d] = s"
proof (induction s)
  case (Cons c s)
  obtain t ts where "SplitChar d s = t # ts" by (cases "SplitChar d s") auto
  with Cons show ?case by (cases "ts = []") (auto simp: Join_Cons)
qed simp

lemma split_blank_Nil [simp]: "split_blank s \<noteq> []"
  by (induction s) (auto split: list.splits)

lemma split_blank_parts:
  "split_blank s = t # ts \<Longrightarrow> prefix t s \<and> (\<forall>w\<in>set ts. sublist w s)"
proof (induction s arbitrary: t ts)
  case (Cons c s)
  obtain u us where u: "split_blank s = u # us" by (cases "split_blank s") auto
  have all: "\<forall>w\<in>set (split_blank s). sublist w s"
    using Cons.IH [OF u] unfolding u by auto
  show ?case
  proof (cases "is_blank c")
    case True
    with Cons.prems all show ?thesis by (auto simp: sublist_Cons_right)
  next
    case False
    with Cons.prems Cons.IH [OF u] u show ?thesis by (auto simp: sublist_Cons_right)
  qed
qed simp

lemma field_contained: "w \<in> set (host_fields l) \<Longrightarrow> Contains l w"
proof -
  assume w: "w \<in> set (host_fields l)"
  let ?s = "takeWhile (\<lambda>c. c \<noteq> CHR ''#'') l"
  obtain t ts where t: "split_blank ?s = t # ts" by (cases "split_blank ?s") auto
  with w split_blank_parts [OF t] have "sublist w ?s"
    by (auto simp: host_fields_def prefix_imp_sublist split: if_splits)
  moreover have "sublist ?s l" by (rule prefix_imp_sublist [OF takeWhile_is_prefix])
  ultimately show "Contains l w" unfolding Contains_sublist by (rule sublist_order.order_trans)
qed

lemma split_blank_words:
  "list_all (\<lambda>c. \<not> is_blank c) a \<Longrightarrow> split_blank a = [a]"
  "list_all (\<lambda>c. \<not> is_blank c) a \<Longrightarrow> split_blank (a @ CHR '' '' # b) = a # split_blank b"
  by (induction a) (auto simp: is_blank_def)

lemma host_word_simps:
  assumes "host_word a"
  shows "list_all (\<lambda>c. \<not> is_blank c) a" "takeWhile (\<lambda>c. c \<noteq> CHR ''#'') (a @ b) = a @ takeWhile (\<lambda>c. c \<noteq> CHR ''#'') b"
    "takeWhile (\<lambda>c. c \<noteq> CHR ''#'') a = a" "CHR 0x0A \<notin> set a" "a \<noteq> []"
  using assms by (auto simp: host_word_def list_all_iff takeWhile_append1 takeWhile_append2)

lemma host_fields_words:
  "host_word a \<Longrightarrow> host_word b \<Longrightarrow> host_fields (a @ CHR '' '' # b) = [a, b]"
  "host_word a \<Longrightarrow> host_word b \<Longrightarrow> host_word c \<Longrightarrow> host_fields (a @ CHR '' '' # b @ CHR '' '' # c) = [a, b, c]"
  by (simp_all add: host_fields_def split_blank_words host_word_simps)

text \<open>The names and the lines that \<open>etc_hosts\<close> changes: the two names it sets, and those on a line with the domain.\<close>

definition hosts_lines :: "string \<Rightarrow> string list" where
  "hosts_lines hosts = SplitChar (CHR 0x0A) hosts"

lemma Join_blank: "ls \<noteq> [] \<Longrightarrow> Join (ls @ [[]]) sep = Join ls sep @ sep"
  by (induction ls sep rule: Join.induct) auto

lemma etc_hosts_lines:
  assumes "host_word gerritIP" "host_word gatewayIP" "host_word fqdn"
  shows "hosts_lines (etc_hosts gerritIP gatewayIP fqdn hosts) =
    filter (\<lambda>l. \<not> Contains l fqdn) (hosts_lines hosts) @ hosts_entries gerritIP gatewayIP fqdn @ [[]]"
    (is "_ = ?kept @ ?new @ _")
proof -
  have "\<forall>l\<in>set ((?kept @ ?new) @ [[]]). CHR 0x0A \<notin> set l"
    using host_word_simps(4) [OF assms(1)] host_word_simps(4) [OF assms(2)] host_word_simps(4) [OF assms(3)]
    by (auto simp: hosts_lines_def hosts_entries_def dest: SplitChar_free)
  moreover have "?kept @ ?new \<noteq> []" by (simp add: hosts_entries_def)
  ultimately show ?thesis
    using SplitChar_Join [of "(?kept @ ?new) @ [[]]" "CHR 0x0A"] Join_blank [of "?kept @ ?new" newline]
    by (simp add: hosts_lines_def newline_def etc_hosts_def)
qed

lemma gerrit_word: "host_word fqdn \<Longrightarrow> host_word (''gerrit.'' @ fqdn)"
  by (simp add: host_word_def is_blank_def)

lemma find_kept: "(\<And>l. l \<in> set ls \<Longrightarrow> P l \<Longrightarrow> Q l) \<Longrightarrow> find P (filter Q ls) = find P ls"
  by (induction ls) auto

lemma first_address_append:
  "first_address h (xs @ ys) = (case first_address h xs of None \<Rightarrow> first_address h ys | Some a \<Rightarrow> Some a)"
  unfolding first_address_def by (induction xs) auto

lemma names_host_contained: "names_host h l \<Longrightarrow> Contains l h"
  unfolding names_host_def by (rule field_contained) (metis list.sel(2) list.set_sel(2))

lemma gerrit_other: "''gerrit.'' @ fqdn \<noteq> fqdn"
  by (metis append_self_conv2 list.distinct(1))

lemma entries_address:
  assumes "host_word gerritIP" "host_word gatewayIP" "host_word fqdn"
  shows "first_address h (hosts_entries gerritIP gatewayIP fqdn @ [[]]) =
    (if h = fqdn then Some gatewayIP else if h = ''gerrit.'' @ fqdn then Some gerritIP else None)"
proof -
  have "first_address h ls = map_option hd (find (\<lambda>fs. h \<in> set (tl fs)) (map host_fields ls))" for ls
    unfolding first_address_def by (induction ls) (simp_all add: names_host_def)
  moreover have "map host_fields (hosts_entries gerritIP gatewayIP fqdn @ [[]]) =
      (if gerritIP = gatewayIP then [[gatewayIP, ''gerrit.'' @ fqdn, fqdn], []]
       else [[gerritIP, ''gerrit.'' @ fqdn], [gatewayIP, fqdn], []])"
    using host_fields_words(1) [OF assms(1) gerrit_word [OF assms(3)]] host_fields_words(1) [OF assms(2,3)]
      host_fields_words(2) [OF assms(2) gerrit_word [OF assms(3)] assms(3)]
    by (simp add: hosts_entries_def) (simp add: host_fields_def)
  ultimately show ?thesis using gerrit_other [of fqdn] by auto
qed

lemma hosts_resolve_updated:
  assumes "host_word gerritIP" "host_word gatewayIP" "host_word fqdn"
  shows "hosts_resolve (etc_hosts gerritIP gatewayIP fqdn hosts) h =
    (case first_address h (filter (\<lambda>l. \<not> Contains l fqdn) (hosts_lines hosts)) of Some a \<Rightarrow> Some a
     | None \<Rightarrow> if h = fqdn then Some gatewayIP else if h = ''gerrit.'' @ fqdn then Some gerritIP else None)"
  unfolding hosts_resolve_def etc_hosts_lines [OF assms, unfolded hosts_lines_def] first_address_append [of h "filter _ _"]
    entries_address [OF assms] hosts_lines_def
  by (simp split: option.split)

lemma hosts_resolve_set:
  assumes "host_word gerritIP" "host_word gatewayIP" "host_word fqdn" and "h = fqdn \<or> h = ''gerrit.'' @ fqdn"
  shows "hosts_resolve (etc_hosts gerritIP gatewayIP fqdn hosts) h = Some (if h = fqdn then gatewayIP else gerritIP)"
proof -
  have "Contains l fqdn" if "names_host h l" for l
    using names_host_contained [OF that] assms(4) Contains_part by metis
  then have "first_address h (filter (\<lambda>l. \<not> Contains l fqdn) (hosts_lines hosts)) = None"
    by (auto simp: first_address_def find_None_iff)
  then show ?thesis unfolding hosts_resolve_updated [OF assms(1-3)] using assms(4) by auto
qed

lemma hosts_resolve_other:
  assumes "host_word gerritIP" "host_word gatewayIP" "host_word fqdn"
    and "h \<notin> {fqdn, ''gerrit.'' @ fqdn}" and "\<And>l. l \<in> set (hosts_lines hosts) \<Longrightarrow> names_host h l \<Longrightarrow> \<not> Contains l fqdn"
  shows "hosts_resolve (etc_hosts gerritIP gatewayIP fqdn hosts) h = hosts_resolve hosts h"
proof -
  have "first_address h (filter (\<lambda>l. \<not> Contains l fqdn) (hosts_lines hosts)) = hosts_resolve hosts h"
    unfolding hosts_resolve_def hosts_lines_def [symmetric] first_address_def
    by (rule arg_cong [OF find_kept]) (rule assms(5))
  then show ?thesis
    unfolding hosts_resolve_updated [OF assms(1-3)] using assms(4) by (simp split: option.split)
qed

section \<open>Variables\<close>

text \<open>The list \<open>vs\<close> of assignments \<open>name=value\<close> is read back from the texts, the last value of a name wins.\<close>

lemma VarListToMap_reads:
  assumes "\<forall>(k, v)\<in>set vs. CHR ''='' \<notin> set k \<and> CHR ''='' \<notin> set v"
  shows "(VarListToMap (map (\<lambda>(k, v). k @ ''='' @ v) vs) :: ('s, smap) prog) = ret (fmap_of_list (rev vs))"
proof -
  let ?step = "\<lambda>v vars. (case SplitChar CHR ''='' v of [name, val] \<Rightarrow> ret (fmupd name val vars) | _ \<Rightarrow> exit_with 1) :: ('s, smap) prog"
  have "fold_prog ?step (map (\<lambda>(k, v). k @ ''='' @ v) vs) m = ret (fold (\<lambda>(k, v). fmupd k v) vs m)" for m
    using assms by (induction vs arbitrary: m) (auto simp: SplitChar_append SplitChar_whole)
  moreover have "fold (\<lambda>(k, v). fmupd k v) vs m = m ++\<^sub>f fmap_of_list (rev vs)" for m
    by (rule fmap_ext, induction vs arbitrary: m) (auto simp: fmlookup_of_list map_add_def split: option.split)
  ultimately show ?thesis by (simp add: VarListToMap_def)
qed

lemma VarListToMap_rejects:
  assumes "v \<in> set vs" and "length (SplitChar CHR ''='' v) \<noteq> 2"
  shows "VarListToMap vs s = (Exit 1, s)"
proof -
  let ?step = "\<lambda>v vars. case SplitChar CHR ''='' v of [name, val] \<Rightarrow> ret (fmupd name val vars) | _ \<Rightarrow> exit_with 1"
  have "fold_prog ?step vs m s = (Exit 1, s)" for m
    using assms
  proof (induction vs arbitrary: m)
    case (Cons u us)
    then show ?case by (cases "u = v") (auto split: list.split)
  qed simp
  then show ?thesis by (simp add: VarListToMap_def)
qed

section \<open>Operations that only create objects\<close>

text \<open>
  While a command waits, the controllers of the cluster are at work: they start and stop pods, and change the objects of
  the kinds in \<open>managed\<close> (the state of the workloads, the claims of a stateful set, the address of an ingress), without
  removing them. \<open>kube_managed\<close> excludes other writers.
\<close>

definition managed :: "kind set" where
  "managed = {KPVC, KStatefulSet, KDeployment, KJob, KRoute, KIngress}"

definition by_cluster :: "kref \<Rightarrow> kobj option \<Rightarrow> kobj option \<Rightarrow> bool" where
  "by_cluster y before after \<longleftrightarrow> fst y = KPod \<or> fst y \<in> managed \<and> (before \<noteq> None \<longrightarrow> after \<noteq> None)"

locale kube_managed = kube_observed S store for S :: "'w sys" and store :: "'w \<Rightarrow> kref \<Rightarrow> kobj option" +
  assumes sleep_managed: "s_sleep S d w = (u, w') \<Longrightarrow> store w' y = store w y \<or> by_cluster y (store w y) (store w' y)"

text \<open>A cluster in which stateful sets become ready and jobs succeed while one waits.\<close>

fun settled :: "kobj \<Rightarrow> kobj" where
  "settled (OStatefulSet ss) = OStatefulSet (ss\<lparr>ss_readyReplicas := 1, ss_currentReplicas := 1\<rparr>)"
| "settled (OJob jo) = OJob (jo\<lparr>jo_succeeded := 1\<rparr>)"
| "settled ob = ob"

definition busy_sys :: "mem_world sys" where
  "busy_sys = mem_sys\<lparr>s_sleep := (\<lambda>d w. ((), w\<lparr>mw_clock := mw_clock w + d, mw_objs := map settled (mw_objs w)\<rparr>))\<rparr>"

lemma settled_oref: "oref (settled ob) = oref ob" and settled_kind: "settled ob = ob \<or> fst (oref ob) \<in> managed"
  by (cases ob; simp add: oref_def kref_of_def managed_def)+

lemma mem_store_settled: "mem_store (w\<lparr>mw_clock := c, mw_objs := map settled (mw_objs w)\<rparr>) y = map_option settled (mem_store w y)"
proof -
  have "find (\<lambda>ob. oref ob = y) (map settled obs) = map_option settled (find (\<lambda>ob. oref ob = y) obs)" for obs
    by (induction obs) (simp_all add: settled_oref)
  then show ?thesis by (simp add: mem_store_def)
qed

lemma busy_observed: "kube_observed busy_sys mem_store"
  using mem.kube_observed_axioms unfolding busy_sys_def kube_observed_def by simp

lemma busy_healthy: "kube_healthy busy_sys mem_store"
  using mem.kube_healthy_axioms busy_observed unfolding kube_healthy_def kube_healthy_axioms_def by (simp add: busy_sys_def)

interpretation busy: kube_managed busy_sys mem_store
proof (rule kube_managed.intro [OF busy_observed], rule kube_managed_axioms.intro)
  fix d w u w' y assume "s_sleep busy_sys d w = (u, w')"
  then have "mem_store w' y = map_option settled (mem_store w y)"
    using mem_store_settled [of w "mw_clock w + d" y] by (simp add: busy_sys_def)
  moreover have "oref ob = y" if "mem_store w y = Some ob" for ob
    using that by (auto simp: mem_store_def find_Some_iff)
  ultimately show "mem_store w' y = mem_store w y \<or> by_cluster y (mem_store w y) (mem_store w' y)"
    using settled_kind by (cases "mem_store w y") (auto simp: by_cluster_def)
qed

text \<open>
  Between the two states objects at addresses of \<open>X\<close> that were free may have come up; all else is the work of the cluster.
\<close>

definition adds :: "('w \<Rightarrow> kref \<Rightarrow> kobj option) \<Rightarrow> kref set \<Rightarrow> 'w st \<Rightarrow> 'w st \<Rightarrow> bool" where
  "adds store X s t \<longleftrightarrow> (\<forall>y. store (st_world t) y = store (st_world s) y \<or> y \<in> X \<and> store (st_world s) y = None \<or>
     by_cluster y (store (st_world s) y) (store (st_world t) y))"

interpretation add: effect_bound "adds store X" for store X
proof
  show "adds store X s s" for s by (simp add: adds_def)
  show "adds store X s u" if "adds store X s t" "adds store X t u" for s t u
    unfolding adds_def
  proof
    fix y
    show "store (st_world u) y = store (st_world s) y \<or> y \<in> X \<and> store (st_world s) y = None \<or>
        by_cluster y (store (st_world s) y) (store (st_world u) y)"
      using that(1) [unfolded adds_def, rule_format, of y] that(2) [unfolded adds_def, rule_format, of y]
      unfolding by_cluster_def by metis
  qed
qed

lemma adds_frame: "within (touches store {}) m \<Longrightarrow> within (adds store X) m"
  by (erule within_mono) (simp add: adds_def touches_def)

lemma adds_mono: "within (adds store X) m \<Longrightarrow> X \<subseteq> Y \<Longrightarrow> within (adds store Y) m"
  by (erule within_mono) (auto simp: adds_def)

context kube_client
begin

lemma client_Create_adds:
  assumes "oref (c_enc C ob) \<in> X"
  shows "within (adds store X) (client_Create r False C ob)"
proof -
  have "within (adds store X) (sysc (s_create (k_sys r) False (c_enc C ob)))"
  proof (rule withinI)
    fix s o' t assume "sysc (s_create (k_sys r) False (c_enc C ob)) s = (o', t)"
    then obtain a w where w: "s_create (k_sys r) False (c_enc C ob) (st_world s) = (a, w)" "st_world t = w"
      by (cases "s_create (k_sys r) False (c_enc C ob) (st_world s)") (auto simp: sysc_def)
    have "store w y = store (st_world s) y \<or> y \<in> X \<and> store (st_world s) y = None" for y
      using create_local [OF w(1), of y] create_keeps [OF w(1)] assms
      by (cases "store (st_world s) (oref (c_enc C ob))"; cases "y = oref (c_enc C ob)") auto
    with w(2) show "adds store X s t" unfolding adds_def by blast
  qed
  then show ?thesis unfolding client_Create_def by (intro add.within_rules)
qed

lemma createOrDie_adds:
  "codec_laws C \<Longrightarrow> kref_of (c_kind C) (k_ns r) (om_name (c_meta C ob)) \<in> X \<Longrightarrow> within (adds store X) (CreateROrDie r C ob)"
  unfolding CreateROrDie_def Let_def
  by (intro add.within_rules client_Create_adds) (simp add: codec_laws.oref_enc codec_laws.meta_mapMeta)

lemma getOrDie_adds: "within (adds store X) (GetOrDie r C n)"
  by (rule adds_frame [OF getOrDie_touches])

lemma ensure_created_adds:
  "codec_laws C \<Longrightarrow> kref_of (c_kind C) (k_ns r) (om_name (c_meta C ob)) \<in> X \<Longrightarrow> within (adds store X) (ensure_created r C ob)"
  unfolding ensure_created_def by (intro add.within_rules getOrDie_adds createOrDie_adds)

lemma sysc_cert: "within (touches store X) (sysc (s_rsaKey (k_sys r) bits))"
  "within (touches store X) (sysc (s_certificate (k_sys r) xt pt pub priv))"
  by (rule within_sysc; auto dest: rsaKey_frame certificate_frame)+

lemma selfSignCert_adds:
  "kref_of KSecret (k_ns r) ''self-signed-cert'' \<in> X \<Longrightarrow> within (adds store X) (EnsureSelfSignCert r)"
  unfolding EnsureSelfSignCert_def Let_def
  by (intro add.within_rules getOrDie_adds createOrDie_adds adds_frame [OF sysc_cert(1)] adds_frame [OF sysc_cert(2)]
      adds_frame [OF sysc_now] codec_axioms) (simp add: self_signed_secret_def cSecret_def mk_meta_def)

lemma gatewayIngress_adds:
  "kref_of KSecret (k_ns r) ''self-signed-cert'' \<in> X \<Longrightarrow> kref_of KIngress (k_ns r) ''sf-ingress'' \<in> X \<Longrightarrow>
     within (adds store X) (EnsureGatewayIngress r fqdn)"
  unfolding EnsureGatewayIngress_def
  by (intro add.within_rules selfSignCert_adds ensure_created_adds codec_axioms)
    (simp_all add: MkHTTPSIngress_def cIngress_def mk_meta_def)

end

locale waiting_client = kube_client r store + kube_managed "k_sys r" store
  for r :: "'w kctx" and store :: "'w \<Rightarrow> kref \<Rightarrow> kobj option"
begin

lemma sleep_adds: "within (adds store X) (sysc (s_sleep (k_sys r) d))"
proof (rule withinI)
  fix s o' t assume "sysc (s_sleep (k_sys r) d) s = (o', t)"
  then have "s_sleep (k_sys r) d (st_world s) = ((), st_world t)" by (auto simp: sysc_def split: prod.splits)
  from sleep_managed [OF this] show "adds store X s t" unfolding adds_def by blast
qed

end

locale waiting_healthy_client = waiting_client r store + healthy_client r store
  for r :: "'w kctx" and store :: "'w \<Rightarrow> kref \<Rightarrow> kobj option"

interpretation busy_client: waiting_healthy_client "r\<lparr>k_sys := busy_sys\<rparr>" mem_store for r
  by (simp add: waiting_healthy_client_def waiting_client_def healthy_client_def kube_client_def busy_observed busy_healthy
      busy.kube_managed_axioms)

section \<open>What the wait for an address does\<close>

lemma ingress_attempts_ends: "unstuck (ingress_attempts n env name)"
proof (induction n)
  case 0
  show ?case
    unfolding ingress_attempts.simps [of 0] nat.case by (intro unstuck_intros unstuck_lookup)
next
  case (Suc n)
  show ?case
    unfolding ingress_attempts.simps [of "Suc n"] nat.case by (intro unstuck_intros unstuck_lookup unstuck_sysc Suc.IH)
qed

section \<open>Programs that bring objects into being\<close>

text \<open>\<open>brings store X m\<close>: whenever \<open>m\<close> returns, there is an object at each address of \<open>X\<close> that is not one of a pod.\<close>

definition brings :: "('w \<Rightarrow> kref \<Rightarrow> kobj option) \<Rightarrow> kref set \<Rightarrow> ('w st, 'a) prog \<Rightarrow> bool" where
  "brings store X m \<longleftrightarrow> (\<forall>s a t. m s = (Ok a, t) \<longrightarrow> (\<forall>y\<in>X. fst y \<noteq> KPod \<longrightarrow> store (st_world t) y \<noteq> None))"

lemma brings_none: "brings store {} m"
  by (simp add: brings_def)

lemma brings_then: "(\<And>a. brings store X (f a)) \<Longrightarrow> brings store X (bnd m f)"
  unfolding brings_def bnd_eq_Ok by blast

lemma brings_bnd:
  assumes "brings store X m" and "\<And>a. within (adds store Z) (f a)" and "\<And>a. brings store Y (f a)"
  shows "brings store (X \<union> Y) (bnd m f)"
  unfolding brings_def bnd_eq_Ok
proof (intro allI impI ballI)
  fix s b u y assume "\<exists>a t. m s = (Ok a, t) \<and> f a t = (Ok b, u)" and y: "y \<in> X \<union> Y" "fst y \<noteq> KPod"
  then obtain a t where t: "m s = (Ok a, t)" "f a t = (Ok b, u)" by blast
  have "adds store Z t u" by (rule withinD [OF assms(2) t(2)])
  then have "store (st_world t) y \<noteq> None \<longrightarrow> store (st_world u) y \<noteq> None"
    using y(2) unfolding adds_def by_cluster_def by metis
  then show "store (st_world u) y \<noteq> None"
    using assms(1) assms(3) [of a] t y unfolding brings_def by blast
qed

lemma brings_insert:
  "brings store {y} m \<Longrightarrow> (\<And>a. within (adds store Z) (f a)) \<Longrightarrow> (\<And>a. brings store Y (f a)) \<Longrightarrow> brings store (insert y Y) (bnd m f)"
  using brings_bnd [of store "{y}" m Z f Y] by simp

context healthy_client
begin

lemma createOrDie_brings:
  assumes "codec_laws C" and "y = kref_of (c_kind C) (k_ns r) (om_name (c_meta C ob))"
  shows "brings store {y} (CreateROrDie r C ob)"
  unfolding brings_def
proof (intro allI impI ballI)
  let ?ob = "c_mapMeta C (om_namespace_update (\<lambda>_. k_ns r)) ob"
  fix s x t z assume run: "CreateROrDie r C ob s = (Ok x, t)" and z: "z \<in> {y}" "fst z \<noteq> KPod"
  have ref: "oref (c_enc C ?ob) = y"
    by (simp add: assms(2) codec_laws.oref_enc [OF assms(1)] codec_laws.meta_mapMeta [OF assms(1)])
  obtain k w where w: "s_create (k_sys r) False (c_enc C ?ob) (st_world s) = (Inr k, w)" "st_world t = w"
    using run by (auto simp: CreateROrDie_def client_Create_def Let_def bnd_def sysc_def split: prod.splits sum.splits option.splits)
  show "store (st_world t) z \<noteq> None"
  proof (cases "store (st_world s) y")
    case None
    with create_new [of "st_world s" "c_enc C ?ob"] ref w z show ?thesis by auto
  next
    case (Some o1)
    with create_exists [of "st_world s" "c_enc C ?ob" o1 False] ref w show ?thesis by auto
  qed
qed

lemma getOrDie_brings:
  assumes "codec_laws C" and "\<And>x. within (adds store Z) (f (Some x))"
    and "brings store {kref_of (c_kind C) (k_ns r) n} (f None)"
  shows "brings store {kref_of (c_kind C) (k_ns r) n} (bnd (GetOrDie r C n) f)"
  unfolding brings_def bnd_eq_Ok
proof (intro allI impI ballI)
  fix s b u y assume "\<exists>a t. GetOrDie r C n s = (Ok a, t) \<and> f a t = (Ok b, u)" and y: "y \<in> {kref_of (c_kind C) (k_ns r) n}" "fst y \<noteq> KPod"
  then obtain a t where t: "GetOrDie r C n s = (Ok a, t)" "f a t = (Ok b, u)" by blast
  show "store (st_world u) y \<noteq> None"
  proof (cases a)
    case None
    with t(2) assms(3) y show ?thesis by (auto simp: brings_def)
  next
    case (Some x)
    have "store (st_world t) y \<noteq> None"
      using getOrDie_Some [OF assms(1), of n s x t] t(1) Some y withinD [OF getOrDie_touches t(1), of "{}"] by (simp add: touches_empty)
    moreover have "adds store Z t u" using withinD [OF assms(2) t(2) [unfolded Some]] .
    ultimately show ?thesis using y(2) unfolding adds_def by_cluster_def by metis
  qed
qed

lemma ensure_created_brings:
  assumes "codec_laws C" and "y = kref_of (c_kind C) (k_ns r) (om_name (c_meta C ob))"
  shows "brings store {y} (ensure_created r C ob)"
proof -
  have "within (adds store {y}) (bnd (CreateROrDie r C ob) (\<lambda>_. ret ()))"
    by (intro add.within_rules createOrDie_adds assms(1)) (simp add: assms(2))
  moreover have "brings store {y} (bnd (CreateROrDie r C ob) (\<lambda>_. ret ()))"
    using brings_bnd [OF createOrDie_brings [OF assms], of "{}" "\<lambda>_. ret ()" "{}"]
    by (simp add: add.within_ret brings_none)
  ultimately show ?thesis
    unfolding ensure_created_def assms(2)
    by (intro getOrDie_brings [OF assms(1), where Z = "{}"]) (auto intro: add.within_ret)
qed

end

end
