(* ===== verification/Cli_Nodepool.thy ===== *)
theory Cli_Nodepool
  imports Cli_Utils Nodepool
begin

text \<open>
  \<open>cli/cmd/nodepool.go\<close>: the commands that show the key of the builder and that prepare a namespace in
  which nodepool may start pods: its account, role and token, and the kubeconfig that is put into the providers
  secret. \<open>providers_updated\<close> says what that secret is to contain.
\<close>

section \<open>Names\<close>

definition nodepoolServiceAccount :: string where "nodepoolServiceAccount = ''nodepool-sa''"
definition nodepoolRole :: string where "nodepoolRole = ''nodepool-role''"
definition nodepoolRoleBinding :: string where "nodepoolRoleBinding = ''nodepool-rb''"
definition nodepoolToken :: string where "nodepoolToken = ''nodepool-token''"
definition nodepoolKubeContext :: string where "nodepoolKubeContext = ''openshiftpods''"

section \<open>The providers secret\<close>

text \<open>
  A kubeconfig that could not be serialized is nil, which removes the key. The new data of an existing secret, if it has
  to be updated.
\<close>

definition providers_data :: "gomap \<Rightarrow> string option \<Rightarrow> smap option" where
  "providers_data data kubeconfig = (case kubeconfig of
       Some kc \<Rightarrow> if gm_get data ''kube.config'' \<noteq> kc then Some (fmupd ''kube.config'' kc (gm_fm data)) else None
     | None \<Rightarrow> if ''kube.config'' |\<in>| fmdom (gm_fm data) then Some (fmdrop ''kube.config'' (gm_fm data)) else None)"

definition ensureNodepoolKubeProvidersSecrets :: "'w kctx \<Rightarrow> string option \<Rightarrow> ('w st, unit) prog" where
  "ensureNodepoolKubeProvidersSecrets env kubeconfig = bnd (GetOrDie env cSecret NodepoolProvidersSecretsName) (\<lambda>found. case found of
       None \<Rightarrow> bnd (CreateROrDie env cSecret \<lparr>se_meta = mk_meta NodepoolProvidersSecretsName [],
           se_data = Some (case kubeconfig of None \<Rightarrow> fmempty | Some kc \<Rightarrow> smap_of [(''kube.config'', kc)]), se_type = []\<rparr>) (\<lambda>_. ret ())
     | Some secret \<Rightarrow> (case providers_data (se_data secret) kubeconfig of
         None \<Rightarrow> ret ()
       | Some data \<Rightarrow> bnd (UpdateROrDie env cSecret (secret\<lparr>se_data := Some data\<rparr>)) (\<lambda>_. ret ())))"

section \<open>The key of the builder\<close>

text \<open>The error of writing the file is not looked at.\<close>

definition getBuilderSSHKey :: "'w tools \<Rightarrow> 'w kctx \<Rightarrow> string \<Rightarrow> ('w st, unit) prog" where
  "getBuilderSSHKey x env pubKey = bnd (GetOrDie env cSecret ''nodepool-builder-ssh-key'') (\<lambda>found. case found of
       None \<Rightarrow> exit_with 1
     | Some secret \<Rightarrow> (let pub = gm_get (se_data secret) ''pub'' in
         if pubKey = [] then print_line x pub else bnd (sysc (t_writeFile x pubKey pub)) (\<lambda>_. ret ())))"

section \<open>The account\<close>

definition nodepool_verbs :: "string list" where
  "nodepool_verbs = [''create'', ''delete'', ''get'', ''list'', ''patch'', ''update'', ''watch'']"

definition nodepool_rules :: "policy_rule list" where
  "nodepool_rules =
     [\<lparr>ru_apiGroups = [[]], ru_resources = [''pods'', ''pods/exec'', ''pods/portforward'', ''services'',
         ''persistentvolumeclaims'', ''configmaps'', ''secrets''], ru_verbs = nodepool_verbs\<rparr>,
      \<lparr>ru_apiGroups = [''apps''], ru_resources = [''deployments'', ''statefulsets''], ru_verbs = nodepool_verbs\<rparr>]"

definition ensureNodepoolRole :: "'w kctx \<Rightarrow> ('w st, unit) prog" where
  "ensureNodepoolRole env =
     bnd (ensure_created env cRole \<lparr>ro_meta = mk_meta nodepoolRole [], ro_rules = nodepool_rules\<rparr>) (\<lambda>_.
     ensure_created env cRoleBinding \<lparr>rb_meta = mk_meta nodepoolRoleBinding [],
       rb_subjects = [(''ServiceAccount'', nodepoolServiceAccount)],
       rb_roleRef = (''Role'', nodepoolRole, ''rbac.authorization.k8s.io'')\<rparr>)"

text \<open>
  The token is looked for in the secret at hand, which each attempt reads again when it has none; what the last attempt
  reads is not looked at.
\<close>

fun token_attempts :: "nat \<Rightarrow> 'w kctx \<Rightarrow> gomap \<Rightarrow> ('w st, string option) prog" where
  "token_attempts 0 env data = ret None"
| "token_attempts (Suc n) env data = (case fmlookup (gm_fm data) ''token'' of
       Some token \<Rightarrow> ret (Some token)
     | None \<Rightarrow> bnd (sysc (s_sleep (k_sys env) second)) (\<lambda>_.
         bnd (GetOrDie env cSecret nodepoolToken) (\<lambda>found.
           token_attempts n env (case found of None \<Rightarrow> data | Some s \<Rightarrow> se_data s))))"

declare token_attempts.simps [simp del]

definition nodepool_token_secret :: secret where
  "nodepool_token_secret = \<lparr>se_meta = (mk_meta nodepoolToken [])\<lparr>om_annotations :=
       Some (smap_of [(''kubernetes.io/service-account.name'', nodepoolServiceAccount)])\<rparr>,
     se_data = None, se_type = ''kubernetes.io/service-account-token''\<rparr>"

definition ensureNodepoolServiceAccountSecret :: "'w kctx \<Rightarrow> ('w st, string) prog" where
  "ensureNodepoolServiceAccountSecret env = bnd (GetOrDie env cSecret nodepoolToken) (\<lambda>found.
     bnd (case found of Some secret \<Rightarrow> ret secret | None \<Rightarrow> CreateROrDie env cSecret nodepool_token_secret) (\<lambda>secret.
     bnd (token_attempts 19 env (se_data secret)) (\<lambda>token. case token of
       None \<Rightarrow> exit_with 1 | Some t \<Rightarrow> ret t)))"

section \<open>The kubeconfig\<close>

definition nodepool_kubeconfig :: "rest_config \<Rightarrow> string \<Rightarrow> string \<Rightarrow> kube_config" where
  "nodepool_kubeconfig currentConfig ns token = \<lparr>kcf_Kind = ''Config'', kcf_APIVersion = ''v1'',
     kcf_Clusters = fmap_of_list [(''OpenshiftPodsCluster'', \<lparr>kcl_Server = rc_Host currentConfig @ rc_APIPath currentConfig,
       kcl_CertificateAuthorityData = rc_CAData currentConfig\<rparr>)],
     kcf_Contexts = fmap_of_list [(nodepoolKubeContext, \<lparr>kco_Cluster = ''OpenshiftPodsCluster'', kco_Namespace = ns,
       kco_AuthInfo = nodepoolServiceAccount\<rparr>)],
     kcf_CurrentContext = nodepoolKubeContext, kcf_AuthInfos = smap_of [(nodepoolServiceAccount, token)]\<rparr>"

definition createNodepoolKubeConfigOrDie :: "'w tools \<Rightarrow> string \<Rightarrow> string \<Rightarrow> string \<Rightarrow> ('w st, kube_config) prog" where
  "createNodepoolKubeConfigOrDie x contextName ns token = bnd (MkSFKubeContext x [] ns contextName False) (\<lambda>res. case res of
       Inl e \<Rightarrow> exit_with 1
     | Inr ctx \<Rightarrow> if HasPrefix (rc_Host (k_rest ctx)) ''https://localhost'' \<or> HasPrefix (rc_Host (k_rest ctx)) ''https://127.''
         then exit_with 1 else ret (nodepool_kubeconfig (k_rest ctx) ns token))"

text \<open>The keys of a document that goes through JSON come out sorted.\<close>

definition mkNodepoolOpenshiftPodsConfigTemplate :: "'w tools \<Rightarrow> string \<Rightarrow> string" where
  "mkNodepoolOpenshiftPodsConfigTemplate x nodepoolNamespace = t_yaml x (YMap [(''providers'', YList [YMap
     [(''context'', YStr nodepoolKubeContext), (''driver'', YStr ''openshiftpods''), (''name'', YStr ''openshiftpods''),
      (''pools'', YList [YMap
        [(''labels'', YList [YMap [(''image'', YStr ''quay.io/fedora/fedora:latest''), (''name'', YStr ''fedora-latest'')]]),
         (''name'', YStr nodepoolNamespace)]])]])])"

section \<open>The commands\<close>

definition CreateNamespaceForNodepool :: "'w tools \<Rightarrow> 'w kctx \<Rightarrow> string \<Rightarrow> string \<Rightarrow> bool \<Rightarrow> ('w st, unit) prog" where
  "CreateNamespaceForNodepool x sfEnv nodepoolContext nodepoolNamespace skipProvidersSecrets =
     bnd (MkSFKubeContext x [] nodepoolNamespace nodepoolContext False) (\<lambda>res. case res of
       Inl e \<Rightarrow> exit_with 1
     | Inr npEnv \<Rightarrow>
         bnd (EnsureNamespaceOrDie npEnv nodepoolNamespace) (\<lambda>_.
         bnd (EnsureServiceAccountOrDie npEnv nodepoolServiceAccount) (\<lambda>_.
         bnd (ensureNodepoolRole npEnv) (\<lambda>_.
         bnd (ensureNodepoolServiceAccountSecret npEnv) (\<lambda>token.
         bnd (createNodepoolKubeConfigOrDie x nodepoolContext nodepoolNamespace token) (\<lambda>npKubeConfig.
           let kconfig = (case t_writeConfig x npKubeConfig of Inl e \<Rightarrow> None | Inr s \<Rightarrow> Some s) in
           if skipProvidersSecrets
           then bnd (print_line x ''Provider kubeconfig:'') (\<lambda>_. print_line x (case kconfig of None \<Rightarrow> [] | Some s \<Rightarrow> s))
           else ensureNodepoolKubeProvidersSecrets sfEnv kconfig))))))"

definition npGet :: "'w tools \<Rightarrow> flags \<Rightarrow> string list \<Rightarrow> ('w st, unit) prog" where
  "npGet x fl args = bnd (GetCLIContext x fl) (\<lambda>cliCtx. bnd (first_arg args) (\<lambda>target.
     if target = ''builder-ssh-key'' then getBuilderSSHKey x cliCtx (GetString fl ''pubkey'') else ret ()))"

definition npCreate :: "'w tools \<Rightarrow> flags \<Rightarrow> string list \<Rightarrow> ('w st, unit) prog" where
  "npCreate x fl args = bnd (GetCLIContext x fl) (\<lambda>cliCtx. bnd (first_arg args) (\<lambda>target.
     if target = ''openshiftpods-namespace''
     then bnd (CreateNamespaceForNodepool x cliCtx (GetString fl ''nodepool-context'') (GetString fl ''nodepool-namespace'')
            (GetBool fl ''skip-providers-secrets'')) (\<lambda>_.
          if GetBool fl ''show-config-template''
          then bnd (print_line x ''Nodepool configuration template:'') (\<lambda>_.
            print_line x (mkNodepoolOpenshiftPodsConfigTemplate x (GetString fl ''nodepool-namespace'')))
          else ret ())
     else ret ()))"

definition nodepool_get_flags :: flags where
  "nodepool_get_flags = [(''pubkey'', FString [])]"

definition nodepool_create_flags :: flags where
  "nodepool_create_flags = [(''nodepool-context'', FString []), (''nodepool-namespace'', FString ''nodepool''),
     (''show-config-template'', FBool False), (''skip-providers-secrets'', FBool False)]"

section \<open>The providers secret is kept up to date\<close>

text \<open>What a reader of the providers secret finds under a key: nothing, when the secret or the key is missing.\<close>

definition provider_value :: "'w kctx \<Rightarrow> (kref \<Rightarrow> kobj option) \<Rightarrow> string \<Rightarrow> string" where
  "provider_value env sto k = (case secret_at env sto NodepoolProvidersSecretsName of None \<Rightarrow> [] | Some s \<Rightarrow> gm_get (se_data s) k)"

definition providers_ref :: "'w kctx \<Rightarrow> kref" where
  "providers_ref env = kref_of KSecret (k_ns env) NodepoolProvidersSecretsName"

lemma provider_value_secret:
  "sto (providers_ref env) = Some (OSecret s) \<Longrightarrow> provider_value env sto k = gm_get (se_data s) k"
  by (simp add: provider_value_def secret_at_def providers_ref_def typed_def NodepoolProvidersSecretsName_def codec_defs)

lemma providers_data_Some: "providers_data data kc = Some d \<Longrightarrow>
    gm_get (Some d) k = (if k = ''kube.config'' then case kc of None \<Rightarrow> [] | Some v \<Rightarrow> v else gm_get data k)"
  by (auto simp: providers_data_def gm_get_def split: option.splits if_splits)

lemma providers_data_None: "providers_data data kc = None \<Longrightarrow>
    gm_get data k = (if k = ''kube.config'' then case kc of None \<Rightarrow> [] | Some v \<Rightarrow> v else gm_get data k)"
  by (auto simp: providers_data_def gm_get_def fmdom_notD split: option.splits if_splits)

text \<open>Data that has been updated needs no update.\<close>

lemma providers_data_stable: "providers_data data kc = Some d \<Longrightarrow> gm_fm data' = d \<Longrightarrow> providers_data data' kc = None"
  by (drule sym) (auto simp: providers_data_def gm_get_def split: option.splits if_splits)

lemma providers_data_new:
  "gm_fm data' = (case kc of None \<Rightarrow> fmempty | Some v \<Rightarrow> smap_of [(''kube.config'', v)]) \<Longrightarrow> providers_data data' kc = None"
  by (auto simp: providers_data_def gm_get_def split: option.splits)

context healthy_client
begin

text \<open>One run; the secret that it leaves needs no further change.\<close>

lemma providers_run:
  "\<exists>t sec. ensureNodepoolKubeProvidersSecrets r kc s = (Ok (), t) \<and>
     store (st_world t) (providers_ref r) = Some (OSecret sec) \<and> providers_data (se_data sec) kc = None \<and>
     (\<forall>y. y \<noteq> providers_ref r \<longrightarrow> store (st_world t) y = store (st_world s) y) \<and>
     (\<forall>k. k \<noteq> ''kube.config'' \<longrightarrow> gm_get (se_data sec) k = provider_value r (store (st_world s)) k) \<and>
     (\<forall>old. store (st_world s) (providers_ref r) = Some (OSecret old) \<and> providers_data (se_data old) kc = None \<longrightarrow>
        store (st_world t) = store (st_world s))"
proof (cases "store (st_world s) (providers_ref r)")
  case None
  let ?sec = "\<lparr>se_meta = mk_meta NodepoolProvidersSecretsName [],
     se_data = Some (case kc of None \<Rightarrow> fmempty | Some kc \<Rightarrow> smap_of [(''kube.config'', kc)]), se_type = []\<rparr>"
  obtain w where w: "GetOrDie r cSecret NodepoolProvidersSecretsName s = (Ok None, s\<lparr>st_world := w\<rparr>)" "store w = store (st_world s)"
    using getOrDie_absent [of s cSecret] None by (auto simp: providers_ref_def)
  let ?ob = "c_enc cSecret (c_mapMeta cSecret (om_namespace_update (\<lambda>_. k_ns r)) ?sec)"
  have ref: "oref ?ob = providers_ref r" by (simp add: oref_def providers_ref_def codec_defs mk_meta_def)
  obtain o' w' where o': "s_create (k_sys r) False ?ob w = (Inr o', w')" "admitted ?ob o'" "store w' (providers_ref r) = Some o'"
    using create_new [of w ?ob] None w(2) ref by metis
  then obtain sec where sec: "o' = OSecret sec" "gm_fm (se_data sec) = gm_fm (se_data ?sec)"
    by (cases o') (auto simp: admitted_def kept_spec_def codec_defs)
  have "ensureNodepoolKubeProvidersSecrets r kc s = (Ok (), s\<lparr>st_world := w'\<rparr>)"
    using w(1) o'(1) sec(1) by (simp add: ensureNodepoolKubeProvidersSecrets_def CreateROrDie_def client_Create_def
        bnd_def sysc_def codec_defs Let_def)
  moreover have "store w' y = store (st_world s) y" if "y \<noteq> providers_ref r" for y
    using create_local [OF o'(1), of y] that ref w(2) by simp
  ultimately show ?thesis
    using o'(3) sec None providers_data_new [of "se_data sec" kc]
    by (auto simp: provider_value_def secret_at_def typed_def providers_ref_def gm_get_def split: option.splits)
next
  case (Some ob)
  then obtain old where old: "ob = OSecret old" "oref ob = providers_ref r"
    using stored_typed [OF codec_axioms(2), of "st_world s" "k_ns r" NodepoolProvidersSecretsName ob]
    by (auto simp: providers_ref_def codec_defs)
  obtain w where w: "GetOrDie r cSecret NodepoolProvidersSecretsName s = (Ok (Some old), s\<lparr>st_world := w\<rparr>)" "store w = store (st_world s)"
    using getOrDie_present [OF codec_axioms(2), of s NodepoolProvidersSecretsName old] Some old(1)
    by (auto simp: providers_ref_def codec_defs)
  note here = provider_value_secret [of "store (st_world s)" r old, OF Some [unfolded old(1)]]
  show ?thesis
  proof (cases "providers_data (se_data old) kc")
    case None
    then have "ensureNodepoolKubeProvidersSecrets r kc s = (Ok (), s\<lparr>st_world := w\<rparr>)"
      using w(1) by (simp add: ensureNodepoolKubeProvidersSecrets_def bnd_def)
    then show ?thesis using None Some old(1) w(2) here by auto
  next
    case (Some d)
    let ?ob = "c_enc cSecret (old\<lparr>se_data := Some d\<rparr>)"
    have ref: "oref ?ob = providers_ref r" using old by (simp add: oref_def codec_defs)
    obtain o' w' where o': "s_update (k_sys r) False ?ob w = (Inr o', w')" "admitted ?ob o'" "store w' (providers_ref r) = Some o'"
      using update_present [of w ?ob ob] \<open>store (st_world s) (providers_ref r) = Some ob\<close> w(2) ref by metis
    then obtain sec where sec: "o' = OSecret sec" "gm_fm (se_data sec) = d"
      by (cases o') (auto simp: admitted_def kept_spec_def codec_defs)
    have "ensureNodepoolKubeProvidersSecrets r kc s = (Ok (), s\<lparr>st_world := w'\<rparr>)"
      using w(1) o'(1) sec(1) Some by (simp add: ensureNodepoolKubeProvidersSecrets_def UpdateROrDie_def client_Update_def
          bnd_def sysc_def codec_defs)
    moreover have "store w' y = store (st_world s) y" if "y \<noteq> providers_ref r" for y
      using update_local [OF o'(1), of y] that ref w(2) by simp
    moreover have "gm_get (se_data sec) k = gm_get (se_data old) k" if "k \<noteq> ''kube.config''" for k
      using providers_data_Some [OF Some, of k] that sec(2) by (simp add: gm_get_def)
    ultimately show ?thesis
      using o'(3) sec providers_data_stable [OF Some sec(2)] here Some \<open>store (st_world s) (providers_ref r) = Some ob\<close> old(1) by auto
  qed
qed

lemma providers_set:
  "\<exists>t. ensureNodepoolKubeProvidersSecrets r kc s = (Ok (), t) \<and>
     provider_value r (store (st_world t)) ''kube.config'' = (case kc of None \<Rightarrow> [] | Some v \<Rightarrow> v) \<and>
     (\<forall>k. k \<noteq> ''kube.config'' \<longrightarrow> provider_value r (store (st_world t)) k = provider_value r (store (st_world s)) k) \<and>
     (\<forall>y. y \<noteq> providers_ref r \<longrightarrow> store (st_world t) y = store (st_world s) y) \<and>
     (\<exists>u. ensureNodepoolKubeProvidersSecrets r kc t = (Ok (), u) \<and> store (st_world u) = store (st_world t))"
proof -
  obtain t sec where t: "ensureNodepoolKubeProvidersSecrets r kc s = (Ok (), t)"
     "store (st_world t) (providers_ref r) = Some (OSecret sec)" "providers_data (se_data sec) kc = None"
     "\<forall>y. y \<noteq> providers_ref r \<longrightarrow> store (st_world t) y = store (st_world s) y"
     "\<forall>k. k \<noteq> ''kube.config'' \<longrightarrow> gm_get (se_data sec) k = provider_value r (store (st_world s)) k"
    using providers_run [of kc s] by blast
  obtain u where "ensureNodepoolKubeProvidersSecrets r kc t = (Ok (), u)" "store (st_world u) = store (st_world t)"
    using providers_run [of kc t] t(2,3) by blast
  moreover note provider_value_secret [of "store (st_world t)" r sec, OF t(2)] providers_data_None [OF t(3), of "''kube.config''"]
  ultimately show ?thesis using t by auto
qed

end

section \<open>The kubeconfig is not a local one\<close>

lemma kubeconfig_not_local:
  assumes "createNodepoolKubeConfigOrDie x contextName ns token s = (Ok cfg, t)"
  shows "\<exists>rest. cfg = nodepool_kubeconfig rest ns token \<and>
     \<not> HasPrefix (rc_Host rest) ''https://localhost'' \<and> \<not> HasPrefix (rc_Host rest) ''https://127.''"
proof -
  obtain res u where "MkSFKubeContext x [] ns contextName False s = (Ok res, u)"
    and "(case res of Inl e \<Rightarrow> exit_with 1
       | Inr ctx \<Rightarrow> if HasPrefix (rc_Host (k_rest ctx)) ''https://localhost'' \<or> HasPrefix (rc_Host (k_rest ctx)) ''https://127.''
           then exit_with 1 else ret (nodepool_kubeconfig (k_rest ctx) ns token)) u = (Ok cfg, t)"
    using assms unfolding createNodepoolKubeConfigOrDie_def bnd_eq_Ok by blast
  then show ?thesis by (cases res) (auto split: if_splits)
qed

text \<open>The wait for the token ends, with a token or without.\<close>

lemma token_attempts_ends: "unstuck (token_attempts n env data)"
proof (induction n arbitrary: data)
  case (Suc n)
  show ?case unfolding token_attempts.simps by (intro unstuck_intros unstuck_lookup unstuck_sysc Suc.IH)
qed (simp only: token_attempts.simps unstuck_intros)

end
