(* ===== verification/Cli_Gerrit.thy ===== *)
theory Cli_Gerrit
  imports Cli_Utils
begin

text \<open>
  \<open>cli/cmd/dev/gerrit/gerrit.go\<close>: the Gerrit of the development environment, its objects, the commands that create
  and wipe it, and the clones of its repositories. \<open>static\<close> gives the embedded files of the package. The wait for the
  stateful set has no bound in the code; here it has fuel. The options of the deletion of a job are left out.
\<close>

section \<open>Names\<close>

definition managesfResourcesIdent :: string where "managesfResourcesIdent = ''managesf-resources''"
definition gerritHTTPDPort :: int where "gerritHTTPDPort = 8080"
definition gerritHTTPPort :: int where "gerritHTTPPort = 80"
definition gerritHTTPDPortName :: string where "gerritHTTPDPortName = ''gerrit-httpd''"
definition gerritSSHDPort :: int where "gerritSSHDPort = 29418"
definition gerritSSHDPortName :: string where "gerritSSHDPortName = ''gerrit-sshd''"
definition gerritSiteMountPath :: string where "gerritSiteMountPath = ''/gerrit''"
definition gerritIdent :: string where "gerritIdent = ''gerrit''"
definition gerritImage :: string where "gerritImage = ''quay.io/software-factory/gerrit:3.6.4-8''"

lemmas gerrit_names = managesfResourcesIdent_def gerritHTTPDPort_def gerritHTTPPort_def gerritHTTPDPortName_def
  gerritSSHDPort_def gerritSSHDPortName_def gerritSiteMountPath_def gerritIdent_def gerritImage_def

record 'w GerritCMDContext =
  g_env :: "'w kctx"
  g_fqdn :: string

section \<open>Creating what is missing\<close>

definition createAPIKeySecret :: "'w kctx \<Rightarrow> string \<Rightarrow> string \<Rightarrow> ('w st, secret) prog" where
  "createAPIKeySecret r name ns = MkSecretFromFunc name ns (NewUUIDString r)"

definition ensureSecretOrDie :: "'w GerritCMDContext \<Rightarrow> string \<Rightarrow> (string \<Rightarrow> string \<Rightarrow> ('w st, secret) prog) \<Rightarrow>
    ('w st, secret) prog" where
  "ensureSecretOrDie g name secretGenerator = bnd (GetOrDie (g_env g) cSecret name) (\<lambda>found. case found of
       Some secret \<Rightarrow> ret secret
     | None \<Rightarrow> bnd (secretGenerator name (k_ns (g_env g))) (\<lambda>secret. CreateROrDie (g_env g) cSecret secret))"

definition ensureServiceOrDie :: "'w GerritCMDContext \<Rightarrow> service \<Rightarrow> ('w st, unit) prog" where
  "ensureServiceOrDie g service = ensure_created (g_env g) cService service"

text \<open>
  The wait for a job: \<open>left\<close> iterations are left, \<open>succeeded\<close> is what the last copy of the job says. The copy is not filled
  by the creation of the job, and the last refresh is not looked at.
\<close>

fun job_rounds :: "nat \<Rightarrow> 'w kctx \<Rightarrow> string \<Rightarrow> int \<Rightarrow> ('w st, unit) prog" where
  "job_rounds 0 env name succeeded = exit_with 1"
| "job_rounds (Suc left) env name succeeded =
     (if 1 \<le> succeeded then ret ()
      else bnd (sysc (s_sleep (k_sys env) (2 * second))) (\<lambda>_.
        bnd (GetOrDie env cJob name) (\<lambda>found.
          job_rounds left env name (case found of Some curJob \<Rightarrow> jo_succeeded curJob | None \<Rightarrow> succeeded))))"

definition ensureJobCompletedOrDie :: "'w GerritCMDContext \<Rightarrow> job \<Rightarrow> ('w st, unit) prog" where
  "ensureJobCompletedOrDie g job = bnd (GetOrDie (g_env g) cJob (om_name (jo_meta job))) (\<lambda>found.
     bnd (case found of Some _ \<Rightarrow> ret () | None \<Rightarrow> bnd (CreateROrDie (g_env g) cJob job) (\<lambda>_. ret ())) (\<lambda>_.
       job_rounds 60 (g_env g) (om_name (jo_meta job)) (case found of Some curJob \<Rightarrow> jo_succeeded curJob | None \<Rightarrow> 0)))"

definition ensureRouteOrDie :: "'w GerritCMDContext \<Rightarrow> route \<Rightarrow> ('w st, unit) prog" where
  "ensureRouteOrDie g route = ensure_created (g_env g) cRoute route"

definition ensureConfigMapOrDie :: "'w GerritCMDContext \<Rightarrow> string \<Rightarrow> gomap \<Rightarrow> ('w st, unit) prog" where
  "ensureConfigMapOrDie g name data =
     ensure_created (g_env g) cConfigMap \<lparr>cm_meta = mk_meta (name @ ''-config-map'') (k_ns (g_env g)), cm_data = data\<rparr>"

section \<open>The objects\<close>

definition gerrit_selector :: gomap where
  "gerrit_selector = Some (smap_of [(''app'', ''sf''), (''run'', gerritIdent)])"

definition gerritHttpdService :: "string \<Rightarrow> service" where
  "gerritHttpdService ns =
     \<lparr>sv_meta = mk_meta gerritHTTPDPortName ns,
      sv_spec = \<lparr>sv_type = [], sv_clusterIP = [], sv_publishNotReadyAddresses = False, sv_selector = gerrit_selector,
        sv_ports = [\<lparr>sp_name = gerritHTTPDPortName, sp_protocol = ''TCP'', sp_port = gerritHTTPDPort,
             sp_targetPort = FromString gerritHTTPDPortName\<rparr>,
           \<lparr>sp_name = gerritHTTPDPortName @ ''-internal-http'', sp_protocol = ''TCP'', sp_port = gerritHTTPPort,
             sp_targetPort = FromString gerritHTTPDPortName\<rparr>]\<rparr>\<rparr>"

definition gerritSshdService :: "string \<Rightarrow> service" where
  "gerritSshdService ns =
     \<lparr>sv_meta = mk_meta gerritSSHDPortName ns,
      sv_spec = \<lparr>sv_type = ''LoadBalancer'', sv_clusterIP = [], sv_publishNotReadyAddresses = False,
        sv_selector = gerrit_selector,
        sv_ports = [\<lparr>sp_name = gerritSSHDPortName, sp_protocol = ''TCP'', sp_port = gerritSSHDPort,
          sp_targetPort = FromInt 0\<rparr>]\<rparr>\<rparr>"

definition generateManageSFConfig :: "(string \<Rightarrow> string) \<Rightarrow> 'w kctx \<Rightarrow> string \<Rightarrow> string \<Rightarrow> ('w st, string) prog" where
  "generateManageSFConfig static r adminPassword fqdn =
     (case ParseString r (static ''static/config.py.tmpl'')
         (TStruct [(''Fqdn'', TText fqdn), (''GerritAdminPassword'', TText adminPassword)]) of
        Inl e \<Rightarrow> exit_with 1 | Inr template \<Rightarrow> ret template)"

definition ManageSFVolumes :: "volume list" where
  "ManageSFVolumes = [
     MkVolumeCM (managesfResourcesIdent @ ''-config-vol'') (managesfResourcesIdent @ ''-config-map''),
     \<lparr>vo_name = managesfResourcesIdent @ ''-tooling-vol'',
      vo_source = ConfigMapVolume (managesfResourcesIdent @ ''-tooling-config-map'') [] (Some Execmod)\<rparr>]"

definition managesf_mounts :: "volume_mount list" where
  "managesf_mounts = [mk_mount (managesfResourcesIdent @ ''-config-vol'') ''/etc/managesf'',
     mk_mount (managesfResourcesIdent @ ''-tooling-vol'') ''/usr/share/managesf'']"

definition ready_script :: "string list" where "ready_script = [''bash'', ''/gerrit/ready.sh'']"

definition configureGerritContainer :: "(string \<Rightarrow> string) \<Rightarrow> volume_mount list \<Rightarrow> string \<Rightarrow> HostAlias list \<Rightarrow>
    statefulset \<Rightarrow> statefulset" where
  "configureGerritContainer static volumeMounts fqdn hostAliases = sts_template
     (template_spec (\<lambda>p. p\<lparr>ps_hostAliases := CreateHostAliases hostAliases\<rparr>) \<circ>
      template_main (\<lambda>c. c\<lparr>
        ct_command := [''sh'', ''-c'', static ''static/entrypoint.sh''], ct_volumeMounts := volumeMounts,
        ct_ports := [MkContainerPort gerritHTTPDPort gerritHTTPDPortName, MkContainerPort gerritSSHDPort gerritSSHDPortName],
        ct_env := [MkEnvVar ''HOME'' ''/gerrit'', MkEnvVar ''FQDN'' fqdn, MkEnvVar ''JVM_XMS'' ''128m'',
          MkEnvVar ''JVM_XMX'' ''512m'', MkSecretEnvVar ''GERRIT_ADMIN_SSH'' ''admin-ssh-key'' ''priv''],
        ct_readinessProbe := Some (MkReadinessCMDProbe ready_script), ct_startupProbe := Some (MkStartupCMDProbe ready_script),
        ct_livenessProbe := Some (MkLivenessCMDProbe ready_script)\<rparr>))"

definition managesf_container :: "(string \<Rightarrow> string) \<Rightarrow> string \<Rightarrow> bool \<Rightarrow> string \<Rightarrow> container" where
  "managesf_container static fqdn openshiftUser img = (MkContainer managesfResourcesIdent img openshiftUser)\<lparr>
     ct_command := [''sh'', ''-c'', static ''static/msf-entrypoint.sh''],
     ct_env := [MkEnvVar ''HOME'' ''/tmp'', MkEnvVar ''FQDN'' fqdn, MkSecretEnvVar ''SF_ADMIN_SSH'' ''admin-ssh-key'' ''priv''],
     ct_volumeMounts := managesf_mounts\<rparr>"

definition addManageSFContainer :: "(string \<Rightarrow> string) \<Rightarrow> string \<Rightarrow> bool \<Rightarrow> statefulset \<Rightarrow> ('s, statefulset) prog" where
  "addManageSFContainer static fqdn openshiftUser sts = bnd BusyboxImage (\<lambda>img.
     ret (sts_template (template_spec (\<lambda>p. p\<lparr>ps_containers := ps_containers p @
       [managesf_container static fqdn openshiftUser img]\<rparr>)) sts))"

definition addManageSFVolumes :: "statefulset \<Rightarrow> statefulset" where
  "addManageSFVolumes = sts_template (template_spec (\<lambda>p. p\<lparr>ps_volumes := ps_volumes p @ ManageSFVolumes\<rparr>))"

definition createPostInitContainer :: "(string \<Rightarrow> string) \<Rightarrow> string \<Rightarrow> string \<Rightarrow> bool \<Rightarrow> ('s, container) prog" where
  "createPostInitContainer static jobName fqdn openshiftUser = bnd BusyboxImage (\<lambda>img.
     ret ((MkContainer (jobName @ ''-container'') img openshiftUser)\<lparr>
       ct_command := [''sh'', ''-c'', static ''static/post-init.sh''],
       ct_env := [MkEnvVar ''HOME'' ''/tmp'', MkEnvVar ''FQDN'' fqdn,
         MkSecretEnvVar ''GERRIT_ADMIN_SSH'' ''admin-ssh-key'' ''priv'',
         MkSecretEnvVar ''GERRIT_ADMIN_API_KEY'' ''gerrit-admin-api-key'' ''gerrit-admin-api-key'',
         MkSecretEnvVar ''ZUUL_SSH_PUB_KEY'' ''zuul-ssh-key'' ''pub'',
         MkSecretEnvVar ''ZUUL_HTTP_PASSWORD'' ''zuul-gerrit-api-key'' ''zuul-gerrit-api-key''],
       ct_volumeMounts := managesf_mounts\<rparr>))"

definition gerrit_limits :: "container \<Rightarrow> container" where
  "gerrit_limits = SetContainerLimits (qty_Mi 512) (qty_Mi 768) (qty_m 100) \<lparr>q_milli = 1000, q_text = ''1''\<rparr>"

definition createInitContainers :: "(string \<Rightarrow> string) \<Rightarrow> volume_mount list \<Rightarrow> string \<Rightarrow> bool \<Rightarrow> container list" where
  "createInitContainers static volumeMounts fqdn openshiftUser =
     [gerrit_limits ((MkContainer ''gerrit-init'' gerritImage openshiftUser)\<lparr>
        ct_command := [''sh'', ''-c'', static ''static/init.sh''],
        ct_env := [MkSecretEnvVar ''GERRIT_ADMIN_SSH_PUB'' ''admin-ssh-key'' ''pub'', MkEnvVar ''FQDN'' fqdn,
          MkEnvVar ''JVM_XMS'' ''256m'', MkEnvVar ''JVM_XMX'' ''512m''],
        ct_volumeMounts := volumeMounts\<rparr>)]"

section \<open>The deployment\<close>

definition post_init_job :: "(string \<Rightarrow> string) \<Rightarrow> 'w GerritCMDContext \<Rightarrow> pod_security_context \<Rightarrow> ('s, job) prog" where
  "post_init_job static g psc =
     bnd (createPostInitContainer static ''post-init'' (g_fqdn g) (k_isOpenShift (g_env g))) (\<lambda>c.
       let job = MkJob psc ''post-init'' (k_ns (g_env g)) c (Some fmempty) in
       ret (job\<lparr>jo_template := template_spec (\<lambda>p. p\<lparr>ps_volumes := ManageSFVolumes\<rparr>) (jo_template job)\<rparr>))"

definition ensureGerritPostInitJobOrDie :: "(string \<Rightarrow> string) \<Rightarrow> 'w GerritCMDContext \<Rightarrow> ('w st, unit) prog" where
  "ensureGerritPostInitJobOrDie static g = bnd (reads st_podSC) (\<lambda>psc.
     bnd (post_init_job static g psc) (\<lambda>job. ensureJobCompletedOrDie g job))"

definition getStatefulSetOrDie :: "'w GerritCMDContext \<Rightarrow> string \<Rightarrow> ('w st, statefulset option) prog" where
  "getStatefulSetOrDie g name = GetOrDie (g_env g) cStatefulSet name"

definition isStatefulSetReady :: "'w GerritCMDContext \<Rightarrow> string \<Rightarrow> ('w st, bool) prog" where
  "isStatefulSetReady g name = bnd (getStatefulSetOrDie g name) (\<lambda>found. case found of
       None \<Rightarrow> ret False | Some sts \<Rightarrow> IsStatefulSetRolloutDone sts)"

definition gerrit_sts :: "(string \<Rightarrow> string) \<Rightarrow> 'w GerritCMDContext \<Rightarrow> HostAlias list \<Rightarrow> pod_security_context \<Rightarrow>
    ('s, statefulset) prog" where
  "gerrit_sts static g hostAliases psc =
     (let name = gerritIdent; openshift = k_isOpenShift (g_env g); ns = k_ns (g_env g);
          c = gerrit_limits (MkContainer name gerritImage openshift);
          storageConfig = BaseGetStorageConfOrDefault zero_StorageSpec zero_StorageDefaultSpec;
          pvc = MkPVC name ns storageConfig ''ReadWriteOnce'';
          sts = MkStatefulset psc name ns 1 name c pvc (Some fmempty);
          volumeMounts = [mk_mount name gerritSiteMountPath];
          sts1 = configureGerritContainer static volumeMounts (g_fqdn g) hostAliases sts;
          sts2 = sts_template (template_spec (\<lambda>p. p\<lparr>ps_initContainers :=
            createInitContainers static volumeMounts (g_fqdn g) openshift\<rparr>)) sts1 in
      bnd (addManageSFContainer static (g_fqdn g) openshift sts2) (\<lambda>sts3. ret (addManageSFVolumes sts3)))"

definition ensureStatefulSetOrDie :: "(string \<Rightarrow> string) \<Rightarrow> 'w GerritCMDContext \<Rightarrow> HostAlias list \<Rightarrow> ('w st, unit) prog" where
  "ensureStatefulSetOrDie static g hostAliases = bnd (getStatefulSetOrDie g gerritIdent) (\<lambda>found. case found of
       Some _ \<Rightarrow> ret ()
     | None \<Rightarrow> bnd (reads st_podSC) (\<lambda>psc. bnd (gerrit_sts static g hostAliases psc) (\<lambda>sts.
         bnd (CreateROrDie (g_env g) cStatefulSet sts) (\<lambda>_. ret ()))))"

definition ensureGerritRouteOrDie :: "'w GerritCMDContext \<Rightarrow> ('w st, unit) prog" where
  "ensureGerritRouteOrDie g = (let name = ''gerrit'' in
     ensureRouteOrDie g (MkHTTPSRoute name (k_ns (g_env g)) (name @ ''.'' @ g_fqdn g) gerritHTTPDPortName ''/'' gerritHTTPDPort
       (Some fmempty)))"

definition ensureGerritIngressOrDie :: "'w GerritCMDContext \<Rightarrow> ('w st, unit) prog" where
  "ensureGerritIngressOrDie g = bnd (EnsureSelfSignCert (g_env g)) (\<lambda>_.
     ensure_created (g_env g) cIngress (MkHTTPSIngress (k_ns (g_env g)) ''gerrit-ingress'' (''gerrit.'' @ g_fqdn g)
       gerritHTTPDPortName gerritHTTPDPort (Some fmempty)))"

text \<open>Errors of the lookup other than a missing namespace are ignored.\<close>

definition ensureNamespaceOrDie :: "'w kctx \<Rightarrow> ('w st, unit) prog" where
  "ensureNamespaceOrDie env = bnd (sysc (s_get (k_sys env) KNamespace [] (k_ns env))) (\<lambda>res. case res of
       Inr _ \<Rightarrow> ret ()
     | Inl e \<Rightarrow> if IsNotFound e
         then bnd (client_Create env False cNamespace \<lparr>nm_meta = mk_meta (k_ns env) []\<rparr>) (\<lambda>res. case res of
           Inl e \<Rightarrow> exit_with 1 | Inr _ \<Rightarrow> ret ())
         else ret ())"

fun await_sts :: "nat \<Rightarrow> 'w GerritCMDContext \<Rightarrow> ('w st, unit) prog" where
  "await_sts 0 g = stuck"
| "await_sts (Suc fuel) g = bnd (isStatefulSetReady g gerritIdent) (\<lambda>ready.
     if ready then ret () else bnd (sysc (s_sleep (k_sys (g_env g)) (10 * second))) (\<lambda>_. await_sts fuel g))"

definition EnsureGerrit :: "nat \<Rightarrow> (string \<Rightarrow> string) \<Rightarrow> 'w kctx \<Rightarrow> string \<Rightarrow> HostAlias list \<Rightarrow> ('w st, unit) prog" where
  "EnsureGerrit fuel static env fqdn hostAliases =
     bnd (ensureNamespaceOrDie env) (\<lambda>_.
     let g = \<lparr>g_env = env, g_fqdn = fqdn\<rparr>; adminAPIKeyName = ''gerrit-admin-api-key'' in
     bnd (ensureSecretOrDie g ''admin-ssh-key'' (MkSSHKeySecret env)) (\<lambda>_.
     bnd (ensureSecretOrDie g ''zuul-ssh-key'' (MkSSHKeySecret env)) (\<lambda>_.
     bnd (ensureSecretOrDie g adminAPIKeyName (createAPIKeySecret env)) (\<lambda>adminAPIKeySecret.
     bnd (ensureSecretOrDie g ''zuul-gerrit-api-key'' (createAPIKeySecret env)) (\<lambda>_.
     bnd (ensureServiceOrDie g (gerritHttpdService (k_ns env))) (\<lambda>_.
     bnd (ensureServiceOrDie g (gerritSshdService (k_ns env))) (\<lambda>_.
     bnd (generateManageSFConfig static env (or_empty (GetValueFromKeySecret adminAPIKeySecret adminAPIKeyName)) fqdn) (\<lambda>config.
     bnd (ensureConfigMapOrDie g managesfResourcesIdent (Some (smap_of [(''config.py'', config)]))) (\<lambda>_.
     bnd (ensureConfigMapOrDie g (managesfResourcesIdent @ ''-tooling'') (Some (smap_of
        [(''create-repo.sh'', static ''static/create-repo.sh''), (''create-ci-user.sh'', static ''static/create-ci-user.sh'')]))) (\<lambda>_.
     bnd (ensureStatefulSetOrDie static g hostAliases) (\<lambda>_.
     bnd (await_sts fuel g) (\<lambda>_.
     bnd (ensureGerritPostInitJobOrDie static g) (\<lambda>_.
       if k_isOpenShift env then ensureGerritRouteOrDie g else ensureGerritIngressOrDie g)))))))))))))"

section \<open>Wiping\<close>

definition delete_named :: "'w kctx \<Rightarrow> 'o codec \<Rightarrow> string \<Rightarrow> ('w st, unit) prog" where
  "delete_named env C name = bnd (DeleteOrDie env C (mk_meta name (k_ns env))) (\<lambda>_. ret ())"

definition WipeGerrit :: "'w kctx \<Rightarrow> bool \<Rightarrow> ('w st, unit) prog" where
  "WipeGerrit env rmData =
     bnd (if k_isOpenShift env then delete_named env cRoute ''gerrit'' else ret ()) (\<lambda>_.
     bnd (for_each (delete_named env cSecret)
        [''admin-ssh-key'', ''zuul-ssh-key'', ''gerrit-admin-api-key'', ''zuul-gerrit-api-key'']) (\<lambda>_.
     bnd (for_each (delete_named env cService) [gerritHTTPDPortName, gerritSSHDPortName]) (\<lambda>_.
     bnd (for_each (delete_named env cConfigMap)
        [managesfResourcesIdent @ ''-config-map'', managesfResourcesIdent @ ''-tooling-config-map'']) (\<lambda>_.
     bnd (delete_named env cStatefulSet gerritIdent) (\<lambda>_.
     bnd (delete_named env cJob ''post-init'') (\<lambda>_.
       if rmData then delete_named env cPVC ''gerrit-gerrit-0'' else ret ()))))))"

section \<open>Repositories\<close>

definition GetAdminRepoURL :: "'w kctx \<Rightarrow> string \<Rightarrow> string \<Rightarrow> ('w st, string) prog" where
  "GetAdminRepoURL env fqdn repoName = bnd (GetOrDie env cSecret ''gerrit-admin-api-key'') (\<lambda>found. case found of
       None \<Rightarrow> exit_with 1
     | Some gerritAPIKey \<Rightarrow> ret (''https://admin:'' @ gm_get (se_data gerritAPIKey) ''gerrit-admin-api-key'' @
         ''@gerrit.'' @ fqdn @ ''/a/'' @ repoName))"

definition git :: "'w tools \<Rightarrow> string list \<Rightarrow> ('w st, unit) prog" where
  "git x args = bnd (RunCmdOrDie x ''git'' args) (\<lambda>_. ret ())"

definition CloneAsAdmin :: "'w tools \<Rightarrow> 'w kctx \<Rightarrow> string \<Rightarrow> string \<Rightarrow> string \<Rightarrow> bool \<Rightarrow> ('w st, unit) prog" where
  "CloneAsAdmin x env fqdn repoName dest verify = bnd (GetAdminRepoURL env fqdn repoName) (\<lambda>repoURL.
     bnd (sysc (t_stat x (path_Join dest ''.git''))) (\<lambda>err.
     bnd (case err of
         Some (Missing _) \<Rightarrow>
           bnd (git x ((if \<not> verify then [''-c'', ''http.sslVerify=false''] else []) @ [''clone'', repoURL, dest])) (\<lambda>_.
             git x [''-C'', dest, ''remote'', ''add'', ''gerrit'', repoURL])
       | _ \<Rightarrow> for_each (git x) [[''-C'', dest, ''remote'', ''set-url'', ''origin'', repoURL],
           [''-C'', dest, ''remote'', ''set-url'', ''gerrit'', repoURL], [''-C'', dest, ''fetch'', ''origin'']]) (\<lambda>_.
     bnd (for_each (git x) [[''-C'', dest, ''config'', ''user.email'', ''admin@'' @ fqdn],
        [''-C'', dest, ''config'', ''user.name'', ''admin''], [''-C'', dest, ''reset'', ''--hard'', ''origin/master'']]) (\<lambda>_.
       if \<not> verify then git x [''-C'', dest, ''config'', ''http.sslverify'', ''false''] else ret ()))))"

text \<open>The wait for the server: \<open>left\<close> is how many attempts may follow the current one, 10 for the first.\<close>

definition response_ok :: "string + http_response \<Rightarrow> bool" where
  "response_ok resp = (case resp of Inl _ \<Rightarrow> False | Inr h \<Rightarrow> hr_StatusCode h < 400)"

fun gerrit_attempts :: "nat \<Rightarrow> 'w tools \<Rightarrow> string \<Rightarrow> ('w st, unit) prog" where
  "gerrit_attempts left x fqdn = bnd (sysc (t_httpGet x False (''https://gerrit.'' @ fqdn @ ''/projects/''))) (\<lambda>resp.
     if response_ok resp then ret ()
     else case left of
         0 \<Rightarrow> exit_with 1
       | Suc n \<Rightarrow> bnd (sysc (t_sleep x (6 * second))) (\<lambda>_. gerrit_attempts n x fqdn))"

declare gerrit_attempts.simps [simp del]

definition EnsureGerritAccess :: "'w tools \<Rightarrow> string \<Rightarrow> ('w st, unit) prog" where
  "EnsureGerritAccess x fqdn = gerrit_attempts 10 x fqdn"

section \<open>Fuel\<close>

text \<open>\<open>extends m n\<close>: a run of \<open>m\<close> that does not run out of fuel is one of \<open>n\<close>.\<close>

definition extends :: "('s, 'a) prog \<Rightarrow> ('s, 'a) prog \<Rightarrow> bool" where
  "extends m n \<longleftrightarrow> (\<forall>s. fst (m s) \<noteq> Stuck \<longrightarrow> n s = m s)"

lemma extends_refl: "extends m m"
  by (simp add: extends_def)

lemma extends_bnd: "extends m n \<Longrightarrow> (\<And>a. extends (f a) (g a)) \<Longrightarrow> extends (bnd m f) (bnd n g)"
  unfolding extends_def bnd_def by (auto split: prod.splits outcome.splits)

lemma await_sts_more: "extends (await_sts fuel g) (await_sts (fuel + k) g)"
proof (induction fuel)
  case 0
  show ?case by (simp add: extends_def stuck_def)
next
  case (Suc fuel)
  then show ?case
    unfolding add_Suc await_sts.simps by (intro extends_bnd extends_refl) (auto intro!: extends_bnd extends_refl)
qed

text \<open>A deployment of Gerrit that ends does not depend on the fuel of the wait.\<close>

lemma ensureGerrit_more: "extends (EnsureGerrit fuel static r fqdn ha) (EnsureGerrit (fuel + k) static r fqdn ha)"
  unfolding EnsureGerrit_def Let_def by (intro extends_bnd extends_refl await_sts_more)

section \<open>What the commands change\<close>

text \<open>
  The objects of Gerrit that both commands know, and the way into the cluster: a route, or an ingress with its certificate.
\<close>

definition gerrit_core :: "string \<Rightarrow> kref list" where
  "gerrit_core ns =
     map (kref_of KSecret ns) [''admin-ssh-key'', ''zuul-ssh-key'', ''gerrit-admin-api-key'', ''zuul-gerrit-api-key''] @
     map (kref_of KService ns) [gerritHTTPDPortName, gerritSSHDPortName] @
     map (kref_of KConfigMap ns) [managesfResourcesIdent @ ''-config-map'', managesfResourcesIdent @ ''-tooling-config-map''] @
     [kref_of KStatefulSet ns gerritIdent, kref_of KJob ns ''post-init'']"

definition gerrit_entry :: "'w kctx \<Rightarrow> kref list" where
  "gerrit_entry env = (if k_isOpenShift env then [kref_of KRoute (k_ns env) ''gerrit'']
     else [kref_of KIngress (k_ns env) ''gerrit-ingress'', kref_of KSecret (k_ns env) ''self-signed-cert''])"

definition gerrit_refs :: "'w kctx \<Rightarrow> kref set" where
  "gerrit_refs env = set (gerrit_core (k_ns env) @ gerrit_entry env)"

definition wiped_refs :: "'w kctx \<Rightarrow> bool \<Rightarrow> kref set" where
  "wiped_refs env rmData = set (gerrit_core (k_ns env)) \<union>
     (if k_isOpenShift env then {kref_of KRoute (k_ns env) ''gerrit''} else {}) \<union>
     (if rmData then {kref_of KPVC (k_ns env) ''gerrit-gerrit-0''} else {})"

lemma yields_meta:
  "yields (\<lambda>se. om_name (se_meta se) = n) (MkSSHKeySecret r n ns)"
  "yields (\<lambda>se. om_name (se_meta se) = n) (createAPIKeySecret r n ns)"
  "yields (\<lambda>jo. om_name (jo_meta jo) = ''post-init'') (post_init_job static g psc)"
  unfolding MkSSHKeySecret_def createAPIKeySecret_def MkSecretFromFunc_def post_init_job_def createPostInitContainer_def Let_def
  by (intro yields_then yields_ret, simp add: mk_meta_def MkJob_def)+

lemma yields_sts: "yields (\<lambda>ss. om_name (ss_meta ss) = gerritIdent) (gerrit_sts static g ha psc)"
  by (simp add: gerrit_sts_def addManageSFContainer_def Let_def yields_ret addManageSFVolumes_def sts_template_def
      configureGerritContainer_def MkStatefulset_def mk_meta_def del: run_simps)

text \<open>The creation of a secret or of a stateful set that a program builds.\<close>

context kube_client
begin

lemma build_adds:
  assumes "codec_laws C" and "yields (\<lambda>ob. om_name (c_meta C ob) = n) m" and "within (adds store X) m"
    and "kref_of (c_kind C) (k_ns r) n \<in> X"
  shows "within (adds store X) (bnd m (CreateROrDie r C))"
  by (rule add.within_bnd_post [OF assms(3)]) (use assms in \<open>auto intro!: createOrDie_adds dest: yieldsD\<close>)

lemma key_touches: "within (touches store X) (MkSSHKeySecret r n ns)" "within (touches store X) (createAPIKeySecret r n ns)"
  unfolding MkSSHKeySecret_def MkSSHKey_def createAPIKeySecret_def MkSecretFromFunc_def NewUUIDString_def
  by (intro touch.within_rules sysc_rsa sysc_uuid)+

lemma ensureSecret_adds:
  assumes "g_env g = r" and "kref_of KSecret (k_ns r) n \<in> X"
    and "yields (\<lambda>se. om_name (se_meta se) = n) (gen n (k_ns r))" and "within (touches store {}) (gen n (k_ns r))"
  shows "within (adds store X) (ensureSecretOrDie g n gen)"
  unfolding ensureSecretOrDie_def assms(1)
  by (intro add.within_rules getOrDie_adds build_adds [where n = n] adds_frame [OF assms(4)] codec_axioms)
    (use assms in \<open>simp_all add: cSecret_def\<close>)

end

context waiting_client
begin

lemma jobRounds_adds: "within (adds store X) (job_rounds n r name done)"
  by (induction n arbitrary: "done") (auto intro!: add.within_rules sleep_adds getOrDie_adds)

lemma isReady_touches: "g_env g = r \<Longrightarrow> within (touches store X) (isStatefulSetReady g name)"
  unfolding isStatefulSetReady_def getStatefulSetOrDie_def IsStatefulSetRolloutDone_def
  by (intro touch.within_rules) (simp add: getOrDie_touches)

lemma awaitSts_adds:
  assumes "g_env g = r"
  shows "within (adds store X) (await_sts n g)"
proof (induction n)
  case 0
  show ?case unfolding await_sts.simps by (rule add.within_stuck)
next
  case (Suc n)
  show ?case unfolding await_sts.simps assms by (intro add.within_rules sleep_adds adds_frame [OF isReady_touches [OF assms]] Suc)
qed

lemma jobCompleted_adds:
  assumes "g_env g = r" and "kref_of KJob (k_ns r) (om_name (jo_meta job)) \<in> X"
  shows "within (adds store X) (ensureJobCompletedOrDie g job)"
  unfolding ensureJobCompletedOrDie_def assms(1)
  by (intro add.within_rules getOrDie_adds createOrDie_adds jobRounds_adds codec_axioms)
    (use assms(2) in \<open>simp add: cJob_def\<close>)

lemma postInit_adds:
  assumes "g_env g = r" and "kref_of KJob (k_ns r) ''post-init'' \<in> X"
  shows "within (adds store X) (ensureGerritPostInitJobOrDie static g)"
  unfolding ensureGerritPostInitJobOrDie_def
proof (rule add.within_bnd [OF add.within_reads], rule add.within_bnd_post)
  fix psc :: pod_security_context
  show "within (adds store X) (post_init_job static g psc)"
    unfolding post_init_job_def createPostInitContainer_def Let_def by (simp add: add.within_ret del: run_simps)
  fix s job t assume "post_init_job static g psc s = (Ok job, t)"
  with yields_meta(3) [of static g psc] have "om_name (jo_meta job) = ''post-init''" by (auto dest: yieldsD)
  with assms show "within (adds store X) (ensureJobCompletedOrDie g job)" by (intro jobCompleted_adds) simp_all
qed

lemma gerritSts_adds:
  assumes "g_env g = r" and "kref_of KStatefulSet (k_ns r) gerritIdent \<in> X"
  shows "within (adds store X) (ensureStatefulSetOrDie static g ha)"
proof -
  have sts: "within (adds store X) (gerrit_sts static g ha psc)" for psc
    by (simp add: gerrit_sts_def addManageSFContainer_def Let_def add.within_ret del: run_simps)
  have "within (adds store X) (bnd (gerrit_sts static g ha psc) (\<lambda>sts. bnd (CreateROrDie r cStatefulSet sts) (\<lambda>_. ret ())))" for psc
    unfolding bnd_assoc [symmetric]
    by (rule add.within_bnd [OF build_adds [where n = gerritIdent] add.within_ret])
      (use sts assms yields_sts in \<open>simp_all add: codec_axioms\<close>)
  then show ?thesis
    unfolding ensureStatefulSetOrDie_def getStatefulSetOrDie_def assms(1)
    by (intro add.within_bnd [OF getOrDie_adds] add.within_option add.within_ret add.within_bnd [OF add.within_reads])
qed

lemma namespace_adds: "kref_of KNamespace [] (k_ns r) \<in> X \<Longrightarrow> within (adds store X) (ensureNamespaceOrDie r)"
  unfolding ensureNamespaceOrDie_def
  by (intro add.within_rules adds_frame [OF sysc_get] client_Create_adds) (simp add: oref_def cNamespace_def mk_meta_def)

end

context kube_client
begin

lemma ensureKinds_adds:
  assumes "g_env g = r"
  shows "kref_of KService (k_ns r) (om_name (sv_meta sv)) \<in> X \<Longrightarrow> within (adds store X) (ensureServiceOrDie g sv)"
    and "kref_of KConfigMap (k_ns r) (n @ ''-config-map'') \<in> X \<Longrightarrow> within (adds store X) (ensureConfigMapOrDie g n d)"
    and "kref_of KRoute (k_ns r) ''gerrit'' \<in> X \<Longrightarrow> within (adds store X) (ensureGerritRouteOrDie g)"
    and "kref_of KIngress (k_ns r) ''gerrit-ingress'' \<in> X \<Longrightarrow> kref_of KSecret (k_ns r) ''self-signed-cert'' \<in> X \<Longrightarrow>
      within (adds store X) (ensureGerritIngressOrDie g)"
  unfolding ensureServiceOrDie_def ensureConfigMapOrDie_def ensureGerritRouteOrDie_def ensureRouteOrDie_def Let_def
    ensureGerritIngressOrDie_def assms
  by (intro add.within_bnd selfSignCert_adds ensure_created_adds codec_axioms;
      simp add: MkHTTPSRoute_def MkHTTPSIngress_def mk_meta_def)+

end

lemma gerrit_members:
  "n \<in> {''admin-ssh-key'', ''zuul-ssh-key'', ''gerrit-admin-api-key'', ''zuul-gerrit-api-key''} \<Longrightarrow> kref_of KSecret (k_ns r) n \<in> gerrit_refs r"
  "n \<in> {gerritHTTPDPortName, gerritSSHDPortName} \<Longrightarrow> kref_of KService (k_ns r) n \<in> gerrit_refs r"
  "n \<in> {managesfResourcesIdent, managesfResourcesIdent @ ''-tooling''} \<Longrightarrow> kref_of KConfigMap (k_ns r) (n @ ''-config-map'') \<in> gerrit_refs r"
  "kref_of KConfigMap (k_ns r) (managesfResourcesIdent @ ''-tooling-config-map'') \<in> gerrit_refs r"
  "kref_of KStatefulSet (k_ns r) gerritIdent \<in> gerrit_refs r" "kref_of KJob (k_ns r) ''post-init'' \<in> gerrit_refs r"
  "k_isOpenShift r \<Longrightarrow> kref_of KRoute (k_ns r) ''gerrit'' \<in> gerrit_refs r"
  "\<not> k_isOpenShift r \<Longrightarrow> kref_of KIngress (k_ns r) ''gerrit-ingress'' \<in> gerrit_refs r"
  "\<not> k_isOpenShift r \<Longrightarrow> kref_of KSecret (k_ns r) ''self-signed-cert'' \<in> gerrit_refs r"
  by (auto simp: gerrit_refs_def gerrit_core_def gerrit_entry_def)

lemma gerrit_service_names:
  "om_name (sv_meta (gerritHttpdService ns)) = gerritHTTPDPortName" "om_name (sv_meta (gerritSshdService ns)) = gerritSSHDPortName"
  by (simp_all add: gerritHttpdService_def gerritSshdService_def mk_meta_def)

context waiting_client
begin

lemmas gerrit_parts_adds = namespace_adds ensureSecret_adds ensureKinds_adds gerritSts_adds awaitSts_adds postInit_adds

lemma ensureGerrit_adds:
  "within (adds store (insert (kref_of KNamespace [] (k_ns r)) (gerrit_refs r))) (EnsureGerrit fuel static r fqdn ha)"
  unfolding EnsureGerrit_def Let_def generateManageSFConfig_def
  by (intro add.within_rules gerrit_parts_adds key_touches yields_meta)
    (simp_all add: gerrit_members gerrit_service_names)

end

context healthy_client
begin

lemma build_brings:
  assumes "codec_laws C" and "yields (\<lambda>ob. om_name (c_meta C ob) = n) m"
  shows "brings store {kref_of (c_kind C) (k_ns r) n} (bnd m (CreateROrDie r C))"
  unfolding brings_def bnd_eq_Ok
proof (intro allI impI)
  fix s b u assume "\<exists>ob t. m s = (Ok ob, t) \<and> CreateROrDie r C ob t = (Ok b, u)"
  then obtain ob t where ob: "m s = (Ok ob, t)" "CreateROrDie r C ob t = (Ok b, u)" by blast
  have "om_name (c_meta C ob) = n" by (rule yieldsD [OF assms(2) ob(1)])
  with createOrDie_brings [OF assms(1), of _ ob] ob(2)
  show "\<forall>y\<in>{kref_of (c_kind C) (k_ns r) n}. fst y \<noteq> KPod \<longrightarrow> store (st_world u) y \<noteq> None" unfolding brings_def by blast
qed

lemma brings_unit: "brings store X m \<Longrightarrow> brings store X (bnd m (\<lambda>_. ret ()))"
  using brings_bnd [of store X m "{}" "\<lambda>_. ret ()" "{}"] by (simp add: add.within_ret brings_none)

lemma ensureSecret_brings:
  assumes "g_env g = r" and "yields (\<lambda>se. om_name (se_meta se) = n) (gen n (k_ns r))"
  shows "brings store {kref_of KSecret (k_ns r) n} (ensureSecretOrDie g n gen)"
  unfolding ensureSecretOrDie_def assms(1) codec_kind_simps(2) [symmetric]
proof (rule getOrDie_brings [OF codec_axioms(2), where Z = "{}"])
  show "within (adds store {}) (case Some se of Some secret \<Rightarrow> ret secret | None \<Rightarrow> m)" for se m
    by (simp add: add.within_ret)
  show "brings store {kref_of (c_kind cSecret) (k_ns r) n} (case None of Some secret \<Rightarrow> ret secret | None \<Rightarrow>
      bnd (gen n (k_ns r)) (\<lambda>secret. CreateROrDie r cSecret secret))"
    using build_brings [OF codec_axioms(2), of n "gen n (k_ns r)"] assms(2) by simp
qed

lemma ensureKinds_brings:
  assumes "g_env g = r"
  shows "brings store {kref_of KService (k_ns r) (om_name (sv_meta sv))} (ensureServiceOrDie g sv)"
    and "brings store {kref_of KConfigMap (k_ns r) (n @ ''-config-map'')} (ensureConfigMapOrDie g n d)"
    and "brings store {kref_of KRoute (k_ns r) ''gerrit''} (ensureGerritRouteOrDie g)"
    and "brings store {kref_of KIngress (k_ns r) ''gerrit-ingress'', kref_of KSecret (k_ns r) ''self-signed-cert''}
      (ensureGerritIngressOrDie g)"
proof -
  show "brings store {kref_of KService (k_ns r) (om_name (sv_meta sv))} (ensureServiceOrDie g sv)"
    unfolding ensureServiceOrDie_def assms by (rule ensure_created_brings) (simp_all add: codec_axioms)
  show "brings store {kref_of KConfigMap (k_ns r) (n @ ''-config-map'')} (ensureConfigMapOrDie g n d)"
    unfolding ensureConfigMapOrDie_def assms
    by (rule ensure_created_brings) (simp_all add: codec_axioms mk_meta_def)
  show "brings store {kref_of KRoute (k_ns r) ''gerrit''} (ensureGerritRouteOrDie g)"
    unfolding ensureGerritRouteOrDie_def ensureRouteOrDie_def assms Let_def
    by (rule ensure_created_brings) (simp_all add: codec_axioms MkHTTPSRoute_def mk_meta_def)
  have cert: "brings store {kref_of KSecret (k_ns r) ''self-signed-cert''} (EnsureSelfSignCert r)"
    unfolding EnsureSelfSignCert_def codec_kind_simps(2) [symmetric]
  proof (rule getOrDie_brings [OF codec_axioms(2), where Z = "{}"])
    show "within (adds store {}) (case Some se of Some _ \<Rightarrow> ret () | None \<Rightarrow> m)" for se :: secret and m
      by (simp add: add.within_ret)
    have "brings store {kref_of (c_kind cSecret) (k_ns r) ''self-signed-cert''}
        (bnd (CreateROrDie r cSecret (self_signed_secret r der priv)) (\<lambda>_. ret ()))" for der priv
      by (intro brings_unit createOrDie_brings codec_axioms) (simp add: self_signed_secret_def mk_meta_def)
    moreover have "brings store X (exit_with n)" for X n by (simp add: brings_def)
    ultimately show "brings store {kref_of (c_kind cSecret) (k_ns r) ''self-signed-cert''} (case None of Some _ \<Rightarrow> ret () | None \<Rightarrow>
        bnd (sysc (s_rsaKey (k_sys r) 2048)) (\<lambda>key. case key of Inl e \<Rightarrow> exit_with 1 | Inr priv \<Rightarrow>
          bnd (sysc (s_now (k_sys r))) (\<lambda>now. bnd (sysc (s_now (k_sys r))) (\<lambda>now'.
          let template = self_signed_template r now now' in
          bnd (sysc (s_certificate (k_sys r) template template priv priv)) (\<lambda>cert. case cert of Inl e \<Rightarrow> exit_with 1
            | Inr der \<Rightarrow> (case s_pkcs8 (k_sys r) priv of Inl e \<Rightarrow> exit_with 1
              | Inr pk \<Rightarrow> bnd (CreateROrDie r cSecret (self_signed_secret r der pk)) (\<lambda>_. ret ())))))))"
      unfolding Let_def by (auto intro!: brings_then split: sum.split)
  qed
  show "brings store {kref_of KIngress (k_ns r) ''gerrit-ingress'', kref_of KSecret (k_ns r) ''self-signed-cert''} (ensureGerritIngressOrDie g)"
    unfolding ensureGerritIngressOrDie_def assms insert_commute [of "kref_of KIngress _ _"]
    by (rule brings_insert [OF cert ensure_created_adds [where X = UNIV] ensure_created_brings])
      (simp_all add: codec_axioms MkHTTPSIngress_def mk_meta_def)
qed

end

context waiting_healthy_client
begin

lemma gerritSts_brings:
  assumes "g_env g = r"
  shows "brings store {kref_of KStatefulSet (k_ns r) gerritIdent} (ensureStatefulSetOrDie static g ha)"
  unfolding ensureStatefulSetOrDie_def getStatefulSetOrDie_def assms codec_kind_simps(4) [symmetric]
proof (rule getOrDie_brings [OF codec_axioms(4), where Z = "{}"])
  show "within (adds store {}) (case Some ss of Some _ \<Rightarrow> ret () | None \<Rightarrow> m)" for ss :: statefulset and m
    by (simp add: add.within_ret)
  have "brings store {kref_of (c_kind cStatefulSet) (k_ns r) gerritIdent}
      (bnd (gerrit_sts static g ha psc) (\<lambda>sts. bnd (CreateROrDie r cStatefulSet sts) (\<lambda>_. ret ())))" for psc
    unfolding bnd_assoc [symmetric]
    by (intro brings_unit build_brings codec_axioms) (simp add: yields_sts)
  then show "brings store {kref_of (c_kind cStatefulSet) (k_ns r) gerritIdent} (case None of Some _ \<Rightarrow> ret () | None \<Rightarrow>
      bnd (reads st_podSC) (\<lambda>psc. bnd (gerrit_sts static g ha psc) (\<lambda>sts. bnd (CreateROrDie r cStatefulSet sts) (\<lambda>_. ret ()))))"
    by (auto intro: brings_then)
qed

lemma jobCompleted_brings:
  assumes "g_env g = r"
  shows "brings store {kref_of KJob (k_ns r) (om_name (jo_meta job))} (ensureJobCompletedOrDie g job)"
  unfolding ensureJobCompletedOrDie_def assms codec_kind_simps(9) [symmetric]
proof (rule getOrDie_brings [OF codec_axioms(9), where Z = "{}"])
  let ?y = "kref_of (c_kind cJob) (k_ns r) (om_name (jo_meta job))"
  show "within (adds store {}) (bnd (case Some cur of Some _ \<Rightarrow> ret () | None \<Rightarrow> m) (\<lambda>_. job_rounds n r nm k))"
    for cur :: job and m n nm k
    by (simp add: jobRounds_adds)
  show "brings store {?y} (bnd (case None of Some _ \<Rightarrow> ret () | None \<Rightarrow> bnd (CreateROrDie r cJob job) (\<lambda>_. ret ()))
      (\<lambda>_. job_rounds 60 r (om_name (jo_meta job)) (case None of Some cur \<Rightarrow> jo_succeeded cur | None \<Rightarrow> 0)))"
    using brings_bnd [OF createOrDie_brings [OF codec_axioms(9) refl, of job] jobRounds_adds brings_none]
    by (simp add: bnd_assoc)
qed

lemma postInit_brings:
  assumes "g_env g = r"
  shows "brings store {kref_of KJob (k_ns r) ''post-init''} (ensureGerritPostInitJobOrDie static g)"
  unfolding ensureGerritPostInitJobOrDie_def brings_def bnd_eq_Ok
proof (intro allI impI)
  fix s b u
  assume "\<exists>psc t. reads st_podSC s = (Ok psc, t) \<and> (\<exists>job v. post_init_job static g psc t = (Ok job, v) \<and> ensureJobCompletedOrDie g job v = (Ok b, u))"
  then obtain psc t job v where run: "post_init_job static g psc t = (Ok job, v)" "ensureJobCompletedOrDie g job v = (Ok b, u)" by blast
  have "om_name (jo_meta job) = ''post-init''" by (rule yieldsD [OF yields_meta(3) run(1)])
  with jobCompleted_brings [OF assms, of job] run(2)
  show "\<forall>y\<in>{kref_of KJob (k_ns r) ''post-init''}. fst y \<noteq> KPod \<longrightarrow> store (st_world u) y \<noteq> None" unfolding brings_def by metis
qed

lemma key_brings:
  assumes "g_env g = r"
  shows "brings store {kref_of KSecret (k_ns r) n} (ensureSecretOrDie g n (MkSSHKeySecret k))"
    and "brings store {kref_of KSecret (k_ns r) n} (ensureSecretOrDie g n (createAPIKeySecret k))"
  by (rule ensureSecret_brings [OF assms], rule yields_meta)+

lemma key_adds:
  assumes "g_env g = r"
  shows "within (adds store UNIV) (ensureSecretOrDie g n (MkSSHKeySecret r))"
    and "within (adds store UNIV) (ensureSecretOrDie g n (createAPIKeySecret r))"
  by (intro ensureSecret_adds [OF assms UNIV_I] yields_meta key_touches)+

lemma brings_mono: "brings store X m \<Longrightarrow> Y \<subseteq> X \<Longrightarrow> brings store Y m"
  by (auto simp: brings_def)

lemma brings_if: "(b \<Longrightarrow> brings store X m) \<Longrightarrow> (\<not> b \<Longrightarrow> brings store X n) \<Longrightarrow> brings store X (if b then m else n)"
  by simp

text \<open>One step of a chain: the objects it brings, and the steps that follow.\<close>

lemma brings_step:
  "brings store X m \<Longrightarrow> (\<And>a. within (adds store UNIV) (f a) \<and> brings store Y (f a)) \<Longrightarrow>
     within (adds store UNIV) m \<Longrightarrow> within (adds store UNIV) (bnd m f) \<and> brings store (X \<union> Y) (bnd m f)"
  by (meson add.within_bnd brings_bnd)

lemma ensureGerrit_brings: "brings store (gerrit_refs r) (EnsureGerrit fuel static r fqdn ha)"
proof -
  let ?g = "\<lparr>g_env = r, g_fqdn = fqdn\<rparr>"
  have g: "g_env ?g = r" by simp
  note adds = namespace_adds [OF UNIV_I] key_adds [OF g] ensureKinds_adds [OF g, OF UNIV_I] ensureKinds_adds(4) [OF g UNIV_I UNIV_I]
    gerritSts_adds [OF g UNIV_I] awaitSts_adds [OF g] postInit_adds [OF g UNIV_I]
  note brings = key_brings [OF g] ensureKinds_brings(1,2) [OF g] gerritSts_brings [OF g] postInit_brings [OF g]
  have entry: "within (adds store UNIV) (if k_isOpenShift r then ensureGerritRouteOrDie ?g else ensureGerritIngressOrDie ?g) \<and>
      brings store (set (gerrit_entry r)) (if k_isOpenShift r then ensureGerritRouteOrDie ?g else ensureGerritIngressOrDie ?g)"
    using ensureKinds_brings(3,4) [OF g] adds by (simp add: gerrit_entry_def)
  have conf: "within (adds store UNIV) (generateManageSFConfig static r pw fqdn)" for pw
    unfolding generateManageSFConfig_def by (intro add.within_rules)
  show ?thesis
    unfolding EnsureGerrit_def Let_def
    by (rule brings_mono [OF conjunct2],
        rule brings_step [OF brings_none], rule brings_step [OF brings(1)], rule brings_step [OF brings(1)],
        rule brings_step [OF brings(2)], rule brings_step [OF brings(2)], rule brings_step [OF brings(3)],
        rule brings_step [OF brings(3)], rule brings_step [OF brings_none], rule brings_step [OF brings(4)],
        rule brings_step [OF brings(4)], rule brings_step [OF brings(5)], rule brings_step [OF brings_none],
        rule brings_step [OF brings(6)], rule entry)
      (use adds conf in \<open>auto simp: gerrit_refs_def gerrit_core_def gerrit_service_names\<close>)
qed

end

section \<open>Wiping is exact\<close>

text \<open>\<open>erases store X m\<close>: \<open>m\<close> always returns, and what it does is to delete the objects at the addresses of \<open>X\<close>.\<close>

definition erases :: "('w \<Rightarrow> kref \<Rightarrow> kobj option) \<Rightarrow> kref set \<Rightarrow> ('w st, 'a) prog \<Rightarrow> bool" where
  "erases store X m \<longleftrightarrow> (\<forall>s. \<exists>a t. m s = (Ok a, t) \<and>
     store (st_world t) = (\<lambda>y. if y \<in> X then None else store (st_world s) y))"

lemma erases_ret: "erases store {} (ret x)"
  by (simp add: erases_def)

lemma erases_bnd:
  assumes "erases store X m" and "\<And>a. erases store Y (f a)"
  shows "erases store (X \<union> Y) (bnd m f)"
  unfolding erases_def
proof
  fix s
  obtain a t where t: "m s = (Ok a, t)" "store (st_world t) = (\<lambda>y. if y \<in> X then None else store (st_world s) y)"
    using assms(1) unfolding erases_def by blast
  obtain b u where u: "f a t = (Ok b, u)" "store (st_world u) = (\<lambda>y. if y \<in> Y then None else store (st_world t) y)"
    using assms(2) unfolding erases_def by blast
  show "\<exists>b u. bnd m f s = (Ok b, u) \<and> store (st_world u) = (\<lambda>y. if y \<in> X \<union> Y then None else store (st_world s) y)"
    using t u by (auto simp: bnd_def)
qed

lemma erases_for_each: "(\<And>n. erases store {g n} (f n)) \<Longrightarrow> erases store (g ` set ns) (for_each f ns)"
  using erases_bnd [of store "{g _}"] by (induction ns) (auto simp: erases_ret, fastforce)

lemma erases_if: "(b \<Longrightarrow> erases store X m) \<Longrightarrow> (\<not> b \<Longrightarrow> erases store Y n) \<Longrightarrow> erases store (if b then X else Y) (if b then m else n)"
  by simp

lemma erases_cong: "erases store X m \<Longrightarrow> X = Y \<Longrightarrow> erases store Y m"
  by simp

context healthy_client
begin

lemma delete_named_erases: "erases store {kref_of (c_kind C) (k_ns r) n} (delete_named r C n)"
  unfolding erases_def
proof
  fix s :: "'w st"
  let ?y = "kref_of (c_kind C) (k_ns r) n"
  obtain e w where e: "s_delete (k_sys r) False (c_kind C) (k_ns r) n (st_world s) = (e, w)" by fastforce
  have "store w ?y = None \<and> (e = None \<or> (\<exists>x. e = Some x \<and> IsNotFound x))"
  proof (cases "store (st_world s) ?y")
    case None
    with delete_missing [of "st_world s" "c_kind C" "k_ns r" n False] delete_fewer [OF e] e show ?thesis by auto
  next
    case (Some ob)
    with delete_present [of "st_world s" "c_kind C" "k_ns r" n] e show ?thesis by auto
  qed
  moreover have "store w y = store (st_world s) y" if "y \<noteq> ?y" for y by (rule delete_local [OF e that])
  ultimately have w: "store w = (\<lambda>y. if y \<in> {?y} then None else store (st_world s) y)"
    and err: "e = None \<or> (\<exists>x. e = Some x \<and> IsNotFound x)" by auto
  have "client_Delete r False C (mk_meta n (k_ns r)) s = (Ok e, s\<lparr>st_world := w\<rparr>)"
    using e by (simp add: client_Delete_def sysc_def mk_meta_def)
  then have "delete_named r C n s = (Ok (), s\<lparr>st_world := w\<rparr>)"
    using err by (auto simp: delete_named_def DeleteOrDie_def bnd_def)
  with w show "\<exists>a t. delete_named r C n s = (Ok a, t) \<and>
      store (st_world t) = (\<lambda>y. if y \<in> {?y} then None else store (st_world s) y)" by simp
qed

lemma wipe_erases: "erases store (wiped_refs r rmData) (WipeGerrit r rmData)"
proof -
  note each = erases_for_each [where g = "\<lambda>n. kref_of (c_kind C) (k_ns r) n" and f = "delete_named r C" for C]
  have "erases store
    ((if k_isOpenShift r then {kref_of (c_kind cRoute) (k_ns r) ''gerrit''} else {}) \<union>
     (kref_of (c_kind cSecret) (k_ns r) ` set [''admin-ssh-key'', ''zuul-ssh-key'', ''gerrit-admin-api-key'', ''zuul-gerrit-api-key''] \<union>
     (kref_of (c_kind cService) (k_ns r) ` set [gerritHTTPDPortName, gerritSSHDPortName] \<union>
     (kref_of (c_kind cConfigMap) (k_ns r) ` set [managesfResourcesIdent @ ''-config-map'', managesfResourcesIdent @ ''-tooling-config-map''] \<union>
     ({kref_of (c_kind cStatefulSet) (k_ns r) gerritIdent} \<union>
     ({kref_of (c_kind cJob) (k_ns r) ''post-init''} \<union>
     (if rmData then {kref_of (c_kind cPVC) (k_ns r) ''gerrit-gerrit-0''} else {}))))))) (WipeGerrit r rmData)"
    unfolding WipeGerrit_def
    by (rule erases_bnd, rule erases_if [OF delete_named_erases erases_ret],
        rule erases_bnd, rule each [OF delete_named_erases],
        rule erases_bnd, rule each [OF delete_named_erases],
        rule erases_bnd, rule each [OF delete_named_erases],
        rule erases_bnd, rule delete_named_erases,
        rule erases_bnd, rule delete_named_erases,
        rule erases_if [OF delete_named_erases erases_ret])
  then show ?thesis
    by (rule erases_cong) (auto simp: wiped_refs_def gerrit_core_def codec_defs)
qed

end

text \<open>
  What is left once Gerrit was deployed and wiped where there was none: the namespace, and on Kubernetes the ingress and
  its certificate.
\<close>

definition gerrit_leftovers :: "'w kctx \<Rightarrow> kref set" where
  "gerrit_leftovers env = insert (kref_of KNamespace [] (k_ns env)) (if k_isOpenShift env then {} else set (gerrit_entry env))"

context waiting_healthy_client
begin

lemma deploy_then_wipe:
  assumes "EnsureGerrit fuel static r fqdn ha s = (Ok (), t)" and "\<forall>y\<in>wiped_refs r True. store (st_world s) y = None"
  shows "\<exists>u. WipeGerrit r True t = (Ok (), u) \<and> (\<forall>y\<in>wiped_refs r True. store (st_world u) y = None) \<and>
    (\<forall>y. y \<notin> gerrit_leftovers r \<longrightarrow> store (st_world u) y = store (st_world s) y \<or>
       by_cluster y (store (st_world s) y) (store (st_world u) y)) \<and>
    (\<not> k_isOpenShift r \<longrightarrow> (\<forall>y\<in>set (gerrit_entry r). store (st_world u) y \<noteq> None))"
proof -
  obtain u where u: "WipeGerrit r True t = (Ok (), u)"
      "store (st_world u) = (\<lambda>y. if y \<in> wiped_refs r True then None else store (st_world t) y)"
    using wipe_erases [of True] unfolding erases_def by (metis (full_types) old.unit.exhaust)
  have added: "adds store (insert (kref_of KNamespace [] (k_ns r)) (gerrit_refs r)) s t"
    by (rule withinD [OF ensureGerrit_adds assms(1)])
  have "store (st_world u) y = store (st_world s) y \<or> by_cluster y (store (st_world s) y) (store (st_world u) y)"
    if "y \<notin> gerrit_leftovers r" for y
  proof (cases "y \<in> wiped_refs r True")
    case True
    with assms(2) u(2) show ?thesis by simp
  next
    case False
    then have "y \<notin> insert (kref_of KNamespace [] (k_ns r)) (gerrit_refs r)"
      using that by (auto simp: gerrit_leftovers_def gerrit_refs_def wiped_refs_def gerrit_entry_def)
    with added have "store (st_world t) y = store (st_world s) y \<or> by_cluster y (store (st_world s) y) (store (st_world t) y)"
      unfolding adds_def by blast
    with False u(2) show ?thesis by simp
  qed
  moreover have "store (st_world u) y \<noteq> None" if "y \<in> set (gerrit_entry r)" "\<not> k_isOpenShift r" for y
  proof -
    have "fst y \<noteq> KPod" using that(1) by (auto simp: gerrit_entry_def kref_of_def split: if_splits)
    then have "store (st_world t) y \<noteq> None"
      using ensureGerrit_brings assms(1) that(1) unfolding brings_def gerrit_refs_def by force
    moreover have "y \<notin> wiped_refs r True"
      using that by (auto simp: gerrit_entry_def wiped_refs_def gerrit_core_def)
    ultimately show ?thesis using u(2) by simp
  qed
  moreover have "\<forall>y\<in>wiped_refs r True. store (st_world u) y = None" using u(2) by simp
  ultimately show ?thesis using u(1) by blast
qed

end

end
