(* ===== verification/Cli_Bootstrap.thy ===== *)
theory Cli_Bootstrap
  imports Cli_Utils
begin

text \<open>
  \<open>cli/cmd/bootstrap-tenant-config-repo/bootstrap-tenant-config-repo.go\<close>: the first content of the configuration
  repository of a tenant, its pipelines, base job, playbook and project, as the documents of \<open>ZuulCF\<close>.
\<close>

section \<open>Directories and files\<close>

text \<open>\<open>filepath.Join\<close> of several parts.\<close>

definition path_Joins :: "string list \<Rightarrow> string" where
  "path_Joins parts = (let ps = filter (\<lambda>p. p \<noteq> []) parts in if ps = [] then [] else path_Clean (Join ps ''/''))"

definition zuuldropindir :: string where "zuuldropindir = ''zuul.d''"
definition zuulplaybooks :: string where "zuulplaybooks = ''playbooks''"

definition createDirectoryStructureOrDie :: "'w tools \<Rightarrow> string \<Rightarrow> ('w st, unit) prog" where
  "createDirectoryStructureOrDie x path = for_each (\<lambda>dir. bnd (sysc (t_mkdirAll x dir)) (\<lambda>err.
       if err \<noteq> None then exit_with 1 else ret ()))
     [path, path_Joins [path, zuulplaybooks], path_Joins [path, zuuldropindir]]"

text \<open>Despite its name the function goes on when the file could not be written.\<close>

definition writeFileOrDie :: "'w tools \<Rightarrow> ydoc \<Rightarrow> string \<Rightarrow> ('w st, unit) prog" where
  "writeFileOrDie x filestructure path = bnd (sysc (t_writeFile x path (t_yaml x filestructure))) (\<lambda>_. ret ())"

definition getAnsibleIncludeRole :: "string \<Rightarrow> (string, ydoc) fmap" where
  "getAnsibleIncludeRole rolename = fmap_of_list [(''import_role'', YMap [(''name'', YStr rolename)])]"

definition quoted :: "string \<Rightarrow> string" where
  "quoted s = [CHR 0x27] @ s @ [CHR 0x27]"

definition roles_block :: "string list \<Rightarrow> ydoc" where
  "roles_block roles = YList (map (\<lambda>r. YMap (ymap id (getAnsibleIncludeRole r))) roles)"

section \<open>The documents\<close>

definition check_pipeline :: "PipelineRequire \<Rightarrow> PipelineGenericTrigger \<Rightarrow> PipelineReporter list \<Rightarrow> PipelineBody" where
  "check_pipeline requires trig reporters = zero_PipelineBody\<lparr>pip_Name := ''check'',
     pip_Description := ''Newly uploaded patchsets enter this'' @ newline @ ''pipeline to receive an initial +/-1 Verified vote.'',
     pip_Manager := ''independent'', pip_Require := requires, pip_Trigger := trig,
     pip_Start := reporters ! 0, pip_Success := reporters ! 1, pip_Failure := reporters ! 2\<rparr>"

definition gate_pipeline :: "PipelineRequire \<Rightarrow> PipelineGenericTrigger \<Rightarrow> PipelineReporter list \<Rightarrow> PipelineBody" where
  "gate_pipeline requires trig reporters = zero_PipelineBody\<lparr>pip_Name := ''gate'',
     pip_Description := ''Changes that have been approved by core developers are enqueued in order in this pipeline, and if they pass tests, will be merged.'',
     pip_SuccessMessage := ''Build succeeded (gate pipeline).'', pip_FailureMessage := ''Build failed (gate pipeline).'',
     pip_Precedence := GetZuulPipelinePrecedence ''high'', pip_Supercedes := [''check''], pip_PostReview := True,
     pip_Manager := ''dependent'', pip_Require := requires, pip_Trigger := trig,
     pip_Start := reporters ! 0, pip_Success := reporters ! 1, pip_Failure := reporters ! 2\<rparr>"

definition post_pipeline :: "PipelineGenericTrigger \<Rightarrow> PipelineBody" where
  "post_pipeline trig = zero_PipelineBody\<lparr>pip_Name := ''post'', pip_PostReview := True,
     pip_Description := ''This pipeline runs jobs that operate after each change is merged.'',
     pip_Manager := ''supercedent'', pip_Precedence := GetZuulPipelinePrecedence ''low'', pip_Trigger := trig\<rparr>"

definition base_job :: "string \<Rightarrow> JobBody" where
  "base_job connection = zero_JobBody\<lparr>jbo_Name := ''base'', jbo_Description := ''The base job.'', jbo_Parent := None,
     jbo_PreRun := [''playbooks/'' @ connection @ ''-pre.yaml''], jbo_Roles := [fmap_of_list [(''zuul'', ''zuul/zuul-jobs'')]],
     jbo_Timeout := 1800, jbo_Attempts := 3\<rparr>"

definition pre_playbook :: "AnsiblePlay list" where
  "pre_playbook =
     [\<lparr>apl_Hosts = ''localhost'', apl_Roles = [], apl_Vars = [],
        apl_Tasks = [fmap_of_list [(''block'', roles_block [''emit-job-header'', ''log-inventory''])]]\<rparr>,
      \<lparr>apl_Hosts = ''all'', apl_Roles = [], apl_Vars = [],
        apl_Tasks = [getAnsibleIncludeRole ''start-zuul-console'',
          fmap_of_list [(''block'', roles_block [''validate-host'', ''prepare-workspace'', ''add-build-sshkey'']),
            (''when'', YStr (''ansible_connection != '' @ quoted ''kubectl''))],
          fmap_of_list [(''block'', roles_block [''prepare-workspace-openshift'', ''remove-zuul-sshkey'']),
            (''run_once'', YBool True), (''when'', YStr (''ansible_connection == '' @ quoted ''kubectl''))],
          fmap_of_list [(''import_role'', YMap [(''name'', YStr ''ensure-output-dirs'')]),
            (''when'', YStr ''ansible_user_dir is defined'')]]\<rparr>]"

definition pipeline_jobs :: "string list \<Rightarrow> ZuulProjectPipeline" where
  "pipeline_jobs jobs = \<lparr>zpp_Jobs = jobs, zpp_Debug = False, zpp_FailFast = False\<rparr>"

definition project_body :: "(string \<times> string list) list \<Rightarrow> ZuulProjectBody" where
  "project_body pipelines = \<lparr>zpb_Name = [], zpb_Templates = [], zpb_DefaultBranch = [], zpb_MergeMode = [], zpb_Vars = fmempty,
     zpb_Queue = [], zpb_Pipeline = fmap_of_list (map (\<lambda>(p, jobs). (p, pipeline_jobs jobs)) pipelines)\<rparr>"

section \<open>The repository\<close>

text \<open>A part of a pipeline whose driver is not supported ends the process.\<close>

definition driver_part :: "'a \<times> string option \<Rightarrow> ('s, 'a) prog" where
  "driver_part p = (if snd p \<noteq> None then exit_with 1 else ret (fst p))"

definition InitConfigRepo :: "'w tools \<Rightarrow> string \<Rightarrow> string \<Rightarrow> string \<Rightarrow> ('w st, unit) prog" where
  "InitConfigRepo x driver connection zuulrootdir =
     bnd (createDirectoryStructureOrDie x zuulrootdir) (\<lambda>_.
     bnd (driver_part (GetRequireCheckByDriver driver connection)) (\<lambda>requireCheck.
     bnd (driver_part (GetTriggerCheckByDriver driver connection)) (\<lambda>triggerCheck.
     bnd (driver_part (GetReportersCheckByDriver driver connection)) (\<lambda>reportersCheck.
     bnd (driver_part (GetRequireGateByDriver driver connection)) (\<lambda>requireGate.
     bnd (driver_part (GetTriggerGateByDriver driver connection)) (\<lambda>triggerGate.
     bnd (driver_part (GetReportersGateByDriver driver connection)) (\<lambda>reportersGate.
     bnd (driver_part (GetTriggerPostByDriver driver connection)) (\<lambda>triggerPost.
     bnd (writeFileOrDie x (PipelineConfig_yaml [check_pipeline requireCheck triggerCheck reportersCheck,
            gate_pipeline requireGate triggerGate reportersGate, post_pipeline triggerPost])
          (path_Joins [zuulrootdir, zuuldropindir, connection @ ''-pipeline.yaml''])) (\<lambda>_.
     bnd (writeFileOrDie x (JobConfig_yaml [base_job connection])
          (path_Joins [zuulrootdir, zuuldropindir, connection @ ''-base-jobs.yaml''])) (\<lambda>_.
     bnd (writeFileOrDie x (AnsiblePlayBook_yaml pre_playbook)
          (path_Joins [zuulrootdir, zuulplaybooks, connection @ ''-pre.yaml''])) (\<lambda>_.
     writeFileOrDie x (ProjectConfig_yaml [project_body [(''check'', [''noop'']), (''gate'', [''noop''])]])
       (path_Joins [zuulrootdir, zuuldropindir, connection @ ''-project-pipeline.yaml'']))))))))))))"

definition BootstrapTenantConfigRepoCmd :: "'w tools \<Rightarrow> flags \<Rightarrow> string list \<Rightarrow> ('w st, unit) prog" where
  "BootstrapTenantConfigRepoCmd x fl args = (case args of
       [outpath] \<Rightarrow> InitConfigRepo x (GetString fl ''driver'') (GetString fl ''connection'') outpath
     | _ \<Rightarrow> exit_with 1)"

definition bootstrap_flags :: flags where
  "bootstrap_flags = [(''connection'', FString []), (''driver'', FString [])]"

section \<open>Supported drivers\<close>

definition supported_drivers :: "string list" where
  "supported_drivers = [''gerrit'', ''gitlab'']"

text \<open>The parts of the pipelines agree on which drivers they know.\<close>

lemma driver_errors:
  "snd (GetRequireCheckByDriver d c) \<noteq> None \<longleftrightarrow> d \<notin> set supported_drivers"
  "snd (GetTriggerCheckByDriver d c) \<noteq> None \<longleftrightarrow> d \<notin> set supported_drivers"
  "snd (GetReportersCheckByDriver d c) \<noteq> None \<longleftrightarrow> d \<notin> set supported_drivers"
  "snd (GetRequireGateByDriver d c) \<noteq> None \<longleftrightarrow> d \<notin> set supported_drivers"
  "snd (GetTriggerGateByDriver d c) \<noteq> None \<longleftrightarrow> d \<notin> set supported_drivers"
  "snd (GetReportersGateByDriver d c) \<noteq> None \<longleftrightarrow> d \<notin> set supported_drivers"
  "snd (GetTriggerPostByDriver d c) \<noteq> None \<longleftrightarrow> d \<notin> set supported_drivers"
  by (auto simp: supported_drivers_def unsupported_def GetRequireCheckByDriver_def GetTriggerCheckByDriver_def
      GetReportersCheckByDriver_def GetRequireGateByDriver_def GetTriggerGateByDriver_def GetReportersGateByDriver_def
      GetTriggerPostByDriver_def Let_def)

lemma driver_part_eq:
  assumes "\<And>d. snd (f d c) \<noteq> None \<longleftrightarrow> d \<notin> set supported_drivers"
  shows "driver_part (f d c) = (if d \<in> set supported_drivers then ret (fst (f d c)) else exit_with 1)"
  using assms [of d] by (auto simp: driver_part_def)

lemmas driver_parts = driver_part_eq [of GetRequireCheckByDriver, OF driver_errors(1)]
  driver_part_eq [of GetTriggerCheckByDriver, OF driver_errors(2)] driver_part_eq [of GetReportersCheckByDriver, OF driver_errors(3)]
  driver_part_eq [of GetRequireGateByDriver, OF driver_errors(4)] driver_part_eq [of GetTriggerGateByDriver, OF driver_errors(5)]
  driver_part_eq [of GetReportersGateByDriver, OF driver_errors(6)] driver_part_eq [of GetTriggerPostByDriver, OF driver_errors(7)]

text \<open>The files of a repository whose driver is supported.\<close>

definition repo_files :: "string \<Rightarrow> string \<Rightarrow> string \<Rightarrow> (string \<times> ydoc) list" where
  "repo_files d c root =
     [(path_Joins [root, zuuldropindir, c @ ''-pipeline.yaml''], PipelineConfig_yaml
        [check_pipeline (fst (GetRequireCheckByDriver d c)) (fst (GetTriggerCheckByDriver d c)) (fst (GetReportersCheckByDriver d c)),
         gate_pipeline (fst (GetRequireGateByDriver d c)) (fst (GetTriggerGateByDriver d c)) (fst (GetReportersGateByDriver d c)),
         post_pipeline (fst (GetTriggerPostByDriver d c))]),
      (path_Joins [root, zuuldropindir, c @ ''-base-jobs.yaml''], JobConfig_yaml [base_job c]),
      (path_Joins [root, zuulplaybooks, c @ ''-pre.yaml''], AnsiblePlayBook_yaml pre_playbook),
      (path_Joins [root, zuuldropindir, c @ ''-project-pipeline.yaml''],
        ProjectConfig_yaml [project_body [(''check'', [''noop'']), (''gate'', [''noop''])]])]"

lemma initConfigRepo_eq:
  "InitConfigRepo x d c root = bnd (createDirectoryStructureOrDie x root) (\<lambda>_.
     if d \<in> set supported_drivers then for_each (\<lambda>(p, doc). writeFileOrDie x doc p) (repo_files d c root) else exit_with 1)"
  by (simp add: InitConfigRepo_def driver_parts repo_files_def)

end
