(* ===== verification/Cli_Zuul.thy ===== *)
theory Cli_Zuul
  imports Cli_Utils
begin

text \<open>
  \<open>cli/cmd/zuul/*.go\<close>: the commands that create an authentication token and the configuration file of
  zuul-client, with a section per tenant. The template of a section is written out as the text it renders.
\<close>

section \<open>Tenants and tokens\<close>

text \<open>The certificate of the server is checked when \<open>verify\<close> is set.\<close>

definition GetTenants :: "'w tools \<Rightarrow> string \<Rightarrow> bool \<Rightarrow> ('w st, string list) prog" where
  "GetTenants x fqdn verify =
     bnd (sysc (t_httpGet x verify (''https://'' @ fqdn @ ''/zuul/api/tenants''))) (\<lambda>res. case res of
       Inl e \<Rightarrow> exit_with 1
     | Inr resp \<Rightarrow> if 400 \<le> hr_StatusCode resp then exit_with 1
         else (case hr_Body resp of
           Inl e \<Rightarrow> exit_with 1
         | Inr body \<Rightarrow> (case t_zuulTenants x body of Inl e \<Rightarrow> exit_with 1 | Inr tenants \<Rightarrow> ret tenants)))"

text \<open>The error of the command in the pod is dropped.\<close>

definition CreateAuthToken :: "'w kctx \<Rightarrow> string \<Rightarrow> string \<Rightarrow> string \<Rightarrow> int \<Rightarrow> ('w st, string) prog" where
  "CreateAuthToken env authConfig tenant user expiry =
     bnd (PodExecBytes env ''zuul-scheduler-0'' ''zuul-scheduler''
        [''zuul-admin'', ''create-auth-token'', ''--auth-config'', if authConfig = [] then ''zuul_client'' else authConfig,
         ''--tenant'', tenant, ''--user'', user, ''--expires-in'', Itoa expiry]) (\<lambda>(token, _). ret token)"

section \<open>The configuration of zuul-client\<close>

record ZuulClientConfigSection =
  zcs_Name :: string
  zcs_URL :: string
  zcs_Tenant :: string
  zcs_VerifySSL :: bool
  zcs_AuthToken :: string

definition configTemplate :: "ZuulClientConfigSection \<Rightarrow> string" where
  "configTemplate c = newline @ ''['' @ zcs_Name c @ '']'' @ newline @ ''url='' @ zcs_URL c @ newline @
     (if zcs_Tenant c \<noteq> [] then ''tenant='' @ zcs_Tenant c else []) @ newline @
     ''verify_ssl='' @ (if zcs_VerifySSL c then ''True'' else ''False'') @ newline @
     (if zcs_AuthToken c \<noteq> [] then ''auth_token='' @ zcs_AuthToken c else []) @ newline @ newline"

definition client_section :: "string \<Rightarrow> string \<Rightarrow> bool \<Rightarrow> string \<Rightarrow> ZuulClientConfigSection" where
  "client_section fqdn t verify token = \<lparr>zcs_Name = t, zcs_URL = ''https://'' @ fqdn @ ''/zuul'', zcs_Tenant = t,
     zcs_VerifySSL = verify, zcs_AuthToken = TrimPrefix token ''Bearer ''\<rparr>"

definition CreateClientConfig :: "'w tools \<Rightarrow> 'w kctx \<Rightarrow> string \<Rightarrow> string \<Rightarrow> string \<Rightarrow> string \<Rightarrow> int \<Rightarrow> bool \<Rightarrow> ('w st, string) prog" where
  "CreateClientConfig x env fqdn authConfig tenant user expiry verify =
     bnd (if tenant \<noteq> [] then ret [tenant] else GetTenants x fqdn verify) (\<lambda>tenants.
       fold_prog (\<lambda>t config. bnd (CreateAuthToken env authConfig t user expiry) (\<lambda>token.
         ret (config @ configTemplate (client_section fqdn t verify token)))) tenants [])"

section \<open>The command\<close>

definition default_fqdn :: "string \<Rightarrow> string" where
  "default_fqdn fqdn = (if fqdn = [] then ''sfop.me'' else fqdn)"

definition zuulCreate :: "'w tools \<Rightarrow> flags \<Rightarrow> string list \<Rightarrow> ('w st, unit) prog" where
  "zuulCreate x fl args = bnd (GetCLIContext x fl) (\<lambda>env. bnd (first_arg args) (\<lambda>target.
     let authConfig = GetString fl ''auth-config''; tenant = GetString fl ''tenant''; user = GetString fl ''user'';
         expiry = GetInt fl ''expires-in'' in
     bnd (if target = ''auth-token''
          then if tenant = [] then exit_with 1
               else bnd (CreateAuthToken env authConfig tenant user expiry) (print_line x)
          else ret ()) (\<lambda>_.
     if target = ''client-config''
     then bnd (CreateClientConfig x env (default_fqdn (GetString fl ''fqdn'')) authConfig tenant user expiry
            (\<not> GetBool fl ''insecure'')) (print_line x)
     else ret ())))"

definition zuul_create_flags :: flags where
  "zuul_create_flags = [(''auth-config'', FString ''zuul_client''), (''tenant'', FString []), (''user'', FString ''John Doe''),
     (''expires-in'', FInt 3600), (''insecure'', FBool False)]"

section \<open>What the configuration holds\<close>

text \<open>
  The sections of the tenants that Zuul lists, in that order, each with the token that the scheduler printed for it.
\<close>

definition section_of :: "'w kctx \<Rightarrow> (string \<Rightarrow> string) \<Rightarrow> string \<Rightarrow> bool \<Rightarrow> string \<Rightarrow> string" where
  "section_of env tok fqdn verify t = configTemplate (client_section fqdn t verify (tok t))"

lemma client_sections:
  assumes "\<And>t u. \<exists>v. CreateAuthToken env authConfig t user expiry u = (Ok (tok t), v)"
  shows "\<exists>v. fold_prog (\<lambda>t config. bnd (CreateAuthToken env authConfig t user expiry) (\<lambda>token.
      ret (config @ configTemplate (client_section fqdn t verify token)))) tenants config s =
      (Ok (config @ concat (map (section_of env tok fqdn verify) tenants)), v)"
proof (induction tenants arbitrary: config s)
  case (Cons t ts)
  obtain v where "CreateAuthToken env authConfig t user expiry s = (Ok (tok t), v)" using assms by blast
  then show ?case
    using Cons.IH [of "config @ section_of env tok fqdn verify t" v]
    by (simp add: bnd_Ok [where m = "CreateAuthToken env authConfig t user expiry"] bnd_assoc section_of_def del: run_simps)
qed simp

lemma client_config_text:
  assumes "\<And>t u. \<exists>v. CreateAuthToken env authConfig t user expiry u = (Ok (tok t), v)"
    and "tenant = [] \<Longrightarrow> GetTenants x fqdn verify s = (Ok tenants, s1)"
  shows "\<exists>v. CreateClientConfig x env fqdn authConfig tenant user expiry verify s =
    (Ok (concat (map (section_of env tok fqdn verify) (if tenant \<noteq> [] then [tenant] else tenants))), v)"
proof (cases "tenant = []")
  case True
  with assms(2) show ?thesis
    using client_sections [OF assms(1), of fqdn verify tenants "[]" s1]
    by (simp add: CreateClientConfig_def bnd_Ok [where m = "GetTenants x fqdn verify"])
next
  case False
  then show ?thesis
    using client_sections [OF assms(1), of fqdn verify "[tenant]" "[]" s] by (simp add: CreateClientConfig_def)
qed

end
