(* ===== verification/Cli_Dev.thy ===== *)
theory Cli_Dev
  imports Cli_Gerrit Cli_Bootstrap Cli_Zuul
begin

text \<open>
  \<open>cli/cmd/dev/dev.go\<close> and \<open>cli/cmd/dev/runTests.go\<close>: the development environment with its demo
  repositories, its removal, and the report of the vulnerabilities that quay.io knows of in the images.
  Messages on the standard error are left out.
\<close>

section \<open>The demo repositories\<close>

text \<open>A status that could not be read is only logged; what was read of it counts.\<close>

definition PushRepoIfNeeded :: "'w tools \<Rightarrow> string \<Rightarrow> ('w st, unit) prog" where
  "PushRepoIfNeeded x path = bnd (sysc (t_output x ''git'' [''-C'', path, ''status'', ''--porcelain''])) (\<lambda>(err, out).
     if out \<noteq> []
     then bnd (git x [''-C'', path, ''commit'', ''-m'', ''Automatic update'', ''-a'']) (\<lambda>_.
          git x [''-C'', path, ''push'', ''origin''])
     else ret ())"

definition ApplyCRDs :: "'w tools \<Rightarrow> rest_config \<Rightarrow> string \<Rightarrow> ('w st, unit) prog" where
  "ApplyCRDs x config sfOperatorRepoPath = bnd (sysc (t_installCRDs x config
     [path_Joins [sfOperatorRepoPath, ''config/crd/bases/sf.softwarefactory-project.io_softwarefactories.yaml'']])) (\<lambda>_. ret ())"

definition make_dir_or_exit :: "'w tools \<Rightarrow> string \<Rightarrow> ('w st, unit) prog" where
  "make_dir_or_exit x dir = bnd (sysc (t_mkdirAll x dir)) (\<lambda>err. if err \<noteq> None then exit_with 1 else ret ())"

definition write_or_exit :: "'w tools \<Rightarrow> string \<Rightarrow> string \<Rightarrow> ('w st, unit) prog" where
  "write_or_exit x file content = bnd (sysc (t_writeFile x file content)) (\<lambda>err. if err \<noteq> None then exit_with 1 else ret ())"

definition demo_tenant :: "string \<Rightarrow> TenantBody" where
  "demo_tenant zuulConnection = \<lparr>ten_Name = ''demo-tenant'',
     ten_Source = fmupd zuulConnection \<lparr>tcp_ConfigProjects = [''demo-tenant-config''], tcp_UntrustedProjects = [''demo-project'']\<rparr>
       (fmap_of_list [(''opendev.org'', \<lparr>tcp_ConfigProjects = [], tcp_UntrustedProjects = [''zuul/zuul-jobs'']\<rparr>)])\<rparr>"

definition SetupDemoConfigRepo :: "'w tools \<Rightarrow> string \<Rightarrow> string \<Rightarrow> string \<Rightarrow> bool \<Rightarrow> ('w st, unit) prog" where
  "SetupDemoConfigRepo x reposPath zuulDriver zuulConnection updateDemoTenantDefinition =
     (let configRepoPath = path_Joins [reposPath, ''config'']; demoConfigRepoPath = path_Joins [reposPath, ''demo-tenant-config''];
          tenantDir = path_Joins [configRepoPath, ''zuul''] in
      bnd (InitConfigRepo x zuulDriver zuulConnection demoConfigRepoPath) (\<lambda>_.
      bnd (git x [''-C'', demoConfigRepoPath, ''add'', ''zuul.d/'', ''playbooks/'']) (\<lambda>_.
      bnd (PushRepoIfNeeded x demoConfigRepoPath) (\<lambda>_.
      if updateDemoTenantDefinition
      then bnd (make_dir_or_exit x tenantDir) (\<lambda>_.
           bnd (write_or_exit x (path_Joins [tenantDir, ''main.yaml'']) (t_yaml x (TenantConfig_yaml [demo_tenant zuulConnection]))) (\<lambda>_.
           bnd (git x [''-C'', configRepoPath, ''add'', ''zuul/main.yaml'']) (\<lambda>_.
           PushRepoIfNeeded x configRepoPath)))
      else ret ()))))"

definition demo_job :: "string \<Rightarrow> string \<Rightarrow> JobBody" where
  "demo_job name playbook = zero_JobBody\<lparr>jbo_Name := name, jbo_Parent := Some ''base'', jbo_Run := [YStr playbook]\<rparr>"

text \<open>A raw string of the sources: an empty first line, and a line end after each line.\<close>

definition raw_lines :: "string list \<Rightarrow> string" where
  "raw_lines ls = newline @ concat (map (\<lambda>l. l @ newline) ls)"

definition playbookContent :: string where
  "playbookContent = raw_lines [''- hosts: localhost'', ''  tasks:'', ''    - name: Sleep for 60 seconds'',
     ''      ansible.builtin.command: sleep 60'']"

definition playbookCheckURLContent :: string where
  "playbookCheckURLContent = raw_lines [''- hosts: localhost'', ''  tasks:'', ''    - name: Check file exists on logserver'',
     ''      ansible.builtin.uri:'', ''        # fqdn cannot be resolved within executor pod'',
     ''        url: http://logserver:8080/logs/test-url'', ''        # validate_certs: false'', ''        return_content: true'',
     ''      register: resp'', ''      until: '' @ [CHR 0x22] @ quoted ''OK'' @ '' in resp.content'' @ [CHR 0x22],
     ''      retries: 3600'', ''      delay: 1'']"

definition SetupDemoProjectRepo :: "'w tools \<Rightarrow> string \<Rightarrow> ('w st, unit) prog" where
  "SetupDemoProjectRepo x reposPath =
     (let demoProjectRepoPath = path_Joins [reposPath, ''demo-project''];
          job = JobConfig_yaml [demo_job ''demo-job'' ''playbooks/run.yaml'', demo_job ''publish-job'' ''playbooks/run.yaml'',
            demo_job ''demo-job-check-url'' ''playbooks/run-check-url.yaml''];
          project = ProjectConfig_yaml [project_body [(''check'', [''demo-job'']), (''gate'', [''demo-job'']), (''post'', [''publish-job''])]];
          zuulDir = path_Joins [demoProjectRepoPath, ''.zuul.d'']; playbookDir = path_Joins [demoProjectRepoPath, ''playbooks''] in
      bnd (make_dir_or_exit x zuulDir) (\<lambda>_.
      bnd (write_or_exit x (path_Joins [zuulDir, ''jobs.yaml'']) (t_yaml x job)) (\<lambda>_.
      bnd (write_or_exit x (path_Joins [zuulDir, ''project.yaml'']) (t_yaml x project)) (\<lambda>_.
      bnd (make_dir_or_exit x playbookDir) (\<lambda>_.
      bnd (write_or_exit x (path_Joins [playbookDir, ''run.yaml'']) playbookContent) (\<lambda>_.
      bnd (write_or_exit x (path_Joins [playbookDir, ''run-check-url.yaml'']) playbookCheckURLContent) (\<lambda>_.
      bnd (git x [''-C'', demoProjectRepoPath, ''add'', ''.zuul.d/'', ''playbooks/'']) (\<lambda>_.
      PushRepoIfNeeded x demoProjectRepoPath))))))))"

section \<open>The demo environment\<close>

text \<open>The route that is looked for is not the one that is created.\<close>

definition ensureGatewayRoute :: "'w kctx \<Rightarrow> string \<Rightarrow> ('w st, unit) prog" where
  "ensureGatewayRoute env fqdn = bnd (GetOrDie env cRoute ''gateway'') (\<lambda>found. case found of
       Some _ \<Rightarrow> ret ()
     | None \<Rightarrow> bnd (CreateROrDie env cRoute (MkHTTPSRoute ''sf-gateway'' (k_ns env) fqdn ''gateway'' ''/'' 8080 (Some fmempty))) (\<lambda>_. ret ()))"

definition createDemoEnv :: "'w tools \<Rightarrow> nat \<Rightarrow> (string \<Rightarrow> string) \<Rightarrow> 'w kctx \<Rightarrow> string \<Rightarrow> string \<Rightarrow> string \<Rightarrow> bool \<Rightarrow>
    HostAlias list \<Rightarrow> ('w st, unit) prog" where
  "createDemoEnv x fuel static env fqdn reposPath sfOperatorRepoPath keepDemoTenantDefinition hostAliases =
     bnd (EnsureGerrit fuel static env fqdn hostAliases) (\<lambda>_.
     bnd (if k_isOpenShift env then ensureGatewayRoute env fqdn
          else bnd (EnsureGatewayIngress env fqdn) (\<lambda>_. WriteIngressToEtcHosts x env fqdn)) (\<lambda>_.
     bnd (EnsureGerritAccess x fqdn) (\<lambda>_.
     bnd (for_each (\<lambda>repo. CloneAsAdmin x env fqdn repo (path_Joins [reposPath, repo]) False)
        [''config'', ''demo-tenant-config'', ''demo-project'']) (\<lambda>_.
     bnd (SetupDemoConfigRepo x reposPath ''gerrit'' ''gerrit'' (\<not> keepDemoTenantDefinition)) (\<lambda>_.
     bnd (SetupDemoProjectRepo x reposPath) (\<lambda>_.
     ApplyCRDs x (k_rest env) sfOperatorRepoPath))))))"

definition host_alias :: "string \<Rightarrow> ('s, HostAlias) prog" where
  "host_alias ha = (case SplitChar CHR ''='' ha of
       ip # names # _ \<Rightarrow> ret \<lparr>hal_IP = ip, hal_Hostnames = SplitChar CHR '','' names\<rparr>
     | _ \<Rightarrow> panic ''index out of range'')"

definition demo_repos_path :: "flags \<Rightarrow> string" where
  "demo_repos_path fl = (let p = GetString fl ''repos-path''; q = if p = [] then GetString fl ''demo-repos-path'' else p in
     if q = [] then ''deploy'' else q)"

definition devCreate :: "'w tools \<Rightarrow> nat \<Rightarrow> (string \<Rightarrow> string) \<Rightarrow> flags \<Rightarrow> string list \<Rightarrow> ('w st, unit) prog" where
  "devCreate x fuel static fl args = bnd (GetCLIContext x fl) (\<lambda>env. bnd (first_arg args) (\<lambda>target.
     bnd (map_prog host_alias (GetStringSlice fl ''hostaliases'')) (\<lambda>hostAliases.
     let fqdn = default_fqdn (GetString fl ''fqdn'') in
     if target = ''gerrit'' then EnsureGerrit fuel static env fqdn hostAliases
     else if target = ''demo-env''
     then createDemoEnv x fuel static env fqdn (demo_repos_path fl) (GetString fl ''sf-operator-repository-path'')
            (GetBool fl ''keep-demo-tenant'') hostAliases
     else ret ())))"

definition devWipe :: "'w tools \<Rightarrow> flags \<Rightarrow> string list \<Rightarrow> ('w st, unit) prog" where
  "devWipe x fl args = bnd (GetCLIContext x fl) (\<lambda>env. bnd (first_arg args) (\<lambda>target.
     let rmData = GetBool fl ''rm-data'' in
     if target = ''gerrit'' then WipeGerrit env rmData
     else if target = ''sf'' then bnd (CleanSFInstance env) (\<lambda>_. if rmData then CleanPVCs env else ret ())
     else ret ()))"

definition devCloneAsAdmin :: "'w tools \<Rightarrow> flags \<Rightarrow> string list \<Rightarrow> ('w st, unit) prog" where
  "devCloneAsAdmin x fl args = bnd (GetCLIContext x fl) (\<lambda>env. bnd (first_arg args) (\<lambda>repoName.
     let dest = (case args of _ # d # _ \<Rightarrow> d | _ \<Rightarrow> ''.'') in
     CloneAsAdmin x env (default_fqdn (GetString fl ''fqdn'')) repoName dest (GetBool fl ''verify'')))"

section \<open>Vulnerabilities of the images\<close>

record ImageAdvisories =
  ia_image :: string
  ia_hash :: string
  ia_url :: string
  ia_highCount :: int
  ia_criticalCount :: int
  ia_fixableCount :: int
  ia_advisories :: "Vuln list"

record SFOPImagesAdvisories =
  sa_imagesAdvisories :: "ImageAdvisories list"
  sa_highCount :: int
  sa_criticalCount :: int
  sa_fixableCount :: int

definition quayBaseURL :: string where
  "quayBaseURL = ''https://quay.io/api/v1/repository/''"

definition getContainerPath :: "Image \<Rightarrow> ('s, string) prog" where
  "getContainerPath img = (case dropWhile (\<lambda>c. c \<noteq> CHR ''/'') (im_Container img) of
       [] \<Rightarrow> exit_with 1 | _ # path \<Rightarrow> ret path)"

text \<open>The error of a request is dropped, and its missing response read.\<close>

definition quay_get :: "'w tools \<Rightarrow> string \<Rightarrow> ('w st, string + string) prog" where
  "quay_get x url = bnd (sysc (t_httpGet x True url)) (\<lambda>res. case res of
       Inl e \<Rightarrow> panic nil_deref | Inr resp \<Rightarrow> ret (hr_Body resp))"

definition getImageDigest :: "'w tools \<Rightarrow> Image \<Rightarrow> ('w st, string) prog" where
  "getImageDigest x img = bnd (getContainerPath img) (\<lambda>container.
     bnd (quay_get x (quayBaseURL @ container)) (\<lambda>body. case fmlookup (t_quayImage x body) (im_Version img) of
       None \<Rightarrow> exit_with 1 | Some digest \<Rightarrow> ret digest))"

definition serious :: "Vuln \<Rightarrow> bool" where
  "serious v \<longleftrightarrow> vu_Severity v = ''High'' \<or> vu_Severity v = ''Critical''"

definition count_high :: "Vuln \<Rightarrow> ImageAdvisories \<Rightarrow> ImageAdvisories" where
  "count_high v a = (if vu_Severity v = ''High''
     then a\<lparr>ia_highCount := ia_highCount a + 1, ia_fixableCount := ia_fixableCount a + (if vu_FixedBy v \<noteq> [] then 1 else 0)\<rparr> else a)"

definition count_critical :: "Vuln \<Rightarrow> ImageAdvisories \<Rightarrow> ImageAdvisories" where
  "count_critical v a = (if vu_Severity v = ''Critical''
     then a\<lparr>ia_criticalCount := ia_criticalCount a + 1, ia_fixableCount := ia_fixableCount a + (if vu_FixedBy v \<noteq> [] then 1 else 0)\<rparr> else a)"

definition image_advisories :: "Image \<Rightarrow> string \<Rightarrow> string \<Rightarrow> Vuln list list \<Rightarrow> ImageAdvisories" where
  "image_advisories img container digest features =
     (let advisories = filter serious (concat features) in
      fold (\<lambda>v a. count_critical v (count_high v a)) advisories
        \<lparr>ia_image = im_Container img, ia_hash = digest,
         ia_url = ''https://quay.io/repository/'' @ container @ ''/manifest/'' @ digest @ ''?tab=vulnerabilities'',
         ia_highCount = 0, ia_criticalCount = 0, ia_fixableCount = 0, ia_advisories = advisories\<rparr>)"

definition getImageAdvisories :: "'w tools \<Rightarrow> Image \<Rightarrow> ('w st, ImageAdvisories) prog" where
  "getImageAdvisories x img = bnd (getImageDigest x img) (\<lambda>digest. bnd (getContainerPath img) (\<lambda>container.
     bnd (quay_get x (quayBaseURL @ container @ ''/manifest/'' @ digest @ ''/security'')) (\<lambda>body.
       ret (image_advisories img container digest (t_quayScan x body)))))"

definition add_advisories :: "SFOPImagesAdvisories \<Rightarrow> ImageAdvisories \<Rightarrow> SFOPImagesAdvisories" where
  "add_advisories s a = \<lparr>sa_imagesAdvisories = sa_imagesAdvisories s @ [a], sa_highCount = sa_highCount s + ia_highCount a,
     sa_criticalCount = sa_criticalCount s + ia_criticalCount a, sa_fixableCount = sa_fixableCount s + ia_fixableCount a\<rparr>"

definition sfopAdvisories :: "'w tools \<Rightarrow> ('w st, SFOPImagesAdvisories) prog" where
  "sfopAdvisories x = fold_prog (\<lambda>img s. bnd (getImageAdvisories x img) (\<lambda>a. ret (add_advisories s a))) GetQuayImages
     \<lparr>sa_imagesAdvisories = [], sa_highCount = 0, sa_criticalCount = 0, sa_fixableCount = 0\<rparr>"

definition displayAdvisories :: "'w tools \<Rightarrow> SFOPImagesAdvisories \<Rightarrow> ('w st, unit) prog" where
  "displayAdvisories x advs = for_each (\<lambda>a. sysc (t_print x (newline @ ''Container Image: '' @ ia_image a @ '' (Criticals: '' @
     Itoa (ia_criticalCount a) @ '', Highs: '' @ Itoa (ia_highCount a) @ ''), (Fixables: '' @ Itoa (ia_fixableCount a) @ '')'' @ newline)))
     (sa_imagesAdvisories advs)"

text \<open>A sample of a metric: its name, its labels and its value.\<close>

definition prom_sample :: "string \<Rightarrow> (string \<times> string) list \<Rightarrow> int \<Rightarrow> string" where
  "prom_sample name labels v = name @ ''{'' @ Join (map (\<lambda>(l, s). l @ ''='' @ [CHR 0x22] @ s @ [CHR 0x22]) labels) '','' @ ''} '' @ Itoa v @ newline"

definition image_samples :: "ImageAdvisories \<Rightarrow> string" where
  "image_samples a =
     prom_sample ''sf_operator_image_advisories'' [(''image'', ia_image a), (''severity'', ''high'')] (ia_highCount a) @
     prom_sample ''sf_operator_image_advisories'' [(''image'', ia_image a), (''severity'', ''critical'')] (ia_criticalCount a) @
     prom_sample ''sf_operator_image_advisories_fixables'' [(''image'', ia_image a)] (ia_fixableCount a)"

definition prom_text :: "SFOPImagesAdvisories \<Rightarrow> string" where
  "prom_text advs = concat (map image_samples (sa_imagesAdvisories advs)) @
     prom_sample ''sf_operator_advisories'' [(''severity'', ''high'')] (sa_highCount advs) @
     prom_sample ''sf_operator_advisories'' [(''severity'', ''critical'')] (sa_criticalCount advs) @
     prom_sample ''sf_operator_advisories_fixable'' [] (sa_fixableCount advs)"

definition writePromAdvisories :: "'w tools \<Rightarrow> SFOPImagesAdvisories \<Rightarrow> ('w st, unit) prog" where
  "writePromAdvisories x advs = (let filepath = Getenv x ''PROM_TEXT_FILE'' in
     if filepath \<noteq> [] then bnd (sysc (t_writeFile x filepath (prom_text advs))) (\<lambda>_. ret ()) else ret ())"

definition getImagesSecurityIssues :: "'w tools \<Rightarrow> ('w st, unit) prog" where
  "getImagesSecurityIssues x = bnd (sfopAdvisories x) (\<lambda>advs. bnd (displayAdvisories x advs) (\<lambda>_. writePromAdvisories x advs))"

section \<open>Flags\<close>

definition dev_wipe_flags :: flags where "dev_wipe_flags = [(''rm-data'', FBool False)]"
definition dev_clone_flags :: flags where "dev_clone_flags = [(''verify'', FBool False)]"

definition dev_create_flags :: flags where
  "dev_create_flags = [(''skip-post-install'', FBool False), (''dry-run'', FBool False), (''keep-tenant-config'', FBool False),
     (''repos-path'', FString [])]"

section \<open>Facts\<close>

definition severity :: "string \<Rightarrow> Vuln \<Rightarrow> bool" where
  "severity s v \<longleftrightarrow> vu_Severity v = s"

definition fixable :: "Vuln \<Rightarrow> bool" where
  "fixable v \<longleftrightarrow> serious v \<and> vu_FixedBy v \<noteq> []"

definition number :: "('a \<Rightarrow> bool) \<Rightarrow> 'a list \<Rightarrow> int" where
  "number p xs = int (length (filter p xs))"

lemma number_simps [simp]: "number p [] = 0" "number p (v # vs) = (if p v then 1 else 0) + number p vs"
  by (simp_all add: number_def)

lemma number_mono: "(\<And>v. p v \<Longrightarrow> q v \<or> r v) \<Longrightarrow> number p vs \<le> number q vs + number r vs"
  by (induction vs) auto

lemma number_serious: "number p (filter serious vs) = number (\<lambda>v. serious v \<and> p v) vs"
  by (simp add: number_def)

lemma fold_counts:
  "fold (\<lambda>v a. count_critical v (count_high v a)) vs a =
     a\<lparr>ia_highCount := ia_highCount a + number (severity ''High'') vs,
       ia_criticalCount := ia_criticalCount a + number (severity ''Critical'') vs,
       ia_fixableCount := ia_fixableCount a + number fixable vs\<rparr>"
  by (induction vs arbitrary: a)
    (auto simp: count_high_def count_critical_def severity_def fixable_def serious_def)

lemma image_counts:
  "ia_highCount (image_advisories im c d fs) = number (severity ''High'') (concat fs)"
  "ia_criticalCount (image_advisories im c d fs) = number (severity ''Critical'') (concat fs)"
  "ia_fixableCount (image_advisories im c d fs) = number fixable (concat fs)"
  "ia_advisories (image_advisories im c d fs) = filter serious (concat fs)"
  "ia_image (image_advisories im c d fs) = im_Container im"
proof -
  have "(\<lambda>v. serious v \<and> severity ''High'' v) = severity ''High''" "(\<lambda>v. serious v \<and> severity ''Critical'' v) = severity ''Critical''"
     "(\<lambda>v. serious v \<and> fixable v) = fixable"
    by (auto simp: serious_def severity_def fixable_def)
  then show "ia_highCount (image_advisories im c d fs) = number (severity ''High'') (concat fs)"
    "ia_criticalCount (image_advisories im c d fs) = number (severity ''Critical'') (concat fs)"
    "ia_fixableCount (image_advisories im c d fs) = number fixable (concat fs)"
    "ia_advisories (image_advisories im c d fs) = filter serious (concat fs)"
    "ia_image (image_advisories im c d fs) = im_Container im"
    by (simp_all add: image_advisories_def Let_def fold_counts number_serious)
qed

text \<open>What is counted for one image.\<close>

definition counted :: "ImageAdvisories \<Rightarrow> bool" where
  "counted a \<longleftrightarrow> ia_highCount a + ia_criticalCount a = int (length (ia_advisories a)) \<and>
     0 \<le> ia_fixableCount a \<and> ia_fixableCount a \<le> ia_highCount a + ia_criticalCount a"

lemma image_counted: "counted (image_advisories im c d fs)"
proof -
  have "number (severity ''High'') vs + number (severity ''Critical'') vs = int (length (filter serious vs))" for vs
    by (induction vs) (auto simp: severity_def serious_def)
  moreover have "number fixable vs \<le> number (severity ''High'') vs + number (severity ''Critical'') vs" for vs
    by (rule number_mono) (auto simp: fixable_def serious_def severity_def)
  moreover have "0 \<le> number fixable vs" for vs by (simp add: number_def)
  ultimately show ?thesis by (simp add: counted_def image_counts)
qed

definition totalled :: "SFOPImagesAdvisories \<Rightarrow> bool" where
  "totalled s \<longleftrightarrow> list_all counted (sa_imagesAdvisories s) \<and>
     sa_highCount s = sum_list (map ia_highCount (sa_imagesAdvisories s)) \<and>
     sa_criticalCount s = sum_list (map ia_criticalCount (sa_imagesAdvisories s)) \<and>
     sa_fixableCount s = sum_list (map ia_fixableCount (sa_imagesAdvisories s))"

lemma add_totalled: "totalled s \<Longrightarrow> counted a \<Longrightarrow> totalled (add_advisories s a)"
  by (auto simp: totalled_def add_advisories_def)

lemma getImageAdvisories_result:
  assumes "getImageAdvisories x im s = (Ok a, t)"
  shows "counted a \<and> ia_image a = im_Container im"
proof -
  obtain c d fs where "a = image_advisories im c d fs"
    using assms unfolding getImageAdvisories_def bnd_eq_Ok by (auto simp: ret_def)
  then show ?thesis by (simp add: image_counted image_counts)
qed

lemma fold_totalled:
  assumes "fold_prog (\<lambda>im s. bnd (getImageAdvisories x im) (\<lambda>a. ret (add_advisories s a))) ims c s = (Ok c', t)" and "totalled c"
  shows "totalled c' \<and> map ia_image (sa_imagesAdvisories c') = map ia_image (sa_imagesAdvisories c) @ map im_Container ims"
  using assms
proof (induction ims arbitrary: c s)
  case (Cons im ims)
  from Cons.prems(1) obtain a u where a: "getImageAdvisories x im s = (Ok a, u)"
    and rest: "fold_prog (\<lambda>im s. bnd (getImageAdvisories x im) (\<lambda>a. ret (add_advisories s a))) ims (add_advisories c a) u = (Ok c', t)"
    by (auto simp: bnd_eq_Ok bnd_assoc ret_def)
  show ?case
    using Cons.IH [OF rest] getImageAdvisories_result [OF a] add_totalled [OF Cons.prems(2)] by (simp add: add_advisories_def)
qed (simp add: ret_def)

lemma advisories_total:
  assumes "sfopAdvisories x s = (Ok advs, t)"
  shows "totalled advs \<and> map ia_image (sa_imagesAdvisories advs) = map im_Container GetQuayImages"
  using fold_totalled [OF assms [unfolded sfopAdvisories_def]] by (simp add: totalled_def)

text \<open>A second run of the demo environment fails on the route that the first one created.\<close>

context healthy_client
begin

lemma gateway_route_twice:
  assumes "store (st_world s) (kref_of KRoute (k_ns r) ''gateway'') = None" and "ensureGatewayRoute r fqdn s = (Ok (), t)"
  shows "\<exists>u. ensureGatewayRoute r fqdn' t = (Exit 1, u)"
proof -
  let ?route = "\<lambda>f. c_enc cRoute (c_mapMeta cRoute (om_namespace_update (\<lambda>_. k_ns r)) (MkHTTPSRoute ''sf-gateway'' (k_ns r) f ''gateway'' ''/'' 8080 (Some fmempty)))"
  have ref: "oref (?route f) = kref_of KRoute (k_ns r) ''sf-gateway''" for f
    by (simp add: oref_def kref_of_def codec_defs MkHTTPSRoute_def mk_meta_def)
  obtain w where w: "GetOrDie r cRoute ''gateway'' s = (Ok None, s\<lparr>st_world := w\<rparr>)" "store w = store (st_world s)"
    using getOrDie_absent [of s cRoute "''gateway''"] assms(1) by auto
  obtain res w1 where c: "s_create (k_sys r) False (?route fqdn) w = (res, w1)" by fastforce
  then obtain ob where ob: "res = Inr ob" and t: "t = s\<lparr>st_world := w1\<rparr>"
    using assms(2) w(1) by (cases res)
      (auto simp: ensureGatewayRoute_def CreateROrDie_def client_Create_def bnd_def sysc_def Let_def ret_def exit_with_def
        split: option.splits)
  have there: "store w1 (oref (?route fqdn)) \<noteq> None"
    using create_new [of w "?route fqdn"] create_keeps [OF c] c by (cases "store w (oref (?route fqdn))") auto
  have "store (st_world t) (kref_of KRoute (k_ns r) ''gateway'') = None"
    using create_local [OF c, of "kref_of KRoute (k_ns r) ''gateway''"] assms(1) w(2) t by (simp add: ref)
  then obtain v where v: "GetOrDie r cRoute ''gateway'' t = (Ok None, t\<lparr>st_world := v\<rparr>)" "store v = store (st_world t)"
    using getOrDie_absent [of t cRoute "''gateway''"] by auto
  obtain o1 where "store v (oref (?route fqdn')) = Some o1"
    using there v(2) t ref by auto
  from create_exists [OF this, of False] obtain e v1 where "s_create (k_sys r) False (?route fqdn') v = (Inl e, v1)"
    by (cases "s_create (k_sys r) False (?route fqdn') v") auto
  then show ?thesis
    using v(1) by (auto simp: ensureGatewayRoute_def CreateROrDie_def client_Create_def bnd_def sysc_def Let_def ret_def exit_with_def)
qed

end

end
