(* ===== verification/Cli_Main.thy ===== *)
theory Cli_Main
  imports Standalone Cli_Nodepool Cli_Dev
begin

text \<open>
  The commands \<open>init\<close>, \<open>SF backup\<close>, \<open>SF restore\<close>, \<open>version\<close>, \<open>deploy\<close> and the rotations, and the program that they are
  part of: \<open>cli/cmd/initialize.go\<close>, \<open>backup.go\<close>, \<open>restore.go\<close>, \<open>version.go\<close>, \<open>sf.go\<close> and \<open>main.go\<close>. \<open>commands\<close> is the tree of commands
  with their flags, \<open>run_command\<close> what the program does with a command line that cobra has split.
\<close>

section \<open>A sample resource\<close>

record SFManifest =
  ma_APIVersion :: string
  ma_Kind :: string
  ma_Name :: string
  ma_Spec :: SoftwareFactorySpec

definition sample_connection :: "string \<Rightarrow> ZuulSpec \<Rightarrow> ZuulSpec" where
  "sample_connection co z =
     (if co = ''gerrit'' then z\<lparr>zu_GerritConns := [zero_GerritConnection\<lparr>ge_Name := ''gerrit'', ge_Hostname := ''gerrit''\<rparr>]\<rparr>
      else if co = ''git'' then z\<lparr>zu_GitConns := [zero_GitConnection\<lparr>gi_Name := ''git'', gi_Baseurl := ''https://git'', gi_PollDelay := 300\<rparr>]\<rparr>
      else if co = ''gitlab'' then z\<lparr>zu_GitLabConns := [zero_GitLabConnection\<lparr>gl_Name := ''gitlab''\<rparr>]\<rparr>
      else if co = ''github'' then z\<lparr>zu_GitHubConns := [zero_GitHubConnection\<lparr>gh_Name := ''github''\<rparr>]\<rparr>
      else if co = ''pagure'' then z\<lparr>zu_PagureConns := [zero_PagureConnection\<lparr>pg_Name := ''pagure''\<rparr>]\<rparr>
      else z)"

definition sized :: "StorageSpec \<Rightarrow> StorageSpec" where
  "sized s = s\<lparr>sto_Size := Qty1Gi\<rparr>"

definition sample_auth :: "ZuulSpec \<Rightarrow> ZuulSpec" where
  "sample_auth z = z\<lparr>zu_OIDCAuthenticators := [zero_ZuulOIDCAuthenticatorSpec\<lparr>oi_Name := ''zuulAuth'', oi_Realm := ''zuul'',
       oi_ClientID := ''zuul-clientid'', oi_IssuerID := ''iss''\<rparr>], zu_DefaultAuthenticator := ''zuulAuth''\<rparr>"

definition sample_zuul :: "bool \<Rightarrow> string list \<Rightarrow> ZuulSpec" where
  "sample_zuul withAuth connections =
     (let z = (if withAuth then sample_auth zero_ZuulSpec else zero_ZuulSpec) in
      fold sample_connection connections (z\<lparr>zu_Executor := (zu_Executor z)\<lparr>zx_LogLevel := ''INFO'',
        zx_Storage := sized (zx_Storage (zu_Executor z))\<rparr>\<rparr>))"

definition minimal_spec :: "bool \<Rightarrow> string list \<Rightarrow> string \<Rightarrow> SoftwareFactorySpec" where
  "minimal_spec withAuth connections first = (let s = zero_SoftwareFactorySpec in s\<lparr>
     sf_ConfigRepositoryLocation := (sf_ConfigRepositoryLocation s)\<lparr>crl_Name := ''config'', crl_ZuulConnectionName := first\<rparr>,
     sf_Logserver := (sf_Logserver s)\<lparr>ls_LoopDelay := 3600, ls_RetentionDays := 15, ls_Storage := sized (ls_Storage (sf_Logserver s))\<rparr>,
     sf_Zookeeper := (sf_Zookeeper s)\<lparr>zk_Storage := sized (zk_Storage (sf_Zookeeper s))\<rparr>,
     sf_Zuul := sample_zuul withAuth connections, sf_FQDN := ''sfop.me''\<rparr>)"

definition full_zuul :: "ZuulSpec \<Rightarrow> ZuulSpec" where
  "full_zuul z = z\<lparr>zu_ElasticSearchConns := [zero_ElasticSearchConnection\<lparr>es_Name := ''example-es'', es_URI := ''https://example-es''\<rparr>],
     zu_Merger := (zu_Merger z)\<lparr>zm_LogLevel := ''INFO'', zm_Storage := sized (zm_Storage (zu_Merger z))\<rparr>,
     zu_Scheduler := (zu_Scheduler z)\<lparr>zs_LogLevel := ''INFO'', zs_Storage := sized (zs_Storage (zu_Scheduler z))\<rparr>,
     zu_Web := (zu_Web z)\<lparr>zw_LogLevel := ''INFO''\<rparr>\<rparr>"

definition full_spec :: "bool \<Rightarrow> SoftwareFactorySpec \<Rightarrow> SoftwareFactorySpec" where
  "full_spec withBuilder s = (let np = sf_Nodepool s; md = sf_MariaDB s;
       builder = (if withBuilder then (np_Builder np)\<lparr>nb_LogLevel := ''INFO'', nb_Storage := sized (nb_Storage (np_Builder np))\<rparr> else np_Builder np) in
     s\<lparr>sf_FluentBitLogForwarding := Some (zero_FluentBitForwarderSpec\<lparr>fb_ForwardInputHost := ''fluentbit'', fb_ForwardInputPort := 24224\<rparr>),
       sf_GitServer := (sf_GitServer s)\<lparr>gs_Storage := sized (gs_Storage (sf_GitServer s))\<rparr>,
       sf_MariaDB := md\<lparr>md_DBStorage := sized (md_DBStorage md), md_LogStorage := sized (md_LogStorage md)\<rparr>,
       sf_Nodepool := np\<lparr>np_Builder := builder, np_Launcher := (np_Launcher np)\<lparr>nl_LogLevel := ''INFO''\<rparr>\<rparr>,
       sf_Zuul := full_zuul (sf_Zuul s)\<rparr>)"

definition sample_manifest :: "bool \<Rightarrow> bool \<Rightarrow> bool \<Rightarrow> string list \<Rightarrow> string \<Rightarrow> SFManifest" where
  "sample_manifest withAuth withBuilder full connections first = \<lparr>ma_APIVersion = ''sf.softwarefactory-project.io/v1'',
     ma_Kind = ''SoftwareFactory'', ma_Name = ''my-sf'',
     ma_Spec = (let s = minimal_spec withAuth connections first in if full then full_spec withBuilder s else s)\<rparr>"

definition initializeSFManifest :: "'w tools \<Rightarrow> (SFManifest \<Rightarrow> string) \<Rightarrow> bool \<Rightarrow> bool \<Rightarrow> bool \<Rightarrow> string list \<Rightarrow> ('w st, unit) prog" where
  "initializeSFManifest x marshal withAuth withBuilder full connections =
     bnd (first_arg connections) (\<lambda>first. print_line x (marshal (sample_manifest withAuth withBuilder full connections first)))"

definition initialize :: "'w tools \<Rightarrow> (SFManifest \<Rightarrow> string) \<Rightarrow> flags \<Rightarrow> string list \<Rightarrow> ('w st, unit) prog" where
  "initialize x marshal fl args = bnd (first_arg args) (\<lambda>target.
     if target = ''manifest''
     then initializeSFManifest x marshal (GetBool fl ''with-auth'') (GetBool fl ''with-builder'') (GetBool fl ''minimal'')
            (GetStringSlice fl ''connection'')
     else exit_with 1)"

definition init_flags :: flags where
  "init_flags = [(''dev'', FBool False), (''with-auth'', FBool False), (''with-builder'', FBool False), (''full'', FBool False),
     (''connection'', FSlice [''gerrit''])]"

section \<open>Backup and restoration\<close>

definition fail_if :: "'e option \<Rightarrow> ('s, unit) prog" where
  "fail_if err = (if err \<noteq> None then exit_with 1 else ret ())"

definition backupCmd :: "'w tools \<Rightarrow> flags \<Rightarrow> string list \<Rightarrow> ('w st, unit) prog" where
  "backupCmd x fl args = (let backupDir = GetString fl ''backup_dir'' in
     if backupDir = [] then exit_with 1 else
     bnd (GetCLICRContext x fl args) (\<lambda>(env, cr).
       if k_ns env = [] then exit_with 1
       else if om_name (k_owner env) = [] then exit_with 1
       else bnd (DoBackup env backupDir cr) fail_if))"

text \<open>What is set when the program is built, and the encoders it uses.\<close>

record build =
  b_marshalSpec :: "SoftwareFactorySpec \<Rightarrow> string"
  b_marshalManifest :: "SFManifest \<Rightarrow> string"
  b_version :: string
  b_static :: "string \<Rightarrow> string"
  b_script :: string

text \<open>The text that \<open>GetVersion\<close> gives while a deployment is recorded is \<open>version\<close>.\<close>

definition restoreCmd :: "'w tools \<Rightarrow> build \<Rightarrow> string \<Rightarrow> flags \<Rightarrow> string list \<Rightarrow> ('w st, unit) prog" where
  "restoreCmd x b version fl args = (let backupDir = GetString fl ''backup_dir'' in
     if backupDir = [] then exit_with 1 else
     bnd (GetCLICRContext x fl args) (\<lambda>(env, cr).
       if k_ns env = [] then exit_with 1
       else if om_name (k_owner env) \<noteq> [] then exit_with 1
       else bnd (EnsureStandaloneOwner (b_marshalSpec b) env (cr_Spec cr)) (\<lambda>env.
         bnd (DoRestore (b_marshalSpec b) version (b_static b) sf_deploys env backupDir cr) fail_if)))"

definition backup_flags :: flags where
  "backup_flags = [(''backup_dir'', FString [])]"

section \<open>Deployment and rotation\<close>

definition deployCmd :: "'w tools \<Rightarrow> build \<Rightarrow> string \<Rightarrow> flags \<Rightarrow> string list \<Rightarrow> ('w st, unit) prog" where
  "deployCmd x b version fl args = bnd (first_arg args) (\<lambda>crPath.
     if crPath = [] then exit_with 1
     else bnd (Standalone x (b_marshalSpec b) version (b_static b) sf_deploys (GetString fl ''namespace'') (GetString fl ''kube-context'')
            (GetBool fl ''dry-run'') crPath (GetString fl ''remote'')) fail_if)"

text \<open>The flag for dry runs belongs to \<open>deploy\<close>; its variable keeps the value \<open>False\<close> here.\<close>

definition rotateCmd :: "'w tools \<Rightarrow> build \<Rightarrow> string \<Rightarrow> flags \<Rightarrow> string list \<Rightarrow> ('w st, unit) prog" where
  "rotateCmd x b version fl args = bnd (first_arg args) (\<lambda>crPath.
     if crPath = [] then exit_with 1
     else bnd (RotateSecrets x (b_marshalSpec b) version (b_static b) sf_deploys (GetString fl ''namespace'')
            (GetString fl ''kube-context'') False crPath) fail_if)"

definition privRotateCmd :: "'w tools \<Rightarrow> build \<Rightarrow> flags \<Rightarrow> string list \<Rightarrow> ('w st, unit) prog" where
  "privRotateCmd x b fl args =
     bnd (let age = GetString fl ''age'' in
          if age = [] then ret 0 else (case t_parseDate x age of Inl e \<Rightarrow> exit_with 1 | Inr t \<Rightarrow> ret t)) (\<lambda>unixAge.
     bnd (GetCLICRContext x fl args) (\<lambda>(env, _).
     bnd (RotateProjectPrivateKey (b_script b) env (GetString fl ''ssh-key'') unixAge (Getenv x ''GIT_AUTHOR_NAME'')
            (Getenv x ''GIT_AUTHOR_EMAIL'')) fail_if))"

section \<open>The program\<close>

definition root_flags :: flags where
  "root_flags = [(''namespace'', FString []), (''kube-context'', FString []), (''fqdn'', FString []), (''debug'', FBool False)]"

definition deploy_flags :: flags where "deploy_flags = [(''dry-run'', FBool False), (''remote'', FString [])]"
definition priv_rotate_flags :: flags where "priv_rotate_flags = [(''ssh-key'', FString []), (''age'', FString [])]"

record 'w command =
  cd_flags :: flags
  cd_required :: "string list"
  cd_args :: "nat option"
  cd_run :: "flags \<Rightarrow> string list \<Rightarrow> ('w st, unit) prog"

definition plain :: "flags \<Rightarrow> (flags \<Rightarrow> string list \<Rightarrow> ('w st, unit) prog) \<Rightarrow> 'w command" where
  "plain fl run = \<lparr>cd_flags = fl, cd_required = [], cd_args = None, cd_run = run\<rparr>"

text \<open>A command has its path, the words that name it. The functions that build the commands, each with its flags.\<close>

type_synonym 'w tree = "(string list \<times> 'w command) list"

definition under :: "string \<Rightarrow> 'w tree \<Rightarrow> 'w tree" where
  "under name cmds = map (\<lambda>(path, c). (name # path, c)) cmds"

definition MkInitCmd :: "'w tools \<Rightarrow> build \<Rightarrow> 'w tree" where
  "MkInitCmd x b = [([''init''], plain init_flags (initialize x (b_marshalManifest b)))]"

definition MkBackupCmd :: "'w tools \<Rightarrow> 'w tree" where
  "MkBackupCmd x = [([''backup''], plain backup_flags (backupCmd x))]"

definition MkRestoreCmd :: "'w tools \<Rightarrow> build \<Rightarrow> string \<Rightarrow> 'w tree" where
  "MkRestoreCmd x b version = [([''restore''], plain backup_flags (restoreCmd x b version))]"

definition MkBootstrapCmd :: "'w tools \<Rightarrow> 'w tree" where
  "MkBootstrapCmd x = [([''bootstrap-tenant''], plain bootstrap_flags (BootstrapTenantConfigRepoCmd x))]"

definition MkSFCmd :: "'w tools \<Rightarrow> build \<Rightarrow> string \<Rightarrow> 'w tree" where
  "MkSFCmd x b version = under ''SF'' (MkBackupCmd x @ MkRestoreCmd x b version @ MkBootstrapCmd x)"

definition MkNodepoolCmd :: "'w tools \<Rightarrow> 'w tree" where
  "MkNodepoolCmd x = under ''nodepool''
     [([''create''], plain nodepool_create_flags (npCreate x)), ([''get''], plain nodepool_get_flags (npGet x))]"

definition MkVersionCmd :: "'w tools \<Rightarrow> build \<Rightarrow> 'w tree" where
  "MkVersionCmd x b = [([''version''], plain [] (\<lambda>_ _. bnd (GetVersion x (b_version b)) (print_line x)))]"

definition MkDevCmd :: "'w tools \<Rightarrow> nat \<Rightarrow> build \<Rightarrow> 'w tree" where
  "MkDevCmd x fuel b = under ''dev''
     [([''create''], plain dev_create_flags (devCreate x fuel (b_static b))), ([''wipe''], plain dev_wipe_flags (devWipe x)),
      ([''cloneAsAdmin''], plain dev_clone_flags (devCloneAsAdmin x)),
      ([''getImagesSecurityIssues''], plain [] (\<lambda>_ _. getImagesSecurityIssues x))]"

definition MkZuulCmd :: "'w tools \<Rightarrow> 'w tree" where
  "MkZuulCmd x = under ''zuul'' [([''create''], plain zuul_create_flags (zuulCreate x))]"

definition commands :: "'w tools \<Rightarrow> nat \<Rightarrow> build \<Rightarrow> string \<Rightarrow> 'w tree" where
  "commands x fuel b version =
     MkInitCmd x b @ MkSFCmd x b version @ MkNodepoolCmd x @ MkVersionCmd x b @ MkDevCmd x fuel b @ MkZuulCmd x @
     [([''deploy''], plain deploy_flags (deployCmd x b version)),
      ([''rotate-secrets''], plain [] (rotateCmd x b version)),
      ([''rotate-projects-private-keys''], \<lparr>cd_flags = priv_rotate_flags, cd_required = [''ssh-key''], cd_args = Some 1,
         cd_run = privRotateCmd x b\<rparr>)]"

lemmas command_tree = commands_def MkInitCmd_def MkSFCmd_def MkBackupCmd_def MkRestoreCmd_def MkBootstrapCmd_def MkNodepoolCmd_def
  MkVersionCmd_def MkDevCmd_def MkZuulCmd_def under_def

text \<open>
  A command line that cobra does not accept, with an undeclared flag, without a required one or with the wrong number of
  arguments, runs no command; the error is shown with the usage and dropped, so that the program ends without an error.
\<close>

definition accepted :: "'w command \<Rightarrow> flags \<Rightarrow> string list \<Rightarrow> bool" where
  "accepted c given args \<longleftrightarrow> set (map fst given) \<subseteq> set (map fst (cd_flags c @ root_flags)) \<and>
     set (cd_required c) \<subseteq> set (map fst given) \<and> (case cd_args c of None \<Rightarrow> True | Some n \<Rightarrow> length args = n)"

definition run_command :: "'w tools \<Rightarrow> nat \<Rightarrow> build \<Rightarrow> string \<Rightarrow> string list \<Rightarrow> flags \<Rightarrow> string list \<Rightarrow> ('w st, unit) prog" where
  "run_command x fuel b version path given args = (case map_of (commands x fuel b version) path of
       None \<Rightarrow> ret ()
     | Some c \<Rightarrow> if accepted c given args then cd_run c (flags_set (cd_flags c @ root_flags) given) args else ret ())"

section \<open>The sample is a valid resource\<close>

definition sample_names :: "string list" where
  "sample_names = [''gerrit'', ''github'', ''gitlab'', ''git'', ''pagure'']"

text \<open>There is at most one connection of each kind, with the name of the kind.\<close>

definition sampled :: "ZuulSpec \<Rightarrow> bool" where
  "sampled z \<longleftrightarrow> map ge_Name (zu_GerritConns z) \<in> {[], [''gerrit'']} \<and> map gh_Name (zu_GitHubConns z) \<in> {[], [''github'']} \<and>
     map gl_Name (zu_GitLabConns z) \<in> {[], [''gitlab'']} \<and> map gi_Name (zu_GitConns z) \<in> {[], [''git'']} \<and>
     map pg_Name (zu_PagureConns z) \<in> {[], [''pagure'']} \<and> map es_Name (zu_ElasticSearchConns z) \<in> {[], [''example-es'']} \<and>
     zu_SMTPConns z = []"

lemma sampled_step: "sampled z \<Longrightarrow> sampled (sample_connection co z)"
  by (simp add: sampled_def sample_connection_def)

lemma sampled_fold: "sampled z \<Longrightarrow> sampled (fold sample_connection cos z)"
  by (induction cos arbitrary: z) (auto intro: sampled_step)

lemma one_name: "map f l \<in> {[], [n]} \<Longrightarrow> f ` set l \<subseteq> {n} \<and> distinct (map f l)"
  by (cases l) auto

lemma sampled_names:
  assumes "sampled z"
  shows "ge_Name ` set (zu_GerritConns z) \<subseteq> {''gerrit''}" "gh_Name ` set (zu_GitHubConns z) \<subseteq> {''github''}"
    "gl_Name ` set (zu_GitLabConns z) \<subseteq> {''gitlab''}" "gi_Name ` set (zu_GitConns z) \<subseteq> {''git''}"
    "pg_Name ` set (zu_PagureConns z) \<subseteq> {''pagure''}" "es_Name ` set (zu_ElasticSearchConns z) \<subseteq> {''example-es''}"
    "distinct (map ge_Name (zu_GerritConns z))" "distinct (map gh_Name (zu_GitHubConns z))" "distinct (map gl_Name (zu_GitLabConns z))"
    "distinct (map gi_Name (zu_GitConns z))" "distinct (map pg_Name (zu_PagureConns z))"
    "distinct (map es_Name (zu_ElasticSearchConns z))" "zu_SMTPConns z = []"
proof -
  have m: "map ge_Name (zu_GerritConns z) \<in> {[], [''gerrit'']}" "map gh_Name (zu_GitHubConns z) \<in> {[], [''github'']}"
    "map gl_Name (zu_GitLabConns z) \<in> {[], [''gitlab'']}" "map gi_Name (zu_GitConns z) \<in> {[], [''git'']}"
    "map pg_Name (zu_PagureConns z) \<in> {[], [''pagure'']}" "map es_Name (zu_ElasticSearchConns z) \<in> {[], [''example-es'']}"
    "zu_SMTPConns z = []"
    using assms unfolding sampled_def by simp_all
  note one_name [OF m(1)] one_name [OF m(2)] one_name [OF m(3)] one_name [OF m(4)] one_name [OF m(5)] one_name [OF m(6)] m(7)
  then show "ge_Name ` set (zu_GerritConns z) \<subseteq> {''gerrit''}" "gh_Name ` set (zu_GitHubConns z) \<subseteq> {''github''}"
    "gl_Name ` set (zu_GitLabConns z) \<subseteq> {''gitlab''}" "gi_Name ` set (zu_GitConns z) \<subseteq> {''git''}"
    "pg_Name ` set (zu_PagureConns z) \<subseteq> {''pagure''}" "es_Name ` set (zu_ElasticSearchConns z) \<subseteq> {''example-es''}"
    "distinct (map ge_Name (zu_GerritConns z))" "distinct (map gh_Name (zu_GitHubConns z))" "distinct (map gl_Name (zu_GitLabConns z))"
    "distinct (map gi_Name (zu_GitConns z))" "distinct (map pg_Name (zu_PagureConns z))"
    "distinct (map es_Name (zu_ElasticSearchConns z))" "zu_SMTPConns z = []"
    by (simp_all only:)
qed

lemma names_step:
  assumes "sampled z"
  shows "set (connection_names (sample_connection co z)) = set (connection_names z) \<union> ({co} \<inter> set sample_names)"
proof -
  note s = sampled_names(1-5) [OF assms]
  consider "co = ''gerrit''" | "co = ''git''" | "co = ''gitlab''" | "co = ''github''" | "co = ''pagure''" | "co \<notin> set sample_names"
    by (auto simp: sample_names_def)
  then show ?thesis
  proof cases
    case 6
    then have "sample_connection co z = z" by (auto simp: sample_connection_def sample_names_def)
    with 6 show ?thesis by simp
  qed (use s in \<open>auto simp: image_subset_iff sample_connection_def connection_names_def sample_names_def\<close>)
qed

lemma names_fold: "sampled z \<Longrightarrow>
    set (connection_names (fold sample_connection cos z)) = set (connection_names z) \<union> (set cos \<inter> set sample_names)"
  by (induction cos arbitrary: z) (auto simp: names_step sampled_step)

lemma sampled_valid:
  assumes "sampled z"
  shows "opendev_ok z \<and> distinct (connection_names z) \<and> [] \<notin> set (connection_names z) \<and> ''git-server'' \<notin> set (connection_names z)"
proof -
  note s = sampled_names [OF assms]
  have "set (connection_names z) \<subseteq> set (sample_names @ [''example-es''])"
    using s(1-6) by (auto simp: s(13) connection_names_def sample_names_def)
  then have no: "opendev \<notin> set (connection_names z)" "[] \<notin> set (connection_names z)" "''git-server'' \<notin> set (connection_names z)"
    by (auto simp: sample_names_def opendev_def)
  have "opendev_ok z"
    using no(1) unfolding opendev_ok_def connection_names_def by (auto simp: image_iff)
  moreover have "distinct (connection_names z)"
    unfolding connection_names_def s(13) distinct_append set_append set_map using s(1-12) by (auto simp: image_subset_iff)
  ultimately show ?thesis using no by simp
qed

lemma full_zuul_sampled: "sampled z \<Longrightarrow> sampled (full_zuul z)"
  by (simp add: sampled_def full_zuul_def)

lemma full_zuul_names: "zu_ElasticSearchConns z = [] \<Longrightarrow> set (connection_names (full_zuul z)) = insert ''example-es'' (set (connection_names z))"
  by (auto simp: full_zuul_def connection_names_def)

lemma sample_spec_connections:
  "sampled (sf_Zuul (ma_Spec (sample_manifest a w f cos first)))"
  "set (connection_names (sf_Zuul (ma_Spec (sample_manifest a w f cos first)))) =
     (set cos \<inter> set sample_names) \<union> (if f then {''example-es''} else {})"
proof -
  define z0 where "z0 = (let z = (if a then sample_auth zero_ZuulSpec else zero_ZuulSpec) in
    z\<lparr>zu_Executor := (zu_Executor z)\<lparr>zx_LogLevel := ''INFO'', zx_Storage := sized (zx_Storage (zu_Executor z))\<rparr>\<rparr>)"
  have z0: "sampled z0" "connection_names z0 = []"
    by (simp_all add: z0_def Let_def sampled_def connection_names_def sample_auth_def zero_ZuulSpec_def)
  have "sample_zuul a cos = fold sample_connection cos z0"
    by (simp add: sample_zuul_def z0_def Let_def)
  then have "sampled (sample_zuul a cos) \<and> set (connection_names (sample_zuul a cos)) = set cos \<inter> set sample_names"
    using sampled_fold [OF z0(1)] names_fold [OF z0(1)] z0(2) by simp
  moreover have "sf_Zuul (minimal_spec a cos first) = sample_zuul a cos"
    by (simp add: minimal_spec_def Let_def)
  moreover have "zu_ElasticSearchConns (sample_zuul a cos) = []"
  proof -
    have "zu_ElasticSearchConns (fold sample_connection cos z) = zu_ElasticSearchConns z" for z
      by (induction cos arbitrary: z) (auto simp: sample_connection_def)
    then show ?thesis by (simp add: sample_zuul_def Let_def sample_auth_def zero_ZuulSpec_def)
  qed
  moreover have "sf_Zuul (ma_Spec (sample_manifest a w f cos first)) =
      (let z = sf_Zuul (minimal_spec a cos first) in if f then full_zuul z else z)"
    by (simp add: sample_manifest_def Let_def full_spec_def)
  ultimately show "sampled (sf_Zuul (ma_Spec (sample_manifest a w f cos first)))"
    "set (connection_names (sf_Zuul (ma_Spec (sample_manifest a w f cos first)))) =
       (set cos \<inter> set sample_names) \<union> (if f then {''example-es''} else {})"
    by (simp_all add: Let_def full_zuul_sampled full_zuul_names)
qed

lemma sample_manifest_valid:
  assumes "cr_Spec sf = ma_Spec (sample_manifest a w f cos first)"
  shows "\<exists>c t. MkSFController static r sf s = (Ok c, t) \<and> c_cr c = sf \<and>
     set (connection_names (sf_Zuul (cr_Spec sf))) = (set cos \<inter> set sample_names) \<union> (if f then {''example-es''} else {})"
proof -
  let ?z = "sf_Zuul (cr_Spec sf)"
  have v: "opendev_ok ?z" "distinct (connection_names ?z)" "[] \<notin> set (connection_names ?z)" "''git-server'' \<notin> set (connection_names ?z)"
    using sampled_valid [OF sample_spec_connections(1) [of a w f cos first]] unfolding assms by blast+
  have g: "GetUserDefinedConnections ?z = (connection_names ?z, None)" using v(1) by (simp add: GetUserDefinedConnections_ok)
  have h: "HasDuplicate (connection_names ?z) = []" using HasDuplicate_Nil v(2,3) by blast
  have "\<exists>c t. MkSFController static r sf s = (Ok c, t) \<and> c_cr c = sf"
    unfolding MkSFController_def g prod.case using h v(4) by (simp add: bnd_def modify_def ret_def)
  then show ?thesis using sample_spec_connections(2) [of a w f cos first] unfolding assms by blast
qed

section \<open>Flags without effect\<close>

lemma flags_set_other:
  assumes "n \<noteq> m"
  shows "map_of (flags_set declared ((n, v) # given)) m = map_of (flags_set declared given) m"
  using assms by (simp add: flags_set_lookup split: option.split)

lemma flag_reads_other:
  "n \<noteq> m \<Longrightarrow> GetString (flags_set d ((n, v) # given)) m = GetString (flags_set d given) m"
  "n \<noteq> m \<Longrightarrow> GetBool (flags_set d ((n, v) # given)) m = GetBool (flags_set d given) m"
  "n \<noteq> m \<Longrightarrow> GetStringSlice (flags_set d ((n, v) # given)) m = GetStringSlice (flags_set d given) m"
  by (simp_all add: GetString_def GetBool_def GetStringSlice_def flags_set_other)

lemma context_other:
  "n \<noteq> ''namespace'' \<Longrightarrow> n \<noteq> ''kube-context'' \<Longrightarrow>
     GetCLIContext x (flags_set declared ((n, v) # given)) = GetCLIContext x (flags_set declared given)"
  by (simp add: GetCLIContext_def flag_reads_other)

lemma accepted_other: "n \<in> set (map fst (cd_flags c)) \<Longrightarrow> cd_required c = [] \<Longrightarrow> accepted c ((n, v) # given) args = accepted c given args"
  by (simp add: accepted_def)

text \<open>\<open>init\<close> reads a flag \<open>minimal\<close>, and declares \<open>full\<close>.\<close>

lemma init_full_ignored:
  "run_command x fuel b version [''init''] ((''full'', FBool v) # given) args = run_command x fuel b version [''init''] given args"
proof -
  have "accepted (plain init_flags run) ((''full'', FBool v) # given) args = accepted (plain init_flags run) given args"
    for run :: "flags \<Rightarrow> string list \<Rightarrow> ('a st, unit) prog"
    by (rule accepted_other) (simp_all add: plain_def init_flags_def)
  moreover have "initialize x m (flags_set d ((''full'', FBool v) # given)) args = initialize x m (flags_set d given) args" for m d
    by (simp add: initialize_def flag_reads_other cong: if_cong)
  ultimately show ?thesis by (simp add: run_command_def command_tree plain_def)
qed

lemma dev_keep_ignored:
  "run_command x fuel b version [''dev'', ''create''] ((''keep-tenant-config'', FBool v) # given) args =
     run_command x fuel b version [''dev'', ''create''] given args"
proof -
  have "accepted (plain dev_create_flags run) ((''keep-tenant-config'', FBool v) # given) args = accepted (plain dev_create_flags run) given args"
    for run :: "flags \<Rightarrow> string list \<Rightarrow> ('a st, unit) prog"
    by (rule accepted_other) (simp_all add: plain_def dev_create_flags_def)
  moreover have "devCreate x fuel st (flags_set d ((''keep-tenant-config'', FBool v) # given)) args =
      devCreate x fuel st (flags_set d given) args" for st d
    by (simp add: devCreate_def flag_reads_other context_other demo_repos_path_def cong: if_cong)
  ultimately show ?thesis by (simp add: run_command_def command_tree plain_def)
qed

text \<open>The aliases that \<open>dev create\<close> reads cannot be given.\<close>

lemma dev_aliases_refused:
  "''hostaliases'' \<in> fst ` set given \<Longrightarrow> run_command x fuel b version [''dev'', ''create''] given args = ret ()"
  "GetStringSlice (flags_set (dev_create_flags @ root_flags) given) ''hostaliases'' = []"
  by (auto simp: run_command_def command_tree plain_def accepted_def dev_create_flags_def root_flags_def GetStringSlice_def flags_set_lookup)

section \<open>Guards of the backup and the restoration\<close>

context station
begin

lemma readSF_touches: "within (touches store X) (ReadSFYAML x fp)"
  by (rule context_touches)

lemma cr_context_touches: "within (touches store X) (GetCLICRContext x fl args)"
proof (cases args)
  case (Cons crPath rest)
  have owner: "within (touches store X) (GetStandaloneOwner env)" if "kube_client env store" for env
    unfolding GetStandaloneOwner_def by (intro touch.within_rules kube_client.getOrDie_touches [OF that])
  have inner: "within (touches store X) (bnd (MkSFKubeContext x kc ns ctx False) (\<lambda>res. case res of
      Inl e \<Rightarrow> exit_with 1 | Inr env \<Rightarrow> bnd (GetStandaloneOwner env) (\<lambda>(_, env'). ret (env', sf))))" for kc ns ctx and sf :: SoftwareFactory
  proof (rule touch.within_bnd_post [OF context_touches(1)])
    fix s res t assume "MkSFKubeContext x kc ns ctx False s = (Ok res, t)"
    then show "within (touches store X) (case res of
      Inl e \<Rightarrow> exit_with 1 | Inr env \<Rightarrow> bnd (GetStandaloneOwner env) (\<lambda>(_, env'). ret (env', sf)))"
      using context_client by (cases res) (auto intro!: touch.within_rules owner)
  qed
  have kc: "within (touches store X) (default_kubeconfig x crPath)"
    unfolding default_kubeconfig_def Let_def by (intro touch.within_rules tool_touches)
  show ?thesis
    unfolding GetCLICRContext_def Cons list.case
    by (rule touch.within_bnd [OF readSF_touches], rule touch.within_sum, rule touch.within_exit, rule touch.within_bnd [OF kc inner])
qed (simp add: GetCLICRContext_def touch.within_rules)

text \<open>A command that needs a context and refuses some of them changes nothing when it refuses.\<close>

lemma refused:
  assumes "bnd (GetCLICRContext x fl args) f s = (out, t)"
    and "\<And>env cr u. GetCLICRContext x fl args s = (Ok (env, cr), u) \<Longrightarrow> f (env, cr) = exit_with 1"
  shows "(\<nexists>v. out = Ok v) \<and> store (st_world t) = store (st_world s)"
proof -
  obtain a u where a: "GetCLICRContext x fl args s = (a, u)" by fastforce
  have same: "store (st_world u) = store (st_world s)"
    using withinD [OF cr_context_touches [of "{}"] a] by (simp add: touches_empty)
  show ?thesis
  proof (cases a)
    case (Ok p)
    obtain env cr where "p = (env, cr)" by fastforce
    with assms a Ok same show ?thesis by (auto simp: bnd_def exit_with_def)
  qed (use assms(1) a same in \<open>auto simp: bnd_def\<close>)
qed

lemma exit_refused: "exit_with 1 s = (out, t) \<Longrightarrow> (\<nexists>v. out = Ok v) \<and> store (st_world t) = store (st_world s)"
  by (auto simp: exit_with_def)

lemma restore_refused:
  assumes "restoreCmd x b version fl args s = (out, t)"
    and "\<And>env cr u. GetCLICRContext x fl args s = (Ok (env, cr), u) \<Longrightarrow> om_name (k_owner env) \<noteq> []"
  shows "(\<nexists>v. out = Ok v) \<and> store (st_world t) = store (st_world s)"
proof (cases "GetString fl ''backup_dir'' = []")
  case False
  show ?thesis
    by (rule refused [OF assms(1) [unfolded restoreCmd_def Let_def if_not_P [OF False]]]) (auto dest: assms(2))
qed (use assms(1) exit_refused in \<open>auto simp: restoreCmd_def Let_def\<close>)

lemma backup_refused:
  assumes "backupCmd x fl args s = (out, t)"
    and "\<And>env cr u. GetCLICRContext x fl args s = (Ok (env, cr), u) \<Longrightarrow> om_name (k_owner env) = []"
  shows "(\<nexists>v. out = Ok v) \<and> store (st_world t) = store (st_world s)"
proof (cases "GetString fl ''backup_dir'' = []")
  case False
  show ?thesis
    by (rule refused [OF assms(1) [unfolded backupCmd_def Let_def if_not_P [OF False]]]) (auto dest: assms(2))
qed (use assms(1) exit_refused in \<open>auto simp: backupCmd_def Let_def\<close>)

end

end
