(* ===== verification/Cli_Properties.thy ===== *)
theory Cli_Properties
  imports Demo Cli_Main
begin

text \<open>
  The properties of the command line: the Gerrit of the development environment, the hosts file, the secrets of
  Nodepool, the sample resource, the flags, the guards of the commands, the report on the images, and the configuration
  of zuul-client. Each rests on the lemmas of the theory of its command, at an instance of the locale they are proved in.
\<close>

section \<open>Gerrit of the development environment\<close>

definition busy_ctx :: "mem_world kctx" where
  "busy_ctx = (demo_ctx False)\<lparr>k_sys := busy_sys\<rparr>"

lemma busy_waiting: "waiting_healthy_client busy_ctx mem_store"
  unfolding busy_ctx_def by (rule busy_client.waiting_healthy_client_axioms)

lemma busy_deployed: "fst (EnsureGerrit 2 (\<lambda>_. []) busy_ctx ''sf.org'' [] (demo_st [])) = Ok ()"
  by code_simp

text \<open>
  C29. Deploying Gerrit and wiping it, data included, is a round trip for everything the operator does not leave to the
  cluster: after a deployment that succeeds, the wipe succeeds, no object it knows is left, and each other object is as it
  was before the deployment, the namespace apart. On Kubernetes the ingress and its certificate stay, which the wipe does
  not know; on OpenShift the route goes.
\<close>

theorem gerrit_roundtrip:
  assumes "waiting_healthy_client r store" and "\<forall>y\<in>wiped_refs r True. store (st_world s) y = None"
    and "EnsureGerrit fuel static r fqdn hostAliases s = (Ok (), t)"
  shows "\<exists>u. WipeGerrit r True t = (Ok (), u) \<and> (\<forall>y\<in>wiped_refs r True. store (st_world u) y = None) \<and>
    (\<forall>y. y \<notin> gerrit_leftovers r \<longrightarrow> store (st_world u) y = store (st_world s) y \<or>
       by_cluster y (store (st_world s) y) (store (st_world u) y)) \<and>
    (\<not> k_isOpenShift r \<longrightarrow> (\<forall>y\<in>set (gerrit_entry r). store (st_world u) y \<noteq> None))"
  by (rule waiting_healthy_client.deploy_then_wipe [OF assms(1,3,2)])

theorem gerrit_roundtrip_witness:
  "\<exists>u. WipeGerrit busy_ctx True (snd (EnsureGerrit 2 (\<lambda>_. []) busy_ctx ''sf.org'' [] (demo_st []))) = (Ok (), u) \<and>
     mem_store (st_world u) (kref_of KStatefulSet ''sf'' ''gerrit'') = None \<and>
     mem_store (st_world u) (kref_of KIngress ''sf'' ''gerrit-ingress'') \<noteq> None"
proof -
  have run: "EnsureGerrit 2 (\<lambda>_. []) busy_ctx ''sf.org'' [] (demo_st []) =
      (Ok (), snd (EnsureGerrit 2 (\<lambda>_. []) busy_ctx ''sf.org'' [] (demo_st [])))"
    by (rule prod_eqI) (simp_all only: fst_conv snd_conv busy_deployed)
  have "\<forall>y\<in>wiped_refs busy_ctx True. mem_store (st_world (demo_st [])) y = None"
    by (simp add: demo_st_def mem_store_def)
  from gerrit_roundtrip [OF busy_waiting this run] show ?thesis
    by (auto simp: busy_ctx_def demo_ctx_def wiped_refs_def gerrit_core_def gerrit_names gerrit_entry_def)
qed



section \<open>Hosts file and Nodepool\<close>



text \<open>
  C32. \<open>nodepool create openshiftpods-namespace\<close> and the secret of the providers: \<open>ensureNodepoolKubeProvidersSecrets\<close> leaves
  the kubeconfig it is given under its key, or an empty value when there is none, keeps the value of every other key and
  every other object, and a second run changes nothing.
\<close>

theorem providers_secret_updated:
  assumes "healthy_client r store"
  shows "\<exists>t. ensureNodepoolKubeProvidersSecrets r kubeconfig s = (Ok (), t) \<and>
    provider_value r (store (st_world t)) ''kube.config'' = (case kubeconfig of None \<Rightarrow> [] | Some v \<Rightarrow> v) \<and>
    (\<forall>k. k \<noteq> ''kube.config'' \<longrightarrow> provider_value r (store (st_world t)) k = provider_value r (store (st_world s)) k) \<and>
    (\<forall>y. y \<noteq> providers_ref r \<longrightarrow> store (st_world t) y = store (st_world s) y) \<and>
    (\<exists>u. ensureNodepoolKubeProvidersSecrets r kubeconfig t = (Ok (), u) \<and> store (st_world u) = store (st_world t))"
  by (rule healthy_client.providers_set [OF assms])

definition demo_providers :: secret where
  "demo_providers = \<lparr>se_meta = mk_meta NodepoolProvidersSecretsName ''sf'',
     se_data = Some (smap_of [(''clouds.yaml'', ''cloud''), (''kube.config'', ''old'')]), se_type = []\<rparr>"

theorem providers_secret_updated_witness:
  "\<exists>t. ensureNodepoolKubeProvidersSecrets (demo_ctx False) (Some ''new'') (demo_st [OSecret demo_providers]) = (Ok (), t) \<and>
     provider_value (demo_ctx False) (mem_store (st_world t)) ''kube.config'' = ''new'' \<and>
     provider_value (demo_ctx False) (mem_store (st_world t)) ''clouds.yaml'' = ''cloud''"
proof -
  have "provider_value (demo_ctx False) (mem_store (st_world (demo_st [OSecret demo_providers]))) ''clouds.yaml'' = ''cloud''"
    by code_simp
  with providers_secret_updated [OF demo_healthy, of "Some ''new''" "demo_st [OSecret demo_providers]"] show ?thesis by auto
qed

section \<open>The sample resource and the flags\<close>

text \<open>
  C33. The resource that \<open>init manifest\<close> prints is one that the operator accepts, whatever the flags: the connections it
  has are the known ones among those asked for, once each, and the Elasticsearch one of the full variant.
\<close>

theorem sample_manifest_accepted:
  "\<exists>c t. MkSFController static r (sf\<lparr>cr_Spec := ma_Spec (sample_manifest withAuth withBuilder full connections first)\<rparr>) s = (Ok c, t) \<and>
     set (connection_names (sf_Zuul (cr_Spec (c_cr c)))) =
       (set connections \<inter> {''gerrit'', ''github'', ''gitlab'', ''git'', ''pagure''}) \<union> (if full then {''example-es''} else {})"
  using sample_manifest_valid [of "sf\<lparr>cr_Spec := ma_Spec (sample_manifest withAuth withBuilder full connections first)\<rparr>"
      withAuth withBuilder full connections first static r s]
  by (auto simp: sample_names_def)


section \<open>Guards\<close>

text \<open>\<open>refuses store m s\<close>: from \<open>s\<close> the command \<open>m\<close> does not return, and every object is as it was.\<close>

definition refuses :: "('w \<Rightarrow> kref \<Rightarrow> kobj option) \<Rightarrow> ('w st, unit) prog \<Rightarrow> 'w st \<Rightarrow> bool" where
  "refuses store m s \<longleftrightarrow> fst (m s) \<noteq> Ok () \<and> store (st_world (snd (m s))) = store (st_world s)"

text \<open>
  C35. A backup is made of an instance that is deployed, and restored where none is: of the two commands with the same
  resource and flags one is refused, by whether the instance has its owner, and a refused command changes no object.
\<close>

theorem backup_and_restore_guarded:
  assumes "station x store" and "GetCLICRContext x fl args s = (Ok (env, cr), u)"
  shows "if om_name (k_owner env) = [] then refuses store (backupCmd x fl args) s else refuses store (restoreCmd x b version fl args) s"
proof -
  have same: "env' = env" if "GetCLICRContext x fl args s = (Ok (env', cr'), u')" for env' cr' u'
    using assms(2) that by simp
  show ?thesis
  proof (cases "om_name (k_owner env) = []")
    case True
    have "refuses store (backupCmd x fl args) s"
      unfolding refuses_def using station.backup_refused [OF assms(1) prod.collapse [symmetric]] same True by metis
    with True show ?thesis by simp
  next
    case False
    have "refuses store (restoreCmd x b version fl args) s"
      unfolding refuses_def using station.restore_refused [OF assms(1) prod.collapse [symmetric]] same False by metis
    with False show ?thesis by simp
  qed
qed

definition demo_files :: "kobj list \<Rightarrow> mem_world st" where
  "demo_files objs = (demo_st objs)\<lparr>st_world := (st_world (demo_st objs))\<lparr>mw_files :=
     fmap_of_list [(''cr.yaml'', ''spec''), (''executor.yaml'', ''spec'')]\<rparr>\<rparr>"

definition demo_build :: build where
  "demo_build = \<lparr>b_marshalSpec = (\<lambda>_. []), b_marshalManifest = (\<lambda>_. []), b_version = ''v1'', b_static = (\<lambda>_. []), b_script = []\<rparr>"

theorem backup_and_restore_guarded_witness:
  "refuses mem_store (backupCmd mem_tools [(''backup_dir'', FString ''b'')] [''cr.yaml'']) (demo_files [])"
proof -
  let ?c = "GetCLICRContext mem_tools [(''backup_dir'', FString ''b'')] [''cr.yaml''] (demo_files [])"
  have run: "(case fst ?c of Ok (env, cr) \<Rightarrow> om_name (k_owner env) = [] | _ \<Rightarrow> False)" by code_simp
  then obtain env cr where c: "?c = (Ok (env, cr), snd ?c)" "om_name (k_owner env) = []"
    by (cases ?c) (auto split: outcome.splits)
  show ?thesis
    using backup_and_restore_guarded [OF mem_station.station_axioms c(1), of demo_build "[]"] c(2) by simp
qed

text \<open>
  C36. \<open>deploy --remote\<close> with a resource that is not one of a remote executor is refused before anything is written: no
  secret of the control plane is copied, and no object of any cluster changes.
\<close>

theorem remote_deploy_guarded:
  assumes "station x store" and "crPath \<noteq> []" and "remotePath \<noteq> []"
    and "\<And>sf t. ReadSFYAML x remotePath s = (Ok (Inr sf), t) \<Longrightarrow> zx_Standalone (zu_Executor (sf_Zuul (cr_Spec sf))) = None"
  shows "refuses store (deployCmd x b version [(''remote'', FString remotePath), (''namespace'', FString ns)] [crPath]) s"
proof -
  let ?m = "Standalone x (b_marshalSpec b) version (b_static b) sf_deploys ns [] False crPath remotePath"
  have run: "deployCmd x b version [(''remote'', FString remotePath), (''namespace'', FString ns)] [crPath] = bnd ?m fail_if"
    using assms(2) by (simp add: deployCmd_def first_arg_def GetString_def GetBool_def)
  have "(\<nexists>v. fst (?m s) = Ok v) \<and> store (st_world (snd (?m s))) = store (st_world s)"
    by (rule station.remote_refused [OF assms(1,3,2) assms(4)]) (simp_all add: prod.collapse)
  then show ?thesis
    unfolding run refuses_def by (cases "?m s"; cases "fst (?m s)") (auto simp: bnd_def)
qed

theorem remote_deploy_guarded_witness:
  "refuses mem_store (deployCmd mem_tools demo_build ''v1'' [(''remote'', FString ''executor.yaml''), (''namespace'', FString ''sf'')]
     [''cr.yaml'']) (demo_files [])"
proof (rule remote_deploy_guarded [OF mem_station.station_axioms])
  fix sf t assume "ReadSFYAML mem_tools ''executor.yaml'' (demo_files []) = (Ok (Inr sf), t)"
  moreover have "(case fst (ReadSFYAML mem_tools ''executor.yaml'' (demo_files [])) of
      Ok (Inr sf) \<Rightarrow> zx_Standalone (zu_Executor (sf_Zuul (cr_Spec sf))) = None | _ \<Rightarrow> False)" by code_simp
  ultimately show "zx_Standalone (zu_Executor (sf_Zuul (cr_Spec sf))) = None" by simp
qed simp_all

section \<open>Reports and generated files\<close>








text \<open>
  C38. \<open>dev create\<close> is not idempotent on OpenShift: the route of the gateway is looked up under one name and created
  under another, so that a second run, which finds none, tries to create it again and ends the process with status 1.
\<close>

theorem gateway_route_not_idempotent:
  assumes "healthy_client r store" and "store (st_world s) (kref_of KRoute (k_ns r) ''gateway'') = None"
    and "ensureGatewayRoute r fqdn s = (Ok (), t)"
  shows "\<exists>u. ensureGatewayRoute r fqdn' t = (Exit 1, u)"
  by (rule healthy_client.gateway_route_twice [OF assms])

theorem gateway_route_not_idempotent_witness:
  "\<exists>u. ensureGatewayRoute (demo_ctx False) ''sf.org'' (snd (ensureGatewayRoute (demo_ctx False) ''sf.org'' (demo_st []))) = (Exit 1, u)"
proof -
  let ?first = "ensureGatewayRoute (demo_ctx False) ''sf.org'' (demo_st [])"
  have "fst ?first = Ok ()" by code_simp
  then have run: "?first = (Ok (), snd ?first)" by (rule prod_eqI [where p = ?first and q = "(Ok (), snd ?first)", simplified])
  show ?thesis
    by (rule gateway_route_not_idempotent [OF demo_healthy _ run]) (simp add: demo_st_def mem_store_def)
qed





end
