(* ===== verification/Spec2Isabelle.thy ===== *)
theory Spec2Isabelle
  imports Cli_Properties
begin

text \<open>
  A model of \<open>sf-operator\<close>, the operator that deploys Zuul, Nodepool and their services on Kubernetes, and
  the theorems that make its parts correct.

  The program. \<open>StandaloneReconcile\<close> (\<open>src/controllers/softwarefactory_controller.go\<close>) runs \<open>Step\<close> until the instance is
  ready, at most 60 times. A step cleans up, validates the secrets of the connections, and deploys the services in
  a fixed order: each \<open>Deploy\<close> function builds the objects of its service from the custom resource, has them created or
  updated through the \<open>Ensure\<close> functions, waits for its pods, expands its volumes and records a condition.
  The commands of \<open>main.go\<close> and \<open>src/cli/cmd\<close> make a context from a kubeconfig and reach the same functions to deploy, to rotate
  secrets, to back up and to restore; others set up a development environment or prepare files for Zuul and Nodepool.

  How it is modelled. A function with effects is a \<open>prog\<close>: from a state it gives a result, a panic, an exit of the process
  or \<open>Stuck\<close> (a loop that ran out of fuel), and the next state. The state \<open>st\<close> holds the world, the conditions of the
  custom resource, the package variable with the security context of the pods, and the memory of the keys of the log
  server. The world is a type variable: what the operator calls outside its sources (the API server, commands in
  pods, clock, random and key generation, files, templates, YAML and ini libraries, the order of a \<open>range\<close> over a
  map) is the record \<open>sys\<close>, whose laws are the locales below. What the command line uses of its workstation (flags, files,
  programs, HTTP, kubeconfigs) is the record \<open>tools\<close>. The embedded files of \<open>static/\<close> are read through
  \<open>c_static\<close>. A Go \<open>map[string]string\<close> is an \<open>smap\<close> (a \<open>gomap\<close> when nil matters), a pointer an option, a struct a record.

  The theories, each with the code it models.
  \<^item> \<open>Prelude\<close>: Go strings, maps and errors; programs, their combinators and the rules that bound their effects.
  \<^item> \<open>Kube\<close>: the Kubernetes objects that the operator builds. \<open>Cluster\<close>: the outside world, its laws, an in-memory cluster.
  \<^item> \<open>Client\<close>: \<open>libs/client\<close>, \<open>controllers/context.go\<close>. \<open>Api_Types\<close>: \<open>api/v1/softwarefactory_types.go\<close>.
  \<^item> \<open>Base\<close>: \<open>libs/base\<close>, \<open>libs/utils\<close>. \<open>Ensure\<close> and \<open>Workload\<close>: \<open>controllers/utils.go\<close>. \<open>Conditions\<close>: \<open>libs/conds\<close>.
  \<^item> \<open>Connections\<close>: the controller and the validation of the connections. \<open>Reconcile\<close>: the step and the standalone
    loop, over the interface \<open>deploys\<close> of the services; \<open>SF_Step\<close> fills it with the services below.
  \<^item> \<open>Sidecars\<close>: \<open>libs/monitoring\<close>, \<open>libs/logging\<close>, the certificates of ZooKeeper. \<open>ZuulCF\<close>: \<open>libs/zuulcf\<close>.
  \<^item> \<open>Backing\<close>: \<open>mariadb.go\<close>, \<open>zookeeper.go\<close>. \<open>GitServer\<close>: \<open>git_server.go\<close>. \<open>Services\<close>: log server, gateway, code search,
    LogJuicer, weeder, capacity. \<open>Zuul_Conf\<close> and \<open>Zuul\<close>: \<open>zuul.go\<close>. \<open>Nodepool\<close>: \<open>nodepool.go\<close>. \<open>ConfigJobs\<close>: \<open>config.go\<close>.
  \<^item> \<open>Maintenance\<close> and \<open>Backup\<close>: cleaning, rotation of the secrets, backup and restoration. \<open>Certs\<close>: \<open>libs/cert\<close>.
  \<^item> \<open>Tools\<close>: flags, the workstation, \<open>MkKubeClient\<close>, \<open>discover.go\<close>, \<open>version.go\<close>. \<open>Standalone\<close>: \<open>controllers/main.go\<close> and
    \<open>setupRemoteExecutorConfig\<close>. \<open>Cli_Utils\<close>: \<open>cli/cmd/utils\<close>. \<open>Cli_Gerrit\<close> and \<open>Cli_Dev\<close>: \<open>cli/cmd/dev\<close>. \<open>Cli_Nodepool\<close>, \<open>Cli_Zuul\<close>,
    \<open>Cli_Bootstrap\<close>: the commands of these names. \<open>Cli_Main\<close>: the tree of the commands, \<open>init\<close>, \<open>backup\<close>, \<open>restore\<close>, \<open>deploy\<close>.
  \<^item> \<open>Footprint\<close>, \<open>Totality\<close>, \<open>Pod_Facts\<close>, \<open>Conf_Facts\<close>, \<open>Service_Facts\<close>: the facts on the services that the properties use.
    \<open>Demo\<close>: concrete contexts and states for the witnesses. \<open>Cli_Properties\<close>: the properties of the command line.

  The laws, as locales, and their interpretations on the in-memory cluster (in \<open>Cluster\<close>, \<open>Client\<close> and where a client
  of the locale is defined).
  \<^item> \<open>kube_observed\<close> asks little: calls may fail, a write changes at most the object it names, a dry-run call none.
    \<open>kube_healthy\<close>: every request is answered and stores what was sent up to \<open>admitted\<close>. \<open>kube_quiet\<close>: nobody else writes.
  \<^item> \<open>kube_client\<close>, \<open>healthy_client\<close>, \<open>live_client\<close>, \<open>quiet_client\<close>: the same for a context of the operator.
  \<^item> \<open>ensured\<close>: the contract of an \<open>Ensure\<close> function: it ends with a good object, touches no other, and is then idle.
  \<^item> \<open>clock_client\<close>: a clock that does not run backwards. \<open>ini_library\<close>, \<open>go_map\<close>: the ini library and the loop over a map.
  \<^item> \<open>workstation\<close>: the workstation does not reach the cluster but through a context. \<open>station\<close>: the clusters it connects to
    are observed. \<open>kube_managed\<close>, \<open>waiting_client\<close>: while one waits, the cluster changes pods, claims, and the objects
    whose status it keeps, which it does not remove.
  \<^item> \<open>footprint\<close>, \<open>step_clock\<close>, \<open>conf_file\<close>, \<open>zuul_conf\<close>: what the whole step, its waits and \<open>zuul.conf\<close> keep.

  The lemmas. \<open>within\<close> bounds what a program may change, by the objects it touches: the bound of a function follows from
  those of its calls, up to the whole step (\<open>Footprint\<close>). \<open>yields\<close> bounds what it returns, \<open>leaves\<close> what it returns and
  leaves, \<open>turns\<close> that it returns and what it leaves then, and \<open>unstuck\<close> that it has enough fuel. For the commands,
  \<open>adds\<close> bounds where objects may come up, \<open>brings\<close> says which are there at the end, and \<open>erases\<close> which are gone.

  Fuel. Of the loops of a step only the wait for a stateful set is bounded by the clock: it polls every two seconds until
  the grace period \<open>g\<close> is over, and gets \<open>g div 2 + 2\<close> turns, which is enough (\<open>waitStatefulset_terminates\<close>, C18). The others
  are over finite lists, or count their attempts as the code does (60 steps, 10 polls). \<open>EnsureGerrit\<close> waits for its
  stateful set without a bound, so its fuel is an argument: its properties hold for any, and a run that ends is the same
  with more (\<open>ensureGerrit_more\<close>).

  The properties. C1 to C5: the \<open>Ensure\<close> functions converge, and dry runs write nothing. C6 to C12, C16 to C19: the step,
  its order, readiness, footprint and end. C13 to C15: volumes, cleaning, backup. C20, C21: certificates and database.
  C22 to C24: well-formed pods. C25, C26: \<open>zuul.conf\<close>. C27, C28: names, security contexts. C29 to C40, in \<open>Cli_Properties\<close>:
  the command line. C28, C34 and C38 state behaviours that look unintended, as do the theorems without a number on dry
  runs, on the last attempt of the standalone loop, on swapped ports, on shared secrets and on the clients of ZooKeeper.

  Not modelled. The generated deep copies (the identity on the values of the model), the registration of the types with
  the client library, what is logged or written on the standard error, the modes of files, the text of the help, and how
  cobra parses a command line: \<open>run_command\<close> takes the path of the command, the flags given and the arguments, and decides as
  cobra does whether they are accepted. Keys, certificates and their encodings are operations of \<open>sys\<close>. Objects are
  modelled with the fields that the operator sets or reads. Other writers of the cluster are excluded only where
  \<open>kube_quiet\<close>, \<open>kube_healthy\<close> or \<open>kube_managed\<close> is assumed.
\<close>

section \<open>Ensuring objects\<close>

text \<open>
  C1. On a server that answers every request, \<open>EnsureConfigMap\<close> ends with the config map holding the
  wanted data, changes no other object, and a second call changes nothing at all.
\<close>

theorem EnsureConfigMap_converges:
  assumes "live_client r store" and "gm_fm data \<noteq> fmempty"
  shows "\<exists>cm t cm'. EnsureConfigMap r baseName data s = (Ok cm, t) \<and>
    store (st_world t) (kref_of KConfigMap (k_ns r) (baseName @ ''-config-map'')) = Some (OConfigMap cm') \<and>
    cm_data cm' = data \<and>
    (\<forall>x. x \<noteq> kref_of KConfigMap (k_ns r) (baseName @ ''-config-map'') \<longrightarrow>
       store (st_world t) x = store (st_world s) x) \<and>
    (\<exists>cm2 u. EnsureConfigMap r baseName data t = (Ok cm2, u) \<and> store (st_world u) = store (st_world t))"
  using ensured.converges [OF live_client.configmap_ensured [OF assms, of baseName], of s]
  by (fastforce simp: cm_good_def)

theorem EnsureConfigMap_converges_witness:
  "\<exists>cm t cm'. EnsureConfigMap (demo_ctx False) ''zuul'' demo_data (demo_st []) = (Ok cm, t) \<and>
    mem_store (st_world t) (kref_of KConfigMap ''sf'' ''zuul-config-map'') = Some (OConfigMap cm') \<and> cm_data cm' = demo_data"
  using EnsureConfigMap_converges [OF demo_live demo_data_full, of "''zuul''" "demo_st []"]
  by (auto simp: demo_ctx_def)

text \<open>
  C2. On a server that answers every request, \<open>ensureStatefulset\<close> ends with a stateful set that has
  the images, the annotations, the grace period and the replica count that were asked for, changes
  no other object, and a second call changes nothing.
\<close>

theorem ensureStatefulset_converges:
  assumes "live_client r store" and "gm_fm (template_annotations (ss_template sts)) \<noteq> fmempty"
    and "om_namespace (ss_meta sts) = k_ns r" and "n = None \<or> n = ss_replicas sts"
  shows "\<exists>out t x. ensureStatefulset r sts n s = (Ok out, t) \<and>
    store (st_world t) (kref_of KStatefulSet (k_ns r) (om_name (ss_meta sts))) = Some (OStatefulSet x) \<and>
    (\<forall>i < length (template_images (ss_template sts)). i < length (template_images (ss_template x)) \<and>
       ct_image (template_images (ss_template x) ! i) = ct_image (template_images (ss_template sts) ! i)) \<and>
    template_annotations (ss_template x) = template_annotations (ss_template sts) \<and>
    getGracePeriod x = getGracePeriod sts \<and>
    (n \<noteq> None \<longrightarrow> n = Some (case ss_replicas x of None \<Rightarrow> 1 | Some m \<Rightarrow> m)) \<and>
    (\<forall>a. a \<noteq> kref_of KStatefulSet (k_ns r) (om_name (ss_meta sts)) \<longrightarrow> store (st_world t) a = store (st_world s) a) \<and>
    (\<exists>out2 u. ensureStatefulset r sts n t = (Ok out2, u) \<and> store (st_world u) = store (st_world t))"
proof -
  have "count_agrees n (ss_replicas sts)" using assms(4) by (simp add: count_agrees_def)
  from ensured.converges [OF live_client.statefulset_ensured [OF assms(1-3) this], of s]
  obtain out t x where t: "ensureStatefulset r sts n s = (Ok out, t)"
      "store (st_world t) (kref_of KStatefulSet (k_ns r) (om_name (ss_meta sts))) = Some (OStatefulSet x)"
      "\<forall>a. a \<noteq> kref_of KStatefulSet (k_ns r) (om_name (ss_meta sts)) \<longrightarrow> store (st_world t) a = store (st_world s) a"
      "\<exists>out2 u. ensureStatefulset r sts n t = (Ok out2, u) \<and> store (st_world u) = store (st_world t)"
    and x: "\<not> sts_needUpdate sts n x"
    by (auto simp: sts_good_def)
  from t sts_current [OF x] show ?thesis by blast
qed

theorem ensureStatefulset_converges_witness:
  "\<exists>out t x. ensureStatefulset (demo_ctx False) demo_sts (Some 1) (demo_st []) = (Ok out, t) \<and>
    mem_store (st_world t) (kref_of KStatefulSet ''sf'' ''zuul'') = Some (OStatefulSet x)"
  using ensureStatefulset_converges [OF demo_live, of demo_sts "Some 1" "demo_st []"] by auto



text \<open>
  C4. On a server that answers every request, \<open>EnsureSecret\<close> ends with the secret holding the wanted
  data, changes no other object, and a second call changes nothing.
\<close>

theorem EnsureSecret_converges:
  assumes "live_client r store" and "gm_fm (se_data secret) \<noteq> fmempty" and "om_namespace (se_meta secret) = k_ns r"
  shows "\<exists>t x. EnsureSecret r secret s = (Ok (), t) \<and>
    store (st_world t) (kref_of KSecret (k_ns r) (om_name (se_meta secret))) = Some (OSecret x) \<and>
    se_data x = se_data secret \<and>
    (\<forall>a. a \<noteq> kref_of KSecret (k_ns r) (om_name (se_meta secret)) \<longrightarrow> store (st_world t) a = store (st_world s) a) \<and>
    (\<exists>u. EnsureSecret r secret t = (Ok (), u) \<and> store (st_world u) = store (st_world t))"
  using ensured.converges [OF live_client.secret_ensured [OF assms], of s]
  by (fastforce simp: se_good_def)

theorem EnsureSecret_converges_witness:
  "\<exists>t x. EnsureSecret (demo_ctx False) \<lparr>se_meta = mk_meta ''key'' ''sf'', se_data = demo_data, se_type = []\<rparr> (demo_st []) = (Ok (), t) \<and>
    mem_store (st_world t) (kref_of KSecret ''sf'' ''key'') = Some (OSecret x) \<and> se_data x = demo_data"
  using EnsureSecret_converges [OF demo_live, of "\<lparr>se_meta = mk_meta ''key'' ''sf'', se_data = demo_data, se_type = []\<rparr>" "demo_st []"]
  by (auto simp: mk_meta_def)



section \<open>Reconciliation\<close>

text \<open>
  C6. When a step of the complete deployment reports an instance as ready, all its core services
  were reported as ready: the git server, the database, the log server, the gateway, LogJuicer,
  ZooKeeper, the two Nodepool services, Zuul and the configuration.
\<close>

theorem ready_means_all_services:
  assumes "deploySFStep r d fmempty s = (Ok services, t)" and "isOperatorReady services"
  shows "\<forall>n \<in> set [''GitServer'', ''MariaDB'', ''Logserver'', ''Gateway'', ''LogJuicer'', ''Zookeeper'',
     ''NodePoolLauncher'', ''NodePoolBuilder'', ''Zuul'', ''Config'']. fmlookup services n = Some True"
  using yieldsD [OF deploySFStep_yields assms(1)] assms(2) unfolding core_services_def by blast

lemma ready_upd: "isOperatorReady fmempty" "isOperatorReady m \<Longrightarrow> isOperatorReady (fmupd n True m)"
  by (auto simp: isOperatorReady_def fmpred_upd)

theorem ready_means_all_services_witness:
  "\<exists>services t. deploySFStep demo_ctrl (demo_deploys True) fmempty (demo_st []) = (Ok services, t) \<and>
     fmlookup services ''NodePoolBuilder'' = Some True"
proof -
  have "gm_fm (Some (tooling_data demo_ctrl)) \<noteq> fmempty" by (simp add: tooling_data_def)
  from ensured.settles [OF live_client.configmap_ensured [OF demo_live this, of "''zuul-scheduler-tooling''"], of "demo_st []"]
  obtain t where "EnsureToolingVolume demo_ctrl (demo_st []) = (Ok (), t)"
    by (auto simp: EnsureToolingVolume_def bnd_def)
  moreover obtain u where "RefreshCondition (demo_ctx False) ''ConfigReady'' ''True'' ''Ready'' ''Config is ready'' t = (Ok (), u)"
    using RefreshCondition_run [of "''ConfigReady''" "demo_ctx False" "''True''" "''Ready''" "''Config is ready''" t] by auto
  moreover have "IsCodesearchEnabled demo_ctrl" by code_simp
  moreover define m where "m = foldr (\<lambda>n. fmupd n True) [''Config'', ''Zuul'', ''NodePoolBuilder'', ''NodePoolLauncher'', ''Zookeeper'',
      ''LogJuicer'', ''HoundSearch'', ''Gateway'', ''Logserver'', ''MariaDB'', ''GitServer''] (fmempty :: services)"
  ultimately have run: "deploySFStep demo_ctrl (demo_deploys True) fmempty (demo_st []) = (Ok m, u)"
    by (simp add: deploySFStep_def deployZKAndZuulAndNodepool_def demo_deploys_def bnd_def Let_def svc_get_def
        LauncherIdent_def BuilderIdent_def)
  have "isOperatorReady m" unfolding m_def by (simp add: ready_upd)
  from bspec [OF ready_means_all_services [OF run this], of "''NodePoolBuilder''"] run show ?thesis by simp
qed

text \<open>
  C7. Zuul and Nodepool are left alone while the git server or the database is not ready, or while
  ZooKeeper is not: what is done does not depend on how they would be deployed.
\<close>

theorem zuul_waits_for_backing:
  assumes "\<not> (svc_get m ''GitServer'' \<and> svc_get m ''MariaDB'') \<or> yields (\<lambda>zk. \<not> zk) (d_DeployZookeeper d)"
  shows "deployZKAndZuulAndNodepool (d\<lparr>d_DeployNodepool := np, d_DeployZuul := zuul\<rparr>) m s =
    deployZKAndZuulAndNodepool d m s"
  using assms deployZK_waits [of m, where d = d and np = np and zuul = zuul]
    deployZK_no_zk [of d, where m = m and np = np and zuul = zuul] by auto

theorem zuul_waits_for_backing_witness:
  "deployZKAndZuulAndNodepool ((demo_deploys False)\<lparr>d_DeployNodepool := panic ''x'', d_DeployZuul := panic ''y''\<rparr>) fmempty (demo_st []) =
   deployZKAndZuulAndNodepool (demo_deploys False) fmempty (demo_st [])"
  by (rule zuul_waits_for_backing) (simp add: svc_get_def)







text \<open>
  C11. The loop of the standalone mode: after fewer than 59 attempts that are not ready, an attempt
  that is ready ends it with the recording of the success.
\<close>

theorem standalone_retries:
  assumes "failing r step n s t" and "n < 59" and "\<not> k_dryRun r" and "step t = (Ok status, u)" and "sfs_Ready status"
  shows "standalone_loop (maxAttempt - 1) r step success s = success u"
proof -
  obtain k where k: "59 = n + Suc k" using assms(2) by (metis less_imp_Suc_add add_Suc_right)
  show ?thesis
    using failing_loop [OF assms(1,3), of "Suc k" success] standalone_loop_ready [where r = r and step = step and s = t, OF assms(3-5), of k success] k
    by (simp add: maxAttempt_def)
qed

theorem standalone_retries_witness:
  "standalone_loop (maxAttempt - 1) (demo_ctx False) (demo_step (10 * second)) (ret None) (demo_st []) = ret None (demo_late 2 (demo_st []))"
proof (rule standalone_retries)
  show "failing (demo_ctx False) (demo_step (10 * second)) 2 (demo_st []) (demo_late 2 (demo_st []))"
    by (rule demo_failing) (simp add: demo_st_def second_def)
qed (auto simp: demo_step_def demo_late_def demo_st_def)

text \<open>
  The 60th attempt is reported as a failure whatever its outcome: an instance that becomes ready
  in that attempt ends with the error, and its success is not recorded.
\<close>

theorem standalone_last_attempt:
  assumes "failing r step 59 s t" and "\<not> k_dryRun r" and "step t = (Ok status, u)"
  shows "standalone_loop (maxAttempt - 1) r step success s = (Ok (Some max_attempts_error), u)"
  using failing_loop [OF assms(1,2), of 0 success] 
    standalone_loop_last [where r = r and step = step and s = t, OF assms(2,3), of success]
  by (simp add: maxAttempt_def)

theorem standalone_last_attempt_witness:
  "standalone_loop (maxAttempt - 1) (demo_ctx False) (demo_step (295 * second)) (ret None) (demo_st []) =
     (Ok (Some max_attempts_error), demo_late 59 (demo_st [])) \<and>
   (\<exists>status. demo_step (295 * second) (demo_late 59 (demo_st [])) = (Ok status, demo_late 59 (demo_st [])) \<and> sfs_Ready status)"
proof -
  have f: "failing (demo_ctx False) (demo_step (295 * second)) 59 (demo_st []) (demo_late 59 (demo_st []))"
    by (rule demo_failing) (simp add: demo_st_def second_def)
  have d: "\<not> k_dryRun (demo_ctx False)" by simp
  have l: "demo_step (295 * second) (demo_late 59 (demo_st [])) =
      (Ok (zero_SoftwareFactoryStatus\<lparr>sfs_Ready := True\<rparr>), demo_late 59 (demo_st []))"
    by (simp add: demo_step_def demo_late_def demo_st_def second_def)
  from standalone_last_attempt [where step = "demo_step (295 * second)" and t = "demo_late 59 (demo_st [])", OF f d l] l
  show ?thesis by simp
qed



section \<open>Waiting and volumes\<close>

text \<open>
  \<open>waitStatefulset\<close> ends: with a clock that does not run backwards and that sleeping advances,
  the number of polls that the grace period allows is enough, whatever the cluster does.
\<close>

theorem waitStatefulset_terminates:
  assumes "clock_client r time"
  shows "fst (waitStatefulset r sts s) \<noteq> Stuck"
  using clock_client.waitStatefulset_ends [OF assms] .

theorem waitStatefulset_terminates_witness:
  "fst (waitStatefulset (demo_ctx False) demo_sts (demo_st [])) \<noteq> Stuck"
  using waitStatefulset_terminates [of "demo_ctx False" mw_clock demo_sts "demo_st []"]
    mem_wait.clock_client_axioms [of "demo_ctx False"] by (simp add: demo_ctx_def)


definition demo_qty :: "int \<Rightarrow> quantity" where
  "demo_qty gi = qty_zero\<lparr>q_milli := gi * 1073741824000\<rparr>"

definition demo_pvc :: persistent_volume_claim where
  "demo_pvc = (MkPVC ''data'' ''sf'' \<lparr>scf_StorageClassName = None, scf_Size = demo_qty 1, scf_ExtraAnnotations = None\<rparr> ''ReadWriteOnce'')
     \<lparr>pv_capacity := demo_qty 1\<rparr>"


text \<open>
  In dry-run mode \<open>reconcileExpandPVC\<close> still writes the claim: the update it sends to the server
  is not a dry run.
\<close>

theorem reconcileExpandPVC_ignores_dry_run:
  "mem_store (st_world (snd (reconcileExpandPVC (demo_ctx True) ''data'' (zero_StorageSpec\<lparr>sto_Size := demo_qty 2\<rparr>)
      (demo_st [OPVC demo_pvc])))) (kref_of KPVC ''sf'' ''data'') \<noteq>
   mem_store (st_world (demo_st [OPVC demo_pvc])) (kref_of KPVC ''sf'' ''data'')"
  by code_simp

text \<open>
  In dry-run mode \<open>nukeZKClients\<close> still kills the processes of the Zuul pods: the command is
  executed in the pod, although the object that owns the pod is then deleted in dry-run mode only.
\<close>

definition demo_pod :: pod where
  "demo_pod = \<lparr>po_meta = mk_meta ''zuul-web-0'' ''sf'', po_spec = zero_pod_spec\<lparr>ps_containers := [zero_container\<lparr>ct_name := ''zuul-web''\<rparr>]\<rparr>,
     po_phase = ''Running'', po_containerStatuses = [], po_initContainerStatuses = []\<rparr>"

theorem nukeZKClients_ignores_dry_run:
  "mw_execs (st_world (snd (nukeZKClients (demo_ctx True) (demo_st [OPod demo_pod])))) =
     [(''zuul-web-0'', ''zuul-web'', [''kill'', ''-9'', ''1''])]"
  by code_simp

text \<open>
  In dry-run mode \<open>EnsureStandaloneOwner\<close> still creates the config map that owns the instance.
\<close>

theorem EnsureStandaloneOwner_ignores_dry_run:
  "mem_store (st_world (snd (EnsureStandaloneOwner marshal (demo_ctx True) spec (demo_st []))))
     (kref_of KConfigMap ''sf'' ''sf-standalone-owner'') \<noteq> None"
  by (simp add: EnsureStandaloneOwner_def GetStandaloneOwner_def GetOrDie_def Get_def client_Create_def bnd_def sysc_def
      mem_sys_def mem_get_def mem_create_def mem_put_def mem_store_def mem_stamp_def demo_st_def oref_def kref_of_def mk_meta_def
      controllerCMName_def cConfigMap_def Let_def)

section \<open>Comparing\<close>

text \<open>
  The differences that \<open>compareAnnotations\<close> reports are complete: it reports none exactly when
  the two sets of annotations have the same entries.
\<close>

theorem compareAnnotations_complete: "compareAnnotations current desired = [] \<longleftrightarrow> gm_fm current = gm_fm desired"
  by (rule compareAnnotations_Nil)

text \<open>
  A change of the ports of a service can go unnoticed: a service that maps the port \<open>p\<close> to \<open>q\<close>
  is left as it is when it should map \<open>q\<close> to \<open>p\<close>, because the fields are sorted before they are
  compared.
\<close>

definition demo_service :: "int \<Rightarrow> int \<Rightarrow> service" where
  "demo_service p q = \<lparr>sv_meta = mk_meta ''web'' ''sf'', sv_spec = \<lparr>sv_type = [], sv_clusterIP = [], sv_publishNotReadyAddresses = False,
     sv_selector = demo_data, sv_ports = [\<lparr>sp_name = ''http'', sp_protocol = ''TCP'', sp_port = p, sp_targetPort = FromInt q\<rparr>]\<rparr>\<rparr>"

theorem EnsureService_misses_swapped_ports:
  "mw_objs (st_world (snd (EnsureService (demo_ctx False) (demo_service q p) (demo_st [OService (demo_service p q)])))) =
     [OService (demo_service p q)]"
proof -
  have "spsAsString (sv_ports (sv_spec (demo_service p q))) = spsAsString (sv_ports (sv_spec (demo_service q p)))"
    unfolding spsAsString_def
    by (rule arg_cong [where f = "\<lambda>xs. Join xs []"]) (simp add: demo_service_def insort_left_comm del: insort_key.simps)
  moreover have "GetOrDie (demo_ctx False) cService ''web'' (demo_st [OService (demo_service p q)]) =
      (Ok (Some (demo_service p q)), demo_st [OService (demo_service p q)])"
    by (simp add: GetOrDie_def Get_def bnd_def sysc_def mem_sys_def mem_get_def mem_store_def demo_st_def oref_def kref_of_def
        demo_service_def mk_meta_def cService_def)
  ultimately show ?thesis
    by (simp add: EnsureService_def bnd_def demo_st_def) (simp add: demo_service_def mk_meta_def)
qed

text \<open>
  The base URL of the config repository is empty or ends with a slash.
\<close>

theorem resolveConfigBaseURL_slash:
  "resolveConfigBaseURL cr = [] \<or> last (resolveConfigBaseURL cr) = CHR ''/''"
proof -
  have "ensureTrailingSlash url = [] \<or> last (ensureTrailingSlash url) = CHR ''/''" for url
    using ensureTrailingSlash_last [of url] by (auto simp: ensureTrailingSlash_def)
  then show ?thesis by (simp add: resolveConfigBaseURL_def Let_def split: option.split)
qed

section \<open>Maintenance\<close>


lemma demo_quiet: "quiet_live_client (demo_ctx False) mem_store"
  using mem_quiet_live.quiet_live_client_axioms [of "demo_ctx False"] by (simp add: demo_ctx_def)


text \<open>
  C15. The round trip of the secrets: what \<open>createSecretBackup\<close> saved in one namespace,
  \<open>restoreSecret\<close> puts back in another. Every secret is there again with its annotations and its
  data, unless there is one of that name already, which is kept.
\<close>

theorem secrets_roundtrip:
  assumes "backup_client r0 store files" and "restore_client r store files" and "k_sys r = k_sys r0"
    and "createSecretBackup r0 dir cr s0 = (Ok None, s1)" and "files (st_world s) = files (st_world s1)"
  shows "\<exists>t. restoreSecret r dir cr s = (Ok None, t) \<and>
    (\<forall>n \<in> set (SecretsToBackup @ CRSecrets cr).
       case store (st_world s) (kref_of KSecret (k_ns r) n) of
         Some k \<Rightarrow> store (st_world t) (kref_of KSecret (k_ns r) n) = Some k
       | None \<Rightarrow> \<exists>old new. store (st_world s0) (kref_of KSecret (k_ns r0) n) = Some (OSecret old) \<and>
           store (st_world t) (kref_of KSecret (k_ns r) n) = Some (OSecret new) \<and>
           gm_fm (se_data new) = gm_fm (se_data old) \<and>
           gm_fm (om_annotations (se_meta new)) = gm_fm (om_annotations (se_meta old)))"
  using backup_restores [OF assms(1-4), of s] assms(5)
  unfolding restored_def same_secret_def by (fastforce split: option.splits)

definition demo_secrets :: "mem_world st" where
  "demo_secrets = demo_st (map (\<lambda>n. OSecret \<lparr>se_meta = mk_meta n ''sf'', se_data = demo_data, se_type = []\<rparr>) SecretsToBackup)"

theorem secrets_roundtrip_witness:
  "\<exists>t. restoreSecret ((demo_ctx False)\<lparr>k_ns := ''sf2''\<rparr>) ''/backup'' zero_SoftwareFactory
      (snd (createSecretBackup (demo_ctx False) ''/backup'' zero_SoftwareFactory demo_secrets)) = (Ok None, t)"
proof -
  let ?b = "createSecretBackup (demo_ctx False) ''/backup'' zero_SoftwareFactory demo_secrets"
  have "fst ?b = Ok None" by code_simp
  then have run: "?b = (Ok None, snd ?b)" by (metis prod.collapse)
  have b: "backup_client (demo_ctx False) mem_store (\<lambda>w. fmlookup (mw_files w))"
    using mem_backup.backup_client_axioms [of "demo_ctx False"] by (simp add: demo_ctx_def)
  have r: "restore_client ((demo_ctx False)\<lparr>k_ns := ''sf2''\<rparr>) mem_store (\<lambda>w. fmlookup (mw_files w))"
    using mem_restore.restore_client_axioms [of "(demo_ctx False)\<lparr>k_ns := ''sf2''\<rparr>"] by (simp add: demo_ctx_def)
  have "k_sys ((demo_ctx False)\<lparr>k_ns := ''sf2''\<rparr>) = k_sys (demo_ctx False)" by simp
  from secrets_roundtrip [OF b r this run refl] show ?thesis by blast
qed

text \<open>
  The pod that exports the project keys does not outlive the backup: once the directory could
  be created, the pod is gone when \<open>createZuulKeypairBackup\<close> returns, with or without an error.
\<close>

theorem createZuulKeypairBackup_no_pod:
  assumes "quiet_live_client r store" and "createZuulKeypairBackup r dir s = (Ok err, t)"
    and "fst (s_mkdirAll (k_sys r) (path_Dir (dir @ ''/'' @ ZuulBackupPath)) (st_world s)) = None"
  shows "store (st_world t) (kref_of KPod (k_ns r) ''zuul-kazoo'') = None"
proof -
  obtain m u v where "with_defer m (DeleteKazooPod r) u = (Ok err, t)"
    using assms(2,3) by (auto simp: createZuulKeypairBackup_def Let_def bnd_eq_Ok sysc_def split: prod.splits if_splits)
  then obtain v where "DeleteKazooPod r v = (Ok (), t)"
    by (auto simp: with_defer_def bnd_eq_Ok split: prod.splits outcome.splits)
  then show ?thesis by (rule quiet_live_client.deleteKazooPod_gone [OF assms(1)])
qed

definition demo_kazoo :: "mem_world st" where
  "demo_kazoo = demo_st [OPod (demo_pod\<lparr>po_meta := mk_meta ''zuul-kazoo'' ''sf''\<rparr>)]"

theorem createZuulKeypairBackup_no_pod_witness:
  "mem_store (st_world (snd (createZuulKeypairBackup (demo_ctx False) ''/backup'' demo_kazoo))) (kref_of KPod ''sf'' ''zuul-kazoo'') = None"
proof -
  let ?b = "createZuulKeypairBackup (demo_ctx False) ''/backup'' demo_kazoo"
  have "fst ?b = Ok None" by code_simp
  then have run: "?b = (Ok None, snd ?b)" by (metis prod.collapse)
  have "fst (s_mkdirAll (k_sys (demo_ctx False)) (path_Dir (''/backup'' @ ''/'' @ ZuulBackupPath)) (st_world demo_kazoo)) = None"
    by (simp add: mem_sys_def)
  from createZuulKeypairBackup_no_pod [OF demo_quiet run this] show ?thesis by simp
qed

section \<open>The whole step\<close>

definition demo_plain :: "bool \<Rightarrow> mem_world SFController" where
  "demo_plain dry = demo_ctrl\<lparr>c_k := demo_ctx dry, c_cr := zero_SoftwareFactory\<rparr>"

lemma demo_plain_k [simp]: "c_k (demo_plain dry) = demo_ctx dry"
  by (simp add: demo_plain_def)

lemma demo_still: "quiet_client (demo_ctx dry) mem_store"
  using mem_quiet [of "demo_ctx dry"] by (simp add: demo_ctx_def)



text \<open>
  C17. A reconciliation step changes objects of its own namespace only, and no object that has no
  namespace: whatever the server answers, and however the step ends.
\<close>

theorem step_stays_in_namespace:
  assumes "quiet_client (c_k r) store" and "fst (snd a) \<noteq> k_ns (c_k r) \<or> cluster_scoped (fst a)"
  shows "store (st_world (snd (sf_step r s))) a = store (st_world s) a"
  using footprint.step_bounded [OF namespace_footprint [OF assms(1)]] assms(2)
  by (cases a) (auto simp: within_def touches_def)

theorem step_stays_in_namespace_witness:
  "mem_store (st_world (snd (sf_step (demo_plain False) (demo_st [])))) (KSecret, ''other'', ''zuul-ssh-key'') = None"
  using step_stays_in_namespace [of "demo_plain False" mem_store "(KSecret, ''other'', ''zuul-ssh-key'')" "demo_st []"] demo_still
  by (simp add: demo_st_def mem_store_def)

text \<open>
  C18. A reconciliation step ends: with a clock that does not run backwards and that sleeping advances,
  the step returns, panics or leaves the process, whatever the cluster does; no wait of the step is
  without end.
\<close>

theorem step_ends:
  assumes "clock_client (c_k r) time"
  shows "(\<exists>status t. sf_step r s = (Ok status, t)) \<or> (\<exists>e t. sf_step r s = (Panic e, t)) \<or> (\<exists>n t. sf_step r s = (Exit n, t))"
proof -
  have "unstuck (sf_step r)" using assms by (intro step_clock.sf_step_unstuck) (simp add: step_clock_def)
  then have "fst (sf_step r s) \<noteq> Stuck" by (simp add: unstuck_def)
  then show ?thesis by (cases "fst (sf_step r s)") (metis prod.collapse)+
qed

theorem step_ends_witness:
  "(\<exists>status t. sf_step demo_ctrl (demo_st []) = (Ok status, t)) \<or> (\<exists>e t. sf_step demo_ctrl (demo_st []) = (Panic e, t)) \<or>
     (\<exists>n t. sf_step demo_ctrl (demo_st []) = (Exit n, t))"
  by (rule step_ends [where time = mw_clock]) (use mem_wait.clock_client_axioms [of "demo_ctx False"] in \<open>simp add: demo_ctx_def\<close>)

text \<open>
  C19. A step that reports a complete instance as ready leaves the record of the tenant configuration on
  the cluster: the hash of the current configuration, and a version of the secrets for which the job
  that installs them succeeded.
\<close>

theorem ready_means_tenant_loaded:
  assumes "kube_client (c_k r) store" and "d_SetupConfigJob d = SetupConfigJob r"
    and "zx_Standalone (zu_Executor (sf_Zuul (c_spec r))) = None"
    and "Step r d s = (Ok status, t)" and "sfs_Ready status"
  shows "\<exists>cm job. store (st_world t) (kref_of KConfigMap (k_ns (c_k r)) ''zs-internal-tenant-reconfigure'') = Some (OConfigMap cm) \<and>
    gm_get (cm_data cm) ''internal-tenant-config-hash'' = Checksum (c_k r) (MkPreInitScript r) \<and>
    store (st_world t) (kref_of KJob (k_ns (c_k r)) (''config-base-secret-'' @ gm_get (cm_data cm) ''internal-tenant-secrets-version'')) =
      Some (OJob job) \<and> 1 \<le> jo_succeeded job"
  using kube_client.step_recorded [OF assms(1) refl assms(2-5)] by (simp add: tenant_recorded_def tenant_ref_def)

definition demo_configured :: "(mem_world, unit) deploys" where
  "demo_configured = (demo_deploys True)\<lparr>d_SetupConfigJob := SetupConfigJob (demo_plain False)\<rparr>"

definition demo_loaded :: "mem_world st" where
  "demo_loaded = demo_st [OConfigMap (tenant_cm (demo_ctx False) (Checksum (demo_ctx False) (MkPreInitScript (demo_plain False))) ''1--ns''),
     OJob \<lparr>jo_meta = mk_meta ''config-base-secret-1--ns'' ''sf'', jo_backoffLimit = None, jo_template = \<lparr>pt_meta = mk_meta [] [], pt_spec = zero_pod_spec\<rparr>,
       jo_succeeded = 1\<rparr>]"

lemma demo_complete: "zx_Standalone (zu_Executor (sf_Zuul (c_spec (demo_plain dry)))) = None"
  by (simp add: demo_plain_def zero_SoftwareFactory_def zero_SoftwareFactorySpec_def zero_ZuulSpec_def zero_ZuulExecutorSpec_def)

lemma demo_config_ready:
  "\<exists>status t. Step (demo_plain False) demo_configured demo_loaded = (Ok status, t) \<and> sfs_Ready status"
proof -
  let ?r = "demo_plain False" and ?k = "demo_ctx False"
  have spec: "sf_ConfigRepositoryLocation (c_spec ?r) = zero_ConfigRepositoryLocationSpec" "zx_Standalone (zu_Executor (sf_Zuul (c_spec ?r))) = None"
    by (simp_all add: demo_plain_def zero_SoftwareFactory_def zero_SoftwareFactorySpec_def zero_ZuulSpec_def zero_ZuulExecutorSpec_def)
  have cur: "tenant_current ?r ''ns'' None (mem_store (st_world demo_loaded))"
    by (simp add: tenant_current_def secrets_version_def tenant_ref_def demo_loaded_def demo_st_def mem_store_def tenant_cm_def gm_get_def
        kref_of_def oref_def mk_meta_def Let_def)
  have clean: "cleanup ?r demo_loaded = (Ok (), demo_loaded)"
    by (simp add: cleanup_def nukeZK_def nukeZKClients_def ListAll_def ListSel_def GetOrDie_def Get_def DeleteSecret_def DeleteR_def client_Delete_def
        demo_loaded_def demo_st_def bnd_def sysc_def mem_sys_def mem_defs mem_store_def kref_of_def oref_def mk_meta_def tenant_cm_def decode_all_def spec)
  have valid: "validateZuulConnectionsSecrets ?r s = (Ok None, s)" for s
    by (simp add: validateZuulConnectionsSecrets_def demo_plain_def zero_SoftwareFactory_def zero_SoftwareFactorySpec_def zero_ZuulSpec_def bnd_def)
  have extra: "extra_settings_checksum ?r = ret ''ns''" by (simp add: extra_settings_checksum_def spec zero_ConfigRepositoryLocationSpec_def Let_def)
  have tools: "gm_fm (Some (tooling_data ?r)) \<noteq> fmempty" by (simp add: tooling_data_def)
  have "free (kref_of KConfigMap (k_ns ?k) (''zuul-scheduler-tooling'' @ ''-config-map'')) (tenant_current ?r ''ns'' None)"
    by (rule free_current) (simp_all add: kref_of_def)
  from turnsD [OF turns_ensured [OF live_client.configmap_ensured [OF demo_live tools, of "''zuul-scheduler-tooling''"] this], of demo_loaded] cur
  obtain t where t: "EnsureToolingVolume ?r demo_loaded = (Ok (), t)" "tenant_current ?r ''ns'' None (mem_store (st_world t))"
    by (auto simp: EnsureToolingVolume_def bnd_def)
  obtain u where u: "SetupConfigJob ?r t = (Ok True, u)"
    using turnsD [OF live_client.config_quiet [OF demo_live _ extra] t(2)] by auto
  obtain v where v: "RefreshCondition ?k ''ConfigReady'' ''True'' ''Ready'' ''Config is ready'' u = (Ok (), v)"
    using RefreshCondition_run [of "''ConfigReady''" ?k "''True''" "''Ready''" "''Config is ready''" u] by auto
  have on: "IsCodesearchEnabled ?r" by code_simp
  define m where "m = foldr (\<lambda>n. fmupd n True) [''Config'', ''Zuul'', ''NodePoolBuilder'', ''NodePoolLauncher'', ''Zookeeper'',
      ''LogJuicer'', ''HoundSearch'', ''Gateway'', ''Logserver'', ''MariaDB'', ''GitServer''] (fmempty :: services)"
  have "deploySFStep ?r demo_configured fmempty demo_loaded = (Ok m, v)"
    using t(1) u v on unfolding m_def
    by (simp add: deploySFStep_def deployZKAndZuulAndNodepool_def demo_configured_def demo_deploys_def bnd_def Let_def svc_get_def
        LauncherIdent_def BuilderIdent_def)
  moreover have "isOperatorReady m" unfolding m_def by (simp add: ready_upd)
  ultimately show ?thesis using clean valid spec(2) by (simp add: Step_def bnd_def)
qed

theorem ready_means_tenant_loaded_witness:
  "\<exists>status t cm. Step (demo_plain False) demo_configured demo_loaded = (Ok status, t) \<and>
     mem_store (st_world t) (kref_of KConfigMap ''sf'' ''zs-internal-tenant-reconfigure'') = Some (OConfigMap cm)"
proof -
  obtain status t where run: "Step (demo_plain False) demo_configured demo_loaded = (Ok status, t)" "sfs_Ready status"
    using demo_config_ready by blast
  have "kube_client (c_k (demo_plain False)) mem_store" using demo_client by simp
  from ready_means_tenant_loaded [OF this _ demo_complete run] run(1) show ?thesis
    by (auto simp: demo_configured_def)
qed

section \<open>Records of the services\<close>

text \<open>
  C20. The certificates of ZooKeeper: on a server that answers, \<open>EnsureZookeeperCertificates\<close> keeps the
  invariant that the client and the server secret, when both are current, hold certificates of the same
  authority. It ends with both secrets current, touches no other object, and a second call changes nothing.
\<close>

theorem certificates_share_authority:
  assumes "live_client (c_k r) store" and "zk_agree (c_k r) (store (st_world s))"
  shows "\<exists>t. EnsureZookeeperCertificates r ident n s = (Ok (), t) \<and>
    zk_pair (c_k r) (store (st_world t)) \<and> zk_agree (c_k r) (store (st_world t)) \<and>
    (\<forall>x. x \<notin> kref_of KSecret (k_ns (c_k r)) ` {''zookeeper-client-tls'', ''zookeeper-server-tls''} \<longrightarrow>
       store (st_world t) x = store (st_world s) x) \<and>
    (\<exists>u. EnsureZookeeperCertificates r ident n t = (Ok (), u) \<and> store (st_world u) = store (st_world t))"
proof -
  obtain t where t: "EnsureZookeeperCertificates r ident n s = (Ok (), t)" "zk_pair (c_k r) (store (st_world t))"
      "live_client.apart (c_k r) (store (st_world s)) (store (st_world t))"
    using turnsD [OF live_client.certificates_made [OF assms(1) refl, of "store (st_world s)" ident n], of s] assms(2) by auto
  moreover have "zk_agree (c_k r) (store (st_world t))"
    using t(2) by (auto simp: zk_pair_def zk_agree_def zk_current_def)
  moreover have "\<exists>u. EnsureZookeeperCertificates r ident n t = (Ok (), u) \<and> store (st_world u) = store (st_world t)"
    using turnsD [OF live_client.certificates_kept [OF assms(1) refl, of "store (st_world t)" ident n], of t] t(2) by auto
  ultimately show ?thesis unfolding live_client.apart_def [OF assms(1)] zk_refs_def by blast
qed

theorem certificates_share_authority_witness:
  "\<exists>t. EnsureZookeeperCertificates demo_ctrl ''zookeeper'' 1 (demo_st []) = (Ok (), t) \<and> zk_pair (demo_ctx False) (mem_store (st_world t))"
proof -
  have "zk_agree (c_k demo_ctrl) (mem_store (st_world (demo_st [])))"
    by (simp add: zk_agree_def zk_current_def demo_st_def mem_store_def)
  with certificates_share_authority [of demo_ctrl mem_store "demo_st []" "''zookeeper''" 1] demo_live show ?thesis by auto
qed



section \<open>Pods\<close>

text \<open>
  C22. The pods of the database and of ZooKeeper are accepted: in their templates every mount names a
  volume or a claim, the names of volumes and of containers are distinct, and no port name is longer
  than 15 characters; with the exporter sidecar alone, and with the log forwarder.
\<close>

theorem backing_pods_accepted:
  assumes "MkNodeExporterSideCarContainer MariaDBIdent mariadb_data_mounts os s1 = (Ok ne1, t1)"
    and "createLogForwarderSidecar r a1 u1 = (Ok (a1', vs1, fb1), v1)"
    and "MkNodeExporterSideCarContainer ZookeeperIdent zk_data_mounts os s2 = (Ok ne2, t2)"
    and "createZKLogForwarderSidecar r a2 u2 = (Ok (a2', vs2, fb2), v2)"
  shows "sts_ok (mariadb_sts r psc img a1 [] [ne1]) \<and> sts_ok (mariadb_sts r psc img a1' vs1 [fb1, ne1]) \<and>
    sts_ok (zk_sts r psc img a2 [] [ne2]) \<and> sts_ok (zk_sts r psc img a2' vs2 [fb2, ne2])"
proof -
  have m: "sidecar ''mariadb-nodeexporter'' [''mariadb'', ''mariadb-logs''] ne1"
    using yieldsD [OF node_exporter assms(1)] by (simp add: MariaDBIdent_def mariadb_data_mounts_def)
  have z: "sidecar ''zookeeper-nodeexporter'' [''zookeeper-data'', ''zookeeper-logs''] ne2"
    using yieldsD [OF node_exporter assms(3)] by (simp add: ZookeeperIdent_def zk_data_mounts_def)
  have f1: "map vo_name vs1 = [''mariadb-log-forwarder-config'', ''mariadb-fb-buf'']"
      "sidecar ''fluentbit'' [''mariadb-logs'', ''mariadb-log-forwarder-config'', ''mariadb-fb-buf''] fb1"
    using yieldsD [OF forwarder_parts assms(2) [unfolded createLogForwarderSidecar_def]] by (simp_all add: MariaDBIdent_def)
  have f2: "map vo_name vs2 = [''zk-log-forwarder-config'', ''zookeeper-fb-buf'']"
      "sidecar ''fluentbit'' [''zookeeper-logs'', ''zk-log-forwarder-config'', ''zookeeper-fb-buf''] fb2"
    using yieldsD [OF forwarder_parts assms(4) [unfolded createZKLogForwarderSidecar_def]] by (simp_all add: ZookeeperIdent_def)
  show ?thesis
    by (intro conjI mariadb_ok(1) [OF m] mariadb_ok(2) [OF m f1] zookeeper_ok(1) [OF z] zookeeper_ok(2) [OF z f2])
qed

theorem backing_pods_accepted_witness:
  "\<exists>ne a vs fb. sts_ok (mariadb_sts demo_ctrl initial_DefaultPodSecurityContext ''mariadb:11'' a vs [fb, ne])"
proof -
  obtain ne1 where n1: "MkNodeExporterSideCarContainer MariaDBIdent mariadb_data_mounts False (demo_st []) = (Ok ne1, demo_st [])"
    by (simp add: MkNodeExporterSideCarContainer_def GetTruncatedPortName_def bnd_def)
  obtain ne2 where n2: "MkNodeExporterSideCarContainer ZookeeperIdent zk_data_mounts False (demo_st []) = (Ok ne2, demo_st [])"
    by (simp add: MkNodeExporterSideCarContainer_def GetTruncatedPortName_def bnd_def)
  have fw: "\<exists>x t. forwarder demo_ctrl service short conf cm logs a (demo_st []) = (Ok x, t)" for service short conf cm logs a
  proof -
    have "gm_fm (Some (smap_of [(''fluent-bit.conf'', conf)])) \<noteq> fmempty" by simp
    from ensured.settles [OF live_client.configmap_ensured [OF demo_live this, of cm], of "demo_st []"]
    show ?thesis by (auto simp: forwarder_def CreateFluentBitSideCarContainer_def bnd_def)
  qed
  obtain a1 vs1 fb1 t1 where f1: "createLogForwarderSidecar demo_ctrl fmempty (demo_st []) = (Ok (a1, vs1, fb1), t1)"
    unfolding createLogForwarderSidecar_def using fw by (metis prod_cases3)
  obtain a2 vs2 fb2 t2 where f2: "createZKLogForwarderSidecar demo_ctrl fmempty (demo_st []) = (Ok (a2, vs2, fb2), t2)"
    unfolding createZKLogForwarderSidecar_def using fw by (metis prod_cases3)
  show ?thesis using backing_pods_accepted [OF n1 f1 n2 f2] by blast
qed



text \<open>
  C24. When no secret serves both a GitHub and a Gerrit connection, every mount of a Zuul container names a
  volume of the pod or, for a stateful service, its claim.
\<close>

theorem zuul_mounts_resolved:
  assumes "secrets_apart (sf_Zuul (c_spec r))" and "m \<in> set (zuul_mounts r service ca)"
  shows "(\<exists>v \<in> set (zuul_volumes r service ca). vo_name v = vm_name m) \<or> isStatefulset service \<and> vm_name m = service"
proof -
  have "vm_name m \<in> vo_name ` set (zuul_volumes r service ca) \<union> (if isStatefulset service then {service} else {})"
    using zuul_mounts_named [OF assms(1)] assms(2) by blast
  then show ?thesis by (auto split: if_splits)
qed

theorem zuul_mounts_resolved_witness:
  "\<exists>v \<in> set (zuul_volumes demo_ctrl ''zuul-web'' False). vo_name v = vm_name (hd (zuul_mounts demo_ctrl ''zuul-web'' False))"
proof -
  have "secrets_apart (sf_Zuul (c_spec demo_ctrl))" by code_simp
  moreover have "hd (zuul_mounts demo_ctrl ''zuul-web'' False) \<in> set (zuul_mounts demo_ctrl ''zuul-web'' False)"
    by (rule hd_in_set) (simp add: zuul_mounts_def Let_def)
  moreover have "\<not> isStatefulset ''zuul-web''" by code_simp
  ultimately show ?thesis using zuul_mounts_resolved by blast
qed

definition demo_shared :: ZuulSpec where
  "demo_shared = zero_ZuulSpec\<lparr>zu_GitHubConns := [zero_GitHubConnection\<lparr>gh_Name := ''github.com'', gh_Secrets := ''shared''\<rparr>],
     zu_GerritConns := [zero_GerritConnection\<lparr>ge_Name := ''gerrit'', ge_Sshkey := ''shared''\<rparr>]\<rparr>"

text \<open>
  Without this condition it can fail: the secret of a GitHub connection without an application that is
  also the key of a Gerrit connection is mounted in the Zuul containers, but no volume of the pod holds it,
  so that the API server refuses the pods.
\<close>

theorem shared_secret_has_no_volume:
  "\<exists>m \<in> set (mkZuulConnectionsSecretsMount demo_shared). vm_name m \<notin> vo_name ` set (mkZuulConnectionSecretsVolumes demo_shared)"
  by code_simp

section \<open>The configuration of Zuul\<close>

text \<open>
  C25. \<open>DumpConfigINI\<close>, which deletes and sets again the keys of each section, is the same as sorting the keys
  of each section and printing the file. The text of a section that was filled by a loop over a Go map does
  therefore not depend on the order in which Go visits the map.
\<close>

theorem DumpConfigINI_canonical:
  assumes "ini_library (k_sys k)" and "go_map (k_sys k)" and "ini_wf f"
  shows "DumpConfigINI k f = (s_iniDump (k_sys k) (map (\<lambda>(n, kvs). (n, sort_key fst kvs)) f), map (\<lambda>(n, kvs). (n, sort_key fst kvs)) f) \<and>
    (\<forall>sec kvs kvs'. sec \<in> fst ` set f \<longrightarrow> mset kvs = mset kvs' \<longrightarrow> distinct (map fst kvs) \<longrightarrow> [] \<notin> fst ` set kvs \<longrightarrow>
       DumpConfigINI k (add_fields k sec kvs f) = DumpConfigINI k (add_fields k sec kvs' f))"
proof -
  have c: "conf_file k" using assms(1,2) by (simp add: conf_file_def)
  show ?thesis
    using conf_file.dump_sorted [OF c assms(3)] conf_file.dump_any_order [OF c assms(3)]
    by (auto simp: ini_sorted_def sections_def)
qed

theorem DumpConfigINI_canonical_witness:
  "snd (DumpConfigINI (demo_ctx False) [(''web'', [(''port'', ''1''), (''host'', ''h'')])]) = [(''web'', [(''host'', ''h''), (''port'', ''1'')])]"
proof -
  have "ini_wf [(''web'', [(''port'', ''1''), (''host'', ''h'')])]" by code_simp
  moreover have "sort_key fst [(''port'', ''1''), (''host'', ''h'')] = [(''host'', ''h''), (''port'', ''1'')]" by code_simp
  ultimately show ?thesis
    using DumpConfigINI_canonical [of "demo_ctx False" "[(''web'', [(''port'', ''1''), (''host'', ''h'')])]"]
      mem_i.ini_library_axioms mem_m.go_map_axioms by simp
qed

text \<open>
  C26. Whenever \<open>EnsureZuulConfigSecret\<close> returns a configuration, it is well formed, it has a section for every
  connection of the resource, and the annotations that the Zuul services compute from its sections never
  panic on a missing section; for a remote executor the static file must have the section \<open>database\<close>.
\<close>

theorem zuul_conf_complete:
  assumes "ini_library (k_sys (c_k r))" and "go_map (k_sys (c_k r))" and "EnsureZuulConfigSecret r remote s = (Ok (Some cfg), t)"
    and "remote \<longrightarrow> (\<forall>f. s_iniParse (k_sys (c_k r)) (c_static r ''static/zuul/zuul.conf'') = Some f \<longrightarrow> ''database'' \<in> fst ` set f)"
    and "srv \<in> {''scheduler'', ''executor'', ''merger'', ''web''}"
  shows "ini_wf cfg \<and> (\<forall>n \<in> set (connection_names (sf_Zuul (c_spec r))). ''connection '' @ n \<in> fst ` set cfg) \<and>
    (\<exists>a. zuul_annotations r cfg (''zuul-'' @ srv)
       (IniGetSectionNamesByPrefix cfg ''connection'' @ IniGetSectionNamesByPrefix cfg ''auth'' @ [srv]) serial cm u = (Ok a, u))"
proof -
  let ?N = "conn_section ` set (connection_names (sf_Zuul (c_spec r))) \<union> service_sections remote \<union> (if remote then {''database''} else {})"
  have z: "zuul_conf r" using assms(1,2) by (simp add: zuul_conf_def conf_file_def)
  have "in_part ?N (Some cfg)"
    by (rule yieldsD [OF zuul_conf.conf_good [OF z] assms(3)]) (use assms(4) in \<open>auto simp: sections_def\<close>)
  then have cfg: "ini_wf cfg" "?N \<subseteq> sections cfg" by (simp_all add: in_part_def has_sections_def)
  have common: "set commonIniConfigSections \<subseteq> sections cfg"
    using cfg(2) by (cases remote) (auto simp: commonIniConfigSections_def service_sections_def)
  have "srv \<in> sections cfg" using cfg(2) assms(5) by (auto simp: service_sections_def)
  then have own: "set (IniGetSectionNamesByPrefix cfg ''connection'' @ IniGetSectionNamesByPrefix cfg ''auth'' @ [srv]) \<subseteq> sections cfg"
    using prefix_sections [of cfg] by simp
  from checksum_ends [OF common, of "c_k r" u] checksum_ends [OF own, of "c_k r" u] checksum_ends [OF prefix_sections, of "c_k r" cfg "''connection''" u]
  have "\<exists>a. zuul_annotations r cfg (''zuul-'' @ srv)
       (IniGetSectionNamesByPrefix cfg ''connection'' @ IniGetSectionNamesByPrefix cfg ''auth'' @ [srv]) serial cm u = (Ok a, u)"
    by (auto simp: zuul_annotations_def Let_def bnd_def)
  with cfg show ?thesis by (auto simp: conn_section_def sections_def)
qed

lemma demo_load: "bnd (LoadConfigINI (demo_ctx dry) input) g s = g mem_ini s"
  by (simp add: LoadConfigINI_def mem_sys_def)

lemma demo_conns: "bnd (add_connections (demo_plain dry) f) g s = g f s"
  by (simp add: add_connections_def demo_plain_def zero_SoftwareFactory_def zero_SoftwareFactorySpec_def zero_ZuulSpec_def Let_def bnd_def)

lemma demo_conf:
  "\<exists>cfg t. EnsureZuulConfigSecret (demo_plain False) True
     (demo_st [OSecret (one_secret (demo_ctx False) ''zuul-keystore-password'' ''zuul-keystore-password'' ''k'')]) = (Ok (Some cfg), t)"
proof -
  let ?r = "demo_plain False" and ?k = "demo_ctx False"
  let ?s = "demo_st [OSecret (one_secret ?k ''zuul-keystore-password'' ''zuul-keystore-password'' ''k'')]"
  have ks: "\<exists>f'. add_keystore ?r f ?s = (Ok (Some f'), ?s)" for f
    by (simp add: add_keystore_def getSecretData_def GetSecretDataFromKey_def GetValueFromKeySecret_def GetSecret_def Let_def gm_get_def Get_def GetOrDie_def bnd_def sysc_def mem_sys_def mem_defs mem_store_def
        demo_st_def one_secret_def kref_of_def oref_def mk_meta_def codec_defs)
  have written: "\<exists>x t. EnsureSecret ?k (zuul_config_secret ?k body) s = (Ok x, t)" for body s
    using ensured.settles [OF live_client.secret_ensured [OF demo_live, of "zuul_config_secret ?k body"], of s]
    by (auto simp: zuul_config_secret_def one_secret_def mk_meta_def)
  let ?f = "add_settings ?r (fold (AddOIDCAuthenticator ?k) (zu_OIDCAuthenticators (sf_Zuul (c_spec ?r)))
      (AddWebClientSection ?k (AddDefaultConnections ?r (git_server_url ?r) mem_ini)))"
  obtain f' where f': "bnd (add_keystore ?r (add_hosts ?r ?f)) g ?s = g (Some f') ?s" for g :: "ini option \<Rightarrow> (mem_world st, ini option) prog"
    using ks [of "add_hosts ?r ?f"] bnd_Ok [where m = "add_keystore ?r (add_hosts ?r ?f)" and s = ?s and t = ?s] by blast
  let ?text = "fst (DumpConfigINI ?k (set_keys ?k ''statsd'' [(''port'', Itoa StatsdExporterPortListen)] f'))"
  obtain x t where t: "bnd (EnsureSecret ?k (zuul_config_secret ?k ?text)) g ?s = g x t" for g :: "_ \<Rightarrow> (mem_world st, ini option) prog"
    using written [of ?text ?s] bnd_Ok [where m = "EnsureSecret ?k (zuul_config_secret ?k ?text)" and s = ?s] by blast
  show ?thesis
    unfolding EnsureZuulConfigSecret_def Let_def case_prod_beta demo_plain_k add_database_def add_client_auth_def if_True bnd_simps
    by (simp only: demo_load demo_conns f' t option.case bnd_simps run_simps) blast
qed

theorem zuul_conf_complete_witness:
  "\<exists>cfg t. EnsureZuulConfigSecret (demo_plain False) True
     (demo_st [OSecret (one_secret (demo_ctx False) ''zuul-keystore-password'' ''zuul-keystore-password'' ''k'')]) = (Ok (Some cfg), t) \<and> ini_wf cfg"
proof -
  obtain cfg t where run: "EnsureZuulConfigSecret (demo_plain False) True
     (demo_st [OSecret (one_secret (demo_ctx False) ''zuul-keystore-password'' ''zuul-keystore-password'' ''k'')]) = (Ok (Some cfg), t)"
    using demo_conf by blast
  have p: "True \<longrightarrow> (\<forall>f. s_iniParse (k_sys (c_k (demo_plain False))) (c_static (demo_plain False) ''static/zuul/zuul.conf'') = Some f \<longrightarrow>
      ''database'' \<in> fst ` set f)"
    by (simp add: mem_sys_def mem_ini_def)
  have "ini_library (k_sys (c_k (demo_plain False)))" "go_map (k_sys (c_k (demo_plain False)))"
    using mem_i.ini_library_axioms mem_m.go_map_axioms by simp_all
  from zuul_conf_complete [OF this run p, of "''executor''" "''1''" None "demo_st []"] run show ?thesis by blast
qed

text \<open>
  While the secret of the database is missing, \<open>EnsureZuulConfigSecret\<close> does not write a configuration:
  when it returns, it returns none, and the cluster is unchanged.
\<close>

theorem zuul_conf_waits_for_database:
  assumes "kube_client (c_k r) store" and "EnsureZuulConfigSecret r False s = (Ok res, t)"
    and "store (st_world s) (kref_of KSecret (k_ns (c_k r)) zuulDBConfigSecret) = None"
  shows "res = None \<and> store (st_world t) = store (st_world s)"
  using kube_client.conf_waits [OF assms(1) refl assms(2,3)] .

theorem zuul_conf_waits_for_database_witness:
  "\<exists>t. EnsureZuulConfigSecret (demo_plain False) False (demo_st []) = (Ok None, t) \<and> mem_store (st_world t) = mem_store (st_world (demo_st []))"
proof -
  let ?r = "demo_plain False" and ?k = "demo_ctx False"
  have gone: "mem_store (st_world (demo_st [])) (kref_of KSecret (k_ns (c_k ?r)) zuulDBConfigSecret) = None"
    by (simp add: demo_st_def mem_store_def)
  have db: "bnd (add_database ?r False f) g (demo_st []) = g None (demo_st [])" for f g
    by (simp add: add_database_def GetOrDie_def Get_def bnd_def sysc_def mem_sys_def mem_defs mem_store_def demo_st_def)
  have run: "EnsureZuulConfigSecret ?r False (demo_st []) = (Ok None, demo_st [])"
    unfolding EnsureZuulConfigSecret_def Let_def demo_plain_k
    by (simp only: demo_load demo_conns db option.case run_simps)
  have "kube_client (c_k ?r) mem_store" using demo_client by simp
  from zuul_conf_waits_for_database [OF this run gone] run show ?thesis by blast
qed

section \<open>Names, security contexts and clients\<close>

text \<open>
  C27. A truncated port name has at most 15 characters, the limit of the API server, keeps the suffix that
  tells the exporters apart, and is the whole service name with the suffix when this fits.
\<close>

theorem port_name_fits:
  assumes "GetTruncatedPortName serviceName portSuffix s = (Ok name, t)"
  shows "length name \<le> 15 \<and> (\<exists>pre. name = pre @ portSuffix \<and> take (length pre) serviceName = pre) \<and>
    (length (serviceName @ portSuffix) \<le> 15 \<longrightarrow> name = serviceName @ portSuffix)"
  using assms by (auto simp: GetTruncatedPortName_def min_def split: if_splits)

theorem port_name_fits_witness:
  "\<exists>name. GetTruncatedPortName ''nodepool-launcher'' ''-statsd'' (demo_st []) = (Ok name, demo_st []) \<and> length name \<le> 15"
proof -
  obtain name where run: "GetTruncatedPortName ''nodepool-launcher'' ''-statsd'' (demo_st []) = (Ok name, demo_st [])"
    by (simp add: GetTruncatedPortName_def)
  with port_name_fits [OF run] show ?thesis by blast
qed




definition demo_launcher :: deployment where
  "demo_launcher = launcher_dep demo_ctrl initial_DefaultPodSecurityContext [] (launcher_init demo_ctrl ''launcher:1'' False)
     [launcher_main demo_ctrl ''launcher:1'' [] []] fmempty"

definition demo_clients :: "mem_world st" where
  "demo_clients = demo_st [OPod \<lparr>po_meta = mk_meta ''nodepool-launcher-5d9c'' ''sf'', po_spec = pt_spec (de_template demo_launcher),
     po_phase = ''Running'', po_containerStatuses = [], po_initContainerStatuses = []\<rparr>, ODeployment demo_launcher]"

text \<open>
  \<open>nukeZKClients\<close> deletes the workload named like the first container of each client pod, and compares
  that name with \<open>nodepool-launcher\<close>; but the pods of that deployment start with a container called
  \<open>launcher\<close>. The process is killed, the deployment stays.
\<close>

theorem nuke_keeps_launcher:
  "\<exists>t. nukeZKClients (demo_ctx False) demo_clients = (Ok (), t) \<and>
    mw_execs (st_world t) = [(''nodepool-launcher-5d9c'', ''launcher'', [''kill'', ''-9'', ''1''])] \<and>
    mem_store (st_world t) (kref_of KDeployment ''sf'' ''nodepool-launcher'') = Some (ODeployment demo_launcher)"
proof -
  let ?pod = "\<lparr>po_meta = mk_meta ''nodepool-launcher-5d9c'' ''sf'', po_spec = pt_spec (de_template demo_launcher),
     po_phase = ''Running'', po_containerStatuses = [], po_initContainerStatuses = []\<rparr>"
  have first: "map ct_name (ps_containers (pt_spec (de_template demo_launcher))) = [''launcher'']"
    by (simp add: demo_launcher_def launcher_dep_def pod_defs launcher_main_def)
  have meta: "om_name (de_meta demo_launcher) = ''nodepool-launcher''" "om_namespace (de_meta demo_launcher) = ''sf''"
    by (simp_all add: demo_launcher_def launcher_dep_def pod_defs mk_meta_def)
  have listed: "ListAll (demo_ctx False) cPod demo_clients = (Ok (Inr [?pod]), demo_clients)"
    by (simp add: ListAll_def ListSel_def bnd_def sysc_def mem_sys_def mem_list_def mem_store_def demo_clients_def demo_st_def codec_defs
        decode_all_def oref_def mk_meta_def labels_match_def)
  from first obtain c where c: "ps_containers (po_spec ?pod) = [c]" "ct_name c = ''launcher''" by auto
  have "nukeZKClients (demo_ctx False) demo_clients =
      bnd (PodExec (demo_ctx False) ''nodepool-launcher-5d9c'' ''launcher'' [''kill'', ''-9'', ''1'']) (\<lambda>_.
        DeleteR (demo_ctx False) cStatefulSet (mk_meta ''launcher'' ''sf'')) demo_clients"
    using c by (simp add: nukeZKClients_def bnd_Ok [where m = "ListAll (demo_ctx False) cPod", OF listed] HasPrefix_def mk_meta_def Let_def)
  then show ?thesis
    by (simp add: bnd_def PodExec_def PodExecOut_def DeleteR_def client_Delete_def sysc_def mem_sys_def
        mem_exec_def mem_delete_def mem_store_def demo_clients_def demo_st_def oref_def kref_of_def mk_meta_def meta)
qed

end
